(* ===== verification/Prelude.thy ===== *)
theory Prelude
  imports Main "HOL-Library.AList" "HOL-Library.Char_ord" "HOL-Library.List_Lexorder"
    "HOL-Library.Multiset" "HOL-Library.Word"
begin

text \<open>
  What every theory of the development shares: the hint collections, Rust's \<open>Result\<close> as a
  sum type with \<open>?\<close> and \<open>collect\<close>, hash maps as association lists with distinct keys
  behind the interface \<open>keyed_store\<close>, and saturating machine arithmetic.

  A \<open>HashMap\<close> (or \<open>DashMap\<close>) is a list of key/value pairs with distinct keys. The list order
  stands for the map's iteration order, which Rust leaves unspecified: a theorem for every
  list is a theorem for every iteration order.
\<close>

named_theorems store_simps
named_theorems ctx_simps
named_theorems gate_intros

section \<open>Results\<close>

type_synonym ('a, 'e) result = "'e + 'a"

text \<open>\<open>r?\<close> followed by the rest of the function: the error returns early.\<close>

definition res_bind :: "'e + 'a \<Rightarrow> ('a \<Rightarrow> 'e + 'b) \<Rightarrow> 'e + 'b" where
  "res_bind r f = (case r of Inl e \<Rightarrow> Inl e | Inr x \<Rightarrow> f x)"

lemma res_bind_simps [simp]:
  "res_bind (Inl e) f = Inl e"
  "res_bind (Inr x) f = f x"
  by (simp_all add: res_bind_def)

lemma res_bind_eq_Inr: "res_bind r f = Inr y \<longleftrightarrow> (\<exists>x. r = Inr x \<and> f x = Inr y)"
  by (cases r) auto

lemma res_bind_eq_Inl:
  "res_bind r f = Inl e \<longleftrightarrow> r = Inl e \<or> (\<exists>x. r = Inr x \<and> f x = Inl e)"
  by (cases r) auto

definition ok_or :: "'a option \<Rightarrow> 'e \<Rightarrow> 'e + 'a" where
  "ok_or x e = (case x of None \<Rightarrow> Inl e | Some v \<Rightarrow> Inr v)"

lemma ok_or_simps [simp]: "ok_or None e = Inl e" "ok_or (Some v) e = Inr v"
  by (simp_all add: ok_or_def)

lemma ok_or_eq_Inr: "ok_or x e = Inr v \<longleftrightarrow> x = Some v"
  by (cases x) auto

text \<open>\<open>iter.map(f).collect::<Result<Vec<_>, _>>()\<close>: the first error, or every value in order.\<close>

fun traverse :: "('a \<Rightarrow> 'e + 'b) \<Rightarrow> 'a list \<Rightarrow> 'e + 'b list" where
  "traverse f [] = Inr []"
| "traverse f (x # xs) =
     (case f x of Inl e \<Rightarrow> Inl e
      | Inr y \<Rightarrow> (case traverse f xs of Inl e \<Rightarrow> Inl e | Inr ys \<Rightarrow> Inr (y # ys)))"

lemma traverse_eq_Inr:
  "traverse f xs = Inr ys \<longleftrightarrow> list_all2 (\<lambda>x y. f x = Inr y) xs ys"
proof (induction xs arbitrary: ys)
  case Nil
  then show ?case by auto
next
  case (Cons x xs)
  then show ?case by (cases ys; cases "f x"; cases "traverse f xs") auto
qed

lemma traverse_length: "traverse f xs = Inr ys \<Longrightarrow> length ys = length xs"
  by (auto simp: traverse_eq_Inr dest: list_all2_lengthD)

lemma traverse_mem: "traverse f xs = Inr ys \<Longrightarrow> y \<in> set ys \<Longrightarrow> \<exists>x \<in> set xs. f x = Inr y"
  by (induction xs arbitrary: ys) (auto split: sum.splits)

text \<open>A \<open>for\<close> loop whose body may return an error early.\<close>

fun fold_res :: "('a \<Rightarrow> 's \<Rightarrow> 'e + 's) \<Rightarrow> 'a list \<Rightarrow> 's \<Rightarrow> 'e + 's" where
  "fold_res f [] s = Inr s"
| "fold_res f (x # xs) s = (case f x s of Inl e \<Rightarrow> Inl e | Inr s' \<Rightarrow> fold_res f xs s')"

lemma fold_res_invariant:
  assumes "fold_res f xs s = Inr t" and "I s"
    and "\<And>x u v. x \<in> set xs \<Longrightarrow> I u \<Longrightarrow> f x u = Inr v \<Longrightarrow> I v"
  shows "I t"
  using assms
proof (induction xs arbitrary: s)
  case Nil
  then show ?case by simp
next
  case (Cons x xs)
  then obtain s' where "f x s = Inr s'" "fold_res f xs s' = Inr t"
    by (auto split: sum.splits)
  with Cons show ?case by (meson list.set_intros)
qed

lemma fold_res_append:
  "fold_res f (xs @ ys) s = (case fold_res f xs s of Inl e \<Rightarrow> Inl e | Inr s' \<Rightarrow> fold_res f ys s')"
  by (induction xs arbitrary: s) (auto split: sum.splits)

section \<open>Hash maps\<close>

type_synonym 'v hmap = "(string \<times> 'v) list"

definition hm_get :: "('k \<times> 'v) list \<Rightarrow> 'k \<Rightarrow> 'v option" where
  "hm_get m k = map_of m k"

definition hm_insert :: "'k \<Rightarrow> 'v \<Rightarrow> ('k \<times> 'v) list \<Rightarrow> ('k \<times> 'v) list" where
  "hm_insert k v m = AList.update k v m"

definition hm_remove :: "'k \<Rightarrow> ('k \<times> 'v) list \<Rightarrow> ('k \<times> 'v) list" where
  "hm_remove k m = AList.delete k m"

definition hm_keys :: "('k \<times> 'v) list \<Rightarrow> 'k list" where
  "hm_keys m = map fst m"

definition hm_ok :: "('k \<times> 'v) list \<Rightarrow> bool" where
  "hm_ok m \<longleftrightarrow> distinct (map fst m)"

definition hm_has :: "('k \<times> 'v) list \<Rightarrow> 'k \<Rightarrow> bool" where
  "hm_has m k \<longleftrightarrow> hm_get m k \<noteq> None"

lemma hm_get_Nil [simp]: "hm_get [] k = None"
  by (simp add: hm_get_def)

lemma hm_get_Cons [simp]: "hm_get ((k, v) # m) k' = (if k' = k then Some v else hm_get m k')"
  by (simp add: hm_get_def)

lemma hm_get_insert [simp]: "hm_get (hm_insert k v m) k' = (if k' = k then Some v else hm_get m k')"
  by (simp add: hm_get_def hm_insert_def update_conv')

lemma hm_get_remove [simp]: "hm_get (hm_remove k m) k' = (if k' = k then None else hm_get m k')"
  by (auto simp: hm_get_def hm_remove_def delete_conv')

lemma hm_ok_Nil [simp]: "hm_ok []"
  by (simp add: hm_ok_def)

lemma hm_ok_insert [simp]: "hm_ok m \<Longrightarrow> hm_ok (hm_insert k v m)"
  by (simp add: hm_ok_def hm_insert_def distinct_update)

lemma hm_ok_remove [simp]: "hm_ok m \<Longrightarrow> hm_ok (hm_remove k m)"
  by (simp add: hm_ok_def hm_remove_def distinct_delete)

lemma hm_keys_set: "set (hm_keys m) = {k. hm_get m k \<noteq> None}"
  by (auto simp: hm_keys_def hm_get_def map_of_eq_None_iff image_iff)

lemma hm_get_in: "hm_ok m \<Longrightarrow> (k, v) \<in> set m \<longleftrightarrow> hm_get m k = Some v"
  by (simp add: hm_ok_def hm_get_def)

lemma hm_get_mem: "hm_get m k = Some v \<Longrightarrow> (k, v) \<in> set m"
  by (auto simp: hm_get_def dest: map_of_SomeD)

lemma hm_get_map_values: "hm_get (map (\<lambda>(k, v). (k, f k v)) m) q = map_option (f q) (hm_get m q)"
  by (induction m) (auto simp: hm_get_def)

lemma hm_ok_map_values [simp]: "hm_ok (map (\<lambda>(k, v). (k, f k v)) m) = hm_ok m"
  by (simp add: hm_ok_def case_prod_beta comp_def)

text \<open>
  The interface of a keyed store: what the registries of the gateway rely on. Everything a
  client proves from it holds for \<open>HashMap\<close> and \<open>DashMap\<close> alike.
\<close>

locale keyed_store =
  fixes get :: "'m \<Rightarrow> 'k \<Rightarrow> 'v option"
    and insert :: "'k \<Rightarrow> 'v \<Rightarrow> 'm \<Rightarrow> 'm"
    and remove :: "'k \<Rightarrow> 'm \<Rightarrow> 'm"
    and empty :: "'m"
    and invar :: "'m \<Rightarrow> bool"
  assumes get_empty: "get empty k = None"
    and get_insert: "get (insert k v m) k' = (if k' = k then Some v else get m k')"
    and get_remove: "get (remove k m) k' = (if k' = k then None else get m k')"
    and invar_empty: "invar empty"
    and invar_insert: "invar m \<Longrightarrow> invar (insert k v m)"
    and invar_remove: "invar m \<Longrightarrow> invar (remove k m)"
begin

lemma insert_other: "k' \<noteq> k \<Longrightarrow> get (insert k v m) k' = get m k'"
  by (simp add: get_insert)

lemma insert_same: "get (insert k v m) k = Some v"
  by (simp add: get_insert)

lemma fold_insert_get:
  "get (fold (\<lambda>(k, v) m. insert k v m) kvs m) q =
     (case map_of (rev kvs) q of None \<Rightarrow> get m q | Some v \<Rightarrow> Some v)"
proof (induction kvs arbitrary: m)
  case Nil
  then show ?case by simp
next
  case (Cons kv kvs)
  then show ?case
    by (cases kv) (auto simp: get_insert map_add_def split: option.splits)
qed

lemma fold_insert_invar: "invar m \<Longrightarrow> invar (fold (\<lambda>(k, v) m. insert k v m) kvs m)"
  by (induction kvs arbitrary: m) (auto simp: invar_insert)

end

interpretation hm: keyed_store hm_get hm_insert hm_remove "[]" hm_ok
  by unfold_locales simp_all

text \<open>\<open>map.entry(k).or_insert_with(d)\<close> followed by an update of the entry in place.\<close>

definition hm_entry :: "('k \<times> 'v) list \<Rightarrow> 'k \<Rightarrow> 'v \<Rightarrow> 'v" where
  "hm_entry m k d = (case hm_get m k of None \<Rightarrow> d | Some v \<Rightarrow> v)"

definition hm_push :: "'k \<Rightarrow> 'v \<Rightarrow> ('k \<times> 'v list) list \<Rightarrow> ('k \<times> 'v list) list" where
  "hm_push k v m = hm_insert k (hm_entry m k [] @ [v]) m"

lemma hm_push_get [simp]:
  "hm_get (hm_push k v m) k' = (if k' = k then Some (hm_entry m k [] @ [v]) else hm_get m k')"
  by (simp add: hm_push_def)

lemma hm_push_ok [simp]: "hm_ok m \<Longrightarrow> hm_ok (hm_push k v m)"
  by (simp add: hm_push_def)

text \<open>The entries of a map as a multiset.\<close>

lemma hm_insert_fresh_mset: "hm_get m k = None \<Longrightarrow> mset (hm_insert k v m) = add_mset (k, v) (mset m)"
  unfolding hm_get_def hm_insert_def by (induction m) (auto split: if_splits)

lemma hm_remove_absent: "hm_get m k = None \<Longrightarrow> hm_remove k m = m"
  unfolding hm_get_def hm_remove_def
  by (simp add: map_of_eq_None_iff delete_id)

lemma hm_remove_mset:
  "hm_ok m \<Longrightarrow> hm_get m k = Some v \<Longrightarrow> mset m = add_mset (k, v) (mset (hm_remove k m))"
proof (induction m)
  case Nil
  then show ?case by simp
next
  case (Cons e m)
  obtain a b where e: "e = (a, b)" by force
  show ?case
  proof (cases "a = k")
    case True
    with Cons.prems e have "hm_get m k = None" "b = v"
      by (auto simp: hm_ok_def hm_get_def map_of_eq_None_iff)
    then show ?thesis using True e hm_remove_absent [of m k] by (simp add: hm_remove_def AList.delete_eq)
  next
    case False
    with Cons e show ?thesis by (simp add: hm_ok_def hm_remove_def AList.delete_eq)
  qed
qed

lemma hm_update_mset:
  "hm_ok m \<Longrightarrow> hm_get m k = Some v \<Longrightarrow>
   mset (hm_insert k w m) = add_mset (k, w) (mset (hm_remove k m))"
proof (induction m)
  case Nil
  then show ?case by simp
next
  case (Cons e m)
  obtain a b where e: "e = (a, b)" by force
  show ?case
  proof (cases "a = k")
    case True
    with Cons.prems e have "hm_get m k = None"
      by (auto simp: hm_ok_def hm_get_def map_of_eq_None_iff)
    then show ?thesis using True e hm_remove_absent [of m k] by (simp add: hm_insert_def hm_remove_def AList.delete_eq)
  next
    case False
    with Cons e show ?thesis by (simp add: hm_ok_def hm_insert_def hm_remove_def AList.delete_eq)
  qed
qed

text \<open>The entries of a \<open>BTreeMap\<close> are iterated in key order.\<close>

definition btree :: "(string \<times> 'v) list \<Rightarrow> (string \<times> 'v) list" where
  "btree m = sort_key fst m"

lemma btree_set [simp]: "set (btree m) = set m"
  by (simp add: btree_def)

lemma btree_ok [simp]: "hm_ok (btree m) = hm_ok m"
proof -
  have "mset (map fst (btree m)) = mset (map fst m)"
    by (simp add: btree_def)
  then show ?thesis
    unfolding hm_ok_def by (metis mset_eq_imp_distinct_iff)
qed

lemma btree_get [simp]: "hm_ok m \<Longrightarrow> hm_get (btree m) k = hm_get m k"
  by (metis btree_ok btree_set hm_get_in option.exhaust)

section \<open>Machine integers\<close>

text \<open>Unsigned values are \<open>nat\<close> below a bound; the casts and saturating operations write it out.\<close>

definition u64_max :: nat where "u64_max = 2 ^ 64 - 1"
definition u32_max :: nat where "u32_max = 2 ^ 32 - 1"

definition sat_add :: "nat \<Rightarrow> nat \<Rightarrow> nat \<Rightarrow> nat" where
  "sat_add bound a b = min bound (a + b)"

definition sat_mul :: "nat \<Rightarrow> nat \<Rightarrow> nat \<Rightarrow> nat" where
  "sat_mul bound a b = min bound (a * b)"

text \<open>\<open>n as u16\<close> and \<open>n as u32\<close> keep the low bits.\<close>

definition as_u16 :: "nat \<Rightarrow> nat" where "as_u16 n = n mod 2 ^ 16"
definition as_u32 :: "nat \<Rightarrow> nat" where "as_u32 n = n mod 2 ^ 32"

lemma as_u16_small: "n < 65536 \<Longrightarrow> as_u16 n = n"
  by (simp add: as_u16_def)

lemma as_u16_bound: "as_u16 n < 65536"
  by (simp add: as_u16_def)

text \<open>\<open>i64\<close> arithmetic in a release build wraps around; so do the atomic operations in every build.\<close>

definition i64_wrap :: "int \<Rightarrow> int" where
  "i64_wrap n = (n + 2 ^ 63) mod 2 ^ 64 - 2 ^ 63"

lemma i64_wrap_small: "- (2 ^ 63) \<le> n \<Longrightarrow> n < 2 ^ 63 \<Longrightarrow> i64_wrap n = n"
  by (simp add: i64_wrap_def)

text \<open>A \<open>Duration\<close> and an \<open>Instant\<close> count nanoseconds.\<close>

definition nanos_per_sec :: nat where "nanos_per_sec = 1000000000"

definition from_secs :: "nat \<Rightarrow> nat" where "from_secs n = n * nanos_per_sec"

definition from_millis :: "nat \<Rightarrow> nat" where "from_millis n = n * 1000000"

end
