(* ===== verification/Rust_Str.thy ===== *)
theory Rust_Str
  imports Prelude
begin

text \<open>
  The operations of Rust's \<open>str\<close>, \<open>String\<close> and integer parsing that the gateway calls. A
  \<open>String\<close> is its UTF-8 byte sequence, one \<^typ>\<open>char\<close> per byte, so every byte offset and
  every length is Rust's. Trimming removes the Unicode white space Rust removes, in its UTF-8
  encoding. Lower and upper casing of non-ASCII text needs the Unicode tables and is left to
  a parameter in the theory \<open>Json\<close>; the ASCII operations are here.
\<close>

section \<open>Prefixes, suffixes, splitting\<close>

definition starts_with :: "string \<Rightarrow> string \<Rightarrow> bool" where
  "starts_with s p \<longleftrightarrow> take (length p) s = p"

definition ends_with :: "string \<Rightarrow> string \<Rightarrow> bool" where
  "ends_with s p \<longleftrightarrow> length p \<le> length s \<and> drop (length s - length p) s = p"

definition strip_prefix :: "string \<Rightarrow> string \<Rightarrow> string option" where
  "strip_prefix s p = (if starts_with s p then Some (drop (length p) s) else None)"

definition strip_suffix :: "string \<Rightarrow> string \<Rightarrow> string option" where
  "strip_suffix s p = (if ends_with s p then Some (take (length s - length p) s) else None)"

fun split_on :: "char \<Rightarrow> string \<Rightarrow> string list" where
  "split_on c [] = [[]]"
| "split_on c (x # xs) =
     (if x = c then [] # split_on c xs
      else (case split_on c xs of [] \<Rightarrow> [[x]] | y # ys \<Rightarrow> (x # y) # ys))"

fun split_once :: "char \<Rightarrow> string \<Rightarrow> (string \<times> string) option" where
  "split_once c [] = None"
| "split_once c (x # xs) =
     (if x = c then Some ([], xs)
      else map_option (\<lambda>(a, b). (x # a, b)) (split_once c xs))"

definition rsplit_once :: "char \<Rightarrow> string \<Rightarrow> (string \<times> string) option" where
  "rsplit_once c s = map_option (\<lambda>(a, b). (rev b, rev a)) (split_once c (rev s))"

definition has_char :: "char \<Rightarrow> string \<Rightarrow> bool" where
  "has_char c s \<longleftrightarrow> c \<in> set s"

fun has_sub :: "string \<Rightarrow> string \<Rightarrow> bool" where
  "has_sub p [] \<longleftrightarrow> p = []"
| "has_sub p (x # xs) \<longleftrightarrow> starts_with (x # xs) p \<or> has_sub p xs"

definition first_segment :: "char \<Rightarrow> string \<Rightarrow> string" where
  "first_segment c s = takeWhile (\<lambda>x. x \<noteq> c) s"

fun join :: "string \<Rightarrow> string list \<Rightarrow> string" where
  "join sep [] = []"
| "join sep [x] = x"
| "join sep (x # y # ys) = x @ sep @ join sep (y # ys)"

text \<open>\<open>s.replace(pat, rep)\<close> for a non-empty pattern: left to right, without overlaps.\<close>

function replace_sub :: "string \<Rightarrow> string \<Rightarrow> string \<Rightarrow> string" where
  "replace_sub p r s =
     (if p = [] \<or> s = [] then s
      else if starts_with s p then r @ replace_sub p r (drop (length p) s)
      else hd s # replace_sub p r (tl s))"
  by pat_completeness auto
termination
  by (relation "measure (\<lambda>(p, r, s). length s)") (auto simp: neq_Nil_conv)

declare replace_sub.simps [simp del]

definition replace_char :: "char \<Rightarrow> char \<Rightarrow> string \<Rightarrow> string" where
  "replace_char a b s = map (\<lambda>c. if c = a then b else c) s"

lemma starts_with_append [simp]: "starts_with (p @ s) p"
  by (simp add: starts_with_def)

lemma starts_with_iff: "starts_with s p \<longleftrightarrow> (\<exists>r. s = p @ r)"
  by (metis append_take_drop_id starts_with_append starts_with_def)

lemma starts_with_take: "starts_with s p \<Longrightarrow> starts_with s (take n p)"
  by (metis append.assoc append_take_drop_id starts_with_iff)

lemma ends_with_append [simp]: "ends_with (s @ p) p"
  by (simp add: ends_with_def)

lemma ends_with_iff: "ends_with s p \<longleftrightarrow> (\<exists>r. s = r @ p)"
  by (metis append_take_drop_id ends_with_append ends_with_def)

lemma strip_prefix_Some: "strip_prefix s p = Some r \<longleftrightarrow> s = p @ r"
  by (auto simp: strip_prefix_def starts_with_iff)

lemma strip_prefix_None: "strip_prefix s p = None \<longleftrightarrow> \<not> starts_with s p"
  by (simp add: strip_prefix_def)

lemma strip_suffix_Some: "strip_suffix s p = Some r \<longleftrightarrow> s = r @ p"
  by (auto simp: strip_suffix_def ends_with_iff)

lemma split_on_not_Nil [simp]: "split_on c s \<noteq> []"
  by (cases s) (auto split: list.splits)

lemma split_on_parts: "p \<in> set (split_on c s) \<Longrightarrow> c \<notin> set p"
  by (induction s arbitrary: p) (auto split: if_splits list.splits)

lemma join_split_on: "join [c] (split_on c s) = s"
proof (induction s)
  case Nil
  then show ?case by simp
next
  case (Cons x xs)
  obtain y ys where "split_on c xs = y # ys"
    by (cases "split_on c xs") auto
  with Cons show ?case by (cases ys) auto
qed

lemma split_on_plain: "c \<notin> set s \<Longrightarrow> split_on c s = [s]"
  by (induction s) auto

lemma split_on_append: "c \<notin> set a \<Longrightarrow> split_on c (a @ c # b) = a # split_on c b"
  by (induction a) auto

lemma length_split_on: "length (split_on c s) = Suc (count_list s c)"
  by (induction s) (auto split: list.splits)

lemma split_once_Some:
  "split_once c s = Some (a, b) \<longleftrightarrow> s = a @ c # b \<and> c \<notin> set a"
proof (induction s arbitrary: a)
  case Nil
  then show ?case by simp
next
  case (Cons x xs)
  then show ?case by (cases a) auto
qed

lemma split_once_None: "split_once c s = None \<longleftrightarrow> c \<notin> set s"
  by (induction s) auto

lemma rsplit_once_Some:
  "rsplit_once c s = Some (a, b) \<longleftrightarrow> s = a @ c # b \<and> c \<notin> set b"
proof -
  have "rsplit_once c s = Some (a, b) \<longleftrightarrow> split_once c (rev s) = Some (rev b, rev a)"
    by (auto simp: rsplit_once_def)
  also have "\<dots> \<longleftrightarrow> s = a @ c # b \<and> c \<notin> set b"
    by (simp add: split_once_Some rev_swap)
  finally show ?thesis .
qed

lemma rsplit_once_None: "rsplit_once c s = None \<longleftrightarrow> c \<notin> set s"
  by (simp add: rsplit_once_def split_once_None)

lemma first_segment_split: "first_segment c s = hd (split_on c s)"
proof (induction s)
  case Nil
  then show ?case by (simp add: first_segment_def)
next
  case (Cons x xs)
  then show ?case by (auto simp: first_segment_def split: list.splits)
qed

lemma join_append_last:
  "xs \<noteq> [] \<Longrightarrow> join sep (xs @ [x]) = join sep xs @ sep @ x"
  by (induction sep xs rule: join.induct) auto

text \<open>Text put between single quotes by a \<open>format!\<close>, and the dash of the messages.\<close>

definition sq :: "string \<Rightarrow> string" where
  "sq s = CHR 0x27 # s @ [CHR 0x27]"

definition em_dash :: string where
  "em_dash = [CHR 0xE2, CHR 0x80, CHR 0x94]"

section \<open>ASCII case\<close>

definition ascii_lower :: "char \<Rightarrow> char" where
  "ascii_lower c = (let n = of_char c :: nat in if 65 \<le> n \<and> n \<le> 90 then char_of (n + 32) else c)"

definition ascii_upper :: "char \<Rightarrow> char" where
  "ascii_upper c = (let n = of_char c :: nat in if 97 \<le> n \<and> n \<le> 122 then char_of (n - 32) else c)"

definition to_ascii_lowercase :: "string \<Rightarrow> string" where
  "to_ascii_lowercase s = map ascii_lower s"

definition eq_ignore_ascii_case :: "string \<Rightarrow> string \<Rightarrow> bool" where
  "eq_ignore_ascii_case a b \<longleftrightarrow> to_ascii_lowercase a = to_ascii_lowercase b"

definition is_ascii :: "string \<Rightarrow> bool" where
  "is_ascii s \<longleftrightarrow> (\<forall>c \<in> set s. (of_char c :: nat) < 128)"

definition is_digit :: "char \<Rightarrow> bool" where
  "is_digit c \<longleftrightarrow> (let n = of_char c :: nat in 48 \<le> n \<and> n \<le> 57)"

definition is_alnum :: "char \<Rightarrow> bool" where
  "is_alnum c \<longleftrightarrow> (let n = of_char c :: nat in
     48 \<le> n \<and> n \<le> 57 \<or> 65 \<le> n \<and> n \<le> 90 \<or> 97 \<le> n \<and> n \<le> 122)"

lemma ascii_lower_idem [simp]: "ascii_lower (ascii_lower c) = ascii_lower c"
  by (simp add: ascii_lower_def Let_def)

lemma to_ascii_lowercase_idem [simp]:
  "to_ascii_lowercase (to_ascii_lowercase s) = to_ascii_lowercase s"
  by (simp add: to_ascii_lowercase_def)

lemma to_ascii_lowercase_append [simp]:
  "to_ascii_lowercase (a @ b) = to_ascii_lowercase a @ to_ascii_lowercase b"
  by (simp add: to_ascii_lowercase_def)

lemma length_to_ascii_lowercase [simp]: "length (to_ascii_lowercase s) = length s"
  by (simp add: to_ascii_lowercase_def)

text \<open>\<open>split_once\<close> with a string pattern.\<close>

fun split_once_str :: "string \<Rightarrow> string \<Rightarrow> (string \<times> string) option" where
  "split_once_str p [] = (if p = [] then Some ([], []) else None)"
| "split_once_str p (x # xs) =
     (if starts_with (x # xs) p then Some ([], drop (length p) (x # xs))
      else map_option (map_prod (Cons x) id) (split_once_str p xs))"

lemma split_once_str_length:
  "split_once_str p s = Some (a, b) \<Longrightarrow> p \<noteq> [] \<Longrightarrow> length b < length s"
proof (induction s arbitrary: a)
  case Nil
  then show ?case by (simp split: if_splits)
next
  case (Cons x s)
  show ?case
  proof (cases "starts_with (x # s) p")
    case True
    then have "b = drop (length p) (x # s)" using Cons.prems(1) by simp
    then show ?thesis using Cons.prems(2) by (cases p) auto
  next
    case False
    then obtain a' where "split_once_str p s = Some (a', b)" using Cons.prems(1) by auto
    then show ?thesis using Cons.IH Cons.prems(2) by fastforce
  qed
qed

section \<open>White space\<close>

text \<open>The white space of \<open>char::is_whitespace\<close>, each code point in its UTF-8 encoding.\<close>

definition whitespace :: "string list" where
  "whitespace =
     [[CHR 0x20], [CHR 0x09], [CHR 0x0A], [CHR 0x0B], [CHR 0x0C], [CHR 0x0D],
      [CHR 0xC2, CHR 0x85], [CHR 0xC2, CHR 0xA0], [CHR 0xE1, CHR 0x9A, CHR 0x80]] @
     map (\<lambda>b. [CHR 0xE2, CHR 0x80, char_of b]) ([128..<139] @ [168, 169, 175 :: nat]) @
     [[CHR 0xE2, CHR 0x81, CHR 0x9F], [CHR 0xE3, CHR 0x80, CHR 0x80]]"

lemma whitespace_not_Nil: "w \<in> set whitespace \<Longrightarrow> w \<noteq> []"
  by (auto simp: whitespace_def)

function trim_start :: "string \<Rightarrow> string" where
  "trim_start s =
     (case find (starts_with s) whitespace of
        None \<Rightarrow> s
      | Some w \<Rightarrow> if s = [] then s else trim_start (drop (length w) s))"
  by pat_completeness auto
termination
  by (relation "measure length")
    (auto simp: find_Some_iff dest!: nth_mem whitespace_not_Nil)

function trim_end :: "string \<Rightarrow> string" where
  "trim_end s =
     (case find (ends_with s) whitespace of
        None \<Rightarrow> s
      | Some w \<Rightarrow> if s = [] then s else trim_end (take (length s - length w) s))"
  by pat_completeness auto
termination
  by (relation "measure length")
    (auto simp: find_Some_iff dest!: nth_mem whitespace_not_Nil)

declare trim_start.simps [simp del] trim_end.simps [simp del]

definition trim :: "string \<Rightarrow> string" where
  "trim s = trim_end (trim_start s)"

text \<open>\<open>s.split_whitespace()\<close>; \<open>w\<close> is the word read so far, reversed.\<close>

function ws_words :: "string \<Rightarrow> string \<Rightarrow> string list" where
  "ws_words w s =
     (if s = [] then (if w = [] then [] else [rev w])
      else (case find (starts_with s) whitespace of
              None \<Rightarrow> ws_words (hd s # w) (tl s)
            | Some b \<Rightarrow> (if w = [] then [] else [rev w]) @ ws_words [] (drop (length b) s)))"
  by pat_completeness auto
termination
  by (relation "measure (\<lambda>(w, s). length s)")
    (auto simp: find_Some_iff dest!: nth_mem whitespace_not_Nil)

declare ws_words.simps [simp del]

definition split_whitespace :: "string \<Rightarrow> string list" where
  "split_whitespace s = ws_words [] s"

text \<open>Reading ASCII text character by character.\<close>

lemma whitespace_heads:
  "b \<in> set whitespace \<Longrightarrow> starts_with (c # s) b \<Longrightarrow>
     (of_char c :: nat) \<le> 32 \<or> 128 \<le> (of_char c :: nat)"
  by (auto simp: whitespace_def starts_with_def)

lemma ws_words_end: "ws_words w [] = (if w = [] then [] else [rev w])"
  by (subst ws_words.simps) simp

lemma ws_words_space: "ws_words w (CHR '' '' # s) = (if w = [] then [] else [rev w]) @ ws_words [] s"
  by (subst ws_words.simps) (simp add: whitespace_def starts_with_def)

lemma ws_words_char:
  assumes "32 < (of_char c :: nat)" and "(of_char c :: nat) < 128"
  shows "ws_words w (c # s) = ws_words (c # w) s"
proof -
  have "find (starts_with (c # s)) whitespace = None"
    using whitespace_heads [of _ c s] assms by (fastforce simp: find_None_iff)
  then show ?thesis by (subst ws_words.simps) simp
qed

lemmas ws_words_ascii = ws_words_end ws_words_space ws_words_char

text \<open>\<open>s.trim_matches(c)\<close>, \<open>s.trim_end_matches(c)\<close> for one ASCII character.\<close>

definition trim_end_char :: "char \<Rightarrow> string \<Rightarrow> string" where
  "trim_end_char c s = rev (dropWhile ((=) c) (rev s))"

definition trim_char :: "char \<Rightarrow> string \<Rightarrow> string" where
  "trim_char c s = trim_end_char c (dropWhile ((=) c) s)"

section \<open>Decimal numbers\<close>

fun show_nat :: "nat \<Rightarrow> string" where
  "show_nat n =
     (if n < 10 then [char_of (48 + n)] else show_nat (n div 10) @ [char_of (48 + n mod 10)])"

declare show_nat.simps [simp del]

definition digit_val :: "char \<Rightarrow> nat" where
  "digit_val c = of_char c - 48"

definition digits_val :: "string \<Rightarrow> nat" where
  "digits_val s = fold (\<lambda>c n. n * 10 + digit_val c) s 0"

text \<open>\<open>s.parse::<uN>()\<close>: an optional \<open>+\<close>, at least one digit, no overflow.\<close>

definition parse_uint :: "nat \<Rightarrow> string \<Rightarrow> nat option" where
  "parse_uint bound s =
     (let d = (if s \<noteq> [] \<and> hd s = CHR ''+'' then tl s else s)
      in if d \<noteq> [] \<and> list_all is_digit d \<and> digits_val d \<le> bound then Some (digits_val d) else None)"

text \<open>\<open>s.parse::<i64>()\<close>\<close>

definition parse_i64 :: "string \<Rightarrow> int option" where
  "parse_i64 s =
     (let neg = (s \<noteq> [] \<and> hd s = CHR ''-'');
          d = (if neg \<or> s \<noteq> [] \<and> hd s = CHR ''+'' then tl s else s);
          v = (if neg then - int (digits_val d) else int (digits_val d))
      in if d \<noteq> [] \<and> list_all is_digit d \<and> - (2 ^ 63) \<le> v \<and> v < 2 ^ 63 then Some v else None)"

lemma of_char_char_of: "n < 256 \<Longrightarrow> of_char (char_of n :: char) = (n :: nat)"
  by simp

lemma show_nat_digits: "list_all is_digit (show_nat n)"
proof (induction n rule: show_nat.induct)
  case (1 n)
  have d: "is_digit (char_of (48 + m))" if "m < 10" for m :: nat
    using that by (simp add: is_digit_def Let_def)
  show ?case
  proof (cases "n < 10")
    case True
    then show ?thesis by (subst show_nat.simps) (simp add: d)
  next
    case False
    with 1 show ?thesis by (subst show_nat.simps) (simp add: d)
  qed
qed

lemma show_nat_not_Nil [simp]: "show_nat n \<noteq> []"
  by (subst show_nat.simps) auto

lemma digits_val_suffix: "digits_val s \<le> digits_val (d @ s)"
proof -
  have "fold (\<lambda>c n. n * 10 + digit_val c) s a \<le> fold (\<lambda>c n. n * 10 + digit_val c) s b" if "a \<le> b" for a b
    using that by (induction s arbitrary: a b) (simp_all add: add_mono mult_le_mono)
  then show ?thesis by (simp add: digits_val_def)
qed

lemma digits_val_snoc: "digits_val (s @ [c]) = digits_val s * 10 + digit_val c"
  by (simp add: digits_val_def)

lemma digits_val_show_nat [simp]: "digits_val (show_nat n) = n"
proof (induction n rule: show_nat.induct)
  case (1 n)
  have d: "digit_val (char_of (48 + m)) = m" if "m < 10" for m :: nat
    using that by (simp add: digit_val_def)
  show ?case
  proof (cases "n < 10")
    case True
    then show ?thesis by (subst show_nat.simps) (simp add: digits_val_def d)
  next
    case False
    with 1 show ?thesis by (subst show_nat.simps) (simp add: digits_val_snoc d)
  qed
qed

lemma parse_uint_show_nat: "n \<le> bound \<Longrightarrow> parse_uint bound (show_nat n) = Some n"
proof -
  assume b: "n \<le> bound"
  have "hd (show_nat n) \<noteq> CHR ''+''"
    using show_nat_digits [of n] by (cases "show_nat n") (auto simp: is_digit_def)
  with b show ?thesis
    by (simp add: parse_uint_def show_nat_digits)
qed

lemma show_nat_inj: "show_nat a = show_nat b \<Longrightarrow> a = b"
  by (metis digits_val_show_nat)

section \<open>Strings without outer white space\<close>

definition graphic :: "char \<Rightarrow> bool" where
  "graphic c \<longleftrightarrow> 33 \<le> (of_char c :: nat) \<and> (of_char c :: nat) < 128"

lemma whitespace_ends: "\<forall>w \<in> set whitespace. \<not> graphic (hd w) \<and> \<not> graphic (last w)"
  unfolding graphic_def by code_simp

lemma starts_with_hd: "starts_with s p \<Longrightarrow> p \<noteq> [] \<Longrightarrow> s \<noteq> [] \<and> hd s = hd p"
  by (cases s; cases p) (auto simp: starts_with_def)

lemma ends_with_last: "ends_with s p \<Longrightarrow> p \<noteq> [] \<Longrightarrow> s \<noteq> [] \<and> last s = last p"
  unfolding ends_with_def by (metis append_take_drop_id last_appendR append_is_Nil_conv)

lemma trim_graphic:
  assumes "graphic (hd s)" "graphic (last s)"
  shows "trim s = s"
proof -
  have "find (starts_with s) whitespace = None" "find (ends_with s) whitespace = None"
    unfolding find_None_iff
    by (metis assms(1) starts_with_hd whitespace_ends whitespace_not_Nil,
        metis assms(2) ends_with_last whitespace_ends whitespace_not_Nil)
  then show ?thesis by (simp add: trim_def trim_start.simps trim_end.simps)
qed

end
