(* ===== verification/Ip.thy ===== *)
theory Ip
  imports Rust_Str
begin

unbundle bit_operations_syntax

text \<open>
  \<open>std::net::IpAddr\<close>: the address values, the parser behind \<open>s.parse::<IpAddr>()\<close> and the
  printer behind \<open>to_string()\<close>. The parser reads from a byte list and returns what is left,
  so that \<open>None\<close> is a failed read and a caller backtracks by using its own input again, as
  the library's \<open>read_atomically\<close> does.
\<close>

datatype ip_addr = V4 "32 word" | V6 "128 word"

section \<open>Parsing\<close>

definition hex_digit :: "char \<Rightarrow> nat option" where
  "hex_digit c =
     (let n = of_char c :: nat in
      if 48 \<le> n \<and> n \<le> 57 then Some (n - 48)
      else if 97 \<le> n \<and> n \<le> 102 then Some (n - 87)
      else if 65 \<le> n \<and> n \<le> 70 then Some (n - 55)
      else None)"

definition radix_digit :: "nat \<Rightarrow> char \<Rightarrow> nat option" where
  "radix_digit radix c =
     (case hex_digit c of None \<Rightarrow> None | Some d \<Rightarrow> if d < radix then Some d else None)"

fun read_digits :: "nat \<Rightarrow> string \<Rightarrow> nat list \<times> string" where
  "read_digits radix [] = ([], [])"
| "read_digits radix (c # cs) =
     (case radix_digit radix c of
        None \<Rightarrow> ([], c # cs)
      | Some d \<Rightarrow> (let (ds, r) = read_digits radix cs in (d # ds, r)))"

definition digits_num :: "nat \<Rightarrow> nat list \<Rightarrow> nat" where
  "digits_num radix ds = fold (\<lambda>d n. n * radix + d) ds 0"

text \<open>A number of at most \<open>maxd\<close> digits that is at most \<open>bound\<close>.\<close>

definition read_number :: "nat \<Rightarrow> nat \<Rightarrow> bool \<Rightarrow> nat \<Rightarrow> string \<Rightarrow> (nat \<times> string) option" where
  "read_number radix maxd zero_prefix bound s =
     (let (ds, r) = read_digits radix s in
      if ds = [] \<or> maxd < length ds \<or> bound < digits_num radix ds then None
      else if \<not> zero_prefix \<and> hd ds = 0 \<and> 1 < length ds then None
      else Some (digits_num radix ds, r))"

definition read_char :: "char \<Rightarrow> string \<Rightarrow> string option" where
  "read_char c s = (case s of [] \<Rightarrow> None | x # xs \<Rightarrow> if x = c then Some xs else None)"

definition read_octet :: "nat \<Rightarrow> string \<Rightarrow> (nat \<times> string) option" where
  "read_octet i s =
     (case (if i = 0 then Some s else read_char CHR ''.'' s) of
        None \<Rightarrow> None
      | Some s' \<Rightarrow> read_number 10 3 False 255 s')"

definition read_ipv4 :: "string \<Rightarrow> (nat list \<times> string) option" where
  "read_ipv4 s =
     (case read_octet 0 s of None \<Rightarrow> None | Some (a, s1) \<Rightarrow>
      (case read_octet 1 s1 of None \<Rightarrow> None | Some (b, s2) \<Rightarrow>
      (case read_octet 2 s2 of None \<Rightarrow> None | Some (c, s3) \<Rightarrow>
      (case read_octet 3 s3 of None \<Rightarrow> None | Some (d, s4) \<Rightarrow> Some ([a, b, c, d], s4)))))"

text \<open>Up to \<open>todo\<close> groups from position \<open>i\<close>; the flag says the run ended in a dotted quad.\<close>

fun read_groups :: "nat \<Rightarrow> nat \<Rightarrow> string \<Rightarrow> nat list \<times> bool \<times> string" where
  "read_groups 0 i s = ([], False, s)"
| "read_groups (Suc todo) i s =
     (let sep = (if i = 0 then Some s else read_char CHR '':'' s) in
      case (if 0 < todo then (case sep of None \<Rightarrow> None | Some s' \<Rightarrow> read_ipv4 s') else None) of
        Some (q, r) \<Rightarrow> ([q ! 0 * 256 + q ! 1, q ! 2 * 256 + q ! 3], True, r)
      | None \<Rightarrow>
          (case (case sep of None \<Rightarrow> None | Some s' \<Rightarrow> read_number 16 4 True 65535 s') of
             None \<Rightarrow> ([], False, s)
           | Some (g, r) \<Rightarrow> (let (gs, q, r') = read_groups todo (Suc i) r in (g # gs, q, r'))))"

definition groups_word :: "nat list \<Rightarrow> 128 word" where
  "groups_word gs = fold (\<lambda>g w. push_bit 16 w OR of_nat g) gs 0"

definition read_ipv6 :: "string \<Rightarrow> (128 word \<times> string) option" where
  "read_ipv6 s =
     (let (h, q, r) = read_groups 8 0 s in
      if length h = 8 then Some (groups_word h, r)
      else if q then None
      else (case read_char CHR '':'' r of None \<Rightarrow> None | Some r1 \<Rightarrow>
           (case read_char CHR '':'' r1 of None \<Rightarrow> None | Some r2 \<Rightarrow>
              (let (t, _, r3) = read_groups (7 - length h) 0 r2 in
               Some (groups_word (h @ replicate (8 - length h - length t) 0 @ t), r3)))))"

definition octets_word :: "nat list \<Rightarrow> 32 word" where
  "octets_word os = fold (\<lambda>b w. push_bit 8 w OR of_nat b) os 0"

definition parse_ip :: "string \<Rightarrow> ip_addr option" where
  "parse_ip s =
     (case read_ipv4 s of
        Some (q, []) \<Rightarrow> Some (V4 (octets_word q))
      | Some (_, _ # _) \<Rightarrow> None
      | None \<Rightarrow> (case read_ipv6 s of Some (w, []) \<Rightarrow> Some (V6 w) | _ \<Rightarrow> None))"

section \<open>Printing\<close>

definition octet_of :: "32 word \<Rightarrow> nat \<Rightarrow> nat" where
  "octet_of w i = unat (take_bit 8 (drop_bit (8 * (3 - i)) w))"

definition show_v4 :: "32 word \<Rightarrow> string" where
  "show_v4 w = join ''.'' (map (\<lambda>i. show_nat (octet_of w i)) [0, 1, 2, 3])"

definition hex_char :: "nat \<Rightarrow> char" where
  "hex_char d = char_of (if d < 10 then 48 + d else 87 + d)"

fun show_hex :: "nat \<Rightarrow> string" where
  "show_hex n = (if n < 16 then [hex_char n] else show_hex (n div 16) @ [hex_char (n mod 16)])"

declare show_hex.simps [simp del]

definition segment_of :: "128 word \<Rightarrow> nat \<Rightarrow> nat" where
  "segment_of w i = unat (take_bit 16 (drop_bit (16 * (7 - i)) w))"

definition segments :: "128 word \<Rightarrow> nat list" where
  "segments w = map (segment_of w) [0..<8]"

text \<open>The longest run of zero segments, the first one when several are as long: (start, length).\<close>

fun zero_run :: "nat list \<Rightarrow> nat \<Rightarrow> nat \<times> nat \<Rightarrow> nat \<times> nat \<Rightarrow> nat \<times> nat" where
  "zero_run [] i cur best = best"
| "zero_run (g # gs) i cur best =
     (if g = 0 then
        (let cur' = (if snd cur = 0 then i else fst cur, Suc (snd cur))
         in zero_run gs (Suc i) cur' (if snd best < snd cur' then cur' else best))
      else zero_run gs (Suc i) (0, 0) best)"

definition show_segments :: "nat list \<Rightarrow> string" where
  "show_segments gs = join '':'' (map show_hex gs)"

definition show_v6 :: "128 word \<Rightarrow> string" where
  "show_v6 w =
     (let gs = segments w; (st, len) = zero_run gs 0 (0, 0) (0, 0) in
      if take 5 gs = replicate 5 0 \<and> gs ! 5 = 65535 then ''::ffff:'' @ show_v4 (ucast w)
      else if 1 < len then show_segments (take st gs) @ ''::'' @ show_segments (drop (st + len) gs)
      else show_segments gs)"

fun show_ip :: "ip_addr \<Rightarrow> string" where
  "show_ip (V4 w) = show_v4 w"
| "show_ip (V6 w) = show_v6 w"

text \<open>\<open>SocketAddr::to_string\<close>: an IPv6 address is bracketed.\<close>

fun show_socket :: "ip_addr \<Rightarrow> nat \<Rightarrow> string" where
  "show_socket (V4 w) p = show_v4 w @ '':'' @ show_nat p"
| "show_socket (V6 w) p = ''['' @ show_v6 w @ '']:'' @ show_nat p"

section \<open>Facts\<close>

text \<open>An address never starts with a bracket.\<close>

lemma radix_digit_bracket [simp]: "radix_digit radix CHR ''['' = None"
  by (simp add: radix_digit_def hex_digit_def)

lemma parse_ip_bracket [simp]: "parse_ip (CHR ''['' # s) = None"
proof -
  have n: "read_number r m z b (CHR ''['' # s) = None" for r m z b
    by (simp add: read_number_def)
  have 4: "read_ipv4 (CHR ''['' # s) = None"
    by (simp add: read_ipv4_def read_octet_def n)
  have e: "(8 :: nat) = Suc 7" by simp
  have g: "read_groups 8 0 (CHR ''['' # s) = ([], False, CHR ''['' # s)"
    unfolding e read_groups.simps by (simp add: 4 n)
  have "read_ipv6 (CHR ''['' # s) = None"
    by (simp add: read_ipv6_def g read_char_def)
  with 4 show ?thesis by (simp add: parse_ip_def)
qed

section \<open>Printed IPv4 addresses are read back\<close>

lemma read_digits_append:
  "list_all (\<lambda>c. radix_digit r c \<noteq> None) s \<Longrightarrow> rest = [] \<or> radix_digit r (hd rest) = None \<Longrightarrow>
   read_digits r (s @ rest) = (map (\<lambda>c. the (radix_digit r c)) s, rest)"
proof (induction s)
  case Nil
  then show ?case by (cases rest) auto
next
  case (Cons c s)
  then show ?case by auto
qed

lemma radix_digit_decimal: "is_digit c \<Longrightarrow> radix_digit 10 c = Some (digit_val c)"
  by (auto simp: radix_digit_def hex_digit_def is_digit_def digit_val_def Let_def)

lemma digits_num_snoc: "digits_num r (ds @ [d]) = digits_num r ds * r + d"
  by (simp add: digits_num_def)

lemma digits_num_decimal: "digits_num 10 (map digit_val s) = digits_val s"
  by (induction s rule: rev_induct) (simp_all add: digits_num_snoc digits_val_snoc, simp add: digits_num_def digits_val_def)

lemma map_the_decimal: "list_all is_digit s \<Longrightarrow> map (\<lambda>c. the (radix_digit 10 c)) s = map digit_val s"
  by (induction s) (simp_all add: radix_digit_decimal)

lemma show_nat_head: "10 \<le> n \<Longrightarrow> digit_val (hd (show_nat n)) \<noteq> 0"
proof (induction n rule: show_nat.induct)
  case (1 n)
  have d: "digit_val (char_of (48 + m)) = m" if "m < 10" for m :: nat
    using that by (simp add: digit_val_def)
  show ?case
  proof (cases "n < 100")
    case True
    then have "n div 10 < 10" "0 < n div 10" using "1.prems" by auto
    then show ?thesis using "1.prems" d [of "n div 10"] by (simp add: show_nat.simps [of n] show_nat.simps [of "n div 10"])
  next
    case False
    then have "10 \<le> n div 10" by auto
    with 1 have "digit_val (hd (show_nat (n div 10))) \<noteq> 0" by auto
    then show ?thesis using "1.prems" by (subst show_nat.simps) simp
  qed
qed

lemma show_nat_length3: "n < 1000 \<Longrightarrow> length (show_nat n) \<le> 3"
  by (subst show_nat.simps, simp, subst show_nat.simps, simp, subst show_nat.simps, simp)

lemma read_number_show:
  assumes "n < 256" "rest = [] \<or> radix_digit 10 (hd rest) = None"
  shows "read_number 10 3 False 255 (show_nat n @ rest) = Some (n, rest)"
proof -
  have a: "list_all is_digit (show_nat n)" by (rule show_nat_digits)
  then have "list_all (\<lambda>c. radix_digit 10 c \<noteq> None) (show_nat n)"
    by (auto simp: list_all_iff radix_digit_decimal)
  then have r: "read_digits 10 (show_nat n @ rest) = (map digit_val (show_nat n), rest)"
    using read_digits_append [of 10 "show_nat n" rest] assms(2) map_the_decimal [OF a] by simp
  have h: "hd (map digit_val (show_nat n)) = 0 \<Longrightarrow> length (show_nat n) \<le> 1"
  proof -
    assume z: "hd (map digit_val (show_nat n)) = 0"
    then have "\<not> 10 \<le> n"
      using show_nat_head [of n] show_nat_not_Nil [of n] by (auto simp: hd_map)
    then show ?thesis by (subst show_nat.simps) simp
  qed
  show ?thesis
    using r h assms(1) show_nat_length3 [of n]
    by (auto simp: read_number_def digits_num_decimal Let_def)
qed

lemma octet_bound: "octet_of w i < 256"
proof -
  have "take_bit 8 (unat (drop_bit (8 * (3 - i)) w)) < 2 ^ 8" by (rule take_bit_nat_less_exp)
  then show ?thesis by (simp add: octet_of_def unsigned_take_bit_eq)
qed

lemma read_ipv4_show:
  assumes "rest = [] \<or> radix_digit 10 (hd rest) = None"
  shows "read_ipv4 (show_v4 w @ rest) = Some (map (octet_of w) [0, 1, 2, 3], rest)"
proof -
  have dot: "radix_digit 10 CHR ''.'' = None" by (simp add: radix_digit_def hex_digit_def)
  show ?thesis
    using octet_bound [of w] assms dot
    by (simp add: read_ipv4_def show_v4_def read_octet_def read_char_def read_number_show)
qed

lemma octets_word_octets: "octets_word (map (octet_of w) [0, 1, 2, 3]) = w"
proof (rule bit_word_eqI)
  fix n assume "n < LENGTH(32)"
  then show "bit (octets_word (map (octet_of w) [0, 1, 2, 3])) n = bit w n"
    by (cases "n < 8"; cases "n < 16"; cases "n < 24")
      (auto simp: octets_word_def octet_of_def bit_simps)
qed

lemma parse_show_v4 [simp]: "parse_ip (show_v4 w) = Some (V4 w)"
  using read_ipv4_show [of "[]" w] octets_word_octets [of w] by (simp add: parse_ip_def)

lemma parse_show_v4_port [simp]: "parse_ip (show_v4 w @ CHR '':'' # s) = None"
proof -
  have "radix_digit 10 CHR '':'' = None" by (simp add: radix_digit_def hex_digit_def)
  then show ?thesis using read_ipv4_show [of "CHR '':'' # s" w] by (simp add: parse_ip_def)
qed

end
