(* ===== verification/Json.thy ===== *)
theory Json
  imports Ip
begin

text \<open>
  JSON values as \<open>serde_json::Value\<close> presents them to the gateway (its documented variants and
  accessors), and the record \<open>libs\<close> of the functions the gateway calls in crates that are not
  part of this repository: the regular expressions, the JSON printer, float parsing and
  printing, IP networks, and the Unicode case tables. A compiled \<open>Regex\<close> and an \<open>IpNet\<close> are
  represented by the text they were built from.
\<close>

section \<open>Floats\<close>

text \<open>An \<open>f64\<close> is its IEEE 754 bit pattern; the comparisons are computed on the bits.\<close>

type_synonym f64 = "64 word"

definition f64_is_nan :: "f64 \<Rightarrow> bool" where
  "f64_is_nan w \<longleftrightarrow> 0x7FF0000000000000 < uint (take_bit 63 w)"

definition f64_key :: "f64 \<Rightarrow> int" where
  "f64_key w = (if bit w 63 then - uint (take_bit 63 w) else uint (take_bit 63 w))"

definition f64_lt :: "f64 \<Rightarrow> f64 \<Rightarrow> bool" where
  "f64_lt a b \<longleftrightarrow> \<not> f64_is_nan a \<and> \<not> f64_is_nan b \<and> f64_key a < f64_key b"

definition f64_le :: "f64 \<Rightarrow> f64 \<Rightarrow> bool" where
  "f64_le a b \<longleftrightarrow> \<not> f64_is_nan a \<and> \<not> f64_is_nan b \<and> f64_key a \<le> f64_key b"

lemma f64_le_lt: "\<not> f64_is_nan a \<Longrightarrow> \<not> f64_is_nan b \<Longrightarrow> f64_le a b \<longleftrightarrow> \<not> f64_lt b a"
  by (auto simp: f64_le_def f64_lt_def)

section \<open>Values\<close>

text \<open>A number is a \<open>u64\<close>, a negative \<open>i64\<close> or a float.\<close>

datatype json_num = NPos nat | NNeg int | NFloat f64

datatype json =
    JNull
  | JBool bool
  | JNum json_num
  | JStr string
  | JArr "json list"
  | JObj "(string \<times> json) list"

fun as_str :: "json \<Rightarrow> string option" where
  "as_str (JStr s) = Some s"
| "as_str _ = None"

fun as_bool :: "json \<Rightarrow> bool option" where
  "as_bool (JBool b) = Some b"
| "as_bool _ = None"

fun as_u64 :: "json \<Rightarrow> nat option" where
  "as_u64 (JNum (NPos n)) = Some n"
| "as_u64 _ = None"

fun as_i64 :: "json \<Rightarrow> int option" where
  "as_i64 (JNum (NPos n)) = (if n < 2 ^ 63 then Some (int n) else None)"
| "as_i64 (JNum (NNeg i)) = Some i"
| "as_i64 _ = None"

fun as_array :: "json \<Rightarrow> json list option" where
  "as_array (JArr xs) = Some xs"
| "as_array _ = None"

fun as_object :: "json \<Rightarrow> (string \<times> json) list option" where
  "as_object (JObj m) = Some m"
| "as_object _ = None"

definition json_get :: "json \<Rightarrow> string \<Rightarrow> json option" where
  "json_get v k = (case v of JObj m \<Rightarrow> hm_get m k | _ \<Rightarrow> None)"

lemma json_get_simps [simp]:
  "json_get (JObj m) k = hm_get m k"
  "json_get JNull k = None" "json_get (JBool b) k = None" "json_get (JNum n) k = None"
  "json_get (JStr s) k = None" "json_get (JArr xs) k = None"
  by (simp_all add: json_get_def)

definition jnat :: "nat \<Rightarrow> json" where
  "jnat n = JNum (NPos n)"

lemma as_u64_jnat [simp]: "as_u64 (jnat n) = Some n" "as_str (jnat n) = None"
  by (simp_all add: jnat_def)

text \<open>A node's configuration and the readers \<open>config.get(k).and_then(|v| v.as_...())\<close>.\<close>

type_synonym config = "json hmap"

definition cfg_str :: "config \<Rightarrow> string \<Rightarrow> string option" where
  "cfg_str c k = Option.bind (hm_get c k) as_str"

definition cfg_u64 :: "config \<Rightarrow> string \<Rightarrow> nat option" where
  "cfg_u64 c k = Option.bind (hm_get c k) as_u64"

definition cfg_i64 :: "config \<Rightarrow> string \<Rightarrow> int option" where
  "cfg_i64 c k = Option.bind (hm_get c k) as_i64"

definition cfg_bool :: "config \<Rightarrow> string \<Rightarrow> bool option" where
  "cfg_bool c k = Option.bind (hm_get c k) as_bool"

definition cfg_array :: "config \<Rightarrow> string \<Rightarrow> json list option" where
  "cfg_array c k = Option.bind (hm_get c k) as_array"

definition opt_filter :: "('a \<Rightarrow> bool) \<Rightarrow> 'a option \<Rightarrow> 'a option" where
  "opt_filter p x = (case x of None \<Rightarrow> None | Some v \<Rightarrow> if p v then Some v else None)"

definition unwrap_or :: "'a \<Rightarrow> 'a option \<Rightarrow> 'a" where
  "unwrap_or d x = (case x of None \<Rightarrow> d | Some v \<Rightarrow> v)"

lemma unwrap_or_simps [simp]: "unwrap_or d None = d" "unwrap_or d (Some v) = v"
  by (simp_all add: unwrap_or_def)

lemma opt_filter_simps [simp]:
  "opt_filter p None = None" "opt_filter p (Some v) = (if p v then Some v else None)"
  by (simp_all add: opt_filter_def)

lemma opt_filter_Some: "opt_filter p x = Some v \<longleftrightarrow> x = Some v \<and> p v"
  by (cases x) auto

text \<open>\<open>filter_map(|v| v.as_str().map(String::from))\<close>: entries that are not strings are skipped.\<close>

definition str_items :: "json list \<Rightarrow> string list" where
  "str_items xs = List.map_filter as_str xs"

definition cfg_strings :: "config \<Rightarrow> string \<Rightarrow> string list option" where
  "cfg_strings c k = map_option str_items (cfg_array c k)"

lemma str_items_JStr [simp]: "str_items (map JStr ss) = ss"
  by (induction ss) (simp_all add: str_items_def List.map_filter_def)

section \<open>Functions of other crates\<close>

record libs =
  uni_lower :: "string \<Rightarrow> string"
  uni_upper :: "string \<Rightarrow> string"
  rx_error :: "string \<Rightarrow> string option"
  rx_match :: "string \<Rightarrow> string \<Rightarrow> bool"
  json_print :: "json \<Rightarrow> string"
  parse_f64 :: "string \<Rightarrow> f64 option"
  num_f64 :: "json_num \<Rightarrow> f64"
  show_f64 :: "f64 \<Rightarrow> string"
  show_num_f64 :: "f64 \<Rightarrow> string"
  net_parse :: "string \<Rightarrow> string option"
  net_of_ip :: "ip_addr \<Rightarrow> string"
  net_has :: "string \<Rightarrow> ip_addr \<Rightarrow> bool"
  ceil_secs :: "nat \<Rightarrow> nat"
  debug_list :: "string list \<Rightarrow> string"
  b64_encode :: "string \<Rightarrow> string"
  b64_decode :: "string \<Rightarrow> string option"

text \<open>
  \<open>str::to_lowercase\<close> and \<open>to_uppercase\<close>: on ASCII text they act byte by byte; other text
  goes through the Unicode tables.
\<close>

definition to_lowercase :: "libs \<Rightarrow> string \<Rightarrow> string" where
  "to_lowercase L s = (if is_ascii s then map ascii_lower s else uni_lower L s)"

definition to_uppercase :: "libs \<Rightarrow> string \<Rightarrow> string" where
  "to_uppercase L s = (if is_ascii s then map ascii_upper s else uni_upper L s)"

lemma to_lowercase_ascii: "is_ascii s \<Longrightarrow> to_lowercase L s = to_ascii_lowercase s"
  by (simp add: to_lowercase_def to_ascii_lowercase_def)

definition show_int :: "int \<Rightarrow> string" where
  "show_int i = (if i < 0 then CHR ''-'' # show_nat (nat (- i)) else show_nat (nat i))"

fun show_num :: "libs \<Rightarrow> json_num \<Rightarrow> string" where
  "show_num L (NPos n) = show_nat n"
| "show_num L (NNeg i) = show_int i"
| "show_num L (NFloat x) = show_num_f64 L x"

fun show_bool :: "bool \<Rightarrow> string" where
  "show_bool True = ''true''"
| "show_bool False = ''false''"

text \<open>
  A concrete choice of the functions, for the examples: no Unicode casing, a regular expression
  that matches by substring, decimal floats not parsed, and networks given as one address.
\<close>

definition plain_libs :: libs where
  "plain_libs =
     \<lparr>uni_lower = id, uni_upper = id, rx_error = (\<lambda>_. None), rx_match = (\<lambda>p s. has_sub p s),
      json_print = (\<lambda>v. case v of JStr s \<Rightarrow> s | _ \<Rightarrow> ''{}''), parse_f64 = (\<lambda>_. None),
      num_f64 = (\<lambda>_. 0), show_f64 = (\<lambda>_. ''0''), show_num_f64 = (\<lambda>_. ''0.0''),
      net_parse = (\<lambda>_. None), net_of_ip = show_ip,
      net_has = (\<lambda>n a. parse_ip n = Some a),
      ceil_secs = (\<lambda>n. (n + nanos_per_sec - 1) div nanos_per_sec),
      debug_list = (\<lambda>xs. ''['' @ join '', '' xs @ '']''),
      b64_encode = id, b64_decode = Some\<rparr>"

end
