(* ===== verification/Utf8.thy ===== *)
theory Utf8
  imports Rust_Str
begin

text \<open>
  UTF-8 validation as \<open>std::str::from_utf8\<close> does it: \<open>utf8_step\<close> classifies what stands at
  the head of a byte sequence (a whole character, an invalid sequence with its \<open>error_len\<close>, or
  a character cut off by the end of the input), and the scan reports \<open>valid_up_to\<close> together
  with the error. \<open>utf8_lossy\<close> is \<open>String::from_utf8_lossy\<close>.
\<close>

datatype utf8_item = Whole nat | Bad nat | Cut

definition in_range :: "nat \<Rightarrow> nat \<Rightarrow> nat \<Rightarrow> bool" where
  "in_range lo hi b \<longleftrightarrow> lo \<le> b \<and> b \<le> hi"

definition is_cont :: "nat \<Rightarrow> bool" where
  "is_cont b \<longleftrightarrow> in_range 128 191 b"

text \<open>The bytes that may follow the first byte of a three or four byte character.\<close>

definition second_ok :: "nat \<Rightarrow> nat \<Rightarrow> bool" where
  "second_ok a b =
     (if a = 224 then in_range 160 191 b
      else if a = 237 then in_range 128 159 b
      else if a = 240 then in_range 144 191 b
      else if a = 244 then in_range 128 143 b
      else is_cont b)"

definition utf8_width :: "nat \<Rightarrow> nat" where
  "utf8_width a =
     (if a < 128 then 1
      else if in_range 194 223 a then 2
      else if in_range 224 239 a then 3
      else if in_range 240 244 a then 4
      else 0)"

definition utf8_head :: "nat list \<Rightarrow> utf8_item" where
  "utf8_head bs =
     (case bs of
        [] \<Rightarrow> Cut
      | a # r \<Rightarrow>
          (if utf8_width a = 0 then Bad 1
           else if utf8_width a = 1 then Whole 1
           else (case r of
             [] \<Rightarrow> Cut
           | b # r2 \<Rightarrow>
               (if \<not> second_ok a b then Bad 1
                else if utf8_width a = 2 then Whole 2
                else (case r2 of
                  [] \<Rightarrow> Cut
                | c # r3 \<Rightarrow>
                    (if \<not> is_cont c then Bad 2
                     else if utf8_width a = 3 then Whole 3
                     else (case r3 of
                       [] \<Rightarrow> Cut
                     | d # _ \<Rightarrow> (if \<not> is_cont d then Bad 3 else Whole 4))))))))"

definition utf8_step :: "string \<Rightarrow> utf8_item" where
  "utf8_step s = utf8_head (map of_char s)"

lemma utf8_step_Whole: "utf8_step s = Whole n \<Longrightarrow> 0 < n \<and> n \<le> length s"
  by (auto simp: utf8_step_def utf8_head_def split: list.splits if_splits)

lemma utf8_step_Bad: "utf8_step s = Bad n \<Longrightarrow> 0 < n \<and> n \<le> length s"
  by (auto simp: utf8_step_def utf8_head_def split: list.splits if_splits)

text \<open>What follows a whole character does not change how it is read.\<close>

lemma utf8_step_Whole_append: "utf8_step s = Whole n \<Longrightarrow> utf8_step (s @ t) = Whole n"
  by (auto simp: utf8_step_def utf8_head_def split: list.splits if_splits)

lemma utf8_head_Whole_take: "utf8_head bs = Whole n \<Longrightarrow> utf8_head (take n bs) = Whole n"
proof (cases bs)
  case (Cons a r)
  assume w: "utf8_head bs = Whole n"
  show ?thesis
  proof (cases r)
    case Nil
    with w Cons show ?thesis by (auto simp: utf8_head_def take_Cons' split: if_splits)
  next
    case c2: (Cons b r2)
    show ?thesis
    proof (cases r2)
      case Nil
      with w Cons c2 show ?thesis by (auto simp: utf8_head_def take_Cons' split: if_splits)
    next
      case c3: (Cons c r3)
      with w Cons c2 show ?thesis
        by (cases r3) (auto simp: utf8_head_def take_Cons' split: if_splits)
    qed
  qed
qed (simp add: utf8_head_def)

lemma utf8_step_Whole_take: "utf8_step s = Whole n \<Longrightarrow> utf8_step (take n s) = Whole n"
  by (metis take_map utf8_head_Whole_take utf8_step_def)

text \<open>\<open>Err\<close>'s \<open>error_len()\<close>: \<open>Some n\<close> for an invalid sequence, \<open>None\<close> for an unexpected end.\<close>

datatype utf8_status = U_Ok | U_Err nat "nat option"

function utf8_scan :: "string \<Rightarrow> nat \<Rightarrow> utf8_status" where
  "utf8_scan s k =
     (if s = [] then U_Ok
      else (case utf8_step s of
              Whole n \<Rightarrow> utf8_scan (drop n s) (k + n)
            | Bad n \<Rightarrow> U_Err k (Some n)
            | Cut \<Rightarrow> U_Err k None))"
  by pat_completeness auto
termination
  by (relation "measure (\<lambda>(s, k). length s)") (auto dest: utf8_step_Whole)

declare utf8_scan.simps [simp del]

definition from_utf8 :: "string \<Rightarrow> utf8_status" where
  "from_utf8 s = utf8_scan s 0"

definition utf8_ok :: "string \<Rightarrow> bool" where
  "utf8_ok s \<longleftrightarrow> from_utf8 s = U_Ok"

function utf8_lossy :: "string \<Rightarrow> string" where
  "utf8_lossy s =
     (if s = [] then []
      else (case utf8_step s of
              Whole n \<Rightarrow> take n s @ utf8_lossy (drop n s)
            | Bad n \<Rightarrow> [CHR 0xEF, CHR 0xBF, CHR 0xBD] @ utf8_lossy (drop n s)
            | Cut \<Rightarrow> [CHR 0xEF, CHR 0xBF, CHR 0xBD]))"
  by pat_completeness auto
termination
  by (relation "measure length") (auto dest: utf8_step_Whole utf8_step_Bad)

declare utf8_lossy.simps [simp del]

lemma utf8_scan_ok_shift: "utf8_scan s k = U_Ok \<longleftrightarrow> utf8_scan s 0 = U_Ok"
proof (induction "length s" arbitrary: s k rule: less_induct)
  case less
  show ?case
  proof (cases "utf8_step s")
    case (Whole n)
    show ?thesis
    proof (cases "s = []")
      case False
      with Whole have "length (drop n s) < length s"
        using utf8_step_Whole by force
      from less(1) [OF this, of "k + n"] less(1) [OF this, of n] Whole False
      show ?thesis by (simp add: utf8_scan.simps [of s])
    qed (simp add: utf8_scan.simps)
  qed (auto simp: utf8_scan.simps [of s])
qed

lemma utf8_ok_Nil [simp]: "utf8_ok []"
  by (simp add: utf8_ok_def from_utf8_def utf8_scan.simps)

lemma utf8_ok_step:
  "utf8_step s = Whole n \<Longrightarrow> utf8_ok s \<longleftrightarrow> utf8_ok (drop n s)"
  using utf8_scan_ok_shift [of "drop n s" n] utf8_step_Whole [of s n]
  by (cases "s = []") (auto simp: utf8_ok_def from_utf8_def utf8_scan.simps [of s])

lemma utf8_ok_append_whole:
  "utf8_step s = Whole n \<Longrightarrow> utf8_ok t \<Longrightarrow> utf8_ok (take n s @ t)"
proof -
  assume w: "utf8_step s = Whole n" and t: "utf8_ok t"
  from w have "utf8_step (take n s @ t) = Whole n"
    by (rule utf8_step_Whole_append [OF utf8_step_Whole_take])
  moreover have "drop n (take n s @ t) = t"
    using utf8_step_Whole [OF w] by simp
  ultimately show ?thesis
    using t by (simp add: utf8_ok_step)
qed

text \<open>The prefix before the reported error is valid text.\<close>

lemma utf8_scan_prefix:
  "utf8_scan s k = U_Err v e \<Longrightarrow> k \<le> v \<and> v - k \<le> length s \<and> utf8_ok (take (v - k) s)"
proof (induction s k arbitrary: v rule: utf8_scan.induct)
  case (1 s k)
  show ?case
  proof (cases "s = []")
    case True
    with 1 show ?thesis by (simp add: utf8_scan.simps)
  next
    case ne: False
    show ?thesis
    proof (cases "utf8_step s")
      case (Whole n)
      with 1(1) [OF ne Whole, of v] 1(2) ne
      have a: "k + n \<le> v" "v - (k + n) \<le> length (drop n s)" "utf8_ok (take (v - (k + n)) (drop n s))"
        by (auto simp: utf8_scan.simps [of s])
      have n: "0 < n" "n \<le> length s" using utf8_step_Whole [OF Whole] by auto
      have "v - k = n + (v - (k + n))" using a by simp
      then have "take (v - k) s = take n s @ take (v - (k + n)) (drop n s)"
        by (metis take_add)
      with a n show ?thesis
        using utf8_ok_append_whole [OF Whole a(3)] by auto
    next
      case (Bad n)
      with 1 ne show ?thesis by (auto simp: utf8_scan.simps [of s])
    next
      case Cut
      with 1 ne show ?thesis by (auto simp: utf8_scan.simps [of s])
    qed
  qed
qed

lemma from_utf8_prefix:
  "from_utf8 s = U_Err v e \<Longrightarrow> v \<le> length s \<and> utf8_ok (take v s)"
  using utf8_scan_prefix [of s 0 v e] by (simp add: from_utf8_def)

lemma utf8_lossy_ok: "utf8_ok s \<Longrightarrow> utf8_lossy s = s"
proof (induction s rule: utf8_lossy.induct)
  case (1 s)
  show ?case
  proof (cases "s = []")
    case True
    then show ?thesis by (simp add: utf8_lossy.simps)
  next
    case ne: False
    show ?thesis
    proof (cases "utf8_step s")
      case (Whole n)
      with 1 ne show ?thesis
        by (simp add: utf8_lossy.simps [of s] utf8_ok_step)
    qed (use 1 ne in \<open>auto simp: utf8_ok_def from_utf8_def utf8_scan.simps [of s]\<close>)
  qed
qed

lemma utf8_step_ascii: "(of_char c :: nat) < 128 \<Longrightarrow> utf8_step (c # s) = Whole 1"
  by (simp add: utf8_step_def utf8_head_def utf8_width_def)

lemma utf8_ok_ascii: "is_ascii s \<Longrightarrow> utf8_ok s"
proof (induction s)
  case (Cons c s)
  then show ?case by (simp add: is_ascii_def utf8_ok_step [OF utf8_step_ascii])
qed simp

lemma utf8_ok_lossy: "utf8_ok (utf8_lossy s)"
proof (induction s rule: utf8_lossy.induct)
  case (1 s)
  have rep: "utf8_step ([CHR 0xEF, CHR 0xBF, CHR 0xBD] @ t) = Whole 3" for t
    by (simp add: utf8_step_def utf8_head_def utf8_width_def in_range_def second_ok_def is_cont_def)
  show ?case
  proof (cases "s = []")
    case True
    then show ?thesis by (simp add: utf8_lossy.simps)
  next
    case ne: False
    show ?thesis
    proof (cases "utf8_step s")
      case (Whole n)
      with 1(1) [OF ne Whole] ne show ?thesis
        by (simp add: utf8_lossy.simps [of s] utf8_ok_append_whole)
    next
      case (Bad n)
      with 1(2) [OF ne Bad] ne utf8_ok_step [OF rep] show ?thesis
        by (simp add: utf8_lossy.simps [of s])
    next
      case Cut
      with ne utf8_ok_step [OF rep, of "[]"] show ?thesis
        by (simp add: utf8_lossy.simps [of s])
    qed
  qed
qed

end
