(* ===== verification/Context.thy ===== *)
theory Context
  imports Json Utf8
begin

text \<open>
  The per-request \<open>Context\<close> (src/src/context/mod.rs): request, response, free-form message map
  and accumulated errors, with the constructor and the conversion from a parsed HTTP request.
  Bodies are byte strings.
\<close>

datatype protocol = Http1 | Http2 | WebSocket | Tcp | Udp

record gateway_request =
  rq_method :: string
  rq_path :: string
  rq_host :: string
  rq_scheme :: string
  rq_headers :: "string list hmap"
  rq_query_params :: "string list hmap"
  rq_body :: string
  rq_remote_addr :: string
  rq_protocol :: protocol

record gateway_response =
  rs_status_code :: nat
  rs_headers :: "string list hmap"
  rs_body :: string

record gateway_error =
  err_node_id :: string
  err_code :: string
  err_message :: string
  err_metadata :: "json hmap"

record gcontext =
  cx_request :: gateway_request
  cx_response :: gateway_response
  cx_message :: "json hmap"
  cx_errors :: "gateway_error list"

definition empty_response :: gateway_response where
  "empty_response = \<lparr>rs_status_code = 0, rs_headers = [], rs_body = []\<rparr>"

definition new_context :: "gateway_request \<Rightarrow> gcontext" where
  "new_context req =
     \<lparr>cx_request = req, cx_response = empty_response, cx_message = [], cx_errors = []\<rparr>"

section \<open>From a parsed HTTP request\<close>

text \<open>
  The parts of a hyper request: a header value is \<open>None\<close> when \<open>to_str()\<close> fails on it (it is
  not visible ASCII).
\<close>

record http_parts =
  hp_method :: string
  hp_path :: string
  hp_query :: "string option"
  hp_scheme :: "string option"
  hp_headers :: "(string \<times> string option) list"
  hp_http2 :: bool

definition collect_headers :: "(string \<times> string option) list \<Rightarrow> string list hmap" where
  "collect_headers hs = fold (\<lambda>h m. hm_push (fst h) (unwrap_or [] (snd h)) m) hs []"

definition split_pair :: "string \<Rightarrow> string \<times> string" where
  "split_pair p = (case split_once CHR ''='' p of None \<Rightarrow> (p, []) | Some kv \<Rightarrow> kv)"

definition parse_query :: "string \<Rightarrow> string list hmap" where
  "parse_query q =
     fold (\<lambda>p m. hm_push (fst (split_pair p)) (snd (split_pair p)) m) (split_on CHR ''&'' q) []"

definition host_header :: "http_parts \<Rightarrow> string" where
  "host_header p = unwrap_or [] (unwrap_or None (hm_get (hp_headers p) ''host''))"

definition from_hyper :: "http_parts \<Rightarrow> string \<Rightarrow> string \<Rightarrow> gateway_request" where
  "from_hyper p body remote =
     \<lparr>rq_method = hp_method p,
      rq_path = hp_path p,
      rq_host = host_header p,
      rq_scheme = unwrap_or ''http'' (hp_scheme p),
      rq_headers = collect_headers (hp_headers p),
      rq_query_params = (case hp_query p of None \<Rightarrow> [] | Some q \<Rightarrow> parse_query q),
      rq_body = body,
      rq_remote_addr = remote,
      rq_protocol = (if hp_http2 p then Http2 else Http1)\<rparr>"

lemma fold_push_get:
  "hm_get (fold (\<lambda>x m. hm_push (f x) (g x) m) xs m) k =
     (if hm_get m k = None \<and> filter (\<lambda>x. f x = k) xs = [] then None
      else Some (hm_entry m k [] @ map g (filter (\<lambda>x. f x = k) xs)))"
  by (induction xs arbitrary: m) (auto simp: hm_entry_def split: option.splits)

lemma fold_push_ok: "hm_ok m \<Longrightarrow> hm_ok (fold (\<lambda>x m. hm_push (f x) (g x) m) xs m)"
  by (induction xs arbitrary: m) auto

lemma collect_headers_get:
  "hm_get (collect_headers hs) n =
     (if n \<in> set (map fst hs) then Some (map (\<lambda>h. unwrap_or [] (snd h)) (filter (\<lambda>h. fst h = n) hs))
      else None)"
  by (auto simp: collect_headers_def fold_push_get hm_entry_def filter_empty_conv)

lemma parse_query_get:
  "hm_get (parse_query q) k =
     (let vs = map (\<lambda>p. snd (split_pair p)) (filter (\<lambda>p. fst (split_pair p) = k) (split_on CHR ''&'' q))
      in if vs = [] then None else Some vs)"
  by (auto simp: parse_query_def fold_push_get hm_entry_def Let_def)

lemma from_hyper_maps_ok:
  "hm_ok (rq_headers (from_hyper p b r))" "hm_ok (rq_query_params (from_hyper p b r))"
  by (auto simp: from_hyper_def collect_headers_def parse_query_def fold_push_ok split: option.splits)

section \<open>Updates plugins share\<close>

definition set_status :: "nat \<Rightarrow> gcontext \<Rightarrow> gcontext" where
  "set_status s c = c\<lparr>cx_response := (cx_response c)\<lparr>rs_status_code := s\<rparr>\<rparr>"

definition set_body :: "string \<Rightarrow> gcontext \<Rightarrow> gcontext" where
  "set_body b c = c\<lparr>cx_response := (cx_response c)\<lparr>rs_body := b\<rparr>\<rparr>"

definition set_rs_header :: "string \<Rightarrow> string list \<Rightarrow> gcontext \<Rightarrow> gcontext" where
  "set_rs_header k v c =
     c\<lparr>cx_response := (cx_response c)\<lparr>rs_headers := hm_insert k v (rs_headers (cx_response c))\<rparr>\<rparr>"

definition set_rq_header :: "string \<Rightarrow> string list \<Rightarrow> gcontext \<Rightarrow> gcontext" where
  "set_rq_header k v c =
     c\<lparr>cx_request := (cx_request c)\<lparr>rq_headers := hm_insert k v (rq_headers (cx_request c))\<rparr>\<rparr>"

definition set_message :: "string \<Rightarrow> json \<Rightarrow> gcontext \<Rightarrow> gcontext" where
  "set_message k v c = c\<lparr>cx_message := hm_insert k v (cx_message c)\<rparr>"

definition json_content :: "gcontext \<Rightarrow> gcontext" where
  "json_content c = set_rs_header ''content-type'' [''application/json''] c"

definition first_header :: "gcontext \<Rightarrow> string \<Rightarrow> string option" where
  "first_header c k =
     (case hm_get (rq_headers (cx_request c)) k of Some (v # _) \<Rightarrow> Some v | _ \<Rightarrow> None)"

definition msg_str :: "gcontext \<Rightarrow> string \<Rightarrow> string option" where
  "msg_str c k = Option.bind (hm_get (cx_message c) k) as_str"

lemma ctx_update_simps [simp, ctx_simps]:
  "cx_request (set_status s c) = cx_request c" "cx_message (set_status s c) = cx_message c"
  "cx_errors (set_status s c) = cx_errors c" "cx_request (set_body b c) = cx_request c"
  "cx_message (set_body b c) = cx_message c" "cx_errors (set_body b c) = cx_errors c"
  "cx_request (set_rs_header k v c) = cx_request c"
  "cx_message (set_rs_header k v c) = cx_message c" "cx_errors (set_rs_header k v c) = cx_errors c"
  "cx_request (json_content c) = cx_request c" "cx_message (json_content c) = cx_message c"
  "cx_errors (json_content c) = cx_errors c"
  "cx_response (set_rq_header k v c) = cx_response c"
  "cx_message (set_rq_header k v c) = cx_message c" "cx_errors (set_rq_header k v c) = cx_errors c"
  "cx_request (set_message k j c) = cx_request c" "cx_response (set_message k j c) = cx_response c"
  "cx_errors (set_message k j c) = cx_errors c"
  by (simp_all add: set_status_def set_body_def set_rs_header_def json_content_def
      set_rq_header_def set_message_def)

lemma ctx_response_simps [simp, ctx_simps]:
  "rs_status_code (cx_response (set_status s c)) = s"
  "rs_body (cx_response (set_status s c)) = rs_body (cx_response c)"
  "rs_headers (cx_response (set_status s c)) = rs_headers (cx_response c)"
  "rs_status_code (cx_response (set_body b c)) = rs_status_code (cx_response c)"
  "rs_body (cx_response (set_body b c)) = b"
  "rs_headers (cx_response (set_body b c)) = rs_headers (cx_response c)"
  "rs_status_code (cx_response (set_rs_header k v c)) = rs_status_code (cx_response c)"
  "rs_body (cx_response (set_rs_header k v c)) = rs_body (cx_response c)"
  "rs_headers (cx_response (set_rs_header k v c)) = hm_insert k v (rs_headers (cx_response c))"
  "rs_status_code (cx_response (json_content c)) = rs_status_code (cx_response c)"
  "rs_body (cx_response (json_content c)) = rs_body (cx_response c)"
  "rs_headers (cx_response (json_content c)) =
     hm_insert ''content-type'' [''application/json''] (rs_headers (cx_response c))"
  "cx_message (set_message k j c) = hm_insert k j (cx_message c)"
  "rq_headers (cx_request (set_rq_header k v c)) = hm_insert k v (rq_headers (cx_request c))"
  by (simp_all add: set_status_def set_body_def set_rs_header_def json_content_def
      set_rq_header_def set_message_def)

end
