(* ===== verification/Vars.thy ===== *)
theory Vars
  imports Context
begin

text \<open>
  Variable resolution, template interpolation and condition expressions
  (src/src/vars/mod.rs): \<open>resolve\<close>, \<open>interpolate\<close>, the parser of the triple-array form and its
  evaluation.
\<close>

section \<open>Helpers of \<open>resolve\<close>\<close>

fun protocol_name :: "protocol \<Rightarrow> string" where
  "protocol_name Http1 = ''http1''"
| "protocol_name Http2 = ''http2''"
| "protocol_name WebSocket = ''websocket''"
| "protocol_name Tcp = ''tcp''"
| "protocol_name Udp = ''udp''"

definition bare_addr :: "string \<Rightarrow> string \<times> string option" where
  "bare_addr addr =
     (case rsplit_once CHR '':'' addr of
        Some (ip, port) \<Rightarrow> if has_char CHR '':'' ip then (addr, None) else (ip, Some port)
      | None \<Rightarrow> (addr, None))"

definition split_remote_addr :: "string \<Rightarrow> string \<times> string option" where
  "split_remote_addr addr =
     (case strip_prefix addr ''['' of
        None \<Rightarrow> bare_addr addr
      | Some stripped \<Rightarrow>
          (case split_once CHR '']'' stripped of
             None \<Rightarrow> bare_addr addr
           | Some (ip, rest) \<Rightarrow> (ip, strip_prefix rest '':'')))"

definition query_pairs :: "string list hmap \<Rightarrow> string list" where
  "query_pairs q = concat (map (\<lambda>(k, vs). map (\<lambda>v. k @ ''='' @ v) vs) q)"

definition query_string :: "gcontext \<Rightarrow> string" where
  "query_string c = join ''&'' (sort (query_pairs (rq_query_params (cx_request c))))"

text \<open>The loops return from the whole function at a pair without \<open>=\<close> (the \<open>?\<close> operator).\<close>

fun cookie_scan :: "string \<Rightarrow> string list \<Rightarrow> string option" where
  "cookie_scan name [] = None"
| "cookie_scan name (p # ps) =
     (case split_once CHR ''='' (trim p) of
        None \<Rightarrow> None
      | Some (k, v) \<Rightarrow> if k = name then Some v else cookie_scan name ps)"

definition cookie_value :: "gcontext \<Rightarrow> string \<Rightarrow> string option" where
  "cookie_value c name =
     (case first_header c ''cookie'' of
        None \<Rightarrow> None
      | Some h \<Rightarrow> cookie_scan name (split_on CHR '';'' h))"

definition hex_val :: "char \<Rightarrow> nat option" where
  "hex_val c = hex_digit c"

fun urldecode_bytes :: "string \<Rightarrow> string" where
  "urldecode_bytes [] = []"
| "urldecode_bytes (c # cs) =
     (if c = CHR ''+'' then CHR '' '' # urldecode_bytes cs
      else if c = CHR ''%'' then
        (case cs of
           h # l # r \<Rightarrow>
             (case (hex_val h, hex_val l) of
                (Some a, Some b) \<Rightarrow> char_of (a * 16 + b) # urldecode_bytes r
              | _ \<Rightarrow> c # urldecode_bytes cs)
         | _ \<Rightarrow> c # urldecode_bytes cs)
      else c # urldecode_bytes cs)"

definition urldecode :: "string \<Rightarrow> string" where
  "urldecode s = utf8_lossy (urldecode_bytes s)"

fun form_scan :: "string \<Rightarrow> string list \<Rightarrow> string option" where
  "form_scan field [] = None"
| "form_scan field (p # ps) =
     (case split_once CHR ''='' p of
        None \<Rightarrow> None
      | Some (k, v) \<Rightarrow> if k = field then Some (urldecode v) else form_scan field ps)"

definition post_arg :: "gcontext \<Rightarrow> string \<Rightarrow> string option" where
  "post_arg c field =
     (case first_header c ''content-type'' of
        None \<Rightarrow> None
      | Some ct \<Rightarrow>
          if \<not> starts_with ct ''application/x-www-form-urlencoded'' then None
          else if \<not> utf8_ok (rq_body (cx_request c)) then None
          else form_scan field (split_on CHR ''&'' (rq_body (cx_request c))))"

definition message_str :: "libs \<Rightarrow> gcontext \<Rightarrow> string \<Rightarrow> string option" where
  "message_str L c key =
     (case hm_get (cx_message c) key of
        None \<Rightarrow> None
      | Some (JStr s) \<Rightarrow> Some s
      | Some v \<Rightarrow> Some (json_print L v))"

section \<open>\<open>resolve\<close>\<close>

definition resolve_prefixed :: "libs \<Rightarrow> gcontext \<Rightarrow> string \<Rightarrow> string option" where
  "resolve_prefixed L c name =
     (case strip_prefix name ''arg_'' of
        Some arg \<Rightarrow>
          (case hm_get (rq_query_params (cx_request c)) arg of Some (v # _) \<Rightarrow> Some v | _ \<Rightarrow> None)
      | None \<Rightarrow>
     (case strip_prefix name ''http_'' of
        Some h \<Rightarrow> first_header c (to_lowercase L (replace_char CHR ''_'' CHR ''-'' h))
      | None \<Rightarrow>
     (case strip_prefix name ''cookie_'' of
        Some ck \<Rightarrow> cookie_value c ck
      | None \<Rightarrow>
     (case strip_prefix name ''post_arg_'' of
        Some f \<Rightarrow> post_arg c f
      | None \<Rightarrow>
     (case strip_prefix name ''msg_'' of
        Some k \<Rightarrow> message_str L c k
      | None \<Rightarrow> None)))))"

definition resolve :: "libs \<Rightarrow> gcontext \<Rightarrow> string \<Rightarrow> string option" where
  "resolve L c name =
     (let req = cx_request c in
      if name = ''uri'' then Some (rq_path req)
      else if name = ''request_uri'' then
        (if query_string c = [] then Some (rq_path req)
         else Some (rq_path req @ ''?'' @ query_string c))
      else if name = ''method'' \<or> name = ''request_method'' then Some (rq_method req)
      else if name = ''host'' then Some (rq_host req)
      else if name = ''scheme'' then Some (rq_scheme req)
      else if name = ''protocol'' then Some (protocol_name (rq_protocol req))
      else if name = ''remote_addr'' then Some (fst (split_remote_addr (rq_remote_addr req)))
      else if name = ''remote_port'' then snd (split_remote_addr (rq_remote_addr req))
      else if name = ''query_string'' then
        (if query_string c = [] then None else Some (query_string c))
      else if name = ''status'' then Some (show_nat (rs_status_code (cx_response c)))
      else if name = ''resp_body'' then Some (utf8_lossy (rs_body (cx_response c)))
      else if name = ''consumer_name'' then message_str L c ''consumer.name''
      else if name = ''consumer_group_id'' then message_str L c ''consumer.group''
      else resolve_prefixed L c name)"

section \<open>\<open>interpolate\<close>\<close>

definition is_name_char :: "char \<Rightarrow> bool" where
  "is_name_char ch \<longleftrightarrow> is_alnum ch \<or> ch = CHR ''_''"

text \<open>One variable reference at a \<open>$\<close>: what is printed and what is left of the template.\<close>

definition interp_ref :: "(string \<Rightarrow> string option) \<Rightarrow> string \<Rightarrow> string \<times> string" where
  "interp_ref r rest =
     (case rest of
        CHR ''{'' # body \<Rightarrow>
          (case split_once CHR ''}'' body of
             Some (name, after) \<Rightarrow> (unwrap_or [] (r name), after)
           | None \<Rightarrow> (''$'', rest))
      | _ \<Rightarrow>
          (let name = takeWhile is_name_char rest in
           if name = [] then (''$'', rest)
           else (unwrap_or [] (r name), drop (length name) rest)))"

lemma interp_ref_shrinks: "interp_ref r rest = (out, rest') \<Longrightarrow> length rest' \<le> length rest"
  by (auto simp: interp_ref_def Let_def split_once_Some
      split: list.splits if_splits option.splits char.splits bool.splits)

function interp :: "(string \<Rightarrow> string option) \<Rightarrow> string \<Rightarrow> string" where
  "interp r s =
     (if s = [] then []
      else if hd s \<noteq> CHR ''$'' then
        takeWhile (\<lambda>x. x \<noteq> CHR ''$'') s @ interp r (dropWhile (\<lambda>x. x \<noteq> CHR ''$'') s)
      else fst (interp_ref r (tl s)) @ interp r (snd (interp_ref r (tl s))))"
  by pat_completeness auto
termination
proof (relation "measure (\<lambda>(r, s). length s)", simp_all, goal_cases)
  case (1 s)
  then show ?case
    by (cases s) (auto simp: length_dropWhile_le less_Suc_eq_le)
next
  case (2 r s)
  then show ?case
    using interp_ref_shrinks [of r "tl s" "fst (interp_ref r (tl s))" "snd (interp_ref r (tl s))"]
    by (cases s) auto
qed

declare interp.simps [simp del]

definition interpolate :: "libs \<Rightarrow> gcontext \<Rightarrow> string \<Rightarrow> string" where
  "interpolate L c template = interp (resolve L c) template"

lemma interp_Nil [simp]: "interp r [] = []"
  by (simp add: interp.simps)

lemma interp_literal_step: "ch \<noteq> CHR ''$'' \<Longrightarrow> interp r (ch # s) = ch # interp r s"
proof (cases "s = [] \<or> hd s = CHR ''$''")
  case True
  assume "ch \<noteq> CHR ''$''"
  moreover have "takeWhile (\<lambda>x. x \<noteq> CHR ''$'') s = []" "dropWhile (\<lambda>x. x \<noteq> CHR ''$'') s = s"
    using True by (cases s; simp)+
  ultimately show ?thesis by (simp add: interp.simps [of r "ch # s"])
next
  case False
  assume "ch \<noteq> CHR ''$''"
  with False show ?thesis
    by (simp add: interp.simps [of r "ch # s"] interp.simps [of r s])
qed

lemma interp_literal: "CHR ''$'' \<notin> set a \<Longrightarrow> interp r (a @ s) = a @ interp r s"
  by (induction a) (auto simp: interp_literal_step)

lemma interp_braced:
  "CHR ''}'' \<notin> set name \<Longrightarrow>
   interp r (''${'' @ name @ ''}'' @ s) = unwrap_or [] (r name) @ interp r s"
proof -
  assume "CHR ''}'' \<notin> set name"
  then have "split_once CHR ''}'' (name @ CHR ''}'' # s) = Some (name, s)"
    by (simp add: split_once_Some)
  then show ?thesis
    by (subst interp.simps) (simp add: interp_ref_def)
qed

section \<open>Condition expressions\<close>

datatype op =
    Eq string | Ne string | Gt f64 | Ge f64 | Lt f64 | Le f64
  | Regex string | In "string list" | Has string | IpMatch "string list"

datatype node = And "node list" | Or "node list" | Rule string bool op

definition eval_op :: "libs \<Rightarrow> op \<Rightarrow> string option \<Rightarrow> bool" where
  "eval_op L oper value =
     (let v = unwrap_or [] value in
      case oper of
        Eq e \<Rightarrow> v = e
      | Ne e \<Rightarrow> v \<noteq> e
      | Gt n \<Rightarrow> (case parse_f64 L v of None \<Rightarrow> False | Some x \<Rightarrow> f64_lt n x)
      | Ge n \<Rightarrow> (case parse_f64 L v of None \<Rightarrow> False | Some x \<Rightarrow> f64_le n x)
      | Lt n \<Rightarrow> (case parse_f64 L v of None \<Rightarrow> False | Some x \<Rightarrow> f64_lt x n)
      | Le n \<Rightarrow> (case parse_f64 L v of None \<Rightarrow> False | Some x \<Rightarrow> f64_le x n)
      | Regex re \<Rightarrow> rx_match L re v
      | In xs \<Rightarrow> list_ex (\<lambda>item. item = v) xs
      | Has needle \<Rightarrow> list_ex (\<lambda>part. part = needle) (map trim (split_on CHR '','' v))
      | IpMatch nets \<Rightarrow>
          (case Option.bind value parse_ip of
             None \<Rightarrow> False
           | Some ip \<Rightarrow> list_ex (\<lambda>net. net_has L net ip) nets))"

fun eval_node :: "libs \<Rightarrow> node \<Rightarrow> gcontext \<Rightarrow> bool" where
  "eval_node L (And children) c = list_all (\<lambda>n. eval_node L n c) children"
| "eval_node L (Or children) c = list_ex (\<lambda>n. eval_node L n c) children"
| "eval_node L (Rule var negate oper) c =
     (let result = eval_op L oper (resolve L c var) in if negate then \<not> result else result)"

subsection \<open>Parsing\<close>

definition rule_scalar :: "libs \<Rightarrow> string \<Rightarrow> json \<Rightarrow> string + string" where
  "rule_scalar L var v =
     (case v of
        JStr s \<Rightarrow> Inr s
      | JNum n \<Rightarrow> Inr (show_num L n)
      | JBool b \<Rightarrow> Inr (show_bool b)
      | _ \<Rightarrow> Inl (''rule for '' @ sq var @ '' needs a scalar value''))"

definition rule_number :: "libs \<Rightarrow> string \<Rightarrow> string \<Rightarrow> json \<Rightarrow> string + f64" where
  "rule_number L var op_str v =
     (case v of
        JNum n \<Rightarrow> Inr (num_f64 L n)
      | JStr s \<Rightarrow> ok_or (parse_f64 L s) (''rule for '' @ sq var @ '' ('' @ op_str @ '') needs a numeric value'')
      | _ \<Rightarrow> Inl (''rule for '' @ sq var @ '' ('' @ op_str @ '') needs a numeric value''))"

definition rule_strings :: "libs \<Rightarrow> string \<Rightarrow> string \<Rightarrow> json \<Rightarrow> string + string list" where
  "rule_strings L var op_str v =
     (case v of
        JArr items \<Rightarrow>
          traverse (\<lambda>item. case item of
              JStr s \<Rightarrow> Inr s
            | JNum n \<Rightarrow> Inr (show_f64 L (num_f64 L n))
            | _ \<Rightarrow> Inl (''rule for '' @ sq var @ '': array items must be scalars'')) items
      | _ \<Rightarrow> Inl (''rule for '' @ sq var @ '' ('' @ op_str @ '') needs an array value''))"

definition compile_regex :: "libs \<Rightarrow> string \<Rightarrow> string \<Rightarrow> string + string" where
  "compile_regex L var p =
     (case rx_error L p of
        None \<Rightarrow> Inr p
      | Some e \<Rightarrow> Inl (''invalid regex for '' @ sq var @ '': '' @ e))"

definition parse_net :: "libs \<Rightarrow> string \<Rightarrow> string \<Rightarrow> string + string" where
  "parse_net L var s =
     (case net_parse L s of
        Some n \<Rightarrow> Inr n
      | None \<Rightarrow>
          (case parse_ip s of
             Some ip \<Rightarrow> Inr (net_of_ip L ip)
           | None \<Rightarrow> Inl (''invalid IP/CIDR '' @ sq s @ '' for '' @ sq var)))"

definition parse_op :: "libs \<Rightarrow> string \<Rightarrow> string \<Rightarrow> json \<Rightarrow> string + op" where
  "parse_op L var op_str v =
     (if op_str = ''=='' then res_bind (rule_scalar L var v) (\<lambda>s. Inr (Eq s))
      else if op_str = ''~='' \<or> op_str = ''!='' then res_bind (rule_scalar L var v) (\<lambda>s. Inr (Ne s))
      else if op_str = ''>'' then res_bind (rule_number L var op_str v) (\<lambda>n. Inr (Gt n))
      else if op_str = ''>='' then res_bind (rule_number L var op_str v) (\<lambda>n. Inr (Ge n))
      else if op_str = ''<'' then res_bind (rule_number L var op_str v) (\<lambda>n. Inr (Lt n))
      else if op_str = ''<='' then res_bind (rule_number L var op_str v) (\<lambda>n. Inr (Le n))
      else if op_str = ''~~'' then
        res_bind (rule_scalar L var v) (\<lambda>s. res_bind (compile_regex L var s) (\<lambda>r. Inr (Regex r)))
      else if op_str = ''~*'' then
        res_bind (rule_scalar L var v)
          (\<lambda>s. res_bind (compile_regex L var (''(?i)'' @ s)) (\<lambda>r. Inr (Regex r)))
      else if op_str = ''in'' then res_bind (rule_strings L var op_str v) (\<lambda>xs. Inr (In xs))
      else if op_str = ''has'' then res_bind (rule_scalar L var v) (\<lambda>s. Inr (Has s))
      else if op_str = ''ipmatch'' then
        res_bind (rule_strings L var op_str v)
          (\<lambda>xs. res_bind (traverse (parse_net L var) xs) (\<lambda>nets. Inr (IpMatch nets)))
      else Inl (''unknown operator '' @ sq op_str @ '' '' @ em_dash @
        '' supported: ==, ~=, >, >=, <, <=, ~~, ~*, in, has, ipmatch''))"

text \<open>A rule \<open>[var, op, value]\<close> or \<open>[var, "!", op, value]\<close>.\<close>

definition parse_rule :: "libs \<Rightarrow> json list \<Rightarrow> string + node" where
  "parse_rule L arr =
     (case as_str (arr ! 0) of
        None \<Rightarrow> Inl ''rule variable must be a string''
      | Some var \<Rightarrow>
          (let negate = (1 < length arr \<and> as_str (arr ! 1) = Some ''!'');
               op_idx = (if negate then 2 else 1)
           in case (if op_idx < length arr then as_str (arr ! op_idx) else None) of
                None \<Rightarrow> Inl (''rule for '' @ sq var @ '' is missing an operator'')
              | Some op_str \<Rightarrow>
                  (if op_idx + 1 < length arr then
                     res_bind (parse_op L var op_str (arr ! (op_idx + 1)))
                       (\<lambda>oper. Inr (Rule var negate oper))
                   else Inl (''rule for '' @ sq var @ '' is missing a value''))))"

definition is_word_ci :: "string \<Rightarrow> json \<Rightarrow> bool" where
  "is_word_ci w v = (case as_str v of None \<Rightarrow> False | Some s \<Rightarrow> eq_ignore_ascii_case s w)"

fun parse_node :: "libs \<Rightarrow> json \<Rightarrow> string + node"
and parse_nodes :: "libs \<Rightarrow> json list \<Rightarrow> string + node list" where
  "parse_node L (JArr []) = Inl ''empty rule''"
| "parse_node L (JArr (v # vs)) =
     (if is_word_ci ''and'' v then res_bind (parse_nodes L vs) (\<lambda>ns. Inr (And ns))
      else if is_word_ci ''or'' v then res_bind (parse_nodes L vs) (\<lambda>ns. Inr (Or ns))
      else parse_rule L (v # vs))"
| "parse_node L _ = Inl ''each rule must be an array''"
| "parse_nodes L [] = Inr []"
| "parse_nodes L (v # vs) =
     (case parse_node L v of Inl e \<Rightarrow> Inl e
      | Inr n \<Rightarrow> (case parse_nodes L vs of Inl e \<Rightarrow> Inl e | Inr ns \<Rightarrow> Inr (n # ns)))"

lemma parse_nodes_traverse: "parse_nodes L vs = traverse (parse_node L) vs"
  by (induction vs) (auto split: sum.splits)

definition parse_expr :: "libs \<Rightarrow> json \<Rightarrow> string + node" where
  "parse_expr L v =
     (case v of
        JArr rules \<Rightarrow> res_bind (parse_nodes L rules) (\<lambda>ns. Inr (And ns))
      | _ \<Rightarrow> Inl ''vars must be an array of rules'')"

definition eval_expr :: "libs \<Rightarrow> node \<Rightarrow> gcontext \<Rightarrow> bool" where
  "eval_expr L e c = eval_node L e c"

end
