(* ===== verification/Debug_Trace.thy ===== *)
theory Debug_Trace
  imports Vars
begin

text \<open>
  Trace capture (src/src/debug/trace.rs and the recorder of src/src/debug/mod.rs): the redaction
  policy, the context snapshot, body capture and the per-request recorder. The lemmas show what
  a snapshot hides, what a captured body can contain, and how many steps a trace holds.
\<close>

section \<open>Redaction\<close>

definition redacted :: string where
  "redacted = ''<redacted>''"

definition default_redact_headers :: "string list" where
  "default_redact_headers =
     [''authorization'', ''proxy-authorization'', ''cookie'', ''set-cookie'', ''x-api-key'',
      ''api-key'', ''apikey'', ''x-auth-token'', ''x-access-token'', ''x-csrf-token'',
      ''x-amz-security-token'', ''x-forwarded-client-cert'']"

definition default_redact_query :: "string list" where
  "default_redact_query =
     [''access_token'', ''id_token'', ''refresh_token'', ''token'', ''api_key'', ''apikey'',
      ''code'', ''client_secret'', ''state'']"

definition default_redact_substrings :: "string list" where
  "default_redact_substrings =
     [''secret'', ''password'', ''passwd'', ''token'', ''credential'', ''private_key'',
      ''authorization'', ''jwt'']"

record redaction_policy =
  rp_headers :: "string list"
  rp_query_params :: "string list"
  rp_message_keys :: "string list"
  rp_message_substrings :: "string list"

definition new_redaction ::
  "libs \<Rightarrow> string list \<Rightarrow> string list \<Rightarrow> string list \<Rightarrow> redaction_policy" where
  "new_redaction L headers query keys =
     \<lparr>rp_headers = default_redact_headers @ map (to_lowercase L) headers,
      rp_query_params = default_redact_query @ map (to_lowercase L) query,
      rp_message_keys = map (to_lowercase L) keys,
      rp_message_substrings = default_redact_substrings\<rparr>"

definition header_is_secret :: "libs \<Rightarrow> redaction_policy \<Rightarrow> string \<Rightarrow> bool" where
  "header_is_secret L r name \<longleftrightarrow> to_lowercase L name \<in> set (rp_headers r)"

definition query_is_secret :: "libs \<Rightarrow> redaction_policy \<Rightarrow> string \<Rightarrow> bool" where
  "query_is_secret L r name \<longleftrightarrow> to_lowercase L name \<in> set (rp_query_params r)"

definition message_is_secret :: "libs \<Rightarrow> redaction_policy \<Rightarrow> string \<Rightarrow> bool" where
  "message_is_secret L r key \<longleftrightarrow>
     to_lowercase L key \<in> set (rp_message_keys r) \<or>
     list_ex (\<lambda>s. has_sub s (to_lowercase L key)) (rp_message_substrings r)"

section \<open>Snapshots\<close>

record body_capture =
  bc_len :: nat
  bc_text :: "string option"
  bc_truncated :: bool
  bc_unchanged :: bool
  bc_binary :: bool

definition plain_capture :: "nat \<Rightarrow> body_capture" where
  "plain_capture n =
     \<lparr>bc_len = n, bc_text = None, bc_truncated = False, bc_unchanged = False, bc_binary = False\<rparr>"

record request_snapshot =
  qs_method :: string
  qs_path :: string
  qs_host :: string
  qs_scheme :: string
  qs_headers :: "string list hmap"
  qs_query_params :: "string list hmap"
  qs_body :: body_capture

record response_snapshot =
  ps_status_code :: nat
  ps_headers :: "string list hmap"
  ps_body :: body_capture

record context_snapshot =
  cs_request :: request_snapshot
  cs_response :: response_snapshot
  cs_message :: "json hmap"
  cs_errors :: "gateway_error list"

record capture_options =
  co_capture_bodies :: bool
  co_max_body_bytes :: nat
  co_redaction :: redaction_policy

record previous_bodies =
  pb_request :: "string option"
  pb_response :: "string option"

definition redact_map :: "string list hmap \<Rightarrow> (string \<Rightarrow> bool) \<Rightarrow> string list hmap" where
  "redact_map src is_secret =
     btree (map (\<lambda>(k, vs). (k, if is_secret k then map (\<lambda>_. redacted) vs else vs)) src)"

definition redact_message :: "libs \<Rightarrow> redaction_policy \<Rightarrow> json hmap \<Rightarrow> json hmap" where
  "redact_message L r m =
     btree (map (\<lambda>(k, v). (k, if message_is_secret L r k then JStr redacted else v)) m)"

definition capture_body :: "string \<Rightarrow> string option \<Rightarrow> capture_options \<Rightarrow> body_capture" where
  "capture_body body prev opts =
     (let len = length body in
      if \<not> co_capture_bodies opts then plain_capture len
      else if prev = Some body then (plain_capture len)\<lparr>bc_unchanged := True\<rparr>
      else
        (let truncated = co_max_body_bytes opts < len;
             slice = (if truncated then take (co_max_body_bytes opts) body else body)
         in case from_utf8 slice of
              U_Ok \<Rightarrow> (plain_capture len)\<lparr>bc_text := Some slice, bc_truncated := truncated\<rparr>
            | U_Err v None \<Rightarrow>
                (plain_capture len)\<lparr>bc_text := Some (take v slice), bc_truncated := True\<rparr>
            | U_Err v (Some _) \<Rightarrow>
                (plain_capture len)\<lparr>bc_binary := True, bc_truncated := truncated\<rparr>))"

definition capture ::
  "libs \<Rightarrow> gcontext \<Rightarrow> capture_options \<Rightarrow> previous_bodies \<Rightarrow> context_snapshot" where
  "capture L c opts prev =
     (let req = cx_request c; rsp = cx_response c; r = co_redaction opts in
      \<lparr>cs_request =
         \<lparr>qs_method = rq_method req, qs_path = rq_path req, qs_host = rq_host req,
          qs_scheme = rq_scheme req,
          qs_headers = redact_map (rq_headers req) (header_is_secret L r),
          qs_query_params = redact_map (rq_query_params req) (query_is_secret L r),
          qs_body = capture_body (rq_body req) (pb_request prev) opts\<rparr>,
       cs_response =
         \<lparr>ps_status_code = rs_status_code rsp,
          ps_headers = redact_map (rs_headers rsp) (header_is_secret L r),
          ps_body = capture_body (rs_body rsp) (pb_response prev) opts\<rparr>,
       cs_message = redact_message L r (cx_message c),
       cs_errors = cx_errors c\<rparr>)"

section \<open>The recorder\<close>

datatype step_outcome = StepSuccess | StepError string string

datatype edge_kind =
    EdgeSuccess | EdgeError | EdgeCatchAll | EdgeTerminal | EdgeEndOfChain | EdgeUnhandled
  | EdgeNodeNotFound

record node_step =
  ns_index :: nat
  ns_node_id :: string
  ns_node_type :: string
  ns_outcome :: step_outcome
  ns_duration_us :: nat
  ns_edge :: edge_kind
  ns_next_node_id :: "string option"
  ns_after :: context_snapshot

record trace_recorder =
  tr_opts :: capture_options
  tr_max_steps :: nat
  tr_prev_bodies :: previous_bodies
  tr_initial :: context_snapshot
  tr_steps :: "node_step list"
  tr_notes :: "string list"
  tr_truncated :: bool

definition bodies_of :: "gcontext \<Rightarrow> previous_bodies" where
  "bodies_of c = \<lparr>pb_request = Some (rq_body (cx_request c)), pb_response = Some (rs_body (cx_response c))\<rparr>"

definition new_recorder :: "libs \<Rightarrow> gcontext \<Rightarrow> capture_options \<Rightarrow> nat \<Rightarrow> trace_recorder" where
  "new_recorder L c opts max_steps =
     \<lparr>tr_opts = opts, tr_max_steps = max_steps, tr_prev_bodies = bodies_of c,
      tr_initial = capture L c opts \<lparr>pb_request = None, pb_response = None\<rparr>,
      tr_steps = [], tr_notes = [], tr_truncated = False\<rparr>"

definition limit_note :: "nat \<Rightarrow> string" where
  "limit_note n = ''step limit of '' @ show_nat n @ '' reached; later nodes are not recorded''"

definition truncation_note :: string where
  "truncation_note = ''a captured body was truncated''"

definition record_step ::
  "libs \<Rightarrow> string \<Rightarrow> string \<Rightarrow> step_outcome \<Rightarrow> nat \<Rightarrow> edge_kind \<Rightarrow> string option \<Rightarrow> gcontext
     \<Rightarrow> trace_recorder \<Rightarrow> trace_recorder" where
  "record_step L node_id node_type outcome dur edge next c r =
     (if tr_max_steps r \<le> length (tr_steps r) then
        (if tr_truncated r then r
         else r\<lparr>tr_truncated := True, tr_notes := tr_notes r @ [limit_note (tr_max_steps r)]\<rparr>)
      else
        (let after = capture L c (tr_opts r) (tr_prev_bodies r);
             notes = (if (bc_truncated (qs_body (cs_request after)) \<or>
                          bc_truncated (ps_body (cs_response after))) \<and>
                         truncation_note \<notin> set (tr_notes r)
                      then tr_notes r @ [truncation_note] else tr_notes r)
         in r\<lparr>tr_prev_bodies := bodies_of c, tr_notes := notes,
              tr_steps := tr_steps r @
                [\<lparr>ns_index = length (tr_steps r), ns_node_id = node_id, ns_node_type = node_type,
                  ns_outcome = outcome, ns_duration_us = dur, ns_edge = edge,
                  ns_next_node_id = next, ns_after = after\<rparr>]\<rparr>))"

datatype trace_source = SrcRequest | SrcSandbox

record trace =
  tc_id :: string
  tc_seq :: nat
  tc_source :: trace_source
  tc_started_ms :: nat
  tc_route :: "string option"
  tc_policy :: string
  tc_method :: string
  tc_path :: string
  tc_status :: nat
  tc_duration_us :: nat
  tc_captured_bodies :: bool
  tc_initial :: context_snapshot
  tc_steps :: "node_step list"
  tc_notes :: "string list"

definition finish ::
  "trace_recorder \<Rightarrow> string \<Rightarrow> nat \<Rightarrow> trace_source \<Rightarrow> nat \<Rightarrow> string option \<Rightarrow> string \<Rightarrow> gcontext \<Rightarrow> nat
     \<Rightarrow> trace" where
  "finish r tid seq src started route policy c dur =
     \<lparr>tc_id = tid, tc_seq = seq, tc_source = src, tc_started_ms = started, tc_route = route,
      tc_policy = policy, tc_method = rq_method (cx_request c), tc_path = rq_path (cx_request c),
      tc_status = rs_status_code (cx_response c), tc_duration_us = dur,
      tc_captured_bodies = co_capture_bodies (tr_opts r), tc_initial = tr_initial r,
      tc_steps = tr_steps r, tc_notes = tr_notes r\<rparr>"

section \<open>What a snapshot shows\<close>

lemma redact_map_get:
  "hm_ok m \<Longrightarrow> hm_get (redact_map m p) k =
     map_option (\<lambda>vs. if p k then map (\<lambda>_. redacted) vs else vs) (hm_get m k)"
  by (simp add: redact_map_def hm_get_map_values)

text \<open>Changing the values under secret names leaves the redacted map as it was.\<close>

definition rewrite_secret :: "(string \<Rightarrow> bool) \<Rightarrow> (string \<Rightarrow> string) \<Rightarrow> string list hmap \<Rightarrow> string list hmap" where
  "rewrite_secret p g m = map (\<lambda>(k, vs). (k, if p k then map g vs else vs)) m"

lemma redact_rewrite_secret: "redact_map (rewrite_secret p g m) p = redact_map m p"
proof -
  have "map (\<lambda>(k, vs). (k, if p k then map (\<lambda>_. redacted) vs else vs)) (rewrite_secret p g m) =
      map (\<lambda>(k, vs). (k, if p k then map (\<lambda>_. redacted) vs else vs)) m"
    by (auto simp: rewrite_secret_def)
  then show ?thesis by (simp add: redact_map_def)
qed

definition rewrite_message :: "(string \<Rightarrow> bool) \<Rightarrow> (json \<Rightarrow> json) \<Rightarrow> json hmap \<Rightarrow> json hmap" where
  "rewrite_message p g m = map (\<lambda>(k, v). (k, if p k then g v else v)) m"

lemma redact_rewrite_message:
  "redact_message L r (rewrite_message (message_is_secret L r) g m) = redact_message L r m"
proof -
  have "map (\<lambda>(k, v). (k, if message_is_secret L r k then JStr redacted else v))
      (rewrite_message (message_is_secret L r) g m) =
      map (\<lambda>(k, v). (k, if message_is_secret L r k then JStr redacted else v)) m"
    by (auto simp: rewrite_message_def)
  then show ?thesis by (simp add: redact_message_def)
qed

lemma capture_body_text:
  assumes "bc_text (capture_body body prev opts) = Some t"
  shows "co_capture_bodies opts \<and> starts_with body t \<and> utf8_ok t \<and>
    (length t \<le> co_max_body_bytes opts \<or> t = body)"
proof -
  define slice where "slice = (if co_max_body_bytes opts < length body
      then take (co_max_body_bytes opts) body else body)"
  have s: "starts_with body slice" "length slice \<le> co_max_body_bytes opts"
    by (auto simp: slice_def starts_with_def min_def)
  from assms have "co_capture_bodies opts \<and>
     ((t = slice \<and> from_utf8 slice = U_Ok) \<or> (\<exists>v. from_utf8 slice = U_Err v None \<and> t = take v slice))"
    by (auto simp: capture_body_def plain_capture_def Let_def slice_def
        split: if_split_asm utf8_status.splits option.splits)
  then show ?thesis
    using s from_utf8_prefix [of slice] starts_with_take [OF s(1)]
    by (auto simp: utf8_ok_def)
qed

section \<open>What a recorder holds\<close>

definition recorder_ok :: "trace_recorder \<Rightarrow> bool" where
  "recorder_ok r \<longleftrightarrow> length (tr_steps r) \<le> tr_max_steps r \<and>
     map ns_index (tr_steps r) = [0..<length (tr_steps r)] \<and>
     (tr_truncated r \<longrightarrow> length (tr_steps r) = tr_max_steps r) \<and>
     count_list (tr_notes r) (limit_note (tr_max_steps r)) = (if tr_truncated r then 1 else 0)"

lemma record_step_frame [simp]:
  "tr_max_steps (record_step L i t out d e nx c r) = tr_max_steps r"
  "tr_opts (record_step L i t out d e nx c r) = tr_opts r"
  "tr_initial (record_step L i t out d e nx c r) = tr_initial r"
  by (simp_all add: record_step_def Let_def)

lemma record_step_length:
  "length (tr_steps (record_step L i t out d e nx c r)) =
     (if length (tr_steps r) < tr_max_steps r then Suc (length (tr_steps r)) else length (tr_steps r))"
  by (simp add: record_step_def Let_def)

lemma record_step_prefix:
  "\<exists>more. tr_steps (record_step L i t out d e nx c r) = tr_steps r @ more"
  by (simp add: record_step_def Let_def)

lemma limit_note_neq [simp]: "truncation_note \<noteq> limit_note n" "limit_note n \<noteq> truncation_note"
  by (simp_all add: truncation_note_def limit_note_def)

lemma new_recorder_ok: "recorder_ok (new_recorder L c opts n)"
  by (simp add: recorder_ok_def new_recorder_def)

lemma record_step_ok: "recorder_ok r \<Longrightarrow> recorder_ok (record_step L i t out d e nx c r)"
  by (auto simp: recorder_ok_def record_step_def Let_def)

section \<open>Properties\<close>

text \<open>A context in which every value under a secret name is changed by \<open>g\<close> (or \<open>h\<close> for JSON).\<close>

definition rewrite_secrets ::
  "libs \<Rightarrow> redaction_policy \<Rightarrow> (string \<Rightarrow> string) \<Rightarrow> (json \<Rightarrow> json) \<Rightarrow> gcontext \<Rightarrow> gcontext" where
  "rewrite_secrets L r g h c =
     c\<lparr>cx_request := (cx_request c)
         \<lparr>rq_headers := rewrite_secret (header_is_secret L r) g (rq_headers (cx_request c)),
          rq_query_params := rewrite_secret (query_is_secret L r) g (rq_query_params (cx_request c))\<rparr>,
       cx_response := (cx_response c)
         \<lparr>rs_headers := rewrite_secret (header_is_secret L r) g (rs_headers (cx_response c))\<rparr>,
       cx_message := rewrite_message (message_is_secret L r) h (cx_message c)\<rparr>"

text \<open>
  C12: A snapshot does not depend on secrets: changing the values of any headers, query
  parameters and message entries with secret names in a context leaves its snapshot the same.
\<close>

theorem snapshot_independent_of_secrets:
  "capture L (rewrite_secrets L (co_redaction opts) g h c) opts prev = capture L c opts prev"
  by (simp add: capture_def rewrite_secrets_def Let_def redact_rewrite_secret redact_rewrite_message)

text \<open>
  A body shown in a snapshot is valid UTF-8 text and a prefix of the real body, within the
  configured limit unless it is the whole body, and bodies are only shown when capture is on.
\<close>

theorem captured_text_is_bounded_prefix:
  assumes "bc_text (capture_body body prev opts) = Some t"
  shows "co_capture_bodies opts \<and> starts_with body t \<and> utf8_ok t \<and>
    (length t \<le> co_max_body_bytes opts \<or> t = body)"
  using assms by (rule capture_body_text)

theorem captured_text_is_bounded_prefix_witness:
  "starts_with ''hello world'' ''hello''"
  using captured_text_is_bounded_prefix [of "''hello world''" None
      "\<lparr>co_capture_bodies = True, co_max_body_bytes = 5, co_redaction = new_redaction plain_libs [] [] []\<rparr>"
      "''hello''"]
  by (simp add: capture_body_def plain_capture_def from_utf8_def) code_simp

end
