(* ===== verification/Debug_Diff.thy ===== *)
theory Debug_Diff
  imports Debug_Trace
begin

text \<open>
  The difference of two snapshots (src/src/debug/diff.rs). \<open>diff_Nil_iff\<close> says exactly which
  pairs of snapshots show no change.
\<close>

datatype change_kind = Added | Removed | Modified

record change =
  ch_path :: string
  ch_kind :: change_kind
  ch_before :: "string option"
  ch_after :: "string option"

definition change_added :: "string \<Rightarrow> string \<Rightarrow> change" where
  "change_added p a = \<lparr>ch_path = p, ch_kind = Added, ch_before = None, ch_after = Some a\<rparr>"

definition change_removed :: "string \<Rightarrow> string \<Rightarrow> change" where
  "change_removed p b = \<lparr>ch_path = p, ch_kind = Removed, ch_before = Some b, ch_after = None\<rparr>"

definition change_modified :: "string \<Rightarrow> string \<Rightarrow> string \<Rightarrow> change" where
  "change_modified p b a = \<lparr>ch_path = p, ch_kind = Modified, ch_before = Some b, ch_after = Some a\<rparr>"

definition scalar :: "string \<Rightarrow> string \<Rightarrow> string \<Rightarrow> change list" where
  "scalar p prev nxt = (if prev \<noteq> nxt then [change_modified p prev nxt] else [])"

text \<open>
  The two loops \<open>multi_map\<close> and the message part share: entries of the new map that are added
  or modified, then entries of the old map that are gone.
\<close>

definition map_changes ::
  "('v \<Rightarrow> string) \<Rightarrow> string \<Rightarrow> 'v hmap \<Rightarrow> 'v hmap \<Rightarrow> change list" where
  "map_changes render prefix prev nxt =
     concat (map (\<lambda>(k, v). case hm_get prev k of
         None \<Rightarrow> [change_added (prefix @ ''.'' @ k) (render v)]
       | Some old \<Rightarrow> if old \<noteq> v then [change_modified (prefix @ ''.'' @ k) (render old) (render v)] else [])
       nxt) @
     concat (map (\<lambda>(k, v). if hm_has nxt k then [] else [change_removed (prefix @ ''.'' @ k) (render v)])
       prev)"

definition multi_map :: "string \<Rightarrow> string list hmap \<Rightarrow> string list hmap \<Rightarrow> change list" where
  "multi_map prefix prev nxt = map_changes (join '', '') prefix prev nxt"

definition compact :: "libs \<Rightarrow> json \<Rightarrow> string" where
  "compact L v = (case v of JStr s \<Rightarrow> s | _ \<Rightarrow> json_print L v)"

definition body_change :: "string \<Rightarrow> body_capture \<Rightarrow> body_capture \<Rightarrow> change list" where
  "body_change p prev nxt =
     (if bc_len prev \<noteq> bc_len nxt then
        [change_modified p (show_nat (bc_len prev) @ '' bytes'') (show_nat (bc_len nxt) @ '' bytes'')]
      else [])"

definition error_changes :: "gateway_error list \<Rightarrow> gateway_error list \<Rightarrow> change list" where
  "error_changes prev nxt =
     (if length prev < length nxt then
        map (\<lambda>(i, e). change_added (''errors['' @ show_nat i @ '']'') (err_code e @ '': '' @ err_message e))
          (drop (length prev) (enumerate 0 nxt))
      else [])"

definition diff :: "libs \<Rightarrow> context_snapshot \<Rightarrow> context_snapshot \<Rightarrow> change list" where
  "diff L prev nxt =
     (let pq = cs_request prev; nq = cs_request nxt; pr = cs_response prev; nr = cs_response nxt in
      scalar ''request.method'' (qs_method pq) (qs_method nq) @
      scalar ''request.path'' (qs_path pq) (qs_path nq) @
      scalar ''request.host'' (qs_host pq) (qs_host nq) @
      scalar ''request.scheme'' (qs_scheme pq) (qs_scheme nq) @
      multi_map ''request.headers'' (qs_headers pq) (qs_headers nq) @
      multi_map ''request.query_params'' (qs_query_params pq) (qs_query_params nq) @
      body_change ''request.body'' (qs_body pq) (qs_body nq) @
      (if ps_status_code pr \<noteq> ps_status_code nr then
         [change_modified ''response.status_code'' (show_nat (ps_status_code pr)) (show_nat (ps_status_code nr))]
       else []) @
      multi_map ''response.headers'' (ps_headers pr) (ps_headers nr) @
      body_change ''response.body'' (ps_body pr) (ps_body nr) @
      map_changes (compact L) ''message'' (cs_message prev) (cs_message nxt) @
      error_changes (cs_errors prev) (cs_errors nxt))"

section \<open>Facts\<close>

lemma map_changes_Nil:
  assumes "hm_ok prev" "hm_ok nxt"
  shows "map_changes render p prev nxt = [] \<longleftrightarrow> hm_get prev = hm_get nxt"
proof
  assume e: "map_changes render p prev nxt = []"
  show "hm_get prev = hm_get nxt"
  proof
    fix k
    show "hm_get prev k = hm_get nxt k"
    proof (cases "hm_get nxt k")
      case None
      with e assms(1) show ?thesis
        by (cases "hm_get prev k") (auto simp: map_changes_def hm_has_def dest!: hm_get_mem split: if_splits)
    next
      case (Some v)
      then have "(k, v) \<in> set nxt" by (rule hm_get_mem)
      with e Some show ?thesis
        by (auto simp: map_changes_def split: option.splits if_splits)
    qed
  qed
next
  assume e: "hm_get prev = hm_get nxt"
  have "hm_get nxt k = Some v" if "(k, v) \<in> set nxt" for k v
    using that assms(2) hm_get_in by metis
  moreover have "hm_get prev k = Some v" if "(k, v) \<in> set prev" for k v
    using that assms(1) hm_get_in by metis
  ultimately show "map_changes render p prev nxt = []"
    using e by (auto simp: map_changes_def hm_has_def)
qed

lemma scalar_Nil [simp]: "scalar p a b = [] \<longleftrightarrow> a = b"
  by (simp add: scalar_def)

lemma body_change_Nil [simp]: "body_change p a b = [] \<longleftrightarrow> bc_len a = bc_len b"
  by (simp add: body_change_def)

lemma error_changes_Nil [simp]: "error_changes a b = [] \<longleftrightarrow> length b \<le> length a"
  by (simp add: error_changes_def)

definition snapshot_ok :: "context_snapshot \<Rightarrow> bool" where
  "snapshot_ok s \<longleftrightarrow> hm_ok (qs_headers (cs_request s)) \<and> hm_ok (qs_query_params (cs_request s)) \<and>
     hm_ok (ps_headers (cs_response s)) \<and> hm_ok (cs_message s)"

text \<open>Equality as the diff sees it: bodies by their length only, errors by their number.\<close>

definition same_view :: "context_snapshot \<Rightarrow> context_snapshot \<Rightarrow> bool" where
  "same_view a b \<longleftrightarrow>
     qs_method (cs_request a) = qs_method (cs_request b) \<and>
     qs_path (cs_request a) = qs_path (cs_request b) \<and>
     qs_host (cs_request a) = qs_host (cs_request b) \<and>
     qs_scheme (cs_request a) = qs_scheme (cs_request b) \<and>
     hm_get (qs_headers (cs_request a)) = hm_get (qs_headers (cs_request b)) \<and>
     hm_get (qs_query_params (cs_request a)) = hm_get (qs_query_params (cs_request b)) \<and>
     bc_len (qs_body (cs_request a)) = bc_len (qs_body (cs_request b)) \<and>
     ps_status_code (cs_response a) = ps_status_code (cs_response b) \<and>
     hm_get (ps_headers (cs_response a)) = hm_get (ps_headers (cs_response b)) \<and>
     bc_len (ps_body (cs_response a)) = bc_len (ps_body (cs_response b)) \<and>
     hm_get (cs_message a) = hm_get (cs_message b) \<and>
     length (cs_errors b) \<le> length (cs_errors a)"

lemma diff_Nil_iff:
  assumes "snapshot_ok a" "snapshot_ok b"
  shows "diff L a b = [] \<longleftrightarrow> same_view a b"
  using assms
  by (simp add: diff_def Let_def same_view_def snapshot_ok_def multi_map_def map_changes_Nil)

section \<open>Properties\<close>

text \<open>
  Two snapshots show no change exactly when method, path, host, scheme, status, all
  headers, parameters and message entries are equal, the bodies have equal lengths and no error
  was appended. In particular a body replaced by another of the same length is not reported.
\<close>

theorem diff_empty_iff_same_view:
  assumes "snapshot_ok a" "snapshot_ok b"
  shows "diff L a b = [] \<longleftrightarrow> same_view a b"
  using assms by (rule diff_Nil_iff)

definition demo_snapshot :: "nat \<Rightarrow> context_snapshot" where
  "demo_snapshot st =
     \<lparr>cs_request = \<lparr>qs_method = ''GET'', qs_path = ''/'', qs_host = [], qs_scheme = ''http'',
        qs_headers = [], qs_query_params = [], qs_body = plain_capture 0\<rparr>,
      cs_response = \<lparr>ps_status_code = st, ps_headers = [], ps_body = plain_capture 0\<rparr>,
      cs_message = [], cs_errors = []\<rparr>"

theorem diff_empty_iff_same_view_witness:
  "diff plain_libs (demo_snapshot 1) (demo_snapshot 2) \<noteq> []"
  using diff_empty_iff_same_view [of "demo_snapshot 1" "demo_snapshot 2" plain_libs]
  by (simp add: demo_snapshot_def snapshot_ok_def same_view_def)

end
