(* ===== verification/Debug_Store.thy ===== *)
theory Debug_Store
  imports Debug_Trace
begin

text \<open>
  The in-memory trace store (src/src/debug/store.rs): a ring buffer of the newest traces and
  the decision whether a request is traced. \<open>DebugState\<close> is shared behind a mutex, so its
  operations are functions from the state to the state.
\<close>

record debug_config =
  dc_enabled :: bool
  dc_sandbox :: bool
  dc_trigger_header :: string
  dc_trace_all :: bool
  dc_capture_bodies :: bool
  dc_max_body_bytes :: nat
  dc_max_traces :: nat
  dc_max_steps :: nat
  dc_sandbox_timeout_seconds :: nat
  dc_redact_headers :: "string list"
  dc_redact_query_params :: "string list"
  dc_redact_message_keys :: "string list"

definition default_debug_config :: debug_config where
  "default_debug_config =
     \<lparr>dc_enabled = False, dc_sandbox = True, dc_trigger_header = ''x-featherbit-debug'',
      dc_trace_all = False, dc_capture_bodies = False, dc_max_body_bytes = 8192,
      dc_max_traces = 50, dc_max_steps = 200, dc_sandbox_timeout_seconds = 30,
      dc_redact_headers = [], dc_redact_query_params = [], dc_redact_message_keys = []\<rparr>"

record debug_state =
  ds_enabled :: bool
  ds_sandbox_enabled :: bool
  ds_trigger_header :: string
  ds_trace_all :: bool
  ds_capture_bodies :: bool
  ds_max_body_bytes :: nat
  ds_max_traces :: nat
  ds_max_steps :: nat
  ds_sandbox_timeout_seconds :: nat
  ds_redaction :: redaction_policy
  ds_traces :: "trace list"
  ds_seq :: nat

definition new_debug_state :: "libs \<Rightarrow> debug_config \<Rightarrow> debug_state" where
  "new_debug_state L cfg =
     \<lparr>ds_enabled = dc_enabled cfg, ds_sandbox_enabled = dc_sandbox cfg,
      ds_trigger_header = to_lowercase L (dc_trigger_header cfg), ds_trace_all = dc_trace_all cfg,
      ds_capture_bodies = dc_capture_bodies cfg, ds_max_body_bytes = dc_max_body_bytes cfg,
      ds_max_traces = dc_max_traces cfg, ds_max_steps = dc_max_steps cfg,
      ds_sandbox_timeout_seconds = dc_sandbox_timeout_seconds cfg,
      ds_redaction = new_redaction L (dc_redact_headers cfg) (dc_redact_query_params cfg)
        (dc_redact_message_keys cfg),
      ds_traces = [], ds_seq = 0\<rparr>"

definition capture_options_of :: "debug_state \<Rightarrow> capture_options" where
  "capture_options_of s =
     \<lparr>co_capture_bodies = ds_capture_bodies s, co_max_body_bytes = ds_max_body_bytes s,
      co_redaction = ds_redaction s\<rparr>"

definition should_trace :: "debug_state \<Rightarrow> string list hmap \<Rightarrow> bool" where
  "should_trace s headers =
     (if \<not> ds_enabled s then False else ds_trace_all s \<or> hm_has headers (ds_trigger_header s))"

definition header_opt_in :: "debug_state \<Rightarrow> string list hmap \<Rightarrow> bool" where
  "header_opt_in s headers \<longleftrightarrow> ds_enabled s \<and> hm_has headers (ds_trigger_header s)"

text \<open>\<open>fetch_add(1)\<close> on an \<open>AtomicU64\<close> wraps around.\<close>

definition next_seq :: "debug_state \<Rightarrow> nat \<times> debug_state" where
  "next_seq s = (ds_seq s, s\<lparr>ds_seq := (ds_seq s + 1) mod 2 ^ 64\<rparr>)"

text \<open>\<open>while buf.len() >= max { buf.pop_front() }\<close>\<close>

fun pop_until :: "nat \<Rightarrow> 'a list \<Rightarrow> 'a list" where
  "pop_until mx [] = []"
| "pop_until mx (x # xs) = (if mx \<le> length (x # xs) then pop_until mx xs else x # xs)"

definition record_trace :: "trace \<Rightarrow> debug_state \<Rightarrow> debug_state" where
  "record_trace t s =
     (if ds_max_traces s = 0 then s
      else s\<lparr>ds_traces := pop_until (ds_max_traces s) (ds_traces s) @ [t]\<rparr>)"

record trace_summary =
  su_id :: string
  su_seq :: nat
  su_source :: trace_source
  su_started_ms :: nat
  su_route :: "string option"
  su_policy :: string
  su_method :: string
  su_path :: string
  su_status :: nat
  su_duration_us :: nat
  su_step_count :: nat
  su_error_count :: nat
  su_captured_bodies :: bool

definition summary_of :: "trace \<Rightarrow> trace_summary" where
  "summary_of t =
     \<lparr>su_id = tc_id t, su_seq = tc_seq t, su_source = tc_source t, su_started_ms = tc_started_ms t,
      su_route = tc_route t, su_policy = tc_policy t, su_method = tc_method t, su_path = tc_path t,
      su_status = tc_status t, su_duration_us = tc_duration_us t,
      su_step_count = length (tc_steps t),
      su_error_count = (if tc_steps t = [] then 0 else length (cs_errors (ns_after (last (tc_steps t))))),
      su_captured_bodies = tc_captured_bodies t\<rparr>"

definition list_traces :: "debug_state \<Rightarrow> trace_summary list" where
  "list_traces s = map summary_of (rev (ds_traces s))"

definition get_trace :: "debug_state \<Rightarrow> string \<Rightarrow> trace option" where
  "get_trace s i = find (\<lambda>t. tc_id t = i) (ds_traces s)"

definition clear_traces :: "debug_state \<Rightarrow> nat \<times> debug_state" where
  "clear_traces s = (length (ds_traces s), s\<lparr>ds_traces := []\<rparr>)"

section \<open>Facts\<close>

lemma pop_until_drop: "0 < mx \<Longrightarrow> pop_until mx xs = drop (Suc (length xs) - mx) xs"
  by (induction xs) (auto simp: Suc_diff_le)

lemma record_trace_frame [simp]:
  "ds_max_traces (record_trace t s) = ds_max_traces s"
  "ds_seq (record_trace t s) = ds_seq s"
  by (simp_all add: record_trace_def)

lemma fold_record_frame [simp]: "ds_max_traces (fold record_trace ts s) = ds_max_traces s"
  by (induction ts arbitrary: s) auto

lemma drop_all_but: "drop (length xs - n) xs = rev (take n (rev xs))"
  by (simp add: rev_take)

lemma fold_record_traces:
  assumes "length (ds_traces s) \<le> ds_max_traces s"
  shows "ds_traces (fold record_trace ts s) =
     (let all = ds_traces s @ ts in drop (length all - ds_max_traces s) all)"
  using assms
proof (induction ts arbitrary: s)
  case Nil
  then show ?case by simp
next
  case (Cons t ts)
  show ?case
  proof (cases "ds_max_traces s = 0")
    case True
    with Cons show ?thesis by (auto simp: record_trace_def Let_def)
  next
    case False
    define old where "old = ds_traces s"
    define mx where "mx = ds_max_traces s"
    have r: "ds_traces (record_trace t s) = drop (Suc (length old) - mx) old @ [t]"
      using False by (simp add: record_trace_def pop_until_drop old_def mx_def)
    have le: "length old \<le> mx" "0 < mx" using Cons.prems False by (simp_all add: old_def mx_def)
    then have "length (ds_traces (record_trace t s)) \<le> ds_max_traces (record_trace t s)"
      unfolding r by (simp add: mx_def [symmetric])
    from Cons.IH [OF this] show ?thesis
      using le unfolding r Let_def
      by (cases "Suc (length old) \<le> mx")
        (auto simp: old_def [symmetric] mx_def [symmetric] Suc_diff_le drop_Cons' not_le)
  qed
qed

section \<open>Properties\<close>

text \<open>
  The store keeps exactly the newest traces: after recording any sequence of traces into a
  new store, the list shows the last ones, newest first, never more than the configured
  maximum, and none when the maximum is 0.
\<close>

theorem store_keeps_newest:
  "list_traces (fold record_trace ts (new_debug_state L cfg)) =
     map summary_of (take (dc_max_traces cfg) (rev ts))"
proof -
  have "ds_traces (fold record_trace ts (new_debug_state L cfg)) =
      drop (length ts - dc_max_traces cfg) ts"
    by (simp add: fold_record_traces new_debug_state_def)
  then show ?thesis
    by (simp add: list_traces_def drop_all_but)
qed

end
