(* ===== verification/Balancer.thy ===== *)
theory Balancer
  imports Json
begin

text \<open>
  Load balancing (src/src/balancer.rs): the strategies, the selection of a target and the
  in-flight counts kept by connection guards. The atomic counters are \<open>nat\<close> below \<open>2 ^ 64\<close> with
  the wrap-around of \<open>fetch_add\<close> and \<open>fetch_sub\<close>; the standard hasher is the argument \<open>hash\<close>.
  \<open>balancer_contract\<close> is what the stream proxies and the upstream plugin rely on.
\<close>

record target =
  tg_host :: string
  tg_port :: nat

datatype strategy = RoundRobin | LeastConnections | IpHash

definition parse_strategy :: "libs \<Rightarrow> string \<Rightarrow> string + strategy" where
  "parse_strategy L v =
     (let s = replace_char CHR ''-'' CHR ''_'' (to_lowercase L v) in
      if s = ''round_robin'' then Inr RoundRobin
      else if s = ''least_connections'' \<or> s = ''least_conn'' then Inr LeastConnections
      else if s = ''ip_hash'' then Inr IpHash
      else Inl (''Unknown load_balancing '' @ sq s @ '' '' @ em_dash @
             '' supported: round_robin, least_connections, ip_hash''))"

record balancer =
  bl_targets :: "target list"
  bl_strategy :: strategy
  bl_counter :: nat
  bl_in_flight :: "nat list"

definition new_balancer :: "target list \<Rightarrow> strategy \<Rightarrow> string + balancer" where
  "new_balancer ts st =
     (if ts = [] then Inl ''load balancer requires at least one target''
      else Inr \<lparr>bl_targets = ts, bl_strategy = st, bl_counter = 0,
                bl_in_flight = map (\<lambda>_. 0) ts\<rparr>)"

definition fetch_add :: "nat \<Rightarrow> nat" where
  "fetch_add n = (n + 1) mod 2 ^ 64"

definition fetch_sub :: "nat \<Rightarrow> nat" where
  "fetch_sub n = (n + (2 ^ 64 - 1)) mod 2 ^ 64"

text \<open>\<open>min_by_key\<close> returns the first of several minima.\<close>

fun first_min :: "nat \<Rightarrow> nat list \<Rightarrow> (nat \<times> nat) option" where
  "first_min i [] = None"
| "first_min i (x # xs) =
     (case first_min (Suc i) xs of
        None \<Rightarrow> Some (i, x)
      | Some (j, y) \<Rightarrow> if x \<le> y then Some (i, x) else Some (j, y))"

definition client_ip :: "string \<Rightarrow> string" where
  "client_ip remote = (case rsplit_once CHR '':'' remote of None \<Rightarrow> remote | Some (ip, _) \<Rightarrow> ip)"

definition select :: "(string \<Rightarrow> nat) \<Rightarrow> string \<Rightarrow> balancer \<Rightarrow> nat \<times> balancer" where
  "select hash remote b =
     (case bl_strategy b of
        RoundRobin \<Rightarrow>
          (bl_counter b mod length (bl_targets b), b\<lparr>bl_counter := fetch_add (bl_counter b)\<rparr>)
      | LeastConnections \<Rightarrow>
          (case first_min 0 (bl_in_flight b) of None \<Rightarrow> 0 | Some (i, _) \<Rightarrow> i, b)
      | IpHash \<Rightarrow> (hash (client_ip remote) mod length (bl_targets b), b))"

definition acquire :: "nat \<Rightarrow> balancer \<Rightarrow> balancer" where
  "acquire i b = b\<lparr>bl_in_flight := (bl_in_flight b)[i := fetch_add (bl_in_flight b ! i)]\<rparr>"

text \<open>Dropping a guard of target \<open>i\<close>.\<close>

definition release :: "nat \<Rightarrow> balancer \<Rightarrow> balancer" where
  "release i b = b\<lparr>bl_in_flight := (bl_in_flight b)[i := fetch_sub (bl_in_flight b ! i)]\<rparr>"

definition balancer_ok :: "balancer \<Rightarrow> bool" where
  "balancer_ok b \<longleftrightarrow> bl_targets b \<noteq> [] \<and> length (bl_in_flight b) = length (bl_targets b) \<and>
     bl_counter b < 2 ^ 64"

section \<open>The contract\<close>

locale balancer_contract =
  fixes pick :: "string \<Rightarrow> 'b \<Rightarrow> nat \<times> 'b"
    and acq :: "nat \<Rightarrow> 'b \<Rightarrow> 'b"
    and rel :: "nat \<Rightarrow> 'b \<Rightarrow> 'b"
    and load :: "'b \<Rightarrow> nat \<Rightarrow> nat"
    and size_of :: "'b \<Rightarrow> nat"
    and invar :: "'b \<Rightarrow> bool"
  assumes pick_range: "invar b \<Longrightarrow> fst (pick r b) < size_of b"
    and pick_invar: "invar b \<Longrightarrow> invar (snd (pick r b))"
    and pick_size: "size_of (snd (pick r b)) = size_of b"
    and pick_load: "load (snd (pick r b)) i = load b i"
    and acq_invar: "invar b \<Longrightarrow> invar (acq i b)"
    and acq_size: "size_of (acq i b) = size_of b"
    and acq_load: "invar b \<Longrightarrow> i < size_of b \<Longrightarrow> j < size_of b \<Longrightarrow>
      load (acq i b) j = (if j = i then (load b i + 1) mod 2 ^ 64 else load b j)"
    and rel_invar: "invar b \<Longrightarrow> invar (rel i b)"
    and rel_size: "size_of (rel i b) = size_of b"
    and rel_load: "invar b \<Longrightarrow> i < size_of b \<Longrightarrow> j < size_of b \<Longrightarrow>
      load (rel i b) j = (if j = i then (load b i + (2 ^ 64 - 1)) mod 2 ^ 64 else load b j)"
begin

text \<open>\<open>tracks b live\<close>: the loads of \<open>b\<close> count the guards held, one entry of \<open>live\<close> per guard.\<close>

definition tracks :: "'b \<Rightarrow> nat list \<Rightarrow> bool" where
  "tracks b live \<longleftrightarrow> invar b \<and> set live \<subseteq> {..< size_of b} \<and>
     (\<forall>i < size_of b. load b i = count_list live i mod 2 ^ 64)"

lemma tracks_acquire:
  "tracks b live \<Longrightarrow> i < size_of b \<Longrightarrow> tracks (acq i b) (i # live)"
  by (auto simp: tracks_def acq_invar acq_size acq_load mod_Suc_eq)

lemma tracks_pick: "tracks b live \<Longrightarrow> tracks (snd (pick r b)) live"
  by (simp add: tracks_def pick_invar pick_size pick_load)

lemma count_list_remove1: "count_list (remove1 x xs) y =
    (if x = y \<and> x \<in> set xs then count_list xs y - 1 else count_list xs y)"
  by (induction xs) (auto simp: count_list_0_iff)

lemma sub_one_mod: "0 < n \<Longrightarrow> (n mod 2 ^ 64 + (2 ^ 64 - 1)) mod 2 ^ 64 = (n - 1) mod (2 ^ 64 :: nat)"
proof -
  assume "0 < n"
  then have "n + (2 ^ 64 - 1) = (n - 1) + 2 ^ 64" by simp
  then show ?thesis by (metis mod_add_left_eq mod_add_self2)
qed

lemma tracks_release:
  assumes "tracks b live" and "i \<in> set live"
  shows "tracks (rel i b) (remove1 i live)"
proof -
  have i: "i < size_of b" using assms by (auto simp: tracks_def)
  have pos: "0 < count_list live i" using assms(2) by (metis count_list_0_iff neq0_conv)
  have "load (rel i b) j = count_list (remove1 i live) j mod 2 ^ 64" if "j < size_of b" for j
    using assms that i sub_one_mod [OF pos]
    by (simp add: tracks_def rel_load count_list_remove1)
  moreover have "set (remove1 i live) \<subseteq> {..< size_of b}"
    using assms(1) set_remove1_subset by (fastforce simp: tracks_def)
  ultimately show ?thesis
    using assms(1) by (simp add: tracks_def rel_invar rel_size)
qed

text \<open>A request picks a target and holds a guard for it.\<close>

definition admit :: "string \<Rightarrow> 'b \<Rightarrow> nat \<times> 'b" where
  "admit r b = (case pick r b of (i, b') \<Rightarrow> (i, acq i b'))"

lemma tracks_admit: "tracks b live \<Longrightarrow> tracks (snd (admit r b)) (fst (admit r b) # live)"
proof -
  assume t: "tracks b live"
  obtain i b' where p: "pick r b = (i, b')" by force
  with t have "i < size_of b" using pick_range [of b r] by (simp add: tracks_def)
  then have "i < size_of b'" using pick_size [of r b] p by simp
  with t p tracks_pick [OF t, of r] show ?thesis
    by (simp add: admit_def tracks_acquire)
qed

end

section \<open>The model satisfies it\<close>

lemma first_min_Some:
  "first_min i xs = Some (j, y) \<Longrightarrow>
     i \<le> j \<and> j < i + length xs \<and> xs ! (j - i) = y \<and> (\<forall>k < length xs. y \<le> xs ! k) \<and>
     (\<forall>k < j - i. y < xs ! k)"
proof (induction xs arbitrary: i j y)
  case Nil
  then show ?case by simp
next
  case (Cons x xs)
  show ?case
  proof (cases "first_min (Suc i) xs")
    case None
    then have "xs = []" by (cases xs) (auto split: option.splits prod.splits if_splits)
    with Cons.prems show ?thesis by simp
  next
    case (Some r)
    obtain a z where r: "r = (a, z)" by force
    have IH: "Suc i \<le> a" "a < Suc i + length xs" "xs ! (a - Suc i) = z"
      "\<forall>k < length xs. z \<le> xs ! k" "\<forall>k < a - Suc i. z < xs ! k"
      using Cons.IH [of "Suc i" a z] Some r by auto
    show ?thesis
    proof (cases "x \<le> z")
      case True
      then have "j = i" "y = x" using Cons.prems Some r by auto
      moreover have "x \<le> (x # xs) ! k" if "k < length (x # xs)" for k
        using that IH(4) True by (cases k) (auto intro: order_trans)
      ultimately show ?thesis by simp
    next
      case False
      then have "j = a" "y = z" using Cons.prems Some r by auto
      moreover have "z \<le> (x # xs) ! k" if "k < length (x # xs)" for k
        using that IH(4) False by (cases k) auto
      moreover have "z < (x # xs) ! k" if "k < a - i" for k
        using that IH(5) False by (cases k) auto
      moreover have "(x # xs) ! (a - i) = z" using IH(1,3) by (simp add: nth_Cons')
      ultimately show ?thesis using IH(1,2) by auto
    qed
  qed
qed

lemma first_min_None: "first_min i xs = None \<longleftrightarrow> xs = []"
  by (cases xs) (auto split: option.splits prod.splits)

lemma select_range: "balancer_ok b \<Longrightarrow> fst (select h r b) < length (bl_targets b)"
proof -
  assume ok: "balancer_ok b"
  show ?thesis
  proof (cases "bl_strategy b")
    case LeastConnections
    obtain j y where "first_min 0 (bl_in_flight b) = Some (j, y)"
      using ok first_min_None [of 0 "bl_in_flight b"] by (auto simp: balancer_ok_def)
    with LeastConnections ok show ?thesis
      using first_min_Some [of 0 "bl_in_flight b" j y] by (simp add: select_def balancer_ok_def)
  qed (use ok in \<open>simp_all add: select_def balancer_ok_def\<close>)
qed

lemma select_frame [simp]:
  "bl_targets (snd (select h r b)) = bl_targets b"
  "bl_in_flight (snd (select h r b)) = bl_in_flight b"
  "bl_strategy (snd (select h r b)) = bl_strategy b"
  by (simp_all add: select_def split: strategy.splits)

lemma select_ok: "balancer_ok b \<Longrightarrow> balancer_ok (snd (select h r b))"
  by (simp add: balancer_ok_def select_def fetch_add_def split: strategy.splits)

interpretation lb: balancer_contract "select h" acquire release "\<lambda>b i. bl_in_flight b ! i"
  "\<lambda>b. length (bl_targets b)" balancer_ok for h
  by unfold_locales
    (auto simp: select_range select_ok, auto simp: acquire_def release_def balancer_ok_def
      fetch_add_def fetch_sub_def)

lemma new_balancer_ok: "new_balancer ts st = Inr b \<Longrightarrow> balancer_ok b \<and> bl_targets b = ts"
  by (auto simp: new_balancer_def balancer_ok_def split: if_splits)

lemma new_balancer_tracks: "new_balancer ts st = Inr b \<Longrightarrow> lb.tracks b []"
  by (auto simp: new_balancer_def lb.tracks_def balancer_ok_def split: if_splits)

section \<open>Sequences of selections\<close>

fun select_many :: "(string \<Rightarrow> nat) \<Rightarrow> string list \<Rightarrow> balancer \<Rightarrow> nat list \<times> balancer" where
  "select_many h [] b = ([], b)"
| "select_many h (r # rs) b =
     (case select h r b of (i, b1) \<Rightarrow> (case select_many h rs b1 of (xs, b2) \<Rightarrow> (i # xs, b2)))"

lemma select_many_round_robin:
  "bl_strategy b = RoundRobin \<Longrightarrow> bl_counter b + length rs < 2 ^ 64 \<Longrightarrow>
   fst (select_many h rs b) =
     map (\<lambda>x. x mod length (bl_targets b)) [bl_counter b ..< bl_counter b + length rs]"
proof (induction rs arbitrary: b)
  case Nil
  then show ?case by simp
next
  case (Cons r rs)
  have s: "select h r b =
      (bl_counter b mod length (bl_targets b), b\<lparr>bl_counter := Suc (bl_counter b)\<rparr>)"
    using Cons.prems by (simp add: select_def fetch_add_def)
  then show ?case
    using Cons.IH [of "b\<lparr>bl_counter := Suc (bl_counter b)\<rparr>"] Cons.prems
    by (simp add: upt_conv_Cons case_prod_unfold del: upt_Suc)
qed

lemma count_list_upt: "count_list [0..<n] i = (if i < n then 1 else 0)"
  by (induction n) auto

lemma count_residue_block: "i < n \<Longrightarrow> count_list (map (\<lambda>x. x mod n) [c..<c + n]) i = 1"
proof (induction c)
  case 0
  have "map (\<lambda>x. x mod n) [0..<n] = [0..<n]" by (intro map_idI) auto
  with 0 show ?case by (simp add: count_list_upt)
next
  case (Suc c)
  have "[c..<c + n] = c # [Suc c..<c + n]" using Suc.prems by (simp add: upt_conv_Cons)
  then have "count_list (map (\<lambda>x. x mod n) (c # [Suc c..<c + n])) i = 1" using Suc by simp
  moreover have "[Suc c..<Suc c + n] = [Suc c..<c + n] @ [c + n]" using Suc.prems by simp
  ultimately show ?case by (simp split: if_splits)
qed

lemma count_residue_blocks:
  "i < n \<Longrightarrow> count_list (map (\<lambda>x. x mod n) [c..<c + k * n]) i = k"
proof (induction k)
  case (Suc k)
  have "[c..<c + Suc k * n] = [c..<c + k * n] @ [c + k * n..<c + k * n + n]"
    using upt_add_eq_append [of c "c + k * n" n] by (simp add: algebra_simps)
  with Suc count_residue_block [of i n "c + k * n"] show ?case
    by (simp del: upt_Suc)
qed simp

section \<open>Properties\<close>

text \<open>
  C16: Round robin is fair: until the pick counter wraps around, any k rounds of requests reach
  every target exactly k times, wherever the counter starts and whoever the clients are.
\<close>

theorem round_robin_fair:
  assumes "bl_strategy b = RoundRobin" and "bl_counter b + length rs < 2 ^ 64"
    and "length rs = k * length (bl_targets b)" and "i < length (bl_targets b)"
  shows "count_list (fst (select_many h rs b)) i = k"
  using assms by (simp add: select_many_round_robin count_residue_blocks)

theorem round_robin_fair_witness:
  "count_list (fst (select_many (\<lambda>_. 0) [''a'', ''b'', ''c'', ''d'']
     \<lparr>bl_targets = [\<lparr>tg_host = ''x'', tg_port = 1\<rparr>, \<lparr>tg_host = ''y'', tg_port = 2\<rparr>],
      bl_strategy = RoundRobin, bl_counter = 7, bl_in_flight = [0, 0]\<rparr>)) 1 = 2"
  by (rule round_robin_fair) simp_all

text \<open>
  Least connections picks the first target with the fewest requests in flight.
\<close>

theorem least_connections_picks_minimum:
  assumes "balancer_ok b" and "bl_strategy b = LeastConnections"
  shows "let i = fst (select h r b) in i < length (bl_in_flight b) \<and>
    (\<forall>k < length (bl_in_flight b). bl_in_flight b ! i \<le> bl_in_flight b ! k) \<and>
    (\<forall>k < i. bl_in_flight b ! i < bl_in_flight b ! k)"
proof -
  obtain j y where "first_min 0 (bl_in_flight b) = Some (j, y)"
    using assms(1) first_min_None [of 0 "bl_in_flight b"] by (auto simp: balancer_ok_def)
  with assms(2) show ?thesis
    using first_min_Some [of 0 "bl_in_flight b" j y] by (simp add: select_def Let_def)
qed

theorem least_connections_picks_minimum_witness:
  "[3, 1 :: nat] ! fst (select (\<lambda>_. 0) ''c''
     \<lparr>bl_targets = [\<lparr>tg_host = ''x'', tg_port = 1\<rparr>, \<lparr>tg_host = ''y'', tg_port = 2\<rparr>],
      bl_strategy = LeastConnections, bl_counter = 0, bl_in_flight = [3, 1]\<rparr>) \<le> 1"
proof -
  let ?b = "\<lparr>bl_targets = [\<lparr>tg_host = ''x'', tg_port = 1\<rparr>, \<lparr>tg_host = ''y'', tg_port = 2\<rparr>],
    bl_strategy = LeastConnections, bl_counter = 0, bl_in_flight = [3, 1]\<rparr>"
  have ok: "balancer_ok ?b" by (simp add: balancer_ok_def)
  show ?thesis
    using least_connections_picks_minimum [OF ok, of "\<lambda>_. 0" "''c''"] by (auto simp: Let_def dest: spec [of _ 1])
qed

end
