(* ===== verification/Sni.thy ===== *)
theory Sni
  imports Balancer Utf8
begin

text \<open>
  SNI extraction from a TLS ClientHello and the SNI router (src/src/stream/sni.rs). A buffer is
  a byte string; \<open>get_byte\<close> is \<open>buf.get(p)\<close>. The code indexes \<open>buf\<close> directly only behind the
  bounds checks that precede each access here, so \<open>!\<close>, \<open>take\<close> and \<open>drop\<close> stay in range.
\<close>

datatype sni_result = Found string | NotPresent | Incomplete

definition get_byte :: "string \<Rightarrow> nat \<Rightarrow> nat option" where
  "get_byte buf p = (if p < length buf then Some (of_char (buf ! p)) else None)"

definition be16 :: "string \<Rightarrow> nat \<Rightarrow> nat option" where
  "be16 buf p =
     (case get_byte buf p of None \<Rightarrow> None
      | Some hi \<Rightarrow> (case get_byte buf (p + 1) of None \<Rightarrow> None
         | Some lo \<Rightarrow> Some (hi * 256 + lo)))"

definition be24 :: "string \<Rightarrow> nat \<Rightarrow> nat option" where
  "be24 buf p =
     (case get_byte buf p of None \<Rightarrow> None
      | Some a \<Rightarrow> (case get_byte buf (p + 1) of None \<Rightarrow> None
         | Some b \<Rightarrow> (case get_byte buf (p + 2) of None \<Rightarrow> None
            | Some c \<Rightarrow> Some (a * 65536 + b * 256 + c))))"

definition max_record_len :: nat where
  "max_record_len = 16640"

definition advance :: "nat \<Rightarrow> nat \<Rightarrow> nat \<Rightarrow> nat option" where
  "advance p n ceiling = (if p + n \<le> ceiling then Some (p + n) else None)"

text \<open>\<open>Skip::Ok p\<close> is \<open>Some p\<close>, \<open>Skip::Short\<close> is \<open>None\<close>.\<close>

definition skip_vec :: "string \<Rightarrow> nat \<Rightarrow> nat \<Rightarrow> nat \<Rightarrow> nat option" where
  "skip_vec buf p len_bytes ceiling =
     (let len = (if len_bytes = 1
                 then (case get_byte buf p of
                         Some b \<Rightarrow> if p < ceiling then Some b else None
                       | None \<Rightarrow> None)
                 else (case be16 buf p of
                         Some n \<Rightarrow> if p + 2 \<le> ceiling then Some n else None
                       | None \<Rightarrow> None))
      in case len of None \<Rightarrow> None | Some n \<Rightarrow> advance (p + len_bytes) n ceiling)"

text \<open>\<open>&buf[a..b]\<close>\<close>

definition slice :: "string \<Rightarrow> nat \<Rightarrow> nat \<Rightarrow> string" where
  "slice buf a b = take (b - a) (drop a buf)"

function scan_names :: "string \<Rightarrow> nat \<Rightarrow> nat \<Rightarrow> sni_result" where
  "scan_names buf q list_end =
     (if q + 3 \<le> list_end then
        (case be16 buf (q + 1) of
           None \<Rightarrow> Incomplete
         | Some name_len \<Rightarrow>
             (let name_end = q + 3 + name_len in
              if length buf < name_end then Incomplete
              else if list_end < name_end then NotPresent
              else if (of_char (buf ! q) :: nat) = 0 then
                (let s = slice buf (q + 3) name_end in
                 if utf8_ok s \<and> s \<noteq> [] then Found (to_ascii_lowercase s) else NotPresent)
              else scan_names buf name_end list_end))
      else NotPresent)"
  by pat_completeness auto
termination
  by (relation "measure (\<lambda>(buf, q, e). e - q)") auto

declare scan_names.simps [simp del]

definition parse_server_name :: "string \<Rightarrow> nat \<Rightarrow> nat \<Rightarrow> sni_result" where
  "parse_server_name buf start e =
     (case be16 buf start of
        None \<Rightarrow> Incomplete
      | Some list_len \<Rightarrow>
          (let q = start + 2; list_end = q + list_len in
           if length buf < list_end then Incomplete
           else if e < list_end then NotPresent
           else scan_names buf q list_end))"

function scan_extensions :: "string \<Rightarrow> nat \<Rightarrow> nat \<Rightarrow> sni_result" where
  "scan_extensions buf p ext_end =
     (if p + 4 \<le> ext_end then
        (case be16 buf p of
           None \<Rightarrow> Incomplete
         | Some ext_type \<Rightarrow>
             (case be16 buf (p + 2) of
                None \<Rightarrow> Incomplete
              | Some ext_len \<Rightarrow>
                  (let body_start = p + 4; body_end = body_start + ext_len in
                   if length buf < body_end then Incomplete
                   else if ext_end < body_end then NotPresent
                   else if ext_type = 0 then parse_server_name buf body_start body_end
                   else scan_extensions buf body_end ext_end)))
      else NotPresent)"
  by pat_completeness auto
termination
  by (relation "measure (\<lambda>(buf, p, e). e - p)") auto

declare scan_extensions.simps [simp del]

text \<open>The body of a ClientHello from offset 9: fixed part, three vectors, extensions.\<close>

definition scan_hello :: "string \<Rightarrow> nat \<Rightarrow> sni_result" where
  "scan_hello buf hs_end =
     (case advance 9 (2 + 32) hs_end of None \<Rightarrow> Incomplete
      | Some p1 \<Rightarrow>
     (case skip_vec buf p1 1 hs_end of None \<Rightarrow> Incomplete
      | Some p2 \<Rightarrow>
     (case skip_vec buf p2 2 hs_end of None \<Rightarrow> Incomplete
      | Some p3 \<Rightarrow>
     (case skip_vec buf p3 1 hs_end of None \<Rightarrow> Incomplete
      | Some p \<Rightarrow>
          if p = hs_end then NotPresent
          else (case be16 buf p of
                  None \<Rightarrow> Incomplete
                | Some ext_total \<Rightarrow>
                    scan_extensions buf (p + 2) (min (p + 2 + ext_total) hs_end))))))"

definition extract_sni :: "string \<Rightarrow> sni_result" where
  "extract_sni buf =
     (if length buf < 5 then Incomplete
      else if (of_char (buf ! 0) :: nat) \<noteq> 22 then NotPresent
      else if (of_char (buf ! 1) :: nat) \<noteq> 3 then NotPresent
      else (case be16 buf 3 of
              None \<Rightarrow> Incomplete
            | Some record_len \<Rightarrow>
                if max_record_len < record_len then NotPresent
                else
                  (let record_end = min (5 + record_len) (length buf) in
                   if record_end < 9 then Incomplete
                   else if (of_char (buf ! 5) :: nat) \<noteq> 1 then NotPresent
                   else (case be24 buf 6 of
                           None \<Rightarrow> Incomplete
                         | Some hs_len \<Rightarrow> scan_hello buf (min (9 + hs_len) record_end)))))"

section \<open>Patterns and the router\<close>

datatype sni_pattern = Exact string | Wildcard string

definition parse_pattern :: "string \<Rightarrow> sni_pattern" where
  "parse_pattern s =
     (let s = to_ascii_lowercase s in
      case strip_prefix s ''*.'' of Some rest \<Rightarrow> Wildcard rest | None \<Rightarrow> Exact s)"

definition pattern_matches :: "sni_pattern \<Rightarrow> string \<Rightarrow> bool" where
  "pattern_matches p host =
     (let host = to_ascii_lowercase host in
      case p of
        Exact e \<Rightarrow> e = host
      | Wildcard base \<Rightarrow>
          (case strip_suffix host base of
             Some pre \<Rightarrow> ends_with pre ''.'' \<and> 1 < length pre \<and>
               \<not> has_char CHR ''.'' (take (length pre - 1) pre)
           | None \<Rightarrow> False))"

record 'b sni_router =
  sr_routes :: "(sni_pattern \<times> 'b) list"
  sr_default :: 'b

definition new_router :: "(string \<times> 'b) list \<Rightarrow> 'b \<Rightarrow> 'b sni_router" where
  "new_router routes d = \<lparr>sr_routes = map (\<lambda>(n, b). (parse_pattern n, b)) routes, sr_default = d\<rparr>"

definition has_sni_routes :: "'b sni_router \<Rightarrow> bool" where
  "has_sni_routes r \<longleftrightarrow> sr_routes r \<noteq> []"

definition router_select :: "'b sni_router \<Rightarrow> string option \<Rightarrow> 'b" where
  "router_select r sni =
     (case sni of
        None \<Rightarrow> sr_default r
      | Some host \<Rightarrow>
          (case find (\<lambda>(p, _). pattern_matches p host) (sr_routes r) of
             Some (_, b) \<Rightarrow> b
           | None \<Rightarrow> sr_default r))"

section \<open>Building a ClientHello\<close>

definition u16 :: "nat \<Rightarrow> string" where
  "u16 n = [char_of (n div 256), char_of (n mod 256)]"

definition u24 :: "nat \<Rightarrow> string" where
  "u24 n = [char_of (n div 65536), char_of (n div 256 mod 256), char_of (n mod 256)]"

definition extension :: "nat \<times> string \<Rightarrow> string" where
  "extension e = u16 (fst e) @ u16 (length (snd e)) @ snd e"

definition sni_body :: "string \<Rightarrow> string" where
  "sni_body name = u16 (3 + length name) @ [char_of (0 :: nat)] @ u16 (length name) @ name"

record client_hello =
  ch_version :: char
  ch_fixed :: string
  ch_session :: string
  ch_suites :: string
  ch_compression :: string
  ch_before :: "(nat \<times> string) list"
  ch_name :: string
  ch_more :: string

definition hello_exts :: "client_hello \<Rightarrow> string" where
  "hello_exts h = concat (map extension (ch_before h)) @ extension (0, sni_body (ch_name h)) @ ch_more h"

definition hello_front :: "client_hello \<Rightarrow> string" where
  "hello_front h =
     ch_fixed h @ [char_of (length (ch_session h))] @ ch_session h @
     u16 (length (ch_suites h)) @ ch_suites h @
     [char_of (length (ch_compression h))] @ ch_compression h"

definition hello_body :: "client_hello \<Rightarrow> string" where
  "hello_body h = hello_front h @ u16 (length (hello_exts h)) @ hello_exts h"

definition hello_record :: "client_hello \<Rightarrow> string" where
  "hello_record h =
     [char_of (22 :: nat), char_of (3 :: nat), ch_version h] @ u16 (4 + length (hello_body h)) @
     [char_of (1 :: nat)] @ u24 (length (hello_body h)) @ hello_body h"

definition hello_ok :: "client_hello \<Rightarrow> bool" where
  "hello_ok h \<longleftrightarrow> length (ch_fixed h) = 34 \<and> length (ch_session h) < 256 \<and>
     length (ch_compression h) < 256 \<and> 4 + length (hello_body h) \<le> max_record_len \<and>
     (\<forall>e \<in> set (ch_before h). fst e \<noteq> 0 \<and> fst e < 65536) \<and>
     utf8_ok (ch_name h) \<and> ch_name h \<noteq> []"

lemma u16_length [simp]: "length (u16 n) = 2"
  by (simp add: u16_def)

lemma u24_length [simp]: "length (u24 n) = 3"
  by (simp add: u24_def)

lemma get_byte_at: "get_byte (a @ c # b) (length a) = Some (of_char c)"
  by (simp add: get_byte_def)

lemma be16_at: "n < 65536 \<Longrightarrow> be16 (a @ u16 n @ b) (length a) = Some n"
  using get_byte_at [of a "char_of (n div 256)" "char_of (n mod 256) # b"]
    get_byte_at [of "a @ [char_of (n div 256)]" "char_of (n mod 256)" b]
  by (simp add: be16_def u16_def)

lemma three_bytes:
  fixes n :: nat
  shows "n div 65536 * 65536 + n div 256 mod 256 * 256 + n mod 256 = n"
proof -
  define d where "d = n div 256"
  have x: "n div 65536 = d div 256" by (simp add: d_def div_mult2_eq [symmetric])
  have "d div 256 * 65536 + d mod 256 * 256 + n mod 256 =
      (d div 256 * 256 + d mod 256) * 256 + n mod 256" by (simp only: add_mult_distrib)
  also have "\<dots> = d * 256 + n mod 256" by (simp only: div_mult_mod_eq)
  also have "\<dots> = n" unfolding d_def by (rule div_mult_mod_eq)
  finally show ?thesis unfolding x d_def [symmetric] .
qed

lemma be24_at:
  assumes "n < 2 ^ 24"
  shows "be24 (a @ u24 n @ b) (length a) = Some n"
proof -
  let ?x = "char_of (n div 65536)" and ?y = "char_of (n div 256 mod 256)" and ?z = "char_of (n mod 256)"
  have "get_byte (a @ u24 n @ b) (length a) = Some (of_char ?x)"
    using get_byte_at [of a ?x "?y # ?z # b"] by (simp add: u24_def)
  moreover have "get_byte (a @ u24 n @ b) (length a + 1) = Some (of_char ?y)"
    using get_byte_at [of "a @ [?x]" ?y "?z # b"] by (simp add: u24_def)
  moreover have "get_byte (a @ u24 n @ b) (length a + 2) = Some (of_char ?z)"
    using get_byte_at [of "a @ [?x, ?y]" ?z b] by (simp add: u24_def)
  moreover have "n div 65536 mod 256 = n div 65536"
    using assms by (simp add: less_mult_imp_div_less)
  ultimately show ?thesis
    using three_bytes [of n] by (simp add: be24_def)
qed

lemma skip_vec1_at:
  "length v < 256 \<Longrightarrow> length a + 1 + length v \<le> e \<Longrightarrow>
   skip_vec (a @ char_of (length v) # v @ b) (length a) 1 e = Some (length a + 1 + length v)"
  by (simp add: skip_vec_def get_byte_at advance_def)

lemma skip_vec2_at:
  "length v < 65536 \<Longrightarrow> length a + 2 + length v \<le> e \<Longrightarrow>
   skip_vec (a @ u16 (length v) @ v @ b) (length a) 2 e = Some (length a + 2 + length v)"
  by (simp add: skip_vec_def be16_at advance_def)

lemma slice_at: "slice (a @ v @ b) (length a) (length a + length v) = v"
  by (simp add: slice_def)

lemma scan_names_at:
  assumes "length name < 65536" "utf8_ok name" "name \<noteq> []"
    and buf: "buf = a @ char_of (0 :: nat) # u16 (length name) @ name @ b"
    and q: "q = length a" and e: "e = q + 3 + length name"
  shows "scan_names buf q e = Found (to_ascii_lowercase name)"
proof -
  have 1: "be16 buf (q + 1) = Some (length name)"
    using be16_at [of "length name" "a @ [char_of (0 :: nat)]" "name @ b"] assms(1)
    by (simp add: buf q)
  have 2: "slice buf (q + 3) e = name"
    using slice_at [of "a @ char_of (0 :: nat) # u16 (length name)" name b]
    by (simp add: buf q e eval_nat_numeral add.commute)
  have 3: "buf ! q = char_of (0 :: nat)" "e \<le> length buf" "q + 3 \<le> e"
    by (simp_all add: buf q e nth_append)
  show ?thesis
    unfolding scan_names.simps [of buf q e] using 1 2 3 assms(2,3) e by simp
qed

lemma parse_server_name_at:
  assumes "3 + length name < 65536" "utf8_ok name" "name \<noteq> []"
    and buf: "buf = a @ sni_body name @ b" and s: "s = length a" and e: "e = s + length (sni_body name)"
  shows "parse_server_name buf s e = Found (to_ascii_lowercase name)"
proof -
  have 1: "be16 buf s = Some (3 + length name)"
    using be16_at [OF assms(1), of a] by (simp add: buf s sni_body_def)
  have 2: "scan_names buf (s + 2) (s + 2 + (3 + length name)) = Found (to_ascii_lowercase name)"
    by (rule scan_names_at [where a = "a @ u16 (3 + length name)" and b = b])
      (use assms in \<open>simp_all add: sni_body_def\<close>)
  show ?thesis
    using 1 2 by (simp add: parse_server_name_def buf s e sni_body_def)
qed

lemma scan_extensions_step:
  assumes "fst x < 65536" "fst x \<noteq> 0" "length (snd x) < 65536"
    and buf: "buf = a @ extension x @ b" and p: "p = length a"
    and e: "p + length (extension x) \<le> e" "e \<le> length buf"
  shows "scan_extensions buf p e = scan_extensions buf (p + length (extension x)) e"
proof -
  have 1: "be16 buf p = Some (fst x)"
    using be16_at [OF assms(1), of a] by (simp add: buf p extension_def)
  have 2: "be16 buf (p + 2) = Some (length (snd x))"
    using be16_at [OF assms(3), of "a @ u16 (fst x)"] by (simp add: buf p extension_def)
  have 3: "length (extension x) = 4 + length (snd x)" by (simp add: extension_def)
  then have "p + 4 \<le> e" "\<not> length buf < p + 4 + length (snd x)" "\<not> e < p + 4 + length (snd x)"
    using e by simp_all
  then show ?thesis
    unfolding scan_extensions.simps [of buf p e] using 1 2 3 assms(2) by (simp add: add.assoc)
qed

lemma scan_extensions_found:
  assumes "\<forall>x \<in> set before. fst x < 65536 \<and> fst x \<noteq> 0 \<and> length (snd x) < 65536"
    and "length name + 5 < 65536" "utf8_ok name" "name \<noteq> []"
    and "buf = a @ concat (map extension before) @ extension (0, sni_body name) @ b"
    and "p = length a"
    and "p + length (concat (map extension before)) + length (extension (0, sni_body name)) \<le> e"
    and "e \<le> length buf"
  shows "scan_extensions buf p e = Found (to_ascii_lowercase name)"
  using assms
proof (induction before arbitrary: a p)
  case Nil
  have n: "length (sni_body name) = 5 + length name" by (simp add: sni_body_def)
  have 1: "be16 buf p = Some 0"
    using be16_at [of 0 a] Nil.prems by (simp add: extension_def)
  have 2: "be16 buf (p + 2) = Some (length (sni_body name))"
    using be16_at [of "length (sni_body name)" "a @ u16 0" "sni_body name @ b"] Nil.prems n
    by (simp add: extension_def)
  have 3: "parse_server_name buf (p + 4) (p + 4 + length (sni_body name)) = Found (to_ascii_lowercase name)"
    by (rule parse_server_name_at [where a = "a @ u16 0 @ u16 (length (sni_body name))" and b = b])
      (use Nil.prems in \<open>simp_all add: extension_def\<close>)
  have 4: "p + 4 + length (sni_body name) \<le> e" "e \<le> length buf"
    using Nil.prems by (simp_all add: extension_def)
  then show ?case
    unfolding scan_extensions.simps [of buf p e] using 1 2 3 by simp
next
  case (Cons x before)
  let ?b = "concat (map extension before) @ extension (0, sni_body name) @ b"
  have "scan_extensions buf p e = scan_extensions buf (p + length (extension x)) e"
    by (rule scan_extensions_step [where a = a and b = ?b]) (use Cons.prems in simp_all)
  also have "\<dots> = Found (to_ascii_lowercase name)"
    by (rule Cons.IH [where a = "a @ extension x"]) (use Cons.prems in simp_all)
  finally show ?case .
qed

lemma hello_sizes:
  assumes "hello_ok h"
  shows "length (hello_body h) \<le> 16636" "length (hello_exts h) < 65536" "length (ch_suites h) < 65536"
    "length (ch_name h) + 5 < 65536" "\<forall>x \<in> set (ch_before h). length (snd x) < 65536"
proof -
  show b: "length (hello_body h) \<le> 16636"
    using assms by (simp add: hello_ok_def max_record_len_def)
  then show x: "length (hello_exts h) < 65536" "length (ch_suites h) < 65536"
    by (simp_all add: hello_body_def hello_front_def)
  then show "length (ch_name h) + 5 < 65536"
    by (simp add: hello_exts_def extension_def sni_body_def)
  show "\<forall>x \<in> set (ch_before h). length (snd x) < 65536"
  proof
    fix x assume m: "x \<in> set (ch_before h)"
    have "length (extension x) \<le> length (concat (map extension (ch_before h)))"
      unfolding length_concat using m by (intro member_le_sum_list) auto
    also have "\<dots> < 65536" using x(1) by (simp add: hello_exts_def)
    finally show "length (snd x) < 65536" by (simp add: extension_def)
  qed
qed

text \<open>The scan of a ClientHello body from offset 9 reaches its extensions block.\<close>

lemma scan_hello_front:
  assumes ok: "hello_ok h" and a: "length a = 9" and buf: "buf = a @ hello_front h @ rest"
    and e: "9 + length (hello_front h) \<le> e"
  shows "scan_hello buf e = (let p = 9 + length (hello_front h) in
     if p = e then NotPresent
     else (case be16 buf p of
             None \<Rightarrow> Incomplete
           | Some ext_total \<Rightarrow> scan_extensions buf (p + 2) (min (p + 2 + ext_total) e)))"
proof -
  let ?s = "ch_session h" and ?c = "ch_suites h" and ?m = "ch_compression h"
  define a1 where "a1 = a @ ch_fixed h"
  define a2 where "a2 = a1 @ char_of (length ?s) # ?s"
  define a3 where "a3 = a2 @ u16 (length ?c) @ ?c"
  define a4 where "a4 = a3 @ char_of (length ?m) # ?m"
  have fixed: "length (ch_fixed h) = 34" "length ?s < 256" "length ?m < 256"
    using ok by (simp_all add: hello_ok_def)
  have l1: "length a1 = 43" using a fixed by (simp add: a1_def)
  have l2: "length a2 = length a1 + 1 + length ?s" by (simp add: a2_def)
  have l3: "length a3 = length a2 + 2 + length ?c" by (simp add: a3_def)
  have l4: "length a4 = length a3 + 1 + length ?m" by (simp add: a4_def)
  have l: "9 + length (hello_front h) = length a4"
    using l1 l2 l3 l4 fixed by (simp add: hello_front_def)
  have b4: "buf = a4 @ rest"
    by (simp add: buf hello_front_def a1_def a2_def a3_def a4_def)
  have b3: "buf = a3 @ char_of (length ?m) # ?m @ rest"
    by (simp add: b4 a4_def)
  have b2: "buf = a2 @ u16 (length ?c) @ ?c @ char_of (length ?m) # ?m @ rest"
    by (simp add: b3 a3_def)
  have b1: "buf = a1 @ char_of (length ?s) # ?s @ u16 (length ?c) @ ?c @ char_of (length ?m) # ?m @ rest"
    by (simp add: b2 a2_def)
  have le: "length a4 \<le> e" using e l by simp
  have s0: "advance 9 (2 + 32) e = Some (length a1)"
    using le l1 l2 l3 l4 by (simp add: advance_def)
  have s1: "skip_vec buf (length a1) 1 e = Some (length a2)"
    unfolding b1 l2 by (rule skip_vec1_at) (use fixed le l2 l3 l4 in simp_all)
  have s2: "skip_vec buf (length a2) 2 e = Some (length a3)"
    unfolding b2 l3 by (rule skip_vec2_at) (use hello_sizes [OF ok] le l3 l4 in simp_all)
  have s3: "skip_vec buf (length a3) 1 e = Some (length a4)"
    unfolding b3 l4 by (rule skip_vec1_at) (use fixed le l4 in simp_all)
  show ?thesis
    unfolding scan_hello_def s0 option.case s1 s2 s3 l Let_def ..
qed

lemma scan_hello_found:
  assumes ok: "hello_ok h" and a: "length a = 9" and buf: "buf = a @ hello_body h @ rest"
  shows "scan_hello buf (9 + length (hello_body h)) = Found (to_ascii_lowercase (ch_name h))"
proof -
  let ?e = "9 + length (hello_body h)" and ?x = "hello_exts h" and ?p = "9 + length (hello_front h)"
  note sz = hello_sizes [OF ok]
  have e: "?e = ?p + 2 + length ?x" by (simp add: hello_body_def)
  have b: "be16 buf ?p = Some (length ?x)"
    using be16_at [OF sz(2), of "a @ hello_front h" "?x @ rest"] a by (simp add: buf hello_body_def)
  have "scan_extensions buf (?p + 2) ?e = Found (to_ascii_lowercase (ch_name h))"
    by (rule scan_extensions_found [where a = "a @ hello_front h @ u16 (length ?x)" and before = "ch_before h"
          and b = "ch_more h @ rest"])
      (use ok sz a in \<open>auto simp: buf hello_body_def hello_ok_def hello_exts_def\<close>)
  then show ?thesis
    using scan_hello_front [of h a buf "u16 (length ?x) @ ?x @ rest" ?e] ok a b e
    by (simp add: buf hello_body_def add.assoc)
qed

text \<open>The record and handshake headers.\<close>

lemma extract_sni_hello:
  assumes ok: "hello_ok h"
    and buf: "buf = hello_record h @ rest \<or> (\<exists>k \<ge> 9. buf = take k (hello_record h))"
  shows "extract_sni buf = scan_hello buf (min (9 + length (hello_body h)) (length buf))"
proof -
  define n where "n = length (hello_body h)"
  have n: "n \<le> 16636" "n < 2 ^ 24" "4 + n < 65536"
    using hello_sizes(1) [OF ok] by (simp_all add: n_def)
  let ?hd = "[char_of (22 :: nat), char_of (3 :: nat), ch_version h]"
  define front where "front = ?hd @ u16 (4 + n) @ [char_of (1 :: nat)] @ u24 n"
  have lf: "length front = 9" by (simp add: front_def)
  obtain tl where b: "buf = front @ tl"
  proof -
    have r: "hello_record h = front @ hello_body h" by (simp add: hello_record_def front_def n_def)
    from buf show ?thesis
    proof
      assume "buf = hello_record h @ rest" with r that show ?thesis by simp
    next
      assume "\<exists>k \<ge> 9. buf = take k (hello_record h)"
      with r lf that show ?thesis by auto
    qed
  qed
  have 1: "be16 buf 3 = Some (4 + n)"
    using be16_at [OF n(3), of ?hd] by (simp add: b front_def eval_nat_numeral)
  have 2: "be24 buf 6 = Some n"
    using be24_at [OF n(2), of "?hd @ u16 (4 + n) @ [char_of (1 :: nat)]"]
    by (simp add: b front_def eval_nat_numeral)
  have 3: "of_char (buf ! 0) = (22 :: nat)" "of_char (buf ! 1) = (3 :: nat)" "of_char (buf ! 5) = (1 :: nat)"
    by (simp_all add: b front_def u16_def)
  have "9 \<le> length buf" by (simp add: b lf)
  then show ?thesis
    unfolding extract_sni_def 1 option.case 2 3 n_def [symmetric]
    using n by (simp add: max_record_len_def Let_def min.assoc min_le_iff_disj) (simp add: min_def)
qed

section \<open>Properties\<close>

text \<open>
  C8: The parser finds the name: for every well-formed ClientHello record that fits the record
  limit, whatever its session, suites and other extensions and whatever bytes follow, the
  result is its server name in lower case.
\<close>

theorem sni_found:
  assumes "hello_ok h"
  shows "extract_sni (hello_record h @ rest) = Found (to_ascii_lowercase (ch_name h))"
proof -
  let ?a = "[char_of (22 :: nat), char_of (3 :: nat), ch_version h] @ u16 (4 + length (hello_body h)) @
     [char_of (1 :: nat)] @ u24 (length (hello_body h))"
  have "extract_sni (hello_record h @ rest) =
      scan_hello (hello_record h @ rest) (9 + length (hello_body h))"
    using extract_sni_hello [OF assms, of "hello_record h @ rest" rest]
    by (simp add: hello_record_def)
  also have "\<dots> = Found (to_ascii_lowercase (ch_name h))"
    by (rule scan_hello_found [OF assms, where a = ?a and rest = rest])
      (simp_all add: hello_record_def)
  finally show ?thesis .
qed

definition demo_hello :: client_hello where
  "demo_hello =
     \<lparr>ch_version = char_of (1 :: nat), ch_fixed = replicate 34 CHR ''r'', ch_session = ''s'',
      ch_suites = ''ab'', ch_compression = ''n'', ch_before = [(16, ''h2'')], ch_name = ''Ab.c'',
      ch_more = []\<rparr>"

lemma demo_hello_ok: "hello_ok demo_hello"
  by (simp add: hello_ok_def demo_hello_def hello_body_def hello_front_def hello_exts_def
      extension_def sni_body_def max_record_len_def) code_simp

theorem sni_found_witness: "extract_sni (hello_record demo_hello) = Found ''ab.c''"
proof -
  have "to_ascii_lowercase (ch_name demo_hello) = ''ab.c''"
    by (simp add: demo_hello_def) code_simp
  with sni_found [OF demo_hello_ok, of "[]"] show ?thesis by simp
qed

text \<open>
  A ClientHello cut right after its compression methods is reported as complete and without
  a name, although the rest, with the name, is still to arrive.
\<close>

theorem cut_hello_is_not_present:
  assumes "hello_ok h"
  shows "extract_sni (take (9 + length (hello_front h)) (hello_record h)) = NotPresent"
proof -
  let ?a = "[char_of (22 :: nat), char_of (3 :: nat), ch_version h] @ u16 (4 + length (hello_body h)) @
     [char_of (1 :: nat)] @ u24 (length (hello_body h))"
  let ?e = "9 + length (hello_front h)"
  have "hello_record h = (?a @ hello_front h) @ u16 (length (hello_exts h)) @ hello_exts h"
    by (simp add: hello_record_def hello_body_def)
  moreover have "length (?a @ hello_front h) = ?e" by simp
  ultimately have "take ?e (hello_record h) = ?a @ hello_front h"
    by (metis append_eq_conv_conj)
  moreover have "scan_hello (?a @ hello_front h) ?e = NotPresent"
    using scan_hello_front [OF assms, of ?a "?a @ hello_front h" "[]" ?e] by simp
  moreover have "extract_sni (take ?e (hello_record h)) =
      scan_hello (take ?e (hello_record h)) (min (9 + length (hello_body h)) (length (take ?e (hello_record h))))"
    by (rule extract_sni_hello [OF assms]) (intro disjI2 exI [of _ ?e], simp)
  ultimately show ?thesis by (simp add: hello_body_def)
qed

theorem cut_hello_is_not_present_witness:
  "extract_sni (take 51 (hello_record demo_hello)) = NotPresent"
proof -
  have "9 + length (hello_front demo_hello) = 51"
    by (simp add: demo_hello_def hello_front_def)
  with cut_hello_is_not_present [OF demo_hello_ok] show ?thesis by simp
qed

text \<open>
  A wildcard server name \<open>*.base\<close> matches exactly the hosts that have one more nonempty
  label in front of the base, compared without regard to case.
\<close>

theorem wildcard_matches_one_label:
  "pattern_matches (parse_pattern (''*.'' @ base)) host \<longleftrightarrow>
     (\<exists>label. label \<noteq> [] \<and> CHR ''.'' \<notin> set label \<and>
        to_ascii_lowercase host = label @ ''.'' @ to_ascii_lowercase base)"
proof -
  have "to_ascii_lowercase ''*.'' = ''*.''" by code_simp
  then have p: "parse_pattern (''*.'' @ base) = Wildcard (to_ascii_lowercase base)"
    by (simp add: parse_pattern_def strip_prefix_Some [THEN iffD2] flip: append_Cons)
  have "ends_with pre ''.'' \<and> 1 < length pre \<and> \<not> has_char CHR ''.'' (take (length pre - 1) pre) \<longleftrightarrow>
      (\<exists>label. label \<noteq> [] \<and> CHR ''.'' \<notin> set label \<and> pre = label @ ''.'')" for pre
    by (cases pre rule: rev_cases) (auto simp: ends_with_iff has_char_def)
  then show ?thesis
    unfolding p pattern_matches_def Let_def
    by (auto simp: strip_suffix_Some split: option.splits)
       (metis append_assoc append_Cons append_Nil not_None_eq strip_suffix_Some)+
qed

end
