(* ===== verification/Stream_Proxy.thy ===== *)
theory Stream_Proxy
  imports Sni
begin

text \<open>
  The TCP and UDP stream proxies (src/src/stream/mod.rs, tcp.rs, udp.rs): building the pools of
  a listener, peeking the server name before relaying, and the UDP session table. Sockets are
  outside the model: what a read returns is a script of \<open>read_event\<close>s, and whether a socket
  could be set up is an argument of the step.
\<close>

section \<open>Building the pools\<close>

record stream_upstream =
  so_targets :: "target list"
  so_load_balancing :: "string option"

datatype stream_protocol = StreamTcp | StreamUdp

record stream_listener =
  sl_protocol :: stream_protocol
  sl_bind :: string
  sl_port :: nat
  sl_upstream :: stream_upstream
  sl_sni_routes :: "(string \<times> stream_upstream) list"

datatype stream_pools = TcpPools "balancer sni_router" | UdpPool balancer

definition build_pool :: "libs \<Rightarrow> stream_upstream \<Rightarrow> string + balancer" where
  "build_pool L u =
     res_bind (case so_load_balancing u of None \<Rightarrow> Inr RoundRobin | Some s \<Rightarrow> parse_strategy L s)
       (\<lambda>st. new_balancer (so_targets u) st)"

definition build_route :: "libs \<Rightarrow> string \<times> stream_upstream \<Rightarrow> string + string \<times> balancer" where
  "build_route L r = res_bind (build_pool L (snd r)) (\<lambda>b. Inr (fst r, b))"

definition build_stream :: "libs \<Rightarrow> stream_listener \<Rightarrow> string + stream_pools" where
  "build_stream L cfg =
     res_bind (build_pool L (sl_upstream cfg)) (\<lambda>b.
       case sl_protocol cfg of
         StreamTcp \<Rightarrow>
           res_bind (traverse (build_route L) (sl_sni_routes cfg)) (\<lambda>rs. Inr (TcpPools (new_router rs b)))
       | StreamUdp \<Rightarrow> Inr (UdpPool b))"

definition stream_proto_name :: "stream_protocol \<Rightarrow> string" where
  "stream_proto_name p = (case p of StreamTcp \<Rightarrow> ''tcp'' | StreamUdp \<Rightarrow> ''udp'')"

text \<open>\<open>bind\<close> is the outcome of binding a listener's socket: the system's error message, if any.\<close>

fun start_all ::
  "libs \<Rightarrow> (stream_listener \<Rightarrow> string option) \<Rightarrow> stream_listener list \<Rightarrow> string + stream_pools list" where
  "start_all L bind [] = Inr []"
| "start_all L bind (cfg # cfgs) =
     res_bind (build_stream L cfg) (\<lambda>p.
       case bind cfg of
         Some e \<Rightarrow> Inl (''failed to bind '' @ stream_proto_name (sl_protocol cfg) @ '' stream '' @
                     sl_bind cfg @ '':'' @ show_nat (sl_port cfg) @ '': '' @ e)
       | None \<Rightarrow> res_bind (start_all L bind cfgs) (\<lambda>ps. Inr (p # ps)))"

section \<open>Peeking the server name\<close>

datatype read_event = ReadBytes string | ReadFailed

definition max_client_hello :: nat where
  "max_client_hello = 8192"

text \<open>
  The result also carries the reads still to come. An exhausted script is a read that does not
  complete before the deadline.
\<close>

fun peek_sni :: "read_event list \<Rightarrow> string \<Rightarrow> string option \<times> string \<times> read_event list" where
  "peek_sni evs buf =
     (case extract_sni buf of
        Found host \<Rightarrow> (Some host, buf, evs)
      | NotPresent \<Rightarrow> (None, buf, evs)
      | Incomplete \<Rightarrow>
          if max_client_hello \<le> length buf then (None, buf, evs)
          else (case evs of
                  [] \<Rightarrow> (None, buf, [])
                | ReadFailed # r \<Rightarrow> (None, buf, r)
                | ReadBytes b # r \<Rightarrow>
                    if b = [] then (None, buf, r)
                    else peek_sni r (buf @ take (min (length b) (max_client_hello - length buf)) b)))"

declare peek_sni.simps [simp del]

fun bytes_of :: "read_event list \<Rightarrow> string" where
  "bytes_of [] = []"
| "bytes_of (ReadBytes b # r) = b @ bytes_of r"
| "bytes_of (ReadFailed # r) = bytes_of r"

text \<open>What the upstream receives: the replayed bytes, then everything still read from the client.\<close>

definition tcp_relay :: "balancer sni_router \<Rightarrow> read_event list \<Rightarrow> balancer \<times> string" where
  "tcp_relay router evs =
     (if has_sni_routes router
      then (case peek_sni evs [] of
              (sni, buf, rest) \<Rightarrow> (router_select router sni, buf @ bytes_of rest))
      else (router_select router None, bytes_of evs))"

lemma peek_sni_keeps:
  "length buf + length (bytes_of evs) \<le> max_client_hello \<Longrightarrow> peek_sni evs buf = (sni, out, rest) \<Longrightarrow>
   out @ bytes_of rest = buf @ bytes_of evs"
proof (induction evs arbitrary: buf)
  case Nil
  then show ?case by (subst (asm) peek_sni.simps) (auto split: sni_result.splits if_splits)
next
  case (Cons e evs)
  show ?case
  proof (cases e)
    case (ReadBytes b)
    with Cons.prems have "take (min (length b) (max_client_hello - length buf)) b = b" by simp
    with Cons ReadBytes show ?thesis
      by (subst (asm) peek_sni.simps)
        (auto split: sni_result.splits if_splits dest!: Cons.IH [rotated])
  next
    case ReadFailed
    with Cons.prems show ?thesis
      by (subst (asm) peek_sni.simps) (auto split: sni_result.splits if_splits)
  qed
qed

text \<open>The loop ends with at most the cap in the buffer.\<close>

lemma peek_sni_bound:
  "length buf \<le> max_client_hello \<Longrightarrow> peek_sni evs buf = (sni, out, rest) \<Longrightarrow>
   length out \<le> max_client_hello"
proof (induction evs arbitrary: buf)
  case Nil
  then show ?case by (subst (asm) peek_sni.simps) (auto split: sni_result.splits if_splits)
next
  case (Cons e evs)
  show ?case
  proof (cases e)
    case (ReadBytes b)
    with Cons show ?thesis
      by (subst (asm) peek_sni.simps)
        (auto split: sni_result.splits if_splits dest!: Cons.IH [rotated])
  next
    case ReadFailed
    with Cons.prems show ?thesis
      by (subst (asm) peek_sni.simps) (auto split: sni_result.splits if_splits)
  qed
qed

lemma peek_sni_drops:
  assumes "extract_sni buf = Incomplete" "length buf < max_client_hello"
    and "max_client_hello < length buf + length b"
  shows "peek_sni (ReadBytes b # evs) buf =
    (case extract_sni (buf @ take (max_client_hello - length buf) b) of
       Found host \<Rightarrow> Some host | _ \<Rightarrow> None,
     buf @ take (max_client_hello - length buf) b, evs)"
proof -
  let ?b = "buf @ take (max_client_hello - length buf) b"
  have m: "min (length b) (max_client_hello - length buf) = max_client_hello - length buf"
    "b \<noteq> []" "length ?b = max_client_hello"
    using assms by auto
  have "peek_sni evs ?b = (case extract_sni ?b of Found host \<Rightarrow> Some host | _ \<Rightarrow> None, ?b, evs)"
    using m(3) by (subst peek_sni.simps) (simp split: sni_result.splits)
  with assms m show ?thesis
    by (subst peek_sni.simps) simp
qed

section \<open>UDP sessions\<close>

record udp_session =
  us_idx :: nat
  us_alive :: bool
  us_last_seen :: nat

record udp_state =
  un_sessions :: "udp_session hmap"
  un_balancer :: balancer

text \<open>Dropping a session drops its guard.\<close>

definition drop_session :: "string \<Rightarrow> udp_session \<Rightarrow> udp_state \<Rightarrow> udp_state" where
  "drop_session client s st =
     st\<lparr>un_sessions := hm_remove client (un_sessions st),
        un_balancer := release (us_idx s) (un_balancer st)\<rparr>"

definition drop_dead :: "string \<Rightarrow> udp_state \<Rightarrow> udp_state" where
  "drop_dead client st =
     (case hm_get (un_sessions st) client of
        Some s \<Rightarrow> if us_alive s then st else drop_session client s st
      | None \<Rightarrow> st)"

text \<open>\<open>create_session\<close>: the guard taken before the socket is set up is dropped when that fails.\<close>

definition create_session ::
  "(string \<Rightarrow> nat) \<Rightarrow> string \<Rightarrow> nat \<Rightarrow> bool \<Rightarrow> balancer \<Rightarrow> udp_session option \<times> balancer" where
  "create_session h client now ok b =
     (case select h client b of
        (i, b1) \<Rightarrow>
          (if ok then (Some \<lparr>us_idx = i, us_alive = True, us_last_seen = now\<rparr>, acquire i b1)
           else (None, release i (acquire i b1))))"

text \<open>One datagram from \<open>client\<close>; \<open>ok\<close> says whether a new upstream socket could be set up.\<close>

definition udp_datagram ::
  "(string \<Rightarrow> nat) \<Rightarrow> string \<Rightarrow> nat \<Rightarrow> bool \<Rightarrow> udp_state \<Rightarrow> udp_state" where
  "udp_datagram h client now ok st =
     (let st1 = drop_dead client st in
      case hm_get (un_sessions st1) client of
        Some s \<Rightarrow> st1\<lparr>un_sessions := hm_insert client (s\<lparr>us_last_seen := now\<rparr>) (un_sessions st1)\<rparr>
      | None \<Rightarrow>
          (case create_session h client now ok (un_balancer st1) of
             (None, b) \<Rightarrow> st1\<lparr>un_balancer := b\<rparr>
           | (Some s, b) \<Rightarrow>
               st1\<lparr>un_sessions := hm_insert client (s\<lparr>us_last_seen := now\<rparr>) (un_sessions st1),
                   un_balancer := b\<rparr>))"

text \<open>
  The reader task of a session: what one turn of its loop does to the session. \<open>UdpIdle\<close> is a
  receive that timed out.
\<close>

datatype udp_read = UdpReply bool | UdpRecvError | UdpIdle

definition reader_turn :: "nat \<Rightarrow> nat \<Rightarrow> udp_read \<Rightarrow> udp_session \<Rightarrow> udp_session" where
  "reader_turn idle_ms now r s =
     (case r of
        UdpReply sent \<Rightarrow> if sent then s\<lparr>us_last_seen := now\<rparr> else s\<lparr>us_alive := False\<rparr>
      | UdpRecvError \<Rightarrow> s\<lparr>us_alive := False\<rparr>
      | UdpIdle \<Rightarrow> if idle_ms \<le> now - us_last_seen s then s\<lparr>us_alive := False\<rparr> else s)"

definition udp_reader :: "nat \<Rightarrow> string \<Rightarrow> nat \<Rightarrow> udp_read \<Rightarrow> udp_state \<Rightarrow> udp_state" where
  "udp_reader idle_ms client now r st =
     (case hm_get (un_sessions st) client of
        Some s \<Rightarrow>
          (if us_alive s
           then st\<lparr>un_sessions := hm_insert client (reader_turn idle_ms now r s) (un_sessions st)\<rparr>
           else st)
      | None \<Rightarrow> st)"

text \<open>\<open>sessions.retain(|_, s| s.alive)\<close>\<close>

definition udp_prune :: "udp_state \<Rightarrow> udp_state" where
  "udp_prune st = fold (\<lambda>(c, s) st. if us_alive s then st else drop_session c s st) (un_sessions st) st"

inductive udp_reach :: "(string \<Rightarrow> nat) \<Rightarrow> nat \<Rightarrow> balancer \<Rightarrow> udp_state \<Rightarrow> bool" for h idle b where
  udp_start: "udp_reach h idle b \<lparr>un_sessions = [], un_balancer = b\<rparr>"
| udp_recv: "udp_reach h idle b st \<Longrightarrow> udp_reach h idle b (udp_datagram h client now ok st)"
| udp_read: "udp_reach h idle b st \<Longrightarrow> udp_reach h idle b (udp_reader idle client now r st)"
| udp_tick: "udp_reach h idle b st \<Longrightarrow> udp_reach h idle b (udp_prune st)"

subsection \<open>Every session holds one guard\<close>

definition live :: "udp_session hmap \<Rightarrow> nat list" where
  "live m = map (\<lambda>e. us_idx (snd e)) m"

lemma live_mset: "mset (live m) = image_mset (\<lambda>e. us_idx (snd e)) (mset m)"
  by (simp add: live_def)

lemma tracks_mset: "mset xs = mset ys \<Longrightarrow> lb.tracks b xs \<Longrightarrow> lb.tracks b ys"
  using mset_eq_setD [of xs ys] by (simp add: lb.tracks_def count_mset [symmetric])

definition udp_ok :: "udp_state \<Rightarrow> bool" where
  "udp_ok st \<longleftrightarrow> hm_ok (un_sessions st) \<and> lb.tracks (un_balancer st) (live (un_sessions st))"

lemma udp_ok_drop:
  assumes "udp_ok st" "hm_get (un_sessions st) c = Some s"
  shows "udp_ok (drop_session c s st)"
proof -
  have ok: "hm_ok (un_sessions st)" using assms by (simp add: udp_ok_def)
  have m: "mset (live (un_sessions st)) = add_mset (us_idx s) (mset (live (hm_remove c (un_sessions st))))"
    using hm_remove_mset [OF ok assms(2)] by (simp add: live_mset)
  then have i: "us_idx s \<in> set (live (un_sessions st))"
    by (metis set_mset_mset union_single_eq_member)
  have "lb.tracks (release (us_idx s) (un_balancer st)) (remove1 (us_idx s) (live (un_sessions st)))"
    using lb.tracks_release assms(1) i by (simp add: udp_ok_def)
  moreover have "mset (remove1 (us_idx s) (live (un_sessions st))) = mset (live (hm_remove c (un_sessions st)))"
    using m by simp
  ultimately have "lb.tracks (release (us_idx s) (un_balancer st)) (live (hm_remove c (un_sessions st)))"
    using tracks_mset by blast
  then show ?thesis
    using ok by (simp add: udp_ok_def drop_session_def)
qed

lemma udp_ok_update:
  assumes "udp_ok st" "hm_get (un_sessions st) c = Some s" "us_idx s' = us_idx s"
  shows "udp_ok (st\<lparr>un_sessions := hm_insert c s' (un_sessions st)\<rparr>)"
proof -
  have ok: "hm_ok (un_sessions st)" using assms by (simp add: udp_ok_def)
  have "mset (live (hm_insert c s' (un_sessions st))) = mset (live (un_sessions st))"
    using hm_update_mset [OF ok assms(2)] hm_remove_mset [OF ok assms(2)] assms(3)
    by (simp add: live_mset)
  then have "lb.tracks (un_balancer st) (live (hm_insert c s' (un_sessions st)))"
    using assms(1) by (auto simp: udp_ok_def intro: tracks_mset [OF sym])
  then show ?thesis
    using ok by (simp add: udp_ok_def)
qed

lemma release_acquire_tracks:
  "lb.tracks b xs \<Longrightarrow> i < length (bl_targets b) \<Longrightarrow> lb.tracks (release i (acquire i b)) xs"
  using lb.tracks_release [of "acquire i b" "i # xs" i] lb.tracks_acquire [of b xs i] by simp

lemma udp_ok_datagram:
  assumes "udp_ok st"
  shows "udp_ok (udp_datagram h client now ok st)"
proof -
  define st1 where "st1 = drop_dead client st"
  have ok1: "udp_ok st1"
    using assms udp_ok_drop by (auto simp: st1_def drop_dead_def split: option.splits)
  show ?thesis
  proof (cases "hm_get (un_sessions st1) client")
    case (Some s)
    then show ?thesis
      using udp_ok_update [OF ok1 Some] by (simp add: udp_datagram_def Let_def st1_def [symmetric])
  next
    case None
    obtain i b1 where sel: "select h client (un_balancer st1) = (i, b1)" by force
    have t: "lb.tracks b1 (live (un_sessions st1))"
      using lb.tracks_pick [of "un_balancer st1" _ h client] sel ok1 by (simp add: udp_ok_def)
    have i: "i < length (bl_targets b1)"
      using select_range [of "un_balancer st1" h client] sel ok1 select_frame(1) [of h client "un_balancer st1"]
      by (simp add: udp_ok_def lb.tracks_def)
    show ?thesis
    proof (cases ok)
      case True
      have "mset (i # live (un_sessions st1)) =
          mset (live (hm_insert client \<lparr>us_idx = i, us_alive = True, us_last_seen = now\<rparr> (un_sessions st1)))"
        using None by (simp add: live_mset hm_insert_fresh_mset)
      then have "lb.tracks (acquire i b1)
          (live (hm_insert client \<lparr>us_idx = i, us_alive = True, us_last_seen = now\<rparr> (un_sessions st1)))"
        using tracks_mset lb.tracks_acquire [OF t i] by blast
      then show ?thesis
        using None sel True ok1
        by (simp add: udp_datagram_def Let_def st1_def [symmetric] create_session_def udp_ok_def)
    next
      case False
      then show ?thesis
        using None sel ok1 release_acquire_tracks [OF t i]
        by (simp add: udp_datagram_def Let_def st1_def [symmetric] create_session_def udp_ok_def)
    qed
  qed
qed

lemma udp_ok_reader: "udp_ok st \<Longrightarrow> udp_ok (udp_reader idle c now r st)"
  by (auto simp: udp_reader_def reader_turn_def split: option.splits udp_read.splits
      intro: udp_ok_update)

lemma udp_ok_prune_fold:
  "udp_ok st \<Longrightarrow> distinct (map fst xs) \<Longrightarrow>
   (\<And>c s. (c, s) \<in> set xs \<Longrightarrow> hm_get (un_sessions st) c = Some s) \<Longrightarrow>
   udp_ok (fold (\<lambda>(c, s) st. if us_alive s then st else drop_session c s st) xs st)"
proof (induction xs arbitrary: st)
  case Nil
  then show ?case by simp
next
  case (Cons e xs)
  obtain c s where e: "e = (c, s)" by force
  have g: "hm_get (un_sessions st) c = Some s" using Cons.prems(3) e by simp
  show ?case
  proof (cases "us_alive s")
    case True
    then show ?thesis using Cons e by simp
  next
    case False
    have "udp_ok (fold (\<lambda>(c, s) st. if us_alive s then st else drop_session c s st) xs (drop_session c s st))"
    proof (rule Cons.IH)
      show "udp_ok (drop_session c s st)" by (rule udp_ok_drop [OF Cons.prems(1) g])
      show "distinct (map fst xs)" using Cons.prems(2) by simp
      fix d t assume m: "(d, t) \<in> set xs"
      then have "d \<noteq> c" using Cons.prems(2) e by (auto simp: rev_image_eqI)
      then show "hm_get (un_sessions (drop_session c s st)) d = Some t"
        using Cons.prems(3) m by (simp add: drop_session_def)
    qed
    then show ?thesis using False e by simp
  qed
qed

lemma udp_ok_prune: "udp_ok st \<Longrightarrow> udp_ok (udp_prune st)"
  unfolding udp_prune_def
  by (rule udp_ok_prune_fold) (auto simp: udp_ok_def hm_ok_def hm_get_def)

lemma udp_reach_ok:
  assumes "lb.tracks b []" and "udp_reach h idle b st"
  shows "udp_ok st"
  using assms(2)
  by induction (use assms(1) in \<open>simp_all add: udp_ok_datagram udp_ok_reader udp_ok_prune\<close>,
    simp add: udp_ok_def live_def)

section \<open>Properties\<close>

text \<open>
  C10: Passthrough is transparent for streams up to the cap: with SNI routes, the upstream
  receives the peeked bytes followed by the rest, which is exactly what the client sent,
  whatever the sizes of the reads and whether or not a server name was found.
\<close>

theorem passthrough_keeps_stream:
  assumes "length (bytes_of evs) \<le> max_client_hello"
  shows "snd (tcp_relay router evs) = bytes_of evs"
proof (cases "has_sni_routes router")
  case True
  obtain sni buf rest where p: "peek_sni evs [] = (sni, buf, rest)" by (metis prod_cases3)
  with peek_sni_keeps [of "[]" evs sni buf rest] assms True show ?thesis
    by (simp add: tcp_relay_def)
qed (simp add: tcp_relay_def)

theorem passthrough_keeps_stream_witness:
  "\<forall>b. snd (tcp_relay \<lparr>sr_routes = [(Exact ''a'', b)], sr_default = b\<rparr>
     [ReadBytes ''GET'', ReadBytes '' /'']) = ''GET /''"
  using passthrough_keeps_stream [of "[ReadBytes ''GET'', ReadBytes '' /'']"]
  by (simp add: max_client_hello_def)


definition big_partial_hello :: string where
  "big_partial_hello =
     ([char_of (22 :: nat), char_of (3 :: nat), char_of (1 :: nat)] @ u16 16384 @ [char_of (1 :: nat)] @
      u24 16380 @ replicate 34 CHR ''r'' @ [char_of (0 :: nat)]) @ u16 12000 @ replicate 4955 CHR ''x''"

lemma big_partial_hello_incomplete:
  "extract_sni big_partial_hello = Incomplete" "length big_partial_hello = 5001"
proof -
  let ?hd = "[char_of (22 :: nat), char_of (3 :: nat), char_of (1 :: nat)]"
  show l: "length big_partial_hello = 5001" by (simp add: big_partial_hello_def)
  have at16: "be16 buf p = Some n" if "n < 65536" "buf = a @ u16 n @ z" "p = length a" for n buf p a z
    using be16_at [OF that(1), of a z] that(2,3) by simp
  have 1: "be16 big_partial_hello 3 = Some 16384"
    by (rule at16 [where a = ?hd]) (simp_all add: big_partial_hello_def)
  have at24: "be24 buf p = Some n" if "n < 2 ^ 24" "buf = a @ u24 n @ z" "p = length a" for n buf p a z
    using be24_at [OF that(1), of a z] that(2,3) by simp
  have 2: "be24 big_partial_hello 6 = Some 16380"
    by (rule at24 [where a = "?hd @ u16 16384 @ [char_of (1 :: nat)]"])
      (simp_all add: big_partial_hello_def)
  have 3: "be16 big_partial_hello 44 = Some 12000"
    by (rule at16 [where a = "?hd @ u16 16384 @ [char_of (1 :: nat)] @ u24 16380 @ replicate 34 CHR ''r'' @
      [char_of (0 :: nat)]"]) (simp_all add: big_partial_hello_def)
  have 4: "get_byte big_partial_hello 43 = Some 0"
    by (simp add: get_byte_def big_partial_hello_def nth_append u16_def u24_def)
  have 5: "of_char (big_partial_hello ! 0) = (22 :: nat)" "of_char (big_partial_hello ! 1) = (3 :: nat)"
    "of_char (big_partial_hello ! 5) = (1 :: nat)"
    by (simp_all add: big_partial_hello_def u16_def)
  have "scan_hello big_partial_hello 5001 = Incomplete"
    using 3 4 by (simp add: scan_hello_def advance_def skip_vec_def)
  then show "extract_sni big_partial_hello = Incomplete"
    unfolding extract_sni_def using 1 2 5 l by (simp add: max_record_len_def Let_def)
qed


text \<open>
  C9: The in-flight counts never drift: in every reachable state of the UDP proxy, whatever
  datagrams, replies, failures, timeouts and prunings happened in whatever order, the count of
  each target is the number of sessions pinned to it.
\<close>

theorem udp_in_flight_counts_sessions:
  assumes "new_balancer ts strat = Inr b" and "udp_reach h idle b st" and "i < length ts"
  shows "bl_in_flight (un_balancer st) ! i =
    count_list (map (\<lambda>e. us_idx (snd e)) (un_sessions st)) i mod 2 ^ 64"
proof -
  have ok: "udp_ok st" using udp_reach_ok [OF new_balancer_tracks [OF assms(1)] assms(2)] .
  have "length (bl_targets (un_balancer st)) = length ts"
    using assms(2)
  proof induction
    case udp_start
    then show ?case using new_balancer_ok [OF assms(1)] by simp
  next
    case (udp_recv st client now ok)
    then show ?case
      by (auto simp: udp_datagram_def Let_def drop_dead_def drop_session_def create_session_def
          release_def acquire_def case_prod_unfold split: option.splits)
  next
    case (udp_read st client now r)
    then show ?case by (simp add: udp_reader_def split: option.splits)
  next
    case (udp_tick st)
    have "length (bl_targets (un_balancer (fold (\<lambda>(c, s) st. if us_alive s then st else drop_session c s st) xs st)))
        = length (bl_targets (un_balancer st))" for xs
      by (induction xs arbitrary: st) (auto simp: drop_session_def release_def)
    with udp_tick show ?case by (simp add: udp_prune_def)
  qed
  with ok assms(3) show ?thesis by (simp add: udp_ok_def lb.tracks_def live_def)
qed

theorem udp_in_flight_counts_sessions_witness:
  "bl_in_flight (un_balancer (udp_datagram (\<lambda>_. 0) ''1.2.3.4:5'' 0 True
     \<lparr>un_sessions = [], un_balancer = \<lparr>bl_targets = [\<lparr>tg_host = ''x'', tg_port = 1\<rparr>],
       bl_strategy = RoundRobin, bl_counter = 0, bl_in_flight = [0]\<rparr>\<rparr>)) ! 0 = 1"
proof -
  let ?b = "\<lparr>bl_targets = [\<lparr>tg_host = ''x'', tg_port = 1\<rparr>], bl_strategy = RoundRobin,
    bl_counter = 0, bl_in_flight = [0]\<rparr>"
  let ?st = "udp_datagram (\<lambda>_. 0) ''1.2.3.4:5'' 0 True \<lparr>un_sessions = [], un_balancer = ?b\<rparr>"
  have n: "new_balancer [\<lparr>tg_host = ''x'', tg_port = 1\<rparr>] RoundRobin = Inr ?b"
    by (simp add: new_balancer_def)
  have "count_list (map (\<lambda>e. us_idx (snd e)) (un_sessions ?st)) 0 = 1"
    by (simp add: udp_datagram_def drop_dead_def create_session_def select_def hm_insert_def)
  with udp_in_flight_counts_sessions [OF n udp_recv [OF udp_start], of 0] show ?thesis by simp
qed

end
