(* ===== verification/Traffic.thy ===== *)
theory Traffic
  imports Context
begin

text \<open>
  The shared registries of the traffic-control plugins (src/src/traffic/mod.rs) and the
  process-wide state the plugins share. An \<open>Instant\<close> is a number of nanoseconds and the current
  one is an argument; a \<open>DashMap\<close> is a hash map whose operations on one key are atomic.
\<close>

section \<open>Circuit breakers\<close>

record breaker_state =
  br_unhealthy_count :: nat
  br_healthy_count :: nat
  br_trip_round :: nat
  br_open_until :: "nat option"

definition new_breaker :: breaker_state where
  "new_breaker =
     \<lparr>br_unhealthy_count = 0, br_healthy_count = 0, br_trip_round = 0, br_open_until = None\<rparr>"

definition breaker_allow :: "nat \<Rightarrow> breaker_state \<Rightarrow> bool \<times> breaker_state" where
  "breaker_allow now b =
     (case br_open_until b of
        Some until \<Rightarrow> if now < until then (False, b) else (True, b\<lparr>br_open_until := None\<rparr>)
      | None \<Rightarrow> (True, b))"

definition record_healthy :: "nat \<Rightarrow> breaker_state \<Rightarrow> breaker_state" where
  "record_healthy threshold b =
     (let n = sat_add u32_max (br_healthy_count b) 1;
          b1 = b\<lparr>br_unhealthy_count := 0, br_healthy_count := n\<rparr>
      in if threshold \<le> n then b1\<lparr>br_healthy_count := 0, br_trip_round := 0\<rparr> else b1)"

definition breaker_backoff :: "nat \<Rightarrow> nat \<Rightarrow> nat \<Rightarrow> nat" where
  "breaker_backoff base mx trip_round =
     min (sat_mul u64_max base (2 ^ min trip_round 16)) (max mx base)"

definition record_unhealthy :: "nat \<Rightarrow> nat \<Rightarrow> nat \<Rightarrow> nat \<Rightarrow> breaker_state \<Rightarrow> breaker_state" where
  "record_unhealthy now threshold base mx b =
     (let n = sat_add u32_max (br_unhealthy_count b) 1;
          b1 = b\<lparr>br_healthy_count := 0, br_unhealthy_count := n\<rparr>
      in if threshold \<le> n then
           b1\<lparr>br_unhealthy_count := 0,
              br_open_until := Some (now + from_secs (breaker_backoff base mx (br_trip_round b))),
              br_trip_round := sat_add u32_max (br_trip_round b) 1\<rparr>
         else b1)"

section \<open>Response cache\<close>

record cache_entry =
  ce_status :: nat
  ce_headers :: "string list hmap"
  ce_body :: string
  ce_expires_at :: nat

definition cache_get :: "nat \<Rightarrow> string \<Rightarrow> cache_entry hmap \<Rightarrow> cache_entry option \<times> cache_entry hmap" where
  "cache_get now k m =
     (case hm_get m k of
        None \<Rightarrow> (None, m)
      | Some e \<Rightarrow> if now < ce_expires_at e then (Some e, m) else (None, hm_remove k m))"

definition cache_put ::
  "nat \<Rightarrow> string \<Rightarrow> nat \<Rightarrow> string list hmap \<Rightarrow> string \<Rightarrow> nat \<Rightarrow> cache_entry hmap \<Rightarrow> cache_entry hmap" where
  "cache_put now k status headers body ttl m =
     hm_insert k \<lparr>ce_status = status, ce_headers = headers, ce_body = body, ce_expires_at = now + ttl\<rparr> m"

section \<open>The shared state\<close>

text \<open>
  The state the nodes of every policy share: the clock, the registries of \<open>TrafficRegistries\<close>
  and the windows of the local counter store.
\<close>

record world =
  wd_now :: nat
  wd_conn :: "int hmap"
  wd_breakers :: "breaker_state hmap"
  wd_cache :: "cache_entry hmap"
  wd_windows :: "(nat \<times> nat) hmap"

definition empty_world :: world where
  "empty_world = \<lparr>wd_now = 0, wd_conn = [], wd_breakers = [], wd_cache = [], wd_windows = []\<rparr>"

text \<open>\<open>counter(key)\<close> and \<open>breaker(key)\<close> create the entry on first use.\<close>

definition conn_counter :: "string \<Rightarrow> 'a world_scheme \<Rightarrow> int" where
  "conn_counter k w = hm_entry (wd_conn w) k 0"

definition set_conn :: "string \<Rightarrow> int \<Rightarrow> 'a world_scheme \<Rightarrow> 'a world_scheme" where
  "set_conn k n w = w\<lparr>wd_conn := hm_insert k n (wd_conn w)\<rparr>"

definition breaker_of :: "string \<Rightarrow> 'a world_scheme \<Rightarrow> breaker_state" where
  "breaker_of k w = hm_entry (wd_breakers w) k new_breaker"

definition set_breaker :: "string \<Rightarrow> breaker_state \<Rightarrow> 'a world_scheme \<Rightarrow> 'a world_scheme" where
  "set_breaker k b w = w\<lparr>wd_breakers := hm_insert k b (wd_breakers w)\<rparr>"

lemma conn_counter_set [simp]:
  "conn_counter k (set_conn k' n w) = (if k = k' then n else conn_counter k w)"
  by (simp add: conn_counter_def set_conn_def hm_entry_def)

lemma breaker_of_set [simp]:
  "breaker_of k (set_breaker k' b w) = (if k = k' then b else breaker_of k w)"
  by (simp add: breaker_of_def set_breaker_def hm_entry_def)

lemma world_frame [simp]:
  "wd_now (set_conn k n w) = wd_now w" "wd_now (set_breaker k b w) = wd_now w"
  "breaker_of k (set_conn k' n w) = breaker_of k w"
  "conn_counter k (set_breaker k' b w) = conn_counter k w"
  by (simp_all add: set_conn_def set_breaker_def breaker_of_def conn_counter_def)

section \<open>Facts about the breaker\<close>

lemma breaker_allow_iff:
  "fst (breaker_allow now b) \<longleftrightarrow> (case br_open_until b of None \<Rightarrow> True | Some u \<Rightarrow> u \<le> now)"
  by (auto simp: breaker_allow_def split: option.splits)

lemma backoff_bounds:
  assumes "0 < base" "base \<le> u64_max"
  shows "base \<le> breaker_backoff base mx r \<and> breaker_backoff base mx r \<le> max mx base"
  using assms by (auto simp: breaker_backoff_def sat_mul_def)

lemma backoff_grows:
  "breaker_backoff base mx r \<le> breaker_backoff base mx (Suc r)"
proof -
  have "(2 :: nat) ^ min r 16 \<le> 2 ^ min (Suc r) 16" by (intro power_increasing) auto
  then show ?thesis
    unfolding breaker_backoff_def sat_mul_def by (intro min.mono order_refl mult_le_mono2)
qed

text \<open>Events at one breaker, each at its own instant.\<close>

datatype breaker_event = Ask nat | Healthy nat | Unhealthy nat

fun event_time :: "breaker_event \<Rightarrow> nat" where
  "event_time (Ask t) = t"
| "event_time (Healthy t) = t"
| "event_time (Unhealthy t) = t"

definition breaker_step :: "nat \<Rightarrow> nat \<Rightarrow> nat \<Rightarrow> nat \<Rightarrow> breaker_event \<Rightarrow> breaker_state \<Rightarrow> breaker_state" where
  "breaker_step ht ut base mx e b =
     (case e of
        Ask t \<Rightarrow> snd (breaker_allow t b)
      | Healthy _ \<Rightarrow> record_healthy ht b
      | Unhealthy t \<Rightarrow> record_unhealthy t ut base mx b)"

lemma step_keeps_open:
  assumes "br_open_until b = Some u" "t + from_secs base \<le> u"
    and "t \<le> event_time e" "event_time e < t + from_secs base"
    and "0 < base" "base \<le> u64_max"
  shows "\<exists>u'. t + from_secs base \<le> u' \<and> br_open_until (breaker_step ht ut base mx e b) = Some u'"
proof (cases e)
  case (Unhealthy t')
  have "from_secs base \<le> from_secs (breaker_backoff base mx (br_trip_round b))"
    using backoff_bounds [OF assms(5,6)] by (simp add: from_secs_def nanos_per_sec_def)
  with assms Unhealthy show ?thesis
    by (auto simp: breaker_step_def record_unhealthy_def Let_def)
qed (use assms in \<open>auto simp: breaker_step_def breaker_allow_def record_healthy_def Let_def\<close>)

lemma fold_keeps_open:
  assumes "br_open_until b = Some u" "t + from_secs base \<le> u"
    and "\<forall>e \<in> set es. t \<le> event_time e \<and> event_time e < t + from_secs base"
    and "0 < base" "base \<le> u64_max"
  shows "\<exists>u'. t + from_secs base \<le> u' \<and>
    br_open_until (fold (breaker_step ht ut base mx) es b) = Some u'"
  using assms
proof (induction es arbitrary: b u)
  case (Cons e es)
  then obtain u' where "t + from_secs base \<le> u'" "br_open_until (breaker_step ht ut base mx e b) = Some u'"
    using step_keeps_open [of b u t base e ht ut mx] by auto
  with Cons show ?case by simp
qed auto

section \<open>Properties\<close>

text \<open>
  C14: A tripped breaker stays shut: when an unhealthy response reaches the threshold at time t,
  every request that asks before t plus the base cooldown is refused, whatever requests and
  responses, healthy or not, the breaker sees in between.
\<close>

theorem tripped_breaker_refuses:
  assumes "ut \<le> sat_add u32_max (br_unhealthy_count b) 1" and "0 < base" and "base \<le> u64_max"
    and "\<forall>e \<in> set es. t \<le> event_time e \<and> event_time e < t + from_secs base"
    and "now < t + from_secs base"
  shows "\<not> fst (breaker_allow now
    (fold (breaker_step ht ut base mx) es (record_unhealthy t ut base mx b)))"
proof -
  have "from_secs base \<le> from_secs (breaker_backoff base mx (br_trip_round b))"
    using backoff_bounds [OF assms(2,3)] by (simp add: from_secs_def nanos_per_sec_def)
  then obtain u where "br_open_until (record_unhealthy t ut base mx b) = Some u" "t + from_secs base \<le> u"
    using assms(1) by (simp add: record_unhealthy_def Let_def)
  from fold_keeps_open [OF this assms(4,2,3), of ht ut mx] assms(5) show ?thesis
    by (auto simp: breaker_allow_iff)
qed

theorem tripped_breaker_refuses_witness:
  "\<not> fst (breaker_allow 1000000000
    (fold (breaker_step 3 1 2 300) [Ask 5, Healthy 6] (record_unhealthy 0 1 2 300 new_breaker)))"
  by (rule tripped_breaker_refuses)
    (simp_all add: sat_add_def u32_max_def u64_max_def from_secs_def nanos_per_sec_def)

text \<open>
  The cooldown of a trip is at least the base and at most the larger of base and maximum,
  and never shrinks as the trip round grows.
\<close>

theorem breaker_cooldown_bounds:
  assumes "0 < base" and "base \<le> u64_max"
  shows "base \<le> breaker_backoff base mx r \<and> breaker_backoff base mx r \<le> max mx base \<and>
    breaker_backoff base mx r \<le> breaker_backoff base mx (Suc r)"
  using backoff_bounds [OF assms] backoff_grows by blast

theorem breaker_cooldown_bounds_witness:
  "2 \<le> breaker_backoff 2 300 5 \<and> breaker_backoff 2 300 5 \<le> 300"
  using breaker_cooldown_bounds [of 2 300 5] by (simp add: u64_max_def)

text \<open>
  The cache never serves a stale entry, and serves a fresh one as it was stored, whatever
  other keys are stored in between.
\<close>

theorem cache_serves_fresh_only:
  assumes "\<forall>p \<in> set puts. fst (snd p) \<noteq> k"
  shows "fst (cache_get now k
      (fold (\<lambda>(t, k', st, hs, b, ttl). cache_put t k' st hs b ttl) puts (cache_put t0 k st0 hs0 b0 ttl0 m))) =
    (if now < t0 + ttl0
     then Some \<lparr>ce_status = st0, ce_headers = hs0, ce_body = b0, ce_expires_at = t0 + ttl0\<rparr> else None)"
proof -
  let ?e = "\<lparr>ce_status = st0, ce_headers = hs0, ce_body = b0, ce_expires_at = t0 + ttl0\<rparr>"
  have "hm_get (fold (\<lambda>(t, k', st, hs, b, ttl). cache_put t k' st hs b ttl) puts m') k = Some ?e"
    if "hm_get m' k = Some ?e" for m'
    using that assms by (induction puts arbitrary: m') (auto simp: cache_put_def)
  then have "hm_get (fold (\<lambda>(t, k', st, hs, b, ttl). cache_put t k' st hs b ttl) puts
      (cache_put t0 k st0 hs0 b0 ttl0 m)) k = Some ?e"
    by (simp add: cache_put_def)
  then show ?thesis by (simp add: cache_get_def)
qed

theorem cache_serves_fresh_only_witness:
  "fst (cache_get 5 ''a'' (cache_put 1 ''b'' 404 [] [] 9 (cache_put 0 ''a'' 200 [] ''x'' 10 []))) =
     Some \<lparr>ce_status = 200, ce_headers = [], ce_body = ''x'', ce_expires_at = 10\<rparr>"
  using cache_serves_fresh_only [of "[(1, ''b'', 404, [], [], 9)]" "''a''" 5 0 200 "[]" "''x''" 10 "[]"]
  by simp

end
