(* ===== verification/Plugin.thy ===== *)
theory Plugin
  imports Vars
begin

text \<open>
  The plugin interface (src/src/plugins/mod.rs): executing a node consumes the context and a
  shared world (the registries and counters of \<open>PluginResources\<close>) and yields either the context
  for the success port, or a context and an error for the error port. Named outputs are always
  empty in the code and the engine ignores them, so they are not part of the model.

  \<open>plugin_contract\<close> is what the engine relies on from every plugin; \<open>gate_contract\<close> is the
  contract of the access-control plugins, which either let a request through untouched or reject
  it with a response and an error.
\<close>

type_synonym plugin_result = "(gcontext \<times> gateway_error) + gcontext"

type_synonym 'w node_exec = "gcontext \<Rightarrow> 'w \<Rightarrow> plugin_result \<times> 'w"

record 'w plugin =
  pl_type :: string
  pl_exec :: "'w node_exec"

definition mk_error :: "string \<Rightarrow> string \<Rightarrow> gateway_error" where
  "mk_error code msg = \<lparr>err_node_id = [], err_code = code, err_message = msg, err_metadata = []\<rparr>"

definition result_ctx :: "plugin_result \<Rightarrow> gcontext" where
  "result_ctx r = (case r of Inl (c, _) \<Rightarrow> c | Inr c \<Rightarrow> c)"

lemma result_ctx_simps [simp]: "result_ctx (Inl (c, e)) = c" "result_ctx (Inr c) = c"
  by (simp_all add: result_ctx_def)

locale plugin_contract =
  fixes exec :: "gcontext \<Rightarrow> 'w \<Rightarrow> ((gcontext \<times> gateway_error) + gcontext) \<times> 'w"
  assumes keeps_errors: "cx_errors (result_ctx (fst (exec c w))) = cx_errors c"
begin

lemma ok_errors: "exec c w = (Inr c', w') \<Longrightarrow> cx_errors c' = cx_errors c"
  using keeps_errors [of c w] by simp

lemma err_errors: "exec c w = (Inl (c', e), w') \<Longrightarrow> cx_errors c' = cx_errors c"
  using keeps_errors [of c w] by simp

end

text \<open>A plugin that never takes the error port.\<close>

definition never_fails :: "'w node_exec \<Rightarrow> bool" where
  "never_fails ex \<longleftrightarrow> (\<forall>c w. \<exists>c'. fst (ex c w) = Inr c')"

locale gate_contract =
  fixes exec :: "gcontext \<Rightarrow> 'w \<Rightarrow> ((gcontext \<times> gateway_error) + gcontext) \<times> 'w"
  assumes pass_same: "fst (exec c w) = Inr c' \<Longrightarrow> c' = c"
    and reject_keeps: "fst (exec c w) = Inl (c', e) \<Longrightarrow>
      cx_request c' = cx_request c \<and> cx_message c' = cx_message c \<and> cx_errors c' = cx_errors c"
begin

sublocale plugin_contract exec
proof
  fix c w
  show "cx_errors (result_ctx (fst (exec c w))) = cx_errors c"
    using pass_same [of c w] reject_keeps [of c w]
    by (cases "fst (exec c w)") (auto simp: result_ctx_def)
qed

lemma request_unchanged: "cx_request (result_ctx (fst (exec c w))) = cx_request c"
  using pass_same [of c w] reject_keeps [of c w]
  by (cases "fst (exec c w)") (auto simp: result_ctx_def)

end

text \<open>Lifting a plugin without shared state to the interface.\<close>

definition pure_exec :: "(gcontext \<Rightarrow> plugin_result) \<Rightarrow> 'w node_exec" where
  "pure_exec f c w = (f c, w)"

lemma pure_exec_simps [simp]: "fst (pure_exec f c w) = f c" "snd (pure_exec f c w) = w"
  by (simp_all add: pure_exec_def)

text \<open>The JSON rejection the access-control plugins build.\<close>

definition reject_json :: "gcontext \<Rightarrow> nat \<Rightarrow> string \<Rightarrow> string \<Rightarrow> string \<Rightarrow> plugin_result" where
  "reject_json c status body code msg =
     Inl (json_content (set_body body (set_status status c)), mk_error code msg)"

lemma reject_json_keeps:
  "reject_json c st b cd m = Inl (c', e) \<Longrightarrow>
     cx_request c' = cx_request c \<and> cx_message c' = cx_message c \<and> cx_errors c' = cx_errors c \<and>
     rs_status_code (cx_response c') = st \<and> rs_body (cx_response c') = b \<and> err_code e = cd"
  by (auto simp: reject_json_def mk_error_def)

lemma reject_json_not_Inr [simp]: "reject_json c st b cd m \<noteq> Inr c'"
  by (simp add: reject_json_def)

text \<open>\<open>json!({ key: msg }).to_string()\<close>\<close>

definition json_msg :: "libs \<Rightarrow> string \<Rightarrow> string \<Rightarrow> string" where
  "json_msg L key msg = json_print L (JObj [(key, JStr msg)])"

text \<open>
  Composition of gates: running a list of them on a request, each one only if all before it
  let the request through.
\<close>

fun run_gates :: "(gcontext \<Rightarrow> plugin_result) list \<Rightarrow> gcontext \<Rightarrow> plugin_result" where
  "run_gates [] c = Inr c"
| "run_gates (f # fs) c = (case f c of Inl r \<Rightarrow> Inl r | Inr c' \<Rightarrow> run_gates fs c')"

lemma run_gates_pass:
  assumes "\<forall>f \<in> set fs. \<forall>c c'. f c = Inr c' \<longrightarrow> c' = c"
  shows "run_gates fs c = Inr c' \<longleftrightarrow> c' = c \<and> (\<forall>f \<in> set fs. f c = Inr c)"
  using assms by (induction fs arbitrary: c) (force split: sum.splits)+

end
