(* ===== verification/Rate_Limit.thy ===== *)
theory Rate_Limit
  imports Traffic Plugin
begin

text \<open>
  The counter stores of the rate limiters (src/src/ratelimit/mod.rs): the interface
  \<open>CounterStore\<close> as the locale \<open>counter_store\<close>, the in-memory fixed-window store and the registry
  that resolves a store by its policy name.
\<close>

record window_result =
  wr_allowed :: bool
  wr_remaining :: nat
  wr_reset :: nat
  wr_limit :: nat

type_synonym 's counter_incr = "string \<Rightarrow> nat \<Rightarrow> nat \<Rightarrow> 's \<Rightarrow> (string + window_result) \<times> 's"

locale counter_store =
  fixes incr :: "string \<Rightarrow> nat \<Rightarrow> nat \<Rightarrow> 's \<Rightarrow> (string + window_result) \<times> 's"
  assumes reports_limit: "fst (incr k limit window s) = Inr r \<Longrightarrow> wr_limit r = limit"
    and allowed_leaves: "fst (incr k limit window s) = Inr r \<Longrightarrow> wr_allowed r \<Longrightarrow> wr_remaining r < limit"
    and rejected_exhausted: "fst (incr k limit window s) = Inr r \<Longrightarrow> \<not> wr_allowed r \<Longrightarrow> wr_remaining r = 0"
    and reset_within: "fst (incr k limit window s) = Inr r \<Longrightarrow> wr_reset r \<le> window"
begin

lemma remaining_le: "fst (incr k limit window s) = Inr r \<Longrightarrow> wr_remaining r \<le> limit"
  using allowed_leaves [of k limit window s r] rejected_exhausted [of k limit window s r] by fastforce

end

section \<open>The local store\<close>

text \<open>One request against the window \<open>(start, cnt)\<close> of its key.\<close>

definition window_step :: "nat \<Rightarrow> nat \<Rightarrow> nat \<Rightarrow> nat \<times> nat \<Rightarrow> bool \<times> nat \<times> nat" where
  "window_step now limit window e =
     (let (start, cnt) = (if window \<le> now - fst e then (now, 0) else e);
          allowed = cnt < limit
      in (allowed, start, if allowed then cnt + 1 else cnt))"

definition local_incr :: "nat \<Rightarrow> string \<Rightarrow> nat \<Rightarrow> nat \<Rightarrow> (nat \<times> nat) hmap \<Rightarrow> window_result \<times> (nat \<times> nat) hmap" where
  "local_incr now k limit window m =
     (case window_step now limit window (hm_entry m k (now, 0)) of
        (allowed, start, cnt) \<Rightarrow>
          (\<lparr>wr_allowed = allowed, wr_remaining = limit - cnt, wr_reset = window - (now - start),
            wr_limit = limit\<rparr>, hm_insert k (start, cnt) m))"

definition local_store :: "'a world_scheme counter_incr" where
  "local_store k limit window w =
     (case local_incr (wd_now w) k limit window (wd_windows w) of
        (r, m) \<Rightarrow> (Inr r, w\<lparr>wd_windows := m\<rparr>))"

interpretation local_counter: counter_store local_store
  by unfold_locales
    (auto simp: local_store_def local_incr_def window_step_def Let_def split: prod.splits if_splits)

text \<open>The registry holds the one store \<open>local\<close>.\<close>

definition counter_stores :: "'a world_scheme counter_incr hmap" where
  "counter_stores = [(''local'', local_store)]"

definition get_store :: "'s hmap \<Rightarrow> string \<Rightarrow> string + 's" where
  "get_store stores policy =
     ok_or (hm_get stores policy)
       (''unknown rate-limit policy '' @ sq policy @ '' '' @ em_dash @ '' supported: '' @
        join '', '' (sort (hm_keys stores)))"

section \<open>How many requests a window admits\<close>

fun admitted :: "nat \<Rightarrow> nat \<Rightarrow> nat list \<Rightarrow> nat \<times> nat \<Rightarrow> nat" where
  "admitted limit window [] e = 0"
| "admitted limit window (t # ts) e =
     (case window_step t limit window e of
        (allowed, e') \<Rightarrow> (if allowed then 1 else 0) + admitted limit window ts e')"

text \<open>The requests of one key, run against the store, at the given instants.\<close>

fun store_run :: "string \<Rightarrow> nat \<Rightarrow> nat \<Rightarrow> nat list \<Rightarrow> (nat \<times> nat) hmap \<Rightarrow> bool list \<times> (nat \<times> nat) hmap" where
  "store_run k limit window [] m = ([], m)"
| "store_run k limit window (t # ts) m =
     (case local_incr t k limit window m of
        (r, m1) \<Rightarrow> (case store_run k limit window ts m1 of (rs, m2) \<Rightarrow> (wr_allowed r # rs, m2)))"

lemma store_run_admitted:
  "hm_get m k = Some e \<Longrightarrow> count_list (fst (store_run k limit window ts m)) True = admitted limit window ts e"
proof (induction ts arbitrary: m e)
  case Nil
  then show ?case by simp
next
  case (Cons t ts)
  obtain a e' where w: "window_step t limit window e = (a, e')" by (metis prod.collapse)
  with Cons.prems have "hm_get (snd (local_incr t k limit window m)) k = Some e'"
    and "wr_allowed (fst (local_incr t k limit window m)) = a"
    by (simp_all add: local_incr_def hm_entry_def split: prod.splits)
  with Cons.IH w show ?case by (simp add: case_prod_unfold)
qed

lemma admitted_one_window:
  "\<forall>t \<in> set ts. t - start < window \<Longrightarrow> admitted limit window ts (start, cnt) \<le> limit - cnt"
proof (induction ts arbitrary: cnt)
  case (Cons t ts)
  then have "admitted limit window ts (start, Suc cnt) \<le> limit - Suc cnt"
    "admitted limit window ts (start, cnt) \<le> limit - cnt" "t - start < window" by simp_all
  then show ?case by (auto simp: window_step_def Let_def not_le)
qed simp

lemma admitted_any_window:
  "\<forall>t \<in> set ts. T \<le> t \<and> t < T + window \<Longrightarrow> sorted ts \<Longrightarrow>
   admitted limit window ts (start, cnt) \<le> (limit - cnt) + limit"
proof (induction ts arbitrary: start cnt)
  case (Cons t ts)
  show ?case
  proof (cases "window \<le> t - start")
    case True
    have "\<forall>u \<in> set ts. u - t < window" using Cons.prems by fastforce
    then have "admitted limit window (t # ts) (t, 0) \<le> limit - 0"
      using Cons.prems by (intro admitted_one_window) fastforce
    moreover have "admitted limit window (t # ts) (start, cnt) = admitted limit window (t # ts) (t, 0)"
      using True Cons.prems by (auto simp: window_step_def Let_def)
    ultimately show ?thesis by simp
  next
    case False
    then show ?thesis
      using Cons.IH [of start "Suc cnt"] Cons.IH [of start cnt] Cons.prems
      by (auto simp: window_step_def Let_def)
  qed
qed simp

section \<open>Properties\<close>

text \<open>
  However a client times its requests, and whatever its window held before, the local store
  admits at most twice the limit in any interval shorter than the window.
\<close>

theorem fixed_window_admits_twice_limit:
  assumes "sorted ts" and "\<forall>t \<in> set ts. T \<le> t \<and> t < T + window"
  shows "count_list (fst (store_run k limit window ts m)) True \<le> 2 * limit"
proof (cases ts)
  case (Cons t us)
  define m' where "m' = hm_insert k (hm_entry m k (t, 0)) m"
  have e: "hm_entry m' k (t, 0) = hm_entry m k (t, 0)" "hm_get m' k = Some (hm_entry m k (t, 0))"
    by (simp_all add: m'_def hm_entry_def)
  have same: "fst (local_incr t k limit window m) = fst (local_incr t k limit window m')"
    "hm_get (snd (local_incr t k limit window m)) k = hm_get (snd (local_incr t k limit window m')) k"
    using e by (simp_all add: local_incr_def split: prod.splits)
  obtain st where st: "hm_get (snd (local_incr t k limit window m)) k = Some st"
    by (auto simp: local_incr_def case_prod_unfold)
  have "count_list (fst (store_run k limit window ts m)) True =
      count_list (fst (store_run k limit window ts m')) True"
    using store_run_admitted [OF st] store_run_admitted [of "snd (local_incr t k limit window m')" k st] st same
    by (simp add: Cons case_prod_unfold)
  also have "\<dots> = admitted limit window ts (hm_entry m k (t, 0))"
    by (rule store_run_admitted [OF e(2)])
  also have "\<dots> \<le> (limit - snd (hm_entry m k (t, 0))) + limit"
    using admitted_any_window [OF assms(2,1), of limit "fst (hm_entry m k (t, 0))" "snd (hm_entry m k (t, 0))"]
    by simp
  finally show ?thesis by simp
qed simp

theorem fixed_window_admits_twice_limit_witness:
  "count_list (fst (store_run ''k'' 1 10 [9, 10, 11] [(''k'', (0, 0))])) True \<le> 2"
  using fixed_window_admits_twice_limit [of "[9, 10, 11]" 9 10 "''k''" 1 "[(''k'', (0, 0))]"] by simp

end
