(* ===== verification/Plugin_Traffic.thy ===== *)
theory Plugin_Traffic
  imports Rate_Limit
begin

text \<open>
  The traffic-control plugins over the shared registries (src/src/plugins/native/limit_count.rs,
  limit_conn.rs, api_breaker.rs, proxy_cache.rs): configuration parsing with every error, and
  execution over the shared \<open>world\<close>.
\<close>

text \<open>\<open>config.get("phase").or_else(|| config.get("role")).and_then(|v| v.as_str())\<close>\<close>

definition cfg_phase :: "config \<Rightarrow> string option" where
  "cfg_phase c =
     Option.bind (case hm_get c ''phase'' of None \<Rightarrow> hm_get c ''role'' | Some v \<Rightarrow> Some v) as_str"

section \<open>limit-count\<close>

record 's limit_count =
  lc_count :: nat
  lc_window :: nat
  lc_key_template :: string
  lc_group :: "string option"
  lc_rejected_code :: nat
  lc_rejected_msg :: "string option"
  lc_show_header :: bool
  lc_allow_degradation :: bool
  lc_store :: "'s counter_incr"

definition limit_count_from_config ::
  "'s counter_incr hmap \<Rightarrow> config \<Rightarrow> string + 's limit_count" where
  "limit_count_from_config stores c =
     res_bind (ok_or (opt_filter (\<lambda>n. 0 < n) (cfg_u64 c ''count''))
       ''limit-count requires 'count' as an integer greater than 0'') (\<lambda>cnt.
     res_bind (ok_or (opt_filter (\<lambda>n. 0 < n) (cfg_u64 c ''time_window''))
       ''limit-count requires 'time_window' as an integer greater than 0 (seconds)'') (\<lambda>tw.
     res_bind (get_store stores (unwrap_or ''local'' (cfg_str c ''policy''))) (\<lambda>store.
       Inr \<lparr>lc_count = cnt, lc_window = from_secs tw,
            lc_key_template = unwrap_or ''$remote_addr'' (opt_filter (\<lambda>s. s \<noteq> []) (cfg_str c ''key'')),
            lc_group = opt_filter (\<lambda>s. s \<noteq> []) (cfg_str c ''group''),
            lc_rejected_code = unwrap_or 503
              (map_option as_u16 (opt_filter (\<lambda>n. 200 \<le> n \<and> n \<le> 599) (cfg_u64 c ''rejected_code''))),
            lc_rejected_msg = opt_filter (\<lambda>s. s \<noteq> []) (cfg_str c ''rejected_msg''),
            lc_show_header = unwrap_or True (cfg_bool c ''show_limit_quota_header''),
            lc_allow_degradation = unwrap_or False (cfg_bool c ''allow_degradation''),
            lc_store = store\<rparr>)))"

definition limit_count_key :: "libs \<Rightarrow> 's limit_count \<Rightarrow> gcontext \<Rightarrow> string" where
  "limit_count_key L p c =
     (let k = interpolate L c (lc_key_template p);
          k = (if k = [] then interpolate L c ''$remote_addr'' else k)
      in case lc_group p of Some g \<Rightarrow> g @ '':'' @ k | None \<Rightarrow> k)"

definition set_quota_headers :: "libs \<Rightarrow> 's limit_count \<Rightarrow> nat \<Rightarrow> nat \<Rightarrow> gcontext \<Rightarrow> gcontext" where
  "set_quota_headers L p remaining reset c =
     (if \<not> lc_show_header p then c
      else set_rs_header ''x-ratelimit-reset'' [show_nat (ceil_secs L reset)]
          (set_rs_header ''x-ratelimit-remaining'' [show_nat remaining]
          (set_rs_header ''x-ratelimit-limit'' [show_nat (lc_count p)] c)))"

definition limit_count_exec :: "libs \<Rightarrow> 's limit_count \<Rightarrow> 's node_exec" where
  "limit_count_exec L p c w =
     (case lc_store p (limit_count_key L p c) (lc_count p) (lc_window p) w of
        (Inl _, w1) \<Rightarrow>
          (if lc_allow_degradation p then (Inr c, w1)
           else (reject_json c 500 ''{\"error_msg\": \"failed to limit count\"}''
                   ''RATE_LIMIT_UNAVAILABLE'' ''failed to limit count'', w1))
      | (Inr r, w1) \<Rightarrow>
          (if wr_allowed r then (Inr (set_quota_headers L p (wr_remaining r) (wr_reset r) c), w1)
           else
             (let msg = unwrap_or ''Requests over the limit'' (lc_rejected_msg p) in
              (reject_json (set_quota_headers L p 0 (wr_reset r) c) (lc_rejected_code p)
                 (json_msg L ''error_msg'' msg) ''RATE_LIMITED'' msg, w1))))"

lemma set_quota_headers_frame [simp]:
  "cx_request (set_quota_headers L p n t c) = cx_request c"
  "cx_message (set_quota_headers L p n t c) = cx_message c"
  "cx_errors (set_quota_headers L p n t c) = cx_errors c"
  by (simp_all add: set_quota_headers_def)

interpretation limit_count_node: plugin_contract "limit_count_exec L p" for L p
  by unfold_locales
    (auto simp: limit_count_exec_def Let_def reject_json_def split: prod.splits sum.splits)

section \<open>limit-conn\<close>

datatype conn_role = AcquireRole | ReleaseRole

record limit_conn =
  ln_role :: conn_role
  ln_conn :: int
  ln_burst :: int
  ln_key :: string
  ln_key_constant :: bool
  ln_rejected_code :: nat
  ln_rejected_msg :: "string option"

definition limit_conn_from_config :: "config \<Rightarrow> string + limit_conn" where
  "limit_conn_from_config c =
     res_bind (case cfg_phase c of
         None \<Rightarrow> Inl (''limit-conn: 'phase' (or 'role') is required: 'acquire' or '' @ sq ''release'')
       | Some s \<Rightarrow>
           if s = ''acquire'' then Inr AcquireRole
           else if s = ''release'' then Inr ReleaseRole
           else Inl (''limit-conn: unknown phase/role '' @ sq s @ '' (expected 'acquire' or '' @ sq ''release'' @ '')''))
       (\<lambda>role.
     (let conn = unwrap_or 20 (cfg_i64 c ''conn''); burst = unwrap_or 0 (cfg_i64 c ''burst'') in
      if conn \<le> 0 then Inl (''limit-conn: 'conn' must be a positive integer, got '' @ show_int conn)
      else if burst < 0 then Inl (''limit-conn: 'burst' must be non-negative, got '' @ show_int burst)
      else Inr \<lparr>ln_role = role, ln_conn = conn, ln_burst = burst,
             ln_key = unwrap_or ''$remote_addr'' (cfg_str c ''key''),
             ln_key_constant = (cfg_str c ''key_type'' = Some ''constant''),
             ln_rejected_code = unwrap_or 503 (map_option as_u16 (cfg_u64 c ''rejected_code'')),
             ln_rejected_msg = cfg_str c ''rejected_msg''\<rparr>))"

fun json_escape :: "string \<Rightarrow> string" where
  "json_escape [] = []"
| "json_escape (ch # s) =
     (if ch = CHR 0x22 then [CHR 0x5C, CHR 0x22]
      else if ch = CHR 0x5C then [CHR 0x5C, CHR 0x5C]
      else if ch = CHR 0x0A then [CHR 0x5C, CHR ''n'']
      else if ch = CHR 0x0D then [CHR 0x5C, CHR ''r'']
      else if ch = CHR 0x09 then [CHR 0x5C, CHR ''t'']
      else [ch]) @ json_escape s"

definition json_string :: "string \<Rightarrow> string" where
  "json_string s = [CHR 0x22] @ json_escape s @ [CHR 0x22]"

definition conn_ceiling :: "limit_conn \<Rightarrow> int" where
  "conn_ceiling p = i64_wrap (ln_conn p + ln_burst p)"

definition limit_conn_key :: "libs \<Rightarrow> limit_conn \<Rightarrow> gcontext \<Rightarrow> string" where
  "limit_conn_key L p c = (if ln_key_constant p then ln_key p else interpolate L c (ln_key p))"

text \<open>The compare-and-swap loop of the release phase: one atomic decrement, floored at 0.\<close>

definition conn_release :: "int \<Rightarrow> int" where
  "conn_release n = (if 0 < n then n - 1 else n)"

definition limit_conn_exec :: "libs \<Rightarrow> limit_conn \<Rightarrow> 'a world_scheme node_exec" where
  "limit_conn_exec L p c w =
     (let k = limit_conn_key L p c; n = conn_counter k w in
      case ln_role p of
        AcquireRole \<Rightarrow>
          (if conn_ceiling p \<le> n then
             (reject_json c (ln_rejected_code p)
                (case ln_rejected_msg p of
                   Some msg \<Rightarrow> ''{\"error_msg\":'' @ json_string msg @ ''}''
                 | None \<Rightarrow> ''{\"error\":\"limit_conn_exceeded\"}'')
                ''LIMIT_CONN_EXCEEDED'' ''Concurrent request limit exceeded'',
              set_conn k (i64_wrap (i64_wrap (n + 1) - 1)) w)
           else (Inr c, set_conn k (i64_wrap (n + 1)) w))
      | ReleaseRole \<Rightarrow> (Inr c, set_conn k (conn_release n) w))"

interpretation limit_conn_node: gate_contract "limit_conn_exec L p" for L p
  by unfold_locales
    (auto simp: limit_conn_exec_def Let_def split: conn_role.splits if_splits
      dest: reject_json_keeps)

section \<open>api-breaker\<close>

text \<open>
  The status lists of both plugins: \<open>not_array\<close>, \<open>not_int\<close> and \<open>none_given\<close> are their messages and
  \<open>out_of_range\<close> the one for an entry outside 200 to 599.
\<close>

definition parse_status_list ::
  "string \<Rightarrow> string \<Rightarrow> (nat \<Rightarrow> string) \<Rightarrow> string \<Rightarrow> json option \<Rightarrow> string + nat list option" where
  "parse_status_list not_array not_int out_of_range none_given v =
     (case v of
        None \<Rightarrow> Inr None
      | Some v \<Rightarrow>
          res_bind (ok_or (as_array v) not_array) (\<lambda>arr.
          res_bind (traverse (\<lambda>item. res_bind (ok_or (as_u64 item) not_int)
              (\<lambda>n. if n < 200 \<or> 599 < n then Inl (out_of_range n) else Inr (as_u16 n))) arr) (\<lambda>out.
            if out = [] then Inl none_given else Inr (Some out))))"

definition breaker_statuses :: "json option \<Rightarrow> string + nat list option" where
  "breaker_statuses =
     parse_status_list ''http_statuses must be an array of integers''
       ''http_statuses entries must be integers''
       (\<lambda>n. ''http_statuses entry '' @ show_nat n @ '' is out of range (200-599)'')
       ''http_statuses must not be empty''"

datatype breaker_role = CheckRole | ObserveRole

record api_breaker =
  ab_role :: breaker_role
  ab_id :: string
  ab_unhealthy_statuses :: "nat list"
  ab_unhealthy_failures :: nat
  ab_healthy_statuses :: "nat list"
  ab_healthy_successes :: nat
  ab_break_base_sec :: nat
  ab_max_breaker_sec :: nat
  ab_break_response_code :: nat
  ab_break_response_body :: "string option"

definition api_breaker_from_config :: "config \<Rightarrow> string + api_breaker" where
  "api_breaker_from_config c =
     res_bind (case cfg_phase c of
         None \<Rightarrow> Inl (''api-breaker: 'phase' (or 'role') is required: 'check' or '' @ sq ''observe'')
       | Some s \<Rightarrow>
           if s = ''check'' then Inr CheckRole
           else if s = ''observe'' then Inr ObserveRole
           else Inl (''api-breaker: unknown phase/role '' @ sq s @ '' (expected 'check' or '' @
                  sq ''observe'' @ '')'')) (\<lambda>role.
     res_bind (ok_or (opt_filter (\<lambda>s. trim s \<noteq> []) (cfg_str c ''id''))
       (''api-breaker: 'id' is required (links the check/observe pair)'')) (\<lambda>i.
     (let unhealthy = hm_get c ''unhealthy''; healthy = hm_get c ''healthy'';
          get = (\<lambda>v k. Option.bind v (\<lambda>u. json_get u k));
          failures = unwrap_or 3 (Option.bind (get unhealthy ''failures'') as_u64);
          successes = unwrap_or 3 (Option.bind (get healthy ''successes'') as_u64);
          code = unwrap_or 502 (map_option as_u16 (cfg_u64 c ''break_response_code''));
          base = max 1 (unwrap_or 2 (cfg_u64 c ''break_base_sec''));
          mx = unwrap_or 300 (cfg_u64 c ''max_breaker_sec'')
      in res_bind (breaker_statuses (get unhealthy ''http_statuses'')) (\<lambda>us.
         res_bind (breaker_statuses (get healthy ''http_statuses'')) (\<lambda>hs.
           if failures < 1 then Inl ''api-breaker: unhealthy.failures must be >= 1''
           else if successes < 1 then Inl ''api-breaker: healthy.successes must be >= 1''
           else if code < 200 \<or> 599 < code then
             Inl (''api-breaker: break_response_code '' @ show_nat code @ '' is out of range (200-599)'')
           else if mx < 3 then Inl ''api-breaker: max_breaker_sec must be >= 3''
           else Inr \<lparr>ab_role = role, ab_id = i, ab_unhealthy_statuses = unwrap_or [500] us,
                     ab_unhealthy_failures = as_u32 failures,
                     ab_healthy_statuses = unwrap_or [200] hs,
                     ab_healthy_successes = as_u32 successes, ab_break_base_sec = base,
                     ab_max_breaker_sec = mx, ab_break_response_code = code,
                     ab_break_response_body = cfg_str c ''break_response_body''\<rparr>)))))"

definition api_breaker_exec :: "api_breaker \<Rightarrow> 'a world_scheme node_exec" where
  "api_breaker_exec p c w =
     (let b = breaker_of (ab_id p) w in
      case ab_role p of
        CheckRole \<Rightarrow>
          (case breaker_allow (wd_now w) b of
             (True, b1) \<Rightarrow> (Inr c, set_breaker (ab_id p) b1 w)
           | (False, b1) \<Rightarrow>
               (let c1 = set_status (ab_break_response_code p) c;
                    c2 = (case ab_break_response_body p of Some body \<Rightarrow> set_body body c1 | None \<Rightarrow> c1)
                in (Inl (c2, mk_error ''API_BREAKER_OPEN'' ''Circuit breaker is open''),
                    set_breaker (ab_id p) b1 w)))
      | ObserveRole \<Rightarrow>
          (let status = rs_status_code (cx_response c) in
           (Inr c, set_breaker (ab_id p)
              (if status \<in> set (ab_unhealthy_statuses p)
               then record_unhealthy (wd_now w) (ab_unhealthy_failures p) (ab_break_base_sec p)
                      (ab_max_breaker_sec p) b
               else if status \<in> set (ab_healthy_statuses p) then record_healthy (ab_healthy_successes p) b
               else b) w)))"

interpretation api_breaker_node: gate_contract "api_breaker_exec p" for p
  by unfold_locales
    (auto simp: api_breaker_exec_def Let_def split: breaker_role.splits prod.splits bool.splits
      option.splits)

section \<open>proxy-cache\<close>

definition cache_statuses_of :: "json option \<Rightarrow> string + nat list option" where
  "cache_statuses_of =
     parse_status_list ''proxy-cache: cache_http_statuses must be an array of integers''
       ''proxy-cache: cache_http_statuses entries must be integers''
       (\<lambda>n. ''proxy-cache: cache status '' @ show_nat n @ '' is out of range (200-599)'')
       ''proxy-cache: cache_http_statuses must not be empty''"

datatype cache_role = LookupRole | StoreRole

record proxy_cache =
  px_role :: cache_role
  px_id :: string
  px_cache_key :: "string list"
  px_cache_ttl :: nat
  px_cache_statuses :: "nat list"
  px_cache_methods :: "string list"
  px_hide_headers :: bool

definition cache_key_of :: "json option \<Rightarrow> string + string list" where
  "cache_key_of v =
     (case v of
        None \<Rightarrow> Inr [''$request_method'', ''$host'', ''$uri'']
      | Some (JStr s) \<Rightarrow> Inr [s]
      | Some (JArr items) \<Rightarrow>
          res_bind (traverse (\<lambda>i. ok_or (as_str i) ''proxy-cache: cache_key entries must be strings'') items)
            (\<lambda>out. if out = [] then Inl ''proxy-cache: cache_key must not be empty'' else Inr out)
      | Some _ \<Rightarrow> Inl ''proxy-cache: cache_key must be a string or an array of strings'')"

definition cache_methods_of :: "libs \<Rightarrow> json option \<Rightarrow> string + string list" where
  "cache_methods_of L v =
     (case v of
        None \<Rightarrow> Inr [''GET'', ''HEAD'']
      | Some v \<Rightarrow>
          res_bind (ok_or (as_array v) ''proxy-cache: cache_method must be an array of strings'') (\<lambda>arr.
          res_bind (traverse (\<lambda>i. map_sum id (to_uppercase L)
              (ok_or (as_str i) ''proxy-cache: cache_method entries must be strings'')) arr) (\<lambda>out.
            if out = [] then Inl ''proxy-cache: cache_method must not be empty'' else Inr out)))"

definition proxy_cache_from_config :: "libs \<Rightarrow> config \<Rightarrow> string + proxy_cache" where
  "proxy_cache_from_config L c =
     res_bind (case cfg_phase c of
         None \<Rightarrow> Inl (''proxy-cache: 'phase' (or 'role') is required: 'lookup' or '' @ sq ''store'')
       | Some s \<Rightarrow>
           if s = ''lookup'' then Inr LookupRole
           else if s = ''store'' then Inr StoreRole
           else Inl (''proxy-cache: unknown phase/role '' @ sq s @ '' (expected 'lookup' or '' @
                  sq ''store'' @ '')'')) (\<lambda>role.
     res_bind (ok_or (opt_filter (\<lambda>s. trim s \<noteq> []) (cfg_str c ''id''))
       (''proxy-cache: 'id' is required (links the lookup/store pair)'')) (\<lambda>i.
     res_bind (cache_key_of (hm_get c ''cache_key'')) (\<lambda>key.
     (let ttl = unwrap_or 300 (cfg_u64 c ''cache_ttl'') in
      if ttl = 0 then Inl ''proxy-cache: cache_ttl must be >= 1 second''
      else
        res_bind (cache_statuses_of (case hm_get c ''cache_http_statuses'' of
            Some v \<Rightarrow> Some v | None \<Rightarrow> hm_get c ''cache_http_status'')) (\<lambda>sts.
        res_bind (cache_methods_of L (hm_get c ''cache_method'')) (\<lambda>ms.
          Inr \<lparr>px_role = role, px_id = i, px_cache_key = key, px_cache_ttl = from_secs ttl,
               px_cache_statuses = unwrap_or [200, 301, 404] sts, px_cache_methods = ms,
               px_hide_headers = unwrap_or False (cfg_bool c ''hide_cache_headers'')\<rparr>))))))"

definition cache_status_header :: string where
  "cache_status_header = ''featherbit-cache-status''"

definition hidden_headers :: "string list" where
  "hidden_headers = [''cache-control'', ''expires'']"

definition method_cacheable :: "libs \<Rightarrow> proxy_cache \<Rightarrow> gcontext \<Rightarrow> bool" where
  "method_cacheable L p c \<longleftrightarrow> to_uppercase L (rq_method (cx_request c)) \<in> set (px_cache_methods p)"

definition derive_key :: "libs \<Rightarrow> proxy_cache \<Rightarrow> gcontext \<Rightarrow> string" where
  "derive_key L p c =
     px_id p @ concat (map (\<lambda>t. CHR 0x01 # interpolate L c t) (px_cache_key p))"

definition serve_entry :: "proxy_cache \<Rightarrow> cache_entry \<Rightarrow> gcontext \<Rightarrow> gcontext" where
  "serve_entry p e c =
     (let hs = (if px_hide_headers p then fold hm_remove hidden_headers (ce_headers e) else ce_headers e)
      in c\<lparr>cx_response :=
           \<lparr>rs_status_code = ce_status e, rs_headers = hm_insert cache_status_header [''HIT''] hs,
            rs_body = ce_body e\<rparr>\<rparr>)"

definition proxy_cache_exec :: "libs \<Rightarrow> proxy_cache \<Rightarrow> 'a world_scheme node_exec" where
  "proxy_cache_exec L p c w =
     (if \<not> method_cacheable L p c then (Inr c, w)
      else
        (let key = derive_key L p c in
         case px_role p of
           LookupRole \<Rightarrow>
             (case cache_get (wd_now w) key (wd_cache w) of
                (Some e, m) \<Rightarrow>
                  (Inl (serve_entry p e c, mk_error ''PROXY_CACHE_HIT'' ''Served from cache''),
                   w\<lparr>wd_cache := m\<rparr>)
              | (None, m) \<Rightarrow> (Inr c, w\<lparr>wd_cache := m\<rparr>))
         | StoreRole \<Rightarrow>
             (let r = cx_response c in
              (Inr (set_rs_header cache_status_header [''MISS''] c),
               if rs_status_code r \<in> set (px_cache_statuses p)
               then w\<lparr>wd_cache := cache_put (wd_now w) key (rs_status_code r) (rs_headers r)
                        (rs_body r) (px_cache_ttl p) (wd_cache w)\<rparr>
               else w))))"

interpretation proxy_cache_node: plugin_contract "proxy_cache_exec L p" for L p
  by unfold_locales
    (auto simp: proxy_cache_exec_def Let_def serve_entry_def split: cache_role.splits prod.splits
      option.splits)

section \<open>Concurrent requests at one limit-conn key\<close>

text \<open>
  The atomic steps of concurrent requests on one counter. A request at the acquire node adds one
  and sees the old value; under the ceiling it is inside until its release node has run, over it
  it still has to take its addition back. \<open>(n, inside, undo)\<close> counts both kinds. Fewer than
  \<open>2 ^ 63\<close> requests exist at a time.
\<close>

inductive conn_reach :: "limit_conn \<Rightarrow> int \<times> nat \<times> nat \<Rightarrow> bool" for p where
  conn_start: "conn_reach p (0, 0, 0)"
| conn_admit: "conn_reach p (n, inside, undo) \<Longrightarrow> n < 2 ^ 63 - 1 \<Longrightarrow> n < conn_ceiling p \<Longrightarrow>
    conn_reach p (i64_wrap (n + 1), Suc inside, undo)"
| conn_reject: "conn_reach p (n, inside, undo) \<Longrightarrow> n < 2 ^ 63 - 1 \<Longrightarrow> conn_ceiling p \<le> n \<Longrightarrow>
    conn_reach p (i64_wrap (n + 1), inside, Suc undo)"
| conn_undo: "conn_reach p (n, inside, Suc undo) \<Longrightarrow> conn_reach p (i64_wrap (n - 1), inside, undo)"
| conn_leave: "conn_reach p (n, Suc inside, undo) \<Longrightarrow> conn_reach p (conn_release n, inside, undo)"

lemma conn_reach_counts:
  "conn_reach p (n, inside, undo) \<Longrightarrow>
     n = int inside + int undo \<and> n < 2 ^ 63 \<and> (inside = 0 \<or> int inside \<le> conn_ceiling p)"
proof (induction "(n, inside, undo)" arbitrary: n inside undo rule: conn_reach.induct)
  case (conn_admit n inside undo)
  then show ?case by (auto simp: i64_wrap_small)
next
  case (conn_reject n inside undo)
  then show ?case by (auto simp: i64_wrap_small)
next
  case (conn_undo n inside undo)
  then show ?case by (auto simp: i64_wrap_small)
next
  case (conn_leave n inside undo)
  then show ?case by (auto simp: conn_release_def)
qed simp

lemma conn_ceiling_sum:
  "limit_conn_from_config c = Inr p \<Longrightarrow> ln_conn p + ln_burst p < 2 ^ 63 \<Longrightarrow>
   conn_ceiling p = ln_conn p + ln_burst p \<and> 0 < conn_ceiling p"
  by (auto simp: limit_conn_from_config_def conn_ceiling_def res_bind_eq_Inr Let_def i64_wrap_small
      split: if_splits)

section \<open>Properties\<close>


definition demo_limit_conn :: limit_conn where
  "demo_limit_conn =
     \<lparr>ln_role = AcquireRole, ln_conn = 1, ln_burst = 0, ln_key = ''k'', ln_key_constant = True,
      ln_rejected_code = 503, ln_rejected_msg = None\<rparr>"



definition demo_cache :: "cache_role \<Rightarrow> proxy_cache" where
  "demo_cache r =
     \<lparr>px_role = r, px_id = ''c'', px_cache_key = [''k''], px_cache_ttl = 10, px_cache_statuses = [200],
      px_cache_methods = [''GET''], px_hide_headers = False\<rparr>"

definition demo_get :: gcontext where
  "demo_get =
     \<lparr>cx_request = \<lparr>rq_method = ''GET'', rq_path = ''/'', rq_host = ''h'', rq_scheme = ''http'',
        rq_headers = [], rq_query_params = [], rq_body = [], rq_remote_addr = ''10.0.0.1:5000'',
        rq_protocol = Http1\<rparr>,
      cx_response = \<lparr>rs_status_code = 200, rs_headers = [], rs_body = ''x''\<rparr>,
      cx_message = [], cx_errors = []\<rparr>"


end
