(* ===== verification/Consumers.thy ===== *)
theory Consumers
  imports Plugin_Traffic
begin

text \<open>
  The consumer store (src/src/consumers/mod.rs): the index from credentials to consumers built
  from the configuration, and the identity an authentication plugin attaches to a request. The
  store joins the shared state as \<open>gw_consumers\<close>.
\<close>

record consumer =
  cn_name :: string
  cn_group :: "string option"
  cn_labels :: "string hmap"
  cn_credentials :: "json hmap"

text \<open>\<open>ConsumerConfig\<close> has the same fields as \<open>Consumer\<close>; the store copies them.\<close>

type_synonym consumer_config = consumer

record consumer_store =
  st_by_name :: "consumer hmap"
  st_by_credential :: "consumer hmap hmap"

definition empty_store :: consumer_store where
  "empty_store = \<lparr>st_by_name = [], st_by_credential = []\<rparr>"

definition primary_credential_field :: "string \<Rightarrow> string" where
  "primary_credential_field t =
     (if t = ''basic-auth'' then ''username''
      else if t = ''hmac-auth'' then ''access_key''
      else ''key'')"

definition primary_value :: "string \<Rightarrow> json \<Rightarrow> string option" where
  "primary_value t cred = Option.bind (json_get cred (primary_credential_field t)) as_str"

definition add_credential ::
  "consumer \<Rightarrow> string \<times> json \<Rightarrow> consumer_store \<Rightarrow> string + consumer_store" where
  "add_credential c tc s =
     (case tc of (t, cred) \<Rightarrow>
        res_bind (ok_or (primary_value t cred)
          (''consumer '' @ sq (cn_name c) @ '': credential '' @ sq t @ '' is missing string field '' @
           sq (primary_credential_field t))) (\<lambda>v.
          let index = hm_entry (st_by_credential s) t [] in
          case hm_get index v of
            Some existing \<Rightarrow> Inl (''consumers '' @ sq (cn_name existing) @ '' and '' @ sq (cn_name c) @
                '' share the same '' @ t @ '' credential'')
          | None \<Rightarrow> Inr (s\<lparr>st_by_credential := hm_insert t (hm_insert v c index) (st_by_credential s)\<rparr>)))"

definition add_consumer :: "consumer_config \<Rightarrow> consumer_store \<Rightarrow> string + consumer_store" where
  "add_consumer c s =
     (if trim (cn_name c) = [] then Inl ''consumer with empty name''
      else if hm_has (st_by_name s) (cn_name c) then Inl (''duplicate consumer name '' @ sq (cn_name c))
      else fold_res (add_credential c) (cn_credentials c)
             (s\<lparr>st_by_name := hm_insert (cn_name c) c (st_by_name s)\<rparr>))"

definition store_from_config :: "consumer_config list \<Rightarrow> string + consumer_store" where
  "store_from_config cs = fold_res add_consumer cs empty_store"

definition find_by_credential :: "consumer_store \<Rightarrow> string \<Rightarrow> string \<Rightarrow> consumer option" where
  "find_by_credential s t v = Option.bind (hm_get (st_by_credential s) t) (\<lambda>i. hm_get i v)"

definition get_consumer :: "consumer_store \<Rightarrow> string \<Rightarrow> consumer option" where
  "get_consumer s n = hm_get (st_by_name s) n"

definition labels_json :: "string hmap \<Rightarrow> json" where
  "labels_json m = JObj (map (\<lambda>(k, v). (k, JStr v)) m)"

definition attach_consumer :: "consumer \<Rightarrow> string \<Rightarrow> gcontext \<Rightarrow> gcontext" where
  "attach_consumer k auth_type c =
     (let c1 = set_message ''consumer.name'' (JStr (cn_name k)) c;
          c2 = (case cn_group k of Some g \<Rightarrow> set_message ''consumer.group'' (JStr g) c1 | None \<Rightarrow> c1);
          c3 = (if cn_labels k \<noteq> [] then set_message ''consumer.labels'' (labels_json (cn_labels k)) c2
                else c2);
          c4 = set_message ''consumer.auth_type'' (JStr auth_type) c3;
          c5 = set_rq_header ''x-consumer-username'' [cn_name k] c4
      in case hm_get (cn_labels k) ''custom_id'' of
           Some i \<Rightarrow> set_rq_header ''x-consumer-custom-id'' [i] (set_message ''consumer.custom_id'' (JStr i) c5)
         | None \<Rightarrow> c5)"

record gw_world = world +
  gw_consumers :: consumer_store

section \<open>The index is exact\<close>

fun entries_of :: "consumer \<Rightarrow> json hmap \<Rightarrow> ((string \<times> string option) \<times> consumer) list" where
  "entries_of c [] = []"
| "entries_of c ((t, cred) # creds) = ((t, primary_value t cred), c) # entries_of c creds"

definition credential_entries :: "consumer_config list \<Rightarrow> ((string \<times> string option) \<times> consumer) list" where
  "credential_entries cs =
     concat (map (\<lambda>c. entries_of c (cn_credentials c)) cs)"

definition consumers_wf :: "consumer_config list \<Rightarrow> bool" where
  "consumers_wf cs \<longleftrightarrow>
     (\<forall>c \<in> set cs. trim (cn_name c) \<noteq> []) \<and> distinct (map cn_name cs) \<and>
     (\<forall>e \<in> set (credential_entries cs). snd (fst e) \<noteq> None) \<and>
     distinct (map fst (credential_entries cs))"

lemma find_add_credential:
  "find_by_credential (s\<lparr>st_by_credential :=
       hm_insert t (hm_insert v c (hm_entry (st_by_credential s) t [])) (st_by_credential s)\<rparr>) t' v' =
     (if t' = t \<and> v' = v then Some c else find_by_credential s t' v')"
  by (simp add: find_by_credential_def hm_entry_def split: option.splits)

lemma hm_get_entry: "hm_get (hm_entry (st_by_credential s) t []) v = find_by_credential s t v"
  by (simp add: find_by_credential_def hm_entry_def split: option.splits)

lemma add_credential_Inr:
  "add_credential c (t, cred) s = Inr s' \<longleftrightarrow>
     (\<exists>v. primary_value t cred = Some v \<and> find_by_credential s t v = None \<and>
        s' = s\<lparr>st_by_credential :=
          hm_insert t (hm_insert v c (hm_entry (st_by_credential s) t [])) (st_by_credential s)\<rparr>)"
  by (auto simp: add_credential_def res_bind_eq_Inr ok_or_eq_Inr Let_def hm_get_entry
      split: option.splits)

text \<open>\<open>holds s es\<close>: the store finds exactly the entries \<open>es\<close>.\<close>

definition holds :: "consumer_store \<Rightarrow> ((string \<times> string option) \<times> consumer) list \<Rightarrow> bool" where
  "holds s es \<longleftrightarrow> (\<forall>t v. find_by_credential s t v = map_of es (t, Some v))"

lemma add_credentials:
  fixes s s' :: consumer_store and c :: consumer
  assumes "holds s es"
  shows "(\<exists>s'. fold_res (add_credential c) creds s = Inr s') \<longleftrightarrow>
     (\<forall>e \<in> set (entries_of c creds). snd (fst e) \<noteq> None \<and> map_of es (fst e) = None) \<and>
     distinct (map fst (entries_of c creds))"
    and "fold_res (add_credential c) creds s = Inr s' \<Longrightarrow>
      st_by_name s' = st_by_name s \<and>
      holds s' (rev (entries_of c creds) @ es)"
  using assms
proof (induction creds arbitrary: s es s')
  case Nil
  {
    case 1
    then show ?case by simp
  next
    case 2
    then show ?case by simp
  }
next
  case (Cons tc creds)
  obtain t cred where tc: "tc = (t, cred)" by force
  define s1 :: "consumer_store \<Rightarrow> string \<Rightarrow> consumer_store" where "s1 s v = s\<lparr>st_by_credential :=
     hm_insert t (hm_insert v c (hm_entry (st_by_credential s) t [])) (st_by_credential s)\<rparr>" for s v
  have h1: "holds (s1 s v) (((t, Some v), c) # es)" if "holds s es" for s es v
    using that by (auto simp: holds_def s1_def find_add_credential)
  {
    case 1
    show ?case
    proof (cases "\<exists>v. primary_value t cred = Some v \<and> find_by_credential s t v = None")
      case True
      then obtain v where v: "primary_value t cred = Some v" "find_by_credential s t v = None" by blast
      then have a: "add_credential c tc s = Inr (s1 s v)" by (simp add: tc add_credential_Inr s1_def)
      show ?thesis
        using Cons.IH(1) [OF h1 [OF 1], of v] a v 1
        by (auto simp: tc holds_def image_iff)
    next
      case False
      then have "\<not> (\<exists>s'. add_credential c tc s = Inr s')" by (auto simp: tc add_credential_Inr)
      then obtain e where "add_credential c tc s = Inl e" by (cases "add_credential c tc s") auto
      with False 1 show ?thesis by (auto simp: tc Let_def holds_def)
    qed
  next
    case 2
    then obtain v where v: "primary_value t cred = Some v" and a: "add_credential c tc s = Inr (s1 s v)"
      and r: "fold_res (add_credential c) creds (s1 s v) = Inr s'"
      by (auto simp: tc add_credential_Inr s1_def split: sum.splits)
    show ?case
      using Cons.IH(2) [OF r h1 [OF 2(2)]] v by (simp add: tc s1_def)
  }
qed

lemma add_consumer_Inr:
  assumes "holds s es"
  shows "(\<exists>s'. add_consumer c s = Inr s') \<longleftrightarrow>
     trim (cn_name c) \<noteq> [] \<and> hm_get (st_by_name s) (cn_name c) = None \<and>
     (\<forall>e \<in> set (entries_of c (cn_credentials c)). snd (fst e) \<noteq> None \<and> map_of es (fst e) = None) \<and>
     distinct (map fst (entries_of c (cn_credentials c)))"
    and "add_consumer c s = Inr s' \<Longrightarrow>
      st_by_name s' = hm_insert (cn_name c) c (st_by_name s) \<and>
      holds s' (rev (entries_of c (cn_credentials c)) @ es)"
proof -
  let ?s = "s\<lparr>st_by_name := hm_insert (cn_name c) c (st_by_name s)\<rparr>"
  have h: "holds ?s es" using assms by (simp add: holds_def find_by_credential_def)
  show "(\<exists>s'. add_consumer c s = Inr s') \<longleftrightarrow>
     trim (cn_name c) \<noteq> [] \<and> hm_get (st_by_name s) (cn_name c) = None \<and>
     (\<forall>e \<in> set (entries_of c (cn_credentials c)). snd (fst e) \<noteq> None \<and> map_of es (fst e) = None) \<and>
     distinct (map fst (entries_of c (cn_credentials c)))"
    using add_credentials(1) [OF h, of c "cn_credentials c"]
    by (simp add: add_consumer_def hm_has_def)
  show "add_consumer c s = Inr s' \<Longrightarrow>
      st_by_name s' = hm_insert (cn_name c) c (st_by_name s) \<and>
      holds s' (rev (entries_of c (cn_credentials c)) @ es)"
    using add_credentials(2) [OF h, of c "cn_credentials c" s']
    by (simp add: add_consumer_def hm_has_def split: if_splits)
qed

lemma credential_entries_Cons:
  "credential_entries (c # cs) = entries_of c (cn_credentials c) @ credential_entries cs"
  by (simp add: credential_entries_def)

lemma map_of_rev_append_None:
  "map_of (rev xs @ es) k = None \<longleftrightarrow> map_of es k = None \<and> k \<notin> set (map fst xs)"
  by (auto simp: map_of_eq_None_iff)

lemma add_consumers:
  assumes "holds s es"
  shows "(\<exists>s'. fold_res add_consumer cs s = Inr s') \<longleftrightarrow>
     (\<forall>c \<in> set cs. trim (cn_name c) \<noteq> [] \<and> hm_get (st_by_name s) (cn_name c) = None) \<and>
     distinct (map cn_name cs) \<and>
     (\<forall>e \<in> set (credential_entries cs). snd (fst e) \<noteq> None \<and> map_of es (fst e) = None) \<and>
     distinct (map fst (credential_entries cs))"
    and "fold_res add_consumer cs s = Inr s' \<Longrightarrow>
      st_by_name s' = fold (\<lambda>c. hm_insert (cn_name c) c) cs (st_by_name s) \<and>
      holds s' (rev (credential_entries cs) @ es)"
  using assms
proof (induction cs arbitrary: s es s')
  case Nil
  {
    case 1
    then show ?case by (simp add: credential_entries_def)
  next
    case 2
    then show ?case by (simp add: credential_entries_def)
  }
next
  case (Cons c cs)
  {
    case 1
    note a = add_consumer_Inr [OF 1, of c]
    show ?case
    proof (cases "\<exists>s1. add_consumer c s = Inr s1")
      case True
      then obtain s1 where s1: "add_consumer c s = Inr s1" by blast
      note b = a(2) [OF s1]
      let ?A = "entries_of c (cn_credentials c)" and ?B = "credential_entries cs"
      have m: "map_of (rev ?A @ es) (fst e) = None \<longleftrightarrow> map_of es (fst e) = None \<and> fst e \<notin> fst ` set ?A" for e
        using map_of_rev_append_None [of ?A es "fst e"] by simp
      have nm: "(\<forall>d \<in> set cs. hm_get (st_by_name s1) (cn_name d) = None) \<longleftrightarrow>
          (\<forall>d \<in> set cs. hm_get (st_by_name s) (cn_name d) = None) \<and> cn_name c \<notin> cn_name ` set cs"
        using b by (auto simp: image_iff)
      have dj: "distinct (map fst (?A @ ?B)) \<longleftrightarrow>
          distinct (map fst ?A) \<and> distinct (map fst ?B) \<and> (\<forall>e \<in> set ?B. fst e \<notin> fst ` set ?A)"
        unfolding map_append distinct_append set_map disjoint_iff by blast
      have l: "(\<exists>s'. fold_res add_consumer (c # cs) s = Inr s') \<longleftrightarrow> (\<exists>s'. fold_res add_consumer cs s1 = Inr s')"
        using s1 by simp
      have t: "trim (cn_name c) \<noteq> []" "hm_get (st_by_name s) (cn_name c) = None"
        "\<forall>e \<in> set ?A. snd (fst e) \<noteq> None \<and> map_of es (fst e) = None" "distinct (map fst ?A)"
        using a(1) True by blast+
      show ?thesis
        unfolding l Cons.IH(1) [OF conjunct2 [OF b]] credential_entries_Cons dj ball_conj_distrib nm m
        using t by (simp add: ball_Un ball_conj_distrib) blast
    next
      case False
      then obtain e where "add_consumer c s = Inl e" by (cases "add_consumer c s") auto
      with False a(1) show ?thesis by (auto simp: credential_entries_Cons)
    qed
  next
    case 2
    then obtain s1 where s1: "add_consumer c s = Inr s1" and r: "fold_res add_consumer cs s1 = Inr s'"
      by (auto split: sum.splits)
    note b = add_consumer_Inr(2) [OF 2(2) s1]
    show ?case
      using Cons.IH(2) [OF r conjunct2 [OF b]] b by (simp add: credential_entries_Cons)
  }
qed

lemma store_from_config_iff: "(\<exists>s. store_from_config cs = Inr s) \<longleftrightarrow> consumers_wf cs"
proof -
  have "holds empty_store []" by (simp add: holds_def find_by_credential_def empty_store_def)
  from add_consumers(1) [OF this, of cs] show ?thesis
    by (auto simp: store_from_config_def consumers_wf_def empty_store_def)
qed

lemma fold_insert_name: "k \<notin> set (map cn_name cs) \<Longrightarrow>
   hm_get (fold (\<lambda>c. hm_insert (cn_name c) c) cs m) k = hm_get m k"
  by (induction cs arbitrary: m) auto

lemma fold_insert_name_mem: "distinct (map cn_name cs) \<Longrightarrow> c \<in> set cs \<Longrightarrow>
   hm_get (fold (\<lambda>c. hm_insert (cn_name c) c) cs m) (cn_name c) = Some c"
  by (induction cs arbitrary: m) (auto simp: fold_insert_name)

lemma credential_entries_mem:
  "((t, Some v), c) \<in> set (credential_entries cs) \<longleftrightarrow>
     c \<in> set cs \<and> (\<exists>cred. (t, cred) \<in> set (cn_credentials c) \<and> primary_value t cred = Some v)"
proof -
  have "((t, Some v), c) \<in> set (entries_of d creds) \<longleftrightarrow>
      c = d \<and> (\<exists>cred. (t, cred) \<in> set creds \<and> primary_value t cred = Some v)" for d creds
    by (induction d creds rule: entries_of.induct) auto
  then show ?thesis by (auto simp: credential_entries_def)
qed

lemma lookup_exact:
  assumes "store_from_config cs = Inr s"
  shows "(find_by_credential s t v = Some c \<longleftrightarrow>
      c \<in> set cs \<and> (\<exists>cred. (t, cred) \<in> set (cn_credentials c) \<and> primary_value t cred = Some v)) \<and>
    (get_consumer s n = Some c \<longleftrightarrow> c \<in> set cs \<and> cn_name c = n)"
proof
  have wf: "consumers_wf cs" using assms store_from_config_iff by blast
  have "holds empty_store []" by (simp add: holds_def find_by_credential_def empty_store_def)
  from add_consumers(2) [OF this assms [unfolded store_from_config_def]]
  have n: "st_by_name s = fold (\<lambda>c. hm_insert (cn_name c) c) cs []"
    and h: "holds s (rev (credential_entries cs))" by (simp_all add: empty_store_def)
  have "distinct (map fst (rev (credential_entries cs)))"
    using wf by (simp add: consumers_wf_def rev_map [symmetric])
  then have "map_of (rev (credential_entries cs)) (t, Some v) = Some c \<longleftrightarrow>
      ((t, Some v), c) \<in> set (credential_entries cs)" by simp
  with h show "find_by_credential s t v = Some c \<longleftrightarrow>
      c \<in> set cs \<and> (\<exists>cred. (t, cred) \<in> set (cn_credentials c) \<and> primary_value t cred = Some v)"
    by (simp add: holds_def credential_entries_mem)
  have d: "distinct (map cn_name cs)" using wf by (simp add: consumers_wf_def)
  show "get_consumer s n = Some c \<longleftrightarrow> c \<in> set cs \<and> cn_name c = n"
  proof (cases "n \<in> set (map cn_name cs)")
    case True
    then obtain c0 where c0: "c0 \<in> set cs" "cn_name c0 = n" by auto
    have g: "get_consumer s (cn_name d) = Some d" if "d \<in> set cs" for d
      using fold_insert_name_mem [OF d that] n by (simp add: get_consumer_def)
    show ?thesis
    proof
      assume "get_consumer s n = Some c"
      then show "c \<in> set cs \<and> cn_name c = n" using g [OF c0(1)] c0 by simp
    next
      assume "c \<in> set cs \<and> cn_name c = n"
      then show "get_consumer s n = Some c" using g by blast
    qed
  next
    case False
    then have "get_consumer s n = None"
      using fold_insert_name [of n cs "[]"] n by (simp add: get_consumer_def)
    then show ?thesis using False by auto
  qed
qed

section \<open>Properties\<close>

text \<open>
  A consumer list that is accepted has no blank or repeated name and no credential without its
  primary field or shared by two consumers, and in its store a credential finds a consumer exactly when that consumer was
  configured with it, and each name finds exactly its consumer.
\<close>

theorem consumer_lookup_exact:
  assumes "store_from_config cs = Inr s"
  shows "consumers_wf cs \<and>
    (find_by_credential s t v = Some c \<longleftrightarrow>
      c \<in> set cs \<and> (\<exists>cred. (t, cred) \<in> set (cn_credentials c) \<and> primary_value t cred = Some v)) \<and>
    (get_consumer s n = Some c \<longleftrightarrow> c \<in> set cs \<and> cn_name c = n)"
  using lookup_exact [OF assms] store_from_config_iff [of cs] assms by blast

definition demo_consumer :: consumer where
  "demo_consumer =
     \<lparr>cn_name = ''alice'', cn_group = None, cn_labels = [],
      cn_credentials = [(''key-auth'', JObj [(''key'', JStr ''s3cret'')])]\<rparr>"

theorem consumer_lookup_exact_witness:
  "\<exists>s. store_from_config [demo_consumer] = Inr s \<and>
     find_by_credential s ''key-auth'' ''s3cret'' = Some demo_consumer"
proof -
  have p: "primary_value ''key-auth'' (JObj [(''key'', JStr ''s3cret'')]) = Some ''s3cret''"
    by (simp add: primary_value_def primary_credential_field_def)
  have "trim ''alice'' \<noteq> []" by code_simp
  then have "consumers_wf [demo_consumer]"
    by (simp add: consumers_wf_def credential_entries_def demo_consumer_def p)
  then obtain s where s: "store_from_config [demo_consumer] = Inr s"
    using store_from_config_iff by blast
  from consumer_lookup_exact [OF s, of "''key-auth''" "''s3cret''" demo_consumer] s p show ?thesis
    by (auto simp: demo_consumer_def)
qed

end
