(* ===== verification/Plugin_Access.thy ===== *)
theory Plugin_Access
  imports Consumers
begin

text \<open>
  The access-control plugins (src/src/plugins/native/): acl, consumer-restriction,
  ip-restriction, referer-restriction, ua-restriction, uri-blocker and request-size-limit. Each
  is a gate: it lets a request through untouched or rejects it with a response, and is
  interpreted as such.
\<close>

section \<open>acl\<close>

record acl =
  ac_allowed_by :: "string list"
  ac_denied_by :: "string list"
  ac_rejected_code :: nat
  ac_rejected_msg :: "string option"

definition acl_from_config :: "config \<Rightarrow> string + acl" where
  "acl_from_config c =
     (let allowed = unwrap_or [] (cfg_strings c ''allowed_by'');
          denied = unwrap_or [] (cfg_strings c ''denied_by'')
      in if allowed = [] \<and> denied = [] then
           Inl (''acl: at least one of 'allowed_by' or 'denied_by' is required'')
         else Inr \<lparr>ac_allowed_by = allowed, ac_denied_by = denied,
                   ac_rejected_code = unwrap_or 403 (map_option as_u16 (cfg_u64 c ''rejected_code'')),
                   ac_rejected_msg = cfg_str c ''rejected_msg''\<rparr>)"

definition acl_reject :: "libs \<Rightarrow> gcontext \<Rightarrow> nat \<Rightarrow> string \<Rightarrow> plugin_result" where
  "acl_reject L c status msg = reject_json c status (json_msg L ''message'' msg) ''ACL_DENIED'' msg"

definition acl_exec :: "libs \<Rightarrow> acl \<Rightarrow> gcontext \<Rightarrow> plugin_result" where
  "acl_exec L p c =
     (if msg_str c ''consumer.name'' = None then acl_reject L c 401 ''Missing authentication.''
      else
        (let group = msg_str c ''consumer.group'';
             msg = unwrap_or ''The consumer is forbidden.'' (ac_rejected_msg p)
         in if (case group of Some g \<Rightarrow> g \<in> set (ac_denied_by p) | None \<Rightarrow> False)
            then acl_reject L c (ac_rejected_code p) msg
            else if ac_allowed_by p \<noteq> [] \<and>
              \<not> (case group of Some g \<Rightarrow> g \<in> set (ac_allowed_by p) | None \<Rightarrow> False)
            then acl_reject L c (ac_rejected_code p) msg
            else Inr c))"

section \<open>consumer-restriction\<close>

datatype restriction_type = ConsumerName | ConsumerGroupId

record consumer_restriction =
  cr_type :: restriction_type
  cr_whitelist :: "string list"
  cr_blacklist :: "string list"
  cr_allowed_by_methods :: "(string \<times> string list) list"
  cr_rejected_code :: nat
  cr_rejected_msg :: "string option"

definition parse_restriction_type :: "string \<Rightarrow> string + restriction_type" where
  "parse_restriction_type t =
     (if t = ''consumer_name'' then Inr ConsumerName
      else if t = ''consumer_group_id'' then Inr ConsumerGroupId
      else if t = ''service_id'' \<or> t = ''route_id'' then
        Inl (''consumer-restriction: type '' @ sq t @
          '' is not supported in featherbit; use 'consumer_name' or '' @ sq ''consumer_group_id'')
      else Inl (''consumer-restriction: unknown type '' @ sq t @
          ''; expected 'consumer_name' or '' @ sq ''consumer_group_id''))"

text \<open>One entry of \<open>allowed_by_methods\<close>; malformed entries are skipped.\<close>

definition allowed_by_method :: "libs \<Rightarrow> json \<Rightarrow> (string \<times> string list) option" where
  "allowed_by_method L entry =
     (case Option.bind (json_get entry ''user'') as_str of
        None \<Rightarrow> None
      | Some u \<Rightarrow>
          (case Option.bind (json_get entry ''methods'') as_array of
             None \<Rightarrow> None
           | Some ms \<Rightarrow> Some (u, map (to_uppercase L) (str_items ms))))"

definition consumer_restriction_from_config :: "libs \<Rightarrow> config \<Rightarrow> string + consumer_restriction" where
  "consumer_restriction_from_config L c =
     res_bind (parse_restriction_type (unwrap_or ''consumer_name'' (cfg_str c ''type''))) (\<lambda>t.
     (let white = unwrap_or [] (cfg_strings c ''whitelist'');
          black = unwrap_or [] (cfg_strings c ''blacklist'');
          by_method = List.map_filter (allowed_by_method L) (unwrap_or [] (cfg_array c ''allowed_by_methods''))
      in if white \<noteq> [] \<and> black \<noteq> [] then
           Inl (''consumer-restriction: set only one of 'whitelist' or '' @ sq ''blacklist'')
         else if white = [] \<and> black = [] \<and> by_method = [] then
           Inl (''consumer-restriction: at least one of 'whitelist', 'blacklist' or 'allowed_by_methods' is required'')
         else Inr \<lparr>cr_type = t, cr_whitelist = white, cr_blacklist = black,
                   cr_allowed_by_methods = by_method,
                   cr_rejected_code = unwrap_or 403 (map_option as_u16 (cfg_u64 c ''rejected_code'')),
                   cr_rejected_msg = cfg_str c ''rejected_msg''\<rparr>))"

definition value_key :: "consumer_restriction \<Rightarrow> string" where
  "value_key p = (case cr_type p of ConsumerName \<Rightarrow> ''consumer.name'' | ConsumerGroupId \<Rightarrow> ''consumer.group'')"

definition type_label :: "consumer_restriction \<Rightarrow> string" where
  "type_label p = (case cr_type p of ConsumerName \<Rightarrow> ''consumer_name'' | ConsumerGroupId \<Rightarrow> ''consumer_group_id'')"

definition restriction_reject :: "libs \<Rightarrow> gcontext \<Rightarrow> nat \<Rightarrow> string \<Rightarrow> plugin_result" where
  "restriction_reject L c status msg =
     reject_json c status (json_msg L ''message'' msg) ''CONSUMER_RESTRICTED'' msg"

definition consumer_restriction_exec ::
  "libs \<Rightarrow> consumer_restriction \<Rightarrow> gcontext \<Rightarrow> plugin_result" where
  "consumer_restriction_exec L p c =
     (case msg_str c (value_key p) of
        None \<Rightarrow> restriction_reject L c 401
          (''The request is rejected, please check the '' @ type_label p @ '' for this request'')
      | Some v \<Rightarrow>
          (let msg = unwrap_or (''The '' @ type_label p @ '' is forbidden.'') (cr_rejected_msg p);
               no = restriction_reject L c (cr_rejected_code p) msg;
               whitelisted = (cr_whitelist p \<noteq> [] \<and> v \<in> set (cr_whitelist p))
           in if cr_blacklist p \<noteq> [] \<and> v \<in> set (cr_blacklist p) then no
              else if cr_whitelist p \<noteq> [] \<and> \<not> whitelisted then no
              else if cr_allowed_by_methods p \<noteq> [] \<and> \<not> whitelisted then
                (case find (\<lambda>e. fst e = v) (cr_allowed_by_methods p) of
                   Some e \<Rightarrow> if to_uppercase L (rq_method (cx_request c)) \<in> set (snd e) then Inr c else no
                 | None \<Rightarrow> Inr c)
              else Inr c))"

section \<open>ip-restriction\<close>

record ip_restriction =
  ir_allow :: "string list"
  ir_deny :: "string list"

definition ip_restriction_from_config :: "config \<Rightarrow> string + ip_restriction" where
  "ip_restriction_from_config c =
     Inr \<lparr>ir_allow = unwrap_or [] (cfg_strings c ''allow''), ir_deny = unwrap_or [] (cfg_strings c ''deny'')\<rparr>"

text \<open>
  \<open>!0 << (w - bits)\<close> with the release build's arithmetic: \<open>w - bits\<close> wraps around in 32 bits and
  the shift takes the amount modulo the width. A debug build panics for \<open>bits\<close> above the width.
\<close>

definition prefix_mask :: "nat \<Rightarrow> 'a::len word" where
  "prefix_mask bits =
     (if bits = 0 then 0
      else push_bit (nat ((int LENGTH('a) - int bits) mod 2 ^ 32 mod int LENGTH('a))) (-1))"

definition cidr_match :: "ip_addr \<Rightarrow> nat \<Rightarrow> ip_addr \<Rightarrow> bool" where
  "cidr_match net bits ip =
     (case (net, ip) of
        (V4 n, V4 a) \<Rightarrow> and n (prefix_mask bits) = and a (prefix_mask bits)
      | (V6 n, V6 a) \<Rightarrow> and n (prefix_mask bits) = and a (prefix_mask bits)
      | _ \<Rightarrow> False)"

definition pattern_hit :: "string \<Rightarrow> ip_addr \<Rightarrow> string \<Rightarrow> bool" where
  "pattern_hit addr ip pat \<longleftrightarrow>
     pat = addr \<or> pat = show_ip ip \<or>
     (case split_once CHR ''/'' pat of
        None \<Rightarrow> False
      | Some (net, bits) \<Rightarrow>
          (case (parse_ip net, parse_uint u32_max bits) of
             (Some n, Some b) \<Rightarrow> cidr_match n b ip
           | _ \<Rightarrow> False))"

definition ip_matches :: "string list \<Rightarrow> string \<Rightarrow> bool" where
  "ip_matches pats addr =
     (case (case parse_ip addr of
              Some ip \<Rightarrow> Some ip
            | None \<Rightarrow> (case rsplit_once CHR '':'' addr of Some (ip, _) \<Rightarrow> parse_ip ip | None \<Rightarrow> None)) of
        None \<Rightarrow> False
      | Some ip \<Rightarrow> list_ex (pattern_hit addr ip) pats)"

definition ip_restriction_exec :: "ip_restriction \<Rightarrow> gcontext \<Rightarrow> plugin_result" where
  "ip_restriction_exec p c =
     (let addr = rq_remote_addr (cx_request c) in
      if ir_deny p \<noteq> [] \<and> ip_matches (ir_deny p) addr then
        reject_json c 403 ''{\"error\": \"forbidden\", \"message\": \"IP address denied\"}''
          ''IP_DENIED'' ''IP address denied''
      else if ir_allow p \<noteq> [] \<and> \<not> ip_matches (ir_allow p) addr then
        reject_json c 403 ''{\"error\": \"forbidden\", \"message\": \"IP address not allowed\"}''
          ''IP_NOT_ALLOWED'' ''IP address not allowed''
      else Inr c)"

section \<open>referer-restriction\<close>

record host_matcher =
  hm_exact :: "string list"
  hm_suffixes :: "string list"

definition matcher_empty :: "host_matcher \<Rightarrow> bool" where
  "matcher_empty m \<longleftrightarrow> hm_exact m = [] \<and> hm_suffixes m = []"

definition matcher_matches :: "host_matcher \<Rightarrow> string \<Rightarrow> bool" where
  "matcher_matches m host \<longleftrightarrow>
     list_ex (\<lambda>h. h = host) (hm_exact m) \<or> list_ex (\<lambda>s. ends_with host s) (hm_suffixes m)"

definition add_host_pattern :: "string \<Rightarrow> json \<Rightarrow> host_matcher \<Rightarrow> string + host_matcher" where
  "add_host_pattern key item m =
     (case as_str item of
        None \<Rightarrow> Inl (key @ '' entries must be strings'')
      | Some s \<Rightarrow>
          if s = [] \<or> s = ''*'' then
            Inl (key @ '' entries must be hosts like example.com or *.example.com'')
          else (case strip_prefix s ''*'' of
                  Some suffix \<Rightarrow> Inr (m\<lparr>hm_suffixes := hm_suffixes m @ [to_ascii_lowercase suffix]\<rparr>)
                | None \<Rightarrow> Inr (m\<lparr>hm_exact := hm_exact m @ [to_ascii_lowercase s]\<rparr>)))"

definition parse_host_list :: "config \<Rightarrow> string \<Rightarrow> string + host_matcher" where
  "parse_host_list c key =
     (let none = \<lparr>hm_exact = [], hm_suffixes = []\<rparr> in
      case hm_get c key of
        None \<Rightarrow> Inr none
      | Some raw \<Rightarrow>
          res_bind (ok_or (as_array raw) (key @ '' must be an array of host patterns''))
            (\<lambda>arr. fold_res (add_host_pattern key) arr none))"

definition referer_host :: "string \<Rightarrow> string option" where
  "referer_host referer =
     (case split_once_str ''://'' referer of
        None \<Rightarrow> None
      | Some (scheme, rest) \<Rightarrow>
          if \<not> eq_ignore_ascii_case scheme ''http'' \<and> \<not> eq_ignore_ascii_case scheme ''https'' then None
          else
            (let host = takeWhile (\<lambda>ch. ch \<notin> set '':/?#'') rest in
             if host = [] then None else Some (to_ascii_lowercase host)))"

record referer_restriction =
  rr_whitelist :: host_matcher
  rr_blacklist :: host_matcher
  rr_bypass_missing :: bool
  rr_message :: string

definition referer_restriction_from_config :: "config \<Rightarrow> string + referer_restriction" where
  "referer_restriction_from_config c =
     res_bind (parse_host_list c ''whitelist'') (\<lambda>white.
     res_bind (parse_host_list c ''blacklist'') (\<lambda>black.
       if \<not> matcher_empty white \<and> \<not> matcher_empty black then
         Inl ''referer-restriction: whitelist and blacklist cannot both be set''
       else if matcher_empty white \<and> matcher_empty black then
         Inl ''referer-restriction: exactly one of whitelist or blacklist must be non-empty''
       else Inr \<lparr>rr_whitelist = white, rr_blacklist = black,
              rr_bypass_missing = unwrap_or False (cfg_bool c ''bypass_missing''),
              rr_message = unwrap_or ''Your referer host is not allowed'' (cfg_str c ''message'')\<rparr>))"

definition referer_reject :: "libs \<Rightarrow> referer_restriction \<Rightarrow> gcontext \<Rightarrow> plugin_result" where
  "referer_reject L p c =
     reject_json c 403 (json_msg L ''message'' (rr_message p)) ''REFERER_RESTRICTED'' (rr_message p)"

definition referer_restriction_exec :: "libs \<Rightarrow> referer_restriction \<Rightarrow> gcontext \<Rightarrow> plugin_result" where
  "referer_restriction_exec L p c =
     (let block = (case Option.bind (first_header c ''referer'') referer_host of
                     None \<Rightarrow> \<not> rr_bypass_missing p
                   | Some host \<Rightarrow>
                       if \<not> matcher_empty (rr_whitelist p) then \<not> matcher_matches (rr_whitelist p) host
                       else matcher_matches (rr_blacklist p) host)
      in if block then referer_reject L p c else Inr c)"

section \<open>ua-restriction\<close>

record ua_restriction =
  ua_allowlist :: "string list"
  ua_denylist :: "string list"
  ua_bypass_missing :: bool
  ua_rejected_code :: nat
  ua_rejected_msg :: string

definition ua_regex :: "libs \<Rightarrow> string \<Rightarrow> json \<Rightarrow> string + string" where
  "ua_regex L key item =
     (case as_str item of
        None \<Rightarrow> Inl (key @ '' entries must be strings'')
      | Some s \<Rightarrow>
          if s = [] then Inl (key @ '' entries must be non-empty'')
          else (case rx_error L s of
                  Some e \<Rightarrow> Inl (''invalid regex '' @ sq s @ '' in '' @ key @ '': '' @ e)
                | None \<Rightarrow> Inr s))"

definition parse_regex_list :: "libs \<Rightarrow> config \<Rightarrow> string \<Rightarrow> string + string list" where
  "parse_regex_list L c key =
     (case hm_get c key of
        None \<Rightarrow> Inr []
      | Some raw \<Rightarrow>
          res_bind (ok_or (as_array raw) (key @ '' must be an array of regex strings''))
            (traverse (ua_regex L key)))"

text \<open>The \<open>rejected_code\<close> of ua-restriction and uri-blocker.\<close>

definition rejected_code_of :: "config \<Rightarrow> string + nat" where
  "rejected_code_of c =
     (case hm_get c ''rejected_code'' of
        None \<Rightarrow> Inr 403
      | Some v \<Rightarrow>
          res_bind (ok_or (as_u64 v) ''rejected_code must be an integer'') (\<lambda>code.
            if code < 200 \<or> 599 < code then Inl ''rejected_code must be between 200 and 599''
            else Inr (as_u16 code)))"

definition ua_restriction_from_config :: "libs \<Rightarrow> config \<Rightarrow> string + ua_restriction" where
  "ua_restriction_from_config L c =
     res_bind (parse_regex_list L c ''allowlist'') (\<lambda>allow.
     res_bind (parse_regex_list L c ''denylist'') (\<lambda>deny.
       if allow \<noteq> [] \<and> deny \<noteq> [] then Inl ''ua-restriction: allowlist and denylist cannot both be set''
       else if allow = [] \<and> deny = [] then
         Inl ''ua-restriction: exactly one of allowlist or denylist must be non-empty''
       else res_bind (rejected_code_of c) (\<lambda>code.
         Inr \<lparr>ua_allowlist = allow, ua_denylist = deny,
              ua_bypass_missing = unwrap_or False (cfg_bool c ''bypass_missing''),
              ua_rejected_code = code,
              ua_rejected_msg = unwrap_or ''Not allowed'' (cfg_str c ''rejected_msg'')\<rparr>)))"

definition ua_reject :: "libs \<Rightarrow> ua_restriction \<Rightarrow> gcontext \<Rightarrow> plugin_result" where
  "ua_reject L p c =
     reject_json c (ua_rejected_code p) (json_msg L ''message'' (ua_rejected_msg p)) ''UA_RESTRICTED''
       (ua_rejected_msg p)"

definition ua_restriction_exec :: "libs \<Rightarrow> ua_restriction \<Rightarrow> gcontext \<Rightarrow> plugin_result" where
  "ua_restriction_exec L p c =
     (let uas = map trim (unwrap_or [] (hm_get (rq_headers (cx_request c)) ''user-agent'')) in
      if uas = [] then (if ua_bypass_missing p then Inr c else ua_reject L p c)
      else
        (let passed = (if ua_allowlist p \<noteq> []
                       then list_ex (\<lambda>ua. list_ex (\<lambda>re. rx_match L re ua) (ua_allowlist p)) uas
                       else \<not> list_ex (\<lambda>ua. list_ex (\<lambda>re. rx_match L re ua) (ua_denylist p)) uas)
         in if passed then Inr c else ua_reject L p c))"

section \<open>uri-blocker\<close>

record uri_blocker =
  ub_block_rules :: "string list"
  ub_rejected_code :: nat
  ub_rejected_msg :: "string option"

definition block_rule :: "libs \<Rightarrow> bool \<Rightarrow> json \<Rightarrow> string + string" where
  "block_rule L ci item =
     (case as_str item of
        None \<Rightarrow> Inl ''block_rules entries must be strings''
      | Some s \<Rightarrow>
          if s = [] then Inl ''block_rules entries must be non-empty''
          else
            (let pat = (if ci then ''(?i)'' @ s else s) in
             case rx_error L pat of
               Some e \<Rightarrow> Inl (''invalid regex '' @ sq s @ '' in block_rules: '' @ e)
             | None \<Rightarrow> Inr pat))"

definition uri_blocker_from_config :: "libs \<Rightarrow> config \<Rightarrow> string + uri_blocker" where
  "uri_blocker_from_config L c =
     (let ci = unwrap_or False (cfg_bool c ''case_insensitive'') in
      res_bind (ok_or (cfg_array c ''block_rules'')
        ''uri-blocker: block_rules is required and must be an array'') (\<lambda>rules.
        if rules = [] then Inl ''uri-blocker: block_rules must not be empty''
        else res_bind (traverse (block_rule L ci) rules) (\<lambda>rs.
             res_bind (rejected_code_of c) (\<lambda>code.
               Inr \<lparr>ub_block_rules = rs, ub_rejected_code = code,
                    ub_rejected_msg = cfg_str c ''rejected_msg''\<rparr>))))"

definition uri_blocker_exec :: "libs \<Rightarrow> uri_blocker \<Rightarrow> gcontext \<Rightarrow> plugin_result" where
  "uri_blocker_exec L p c =
     (let uri = unwrap_or (rq_path (cx_request c)) (resolve L c ''request_uri'') in
      if list_ex (\<lambda>re. rx_match L re uri) (ub_block_rules p) then
        (let c1 = set_status (ub_rejected_code p) c;
             c2 = (case ub_rejected_msg p of
                     Some msg \<Rightarrow> json_content (set_body (json_msg L ''error_msg'' msg) c1)
                   | None \<Rightarrow> set_body [] c1)
         in Inl (c2, mk_error ''URI_BLOCKED'' (unwrap_or ''request URI is blocked'' (ub_rejected_msg p))))
      else Inr c)"

section \<open>request-size-limit\<close>

record request_size_limit =
  sz_max_bytes :: nat

definition request_size_limit_from_config :: "config \<Rightarrow> string + request_size_limit" where
  "request_size_limit_from_config c =
     Inr \<lparr>sz_max_bytes = unwrap_or 1048576 (cfg_u64 c ''max_bytes'')\<rparr>"

definition request_size_limit_exec :: "request_size_limit \<Rightarrow> gcontext \<Rightarrow> plugin_result" where
  "request_size_limit_exec p c =
     (let n = length (rq_body (cx_request c)) in
      if sz_max_bytes p < n then
        reject_json c 413
          ''{\"error\": \"payload_too_large\", \"message\": \"Request body exceeds size limit\"}''
          ''PAYLOAD_TOO_LARGE''
          (''Body size '' @ show_nat n @ '' exceeds limit '' @ show_nat (sz_max_bytes p))
      else Inr c)"

section \<open>They are gates\<close>

text \<open>A stateless plugin that either keeps the context or rejects it through its response.\<close>

definition gate_fun :: "(gcontext \<Rightarrow> plugin_result) \<Rightarrow> bool" where
  "gate_fun f \<longleftrightarrow> (\<forall>c. case f c of
     Inr c' \<Rightarrow> c' = c
   | Inl (c', e) \<Rightarrow> cx_request c' = cx_request c \<and> cx_message c' = cx_message c \<and> cx_errors c' = cx_errors c)"

lemma gate_fun_contract: "gate_fun f \<Longrightarrow> gate_contract (pure_exec f)"
  by unfold_locales (auto simp: gate_fun_def split: sum.splits dest!: spec)

lemma reject_json_gate [gate_intros]:
  "case reject_json c st b cd m of
     Inr c' \<Rightarrow> c' = c
   | Inl (c', e) \<Rightarrow> cx_request c' = cx_request c \<and> cx_message c' = cx_message c \<and> cx_errors c' = cx_errors c"
  by (simp add: reject_json_def)

lemmas rejects = acl_reject_def restriction_reject_def referer_reject_def ua_reject_def reject_json_def

lemma acl_gate: "gate_fun (acl_exec L p)"
  by (simp add: gate_fun_def acl_exec_def rejects Let_def)

lemma consumer_restriction_gate: "gate_fun (consumer_restriction_exec L p)"
  by (auto simp: gate_fun_def consumer_restriction_exec_def rejects Let_def split: option.splits)

lemma ip_restriction_gate: "gate_fun (ip_restriction_exec p)"
  by (simp add: gate_fun_def ip_restriction_exec_def rejects Let_def)

lemma referer_restriction_gate: "gate_fun (referer_restriction_exec L p)"
  by (simp add: gate_fun_def referer_restriction_exec_def rejects Let_def)

lemma ua_restriction_gate: "gate_fun (ua_restriction_exec L p)"
  by (simp add: gate_fun_def ua_restriction_exec_def rejects Let_def)

lemma uri_blocker_gate: "gate_fun (uri_blocker_exec L p)"
  by (simp add: gate_fun_def uri_blocker_exec_def Let_def split: option.splits)

lemma request_size_limit_gate: "gate_fun (request_size_limit_exec p)"
  by (simp add: gate_fun_def request_size_limit_exec_def rejects Let_def)

interpretation acl_node: gate_contract "pure_exec (acl_exec L p)" for L p
  by (rule gate_fun_contract [OF acl_gate])

interpretation consumer_restriction_node: gate_contract "pure_exec (consumer_restriction_exec L p)" for L p
  by (rule gate_fun_contract [OF consumer_restriction_gate])

interpretation ip_restriction_node: gate_contract "pure_exec (ip_restriction_exec p)" for p
  by (rule gate_fun_contract [OF ip_restriction_gate])

interpretation referer_restriction_node: gate_contract "pure_exec (referer_restriction_exec L p)" for L p
  by (rule gate_fun_contract [OF referer_restriction_gate])

interpretation ua_restriction_node: gate_contract "pure_exec (ua_restriction_exec L p)" for L p
  by (rule gate_fun_contract [OF ua_restriction_gate])

interpretation uri_blocker_node: gate_contract "pure_exec (uri_blocker_exec L p)" for L p
  by (rule gate_fun_contract [OF uri_blocker_gate])

interpretation request_size_limit_node: gate_contract "pure_exec (request_size_limit_exec p)" for p
  by (rule gate_fun_contract [OF request_size_limit_gate])

section \<open>Address lists\<close>

definition cidr_text :: "32 word \<times> nat \<Rightarrow> string" where
  "cidr_text d = show_v4 (fst d) @ CHR ''/'' # show_nat (snd d)"

text \<open>The meaning of a network: the leading bits agree.\<close>

definition in_network :: "32 word \<Rightarrow> 32 word \<times> nat \<Rightarrow> bool" where
  "in_network a d \<longleftrightarrow> drop_bit (32 - snd d) (fst d) = drop_bit (32 - snd d) a"

lemma prefix_mask_v4:
  assumes "b \<le> 32"
  shows "and n (prefix_mask b) = and a (prefix_mask b) \<longleftrightarrow> drop_bit (32 - b) n = drop_bit (32 - b) (a :: 32 word)"
proof (cases "b = 0")
  case True
  have "bit (drop_bit 32 w) i = False" for w :: "32 word" and i
    by (auto simp: bit_simps dest: bit_imp_le_length)
  then have "drop_bit 32 w = 0" for w :: "32 word"
    by (intro bit_word_eqI) simp
  with True show ?thesis by (simp add: prefix_mask_def)
next
  case False
  with assms have k: "0 \<le> int (32 - b)" "int (32 - b) < 32" by simp_all
  have "int LENGTH(32) - int b = int (32 - b)" using assms by (simp add: of_nat_diff)
  moreover have "int (32 - b) mod 2 ^ 32 = int (32 - b)" using k by (intro mod_pos_pos_trivial) simp_all
  moreover have "int (32 - b) mod int LENGTH(32) = int (32 - b)"
    using k by (intro mod_pos_pos_trivial) simp_all
  ultimately have i: "int LENGTH(32) - int b = int (32 - b)" "int (32 - b) mod 2 ^ 32 = int (32 - b)"
      "int (32 - b) mod int LENGTH(32) = int (32 - b)" .
  have "nat ((int LENGTH(32) - int b) mod 2 ^ 32 mod int LENGTH(32)) = 32 - b"
    by (simp only: i nat_int)
  with False have m: "prefix_mask b = (push_bit (32 - b) (-1) :: 32 word)"
    by (simp only: prefix_mask_def if_False)
  show ?thesis
  proof
    assume e: "and n (prefix_mask b) = and a (prefix_mask b)"
    show "drop_bit (32 - b) n = drop_bit (32 - b) a"
    proof (rule bit_word_eqI)
      fix i assume "i < LENGTH(32)"
      show "bit (drop_bit (32 - b) n) i = bit (drop_bit (32 - b) a) i"
        using arg_cong [OF e, of "\<lambda>w. bit w (32 - b + i)"]
        by (cases "32 - b + i < 32") (auto simp: m bit_simps dest: bit_imp_le_length)
    qed
  next
    assume e: "drop_bit (32 - b) n = drop_bit (32 - b) a"
    show "and n (prefix_mask b) = and a (prefix_mask b)"
    proof (rule bit_word_eqI)
      fix i assume "i < LENGTH(32)"
      show "bit (and n (prefix_mask b)) i = bit (and a (prefix_mask b)) i"
        using arg_cong [OF e, of "\<lambda>w. bit w (i - (32 - b))"]
        by (cases "32 - b \<le> i") (auto simp: m bit_simps)
    qed
  qed
qed

lemma digits_no_char: "list_all is_digit s \<Longrightarrow> \<not> is_digit c \<Longrightarrow> c \<notin> set s"
  by (auto simp: list_all_iff)

lemma show_nat_no_char [simp]: "\<not> is_digit c \<Longrightarrow> c \<notin> set (show_nat n)"
  by (rule digits_no_char [OF show_nat_digits])

lemma show_v4_no_char [simp]: "\<not> is_digit c \<Longrightarrow> c \<noteq> CHR ''.'' \<Longrightarrow> c \<notin> set (show_v4 w)"
  by (auto simp: show_v4_def)

lemma not_digit_sep [simp]: "\<not> is_digit CHR ''/''" "\<not> is_digit CHR '':''"
  by (simp_all add: is_digit_def)

lemma pattern_hit_cidr:
  assumes "snd d \<le> 32"
  shows "pattern_hit (show_socket (V4 a) port) (V4 a) (cidr_text d) \<longleftrightarrow> in_network a d"
proof -
  have "CHR ''/'' \<in> set (cidr_text d)" by (simp add: cidr_text_def)
  moreover have "CHR ''/'' \<notin> set (show_socket (V4 a) port)" "CHR ''/'' \<notin> set (show_ip (V4 a))"
    by simp_all
  ultimately have "cidr_text d \<noteq> show_socket (V4 a) port" "cidr_text d \<noteq> show_ip (V4 a)"
    by metis+
  moreover have "split_once CHR ''/'' (cidr_text d) = Some (show_v4 (fst d), show_nat (snd d))"
    by (simp add: split_once_Some cidr_text_def)
  moreover have "parse_uint u32_max (show_nat (snd d)) = Some (snd d)"
    using assms by (intro parse_uint_show_nat) (simp add: u32_max_def)
  ultimately show ?thesis
    using assms by (simp add: pattern_hit_def cidr_match_def prefix_mask_v4 in_network_def)
qed

lemma ip_matches_v4:
  assumes "\<forall>d \<in> set ds. snd d \<le> 32"
  shows "ip_matches (map cidr_text ds) (show_socket (V4 a) port) \<longleftrightarrow> (\<exists>d \<in> set ds. in_network a d)"
proof -
  have "rsplit_once CHR '':'' (show_socket (V4 a) port) = Some (show_v4 a, show_nat port)"
    by (simp add: rsplit_once_Some)
  moreover have "parse_ip (show_socket (V4 a) port) = None" by simp
  moreover have "list_ex (pattern_hit (show_socket (V4 a) port) (V4 a)) (map cidr_text ds)
      \<longleftrightarrow> (\<exists>d \<in> set ds. in_network a d)"
    using assms pattern_hit_cidr by (simp add: list_ex_iff del: show_socket.simps)
  ultimately show ?thesis by (simp add: ip_matches_def del: show_socket.simps)
qed

lemma ip_matches_v6: "\<not> ip_matches pats (show_socket (V6 a) port)"
proof -
  have "rsplit_once CHR '':'' (show_socket (V6 a) port) = Some (CHR ''['' # show_v6 a @ '']'', show_nat port)"
    by (simp add: rsplit_once_Some)
  then show ?thesis by (simp add: ip_matches_def)
qed

section \<open>Properties\<close>

definition demo_client :: "ip_addr \<Rightarrow> gcontext" where
  "demo_client ip = new_context
     \<lparr>rq_method = ''GET'', rq_path = ''/'', rq_host = ''h'', rq_scheme = ''http'', rq_headers = [],
      rq_query_params = [], rq_body = [], rq_remote_addr = show_socket ip 4711, rq_protocol = Http1\<rparr>"

text \<open>
  ip-restriction decides an IPv4 client exactly by its networks. For allow and deny lists of
  networks in CIDR notation (any prefix length up to 32) and a client whose socket address is
  printed as the gateway prints it, the request passes iff no denied network contains the address
  and, when networks are allowed, one of them contains it. Containment is equality of the leading
  bits; the text of the networks, of the address and of its port go through the modelled parsers.
\<close>

theorem ip_restriction_exact_v4:
  assumes "\<forall>d \<in> set allow \<union> set deny. snd d \<le> 32"
    and "rq_remote_addr (cx_request c) = show_socket (V4 a) port"
  shows "ip_restriction_exec \<lparr>ir_allow = map cidr_text allow, ir_deny = map cidr_text deny\<rparr> c = Inr c \<longleftrightarrow>
    \<not> (\<exists>d \<in> set deny. in_network a d) \<and> (allow = [] \<or> (\<exists>d \<in> set allow. in_network a d))"
  using assms
  by (auto simp: ip_restriction_exec_def ip_matches_v4 reject_json_def Let_def simp del: show_socket.simps)

theorem ip_restriction_exact_v4_witness:
  "ip_restriction_exec \<lparr>ir_allow = map cidr_text [], ir_deny = map cidr_text [(0xC0A80100, 24)]\<rparr>
      (demo_client (V4 0xC0A80117)) \<noteq> Inr (demo_client (V4 0xC0A80117))"
proof -
  have "in_network 0xC0A80117 (0xC0A80100, 24)" by (simp add: in_network_def)
  then show ?thesis
    using ip_restriction_exact_v4 [of "[]" "[(0xC0A80100, 24)]" "demo_client (V4 0xC0A80117)" "0xC0A80117" 4711]
    by (simp add: demo_client_def new_context_def)
qed

text \<open>
  IPv6 clients are outside every address list. The gateway prints their socket address with
  brackets and ip-restriction strips only the port, so no pattern ever matches: a deny list lets
  every IPv6 client through, and an allow list refuses every one, whatever the lists say.
\<close>

theorem ip_restriction_ignores_v6:
  assumes "rq_remote_addr (cx_request c) = show_socket (V6 a) port"
  shows "ip_restriction_exec p c = Inr c \<longleftrightarrow> ir_allow p = []"
  using assms
  by (auto simp: ip_restriction_exec_def ip_matches_v6 reject_json_def Let_def simp del: show_socket.simps)

theorem ip_restriction_ignores_v6_witness:
  "ip_restriction_exec \<lparr>ir_allow = [], ir_deny = [''::1'', ''::/0'']\<rparr> (demo_client (V6 1))
     = Inr (demo_client (V6 1))"
  using ip_restriction_ignores_v6 [of "demo_client (V6 1)" 1 4711 "\<lparr>ir_allow = [], ir_deny = [''::1'', ''::/0'']\<rparr>"]
  by (simp add: demo_client_def new_context_def)

text \<open>
  acl decides by the group alone. A request passes iff a consumer is attached and its group
  is not denied and, when groups are allowed, is among them; a consumer without a group passes
  only when there is no allow list. Every other request is answered with the error code
  ACL_DENIED, status 401 without a consumer and the configured status otherwise.
\<close>

theorem acl_decision:
  "(acl_exec L p c = Inr c \<longleftrightarrow>
     msg_str c ''consumer.name'' \<noteq> None \<and>
     (case msg_str c ''consumer.group'' of
        Some g \<Rightarrow> g \<notin> set (ac_denied_by p) \<and> (ac_allowed_by p = [] \<or> g \<in> set (ac_allowed_by p))
      | None \<Rightarrow> ac_allowed_by p = [])) \<and>
   (acl_exec L p c \<noteq> Inr c \<longleftrightarrow> (\<exists>c' e. acl_exec L p c = Inl (c', e) \<and> err_code e = ''ACL_DENIED'' \<and>
     rs_status_code (cx_response c') =
       (if msg_str c ''consumer.name'' = None then 401 else ac_rejected_code p)))"
  by (auto simp: acl_exec_def acl_reject_def reject_json_def mk_error_def Let_def split: option.splits)

end
