(* ===== verification/Plugin_Auth.thy ===== *)
theory Plugin_Auth
  imports Consumers Utf8
begin

text \<open>
  Authentication by stored credentials (src/src/plugins/native/): key-auth, basic-auth, multi-auth
  and attach-consumer-label. The consumer store is read from the world at execution time, as the
  plugins read \<open>resources.consumers\<close>; base64 is a parameter. \<open>auth_contract\<close> states what a policy
  may rely on from such a node: it never touches the error list, and a refusal leaves the request
  and the message map as they were.
\<close>

definition reads_store ::
  "(consumer_store \<Rightarrow> gcontext \<Rightarrow> plugin_result) \<Rightarrow> ('a gw_world_scheme) node_exec" where
  "reads_store f c w = (f (gw_consumers w) c, w)"

definition remove_rq_header :: "string \<Rightarrow> gcontext \<Rightarrow> gcontext" where
  "remove_rq_header k c =
     c\<lparr>cx_request := (cx_request c)\<lparr>rq_headers := hm_remove k (rq_headers (cx_request c))\<rparr>\<rparr>"

definition remove_query_param :: "string \<Rightarrow> gcontext \<Rightarrow> gcontext" where
  "remove_query_param k c =
     c\<lparr>cx_request := (cx_request c)\<lparr>rq_query_params := hm_remove k (rq_query_params (cx_request c))\<rparr>\<rparr>"

text \<open>\<open>v.first()\<close> of a multi-valued entry.\<close>

definition first_value :: "string list hmap \<Rightarrow> string \<Rightarrow> string option" where
  "first_value m k = (case hm_get m k of Some (v # _) \<Rightarrow> Some v | _ \<Rightarrow> None)"

definition or_else :: "'a option \<Rightarrow> 'a option \<Rightarrow> 'a option" where
  "or_else a b = (case a of None \<Rightarrow> b | Some _ \<Rightarrow> a)"

section \<open>key-auth\<close>

record key_auth =
  ka_valid_keys :: "string list"
  ka_header_name :: string
  ka_query_param :: "string option"
  ka_use_consumers :: bool
  ka_anonymous_consumer :: "string option"
  ka_hide_credentials :: bool

definition key_auth_from_config :: "libs \<Rightarrow> config \<Rightarrow> string + key_auth" where
  "key_auth_from_config L c =
     (let keys = unwrap_or [] (cfg_strings c ''keys'');
          use = unwrap_or False (cfg_bool c ''use_consumers'')
      in if keys = [] \<and> \<not> use then Inl (''key-auth plugin requires 'keys' or '' @ sq ''use_consumers: true'')
         else Inr \<lparr>ka_valid_keys = keys,
                   ka_header_name = to_lowercase L (unwrap_or ''x-api-key'' (cfg_str c ''header_name'')),
                   ka_query_param = cfg_str c ''query_param'', ka_use_consumers = use,
                   ka_anonymous_consumer = cfg_str c ''anonymous_consumer'',
                   ka_hide_credentials = unwrap_or False (cfg_bool c ''hide_credentials'')\<rparr>)"

definition key_auth_reject :: "gcontext \<Rightarrow> plugin_result" where
  "key_auth_reject c =
     reject_json c 401 ''{\"error\": \"unauthorized\", \"message\": \"Invalid or missing API key\"}''
       ''UNAUTHORIZED'' ''Invalid or missing API key''"

definition key_auth_strip :: "key_auth \<Rightarrow> gcontext \<Rightarrow> gcontext" where
  "key_auth_strip p c =
     (let c1 = remove_rq_header (ka_header_name p) c in
      case ka_query_param p of Some q \<Rightarrow> remove_query_param q c1 | None \<Rightarrow> c1)"

text \<open>The key presented: the header's first value, else the query parameter's.\<close>

definition key_auth_key :: "key_auth \<Rightarrow> gcontext \<Rightarrow> string option" where
  "key_auth_key p c =
     or_else (first_header c (ka_header_name p))
       (case ka_query_param p of
          None \<Rightarrow> None | Some q \<Rightarrow> first_value (rq_query_params (cx_request c)) q)"

definition key_auth_exec :: "key_auth \<Rightarrow> consumer_store \<Rightarrow> gcontext \<Rightarrow> plugin_result" where
  "key_auth_exec p st c =
     (let key = key_auth_key p c;
          hide = (\<lambda>c. if ka_hide_credentials p then key_auth_strip p c else c);
          anonymous =
            (case Option.bind (ka_anonymous_consumer p) (get_consumer st) of
               Some k \<Rightarrow> Inr (attach_consumer k ''key-auth'' c)
             | None \<Rightarrow> key_auth_reject c)
      in case key of
           None \<Rightarrow> anonymous
         | Some k \<Rightarrow>
             if k \<in> set (ka_valid_keys p) then Inr (hide c)
             else if ka_use_consumers p then
               (case find_by_credential st ''key-auth'' k of
                  Some consumer \<Rightarrow> Inr (attach_consumer consumer ''key-auth'' (hide c))
                | None \<Rightarrow> anonymous)
             else anonymous)"

section \<open>basic-auth\<close>

record basic_auth =
  ba_users :: "string hmap"
  ba_realm :: string
  ba_use_consumers :: bool
  ba_anonymous_consumer :: "string option"
  ba_hide_credentials :: bool

text \<open>One \<open>{username, password}\<close> entry; a blank user name is skipped.\<close>

definition add_user :: "json \<Rightarrow> string hmap \<Rightarrow> string + string hmap" where
  "add_user item users =
     (case as_object item of
        None \<Rightarrow> Inl (''basic-auth: 'users' entries must be objects with 'username' and '' @ sq ''password'')
      | Some obj \<Rightarrow>
          (let username = unwrap_or [] (Option.bind (hm_get obj ''username'') as_str) in
           if trim username = [] then Inr users
           else Inr (hm_insert username (unwrap_or [] (Option.bind (hm_get obj ''password'') as_str)) users)))"

definition parse_users :: "json option \<Rightarrow> string + string hmap" where
  "parse_users raw =
     (case raw of
        None \<Rightarrow> Inr []
      | Some (JObj m) \<Rightarrow> Inr (List.map_filter (\<lambda>(k, v). map_option (Pair k) (as_str v)) m)
      | Some (JArr items) \<Rightarrow> fold_res add_user items []
      | Some _ \<Rightarrow> Inl ''basic-auth: 'users' must be a map or an array of {username, password} objects'')"

definition basic_auth_from_config :: "config \<Rightarrow> string + basic_auth" where
  "basic_auth_from_config c =
     res_bind (parse_users (hm_get c ''users'')) (\<lambda>users.
     (let use = unwrap_or False (cfg_bool c ''use_consumers'') in
      if users = [] \<and> \<not> use then Inl (''basic-auth plugin requires 'users' or '' @ sq ''use_consumers: true'')
      else Inr \<lparr>ba_users = users, ba_realm = unwrap_or ''gateway'' (cfg_str c ''realm''),
                ba_use_consumers = use, ba_anonymous_consumer = cfg_str c ''anonymous_consumer'',
                ba_hide_credentials = unwrap_or False (cfg_bool c ''hide_credentials'')\<rparr>))"

definition basic_auth_reject :: "basic_auth \<Rightarrow> gcontext \<Rightarrow> plugin_result" where
  "basic_auth_reject p c =
     Inl (set_rs_header ''www-authenticate'' [''Basic realm=\"'' @ ba_realm p @ ''\"'']
            (json_content (set_body ''{\"error\": \"unauthorized\", \"message\": \"Invalid credentials\"}''
              (set_status 401 c))),
          mk_error ''UNAUTHORIZED'' ''Invalid credentials'')"

text \<open>The user name and password of an Authorization header.\<close>

definition basic_credentials :: "libs \<Rightarrow> gcontext \<Rightarrow> (string \<times> string) option" where
  "basic_credentials L c =
     (case first_header c ''authorization'' of
        None \<Rightarrow> None
      | Some h \<Rightarrow>
          if starts_with h ''Basic '' then
            Option.bind (opt_filter utf8_ok (b64_decode L (drop 6 h))) (split_once CHR '':'')
          else None)"

definition set_user :: "string \<Rightarrow> gcontext \<Rightarrow> gcontext" where
  "set_user u = set_message ''user'' (JStr u)"

definition basic_auth_exec ::
  "libs \<Rightarrow> basic_auth \<Rightarrow> consumer_store \<Rightarrow> gcontext \<Rightarrow> plugin_result" where
  "basic_auth_exec L p st c =
     (let hide = (\<lambda>c. if ba_hide_credentials p then remove_rq_header ''authorization'' c else c);
          anonymous =
            (case Option.bind (ba_anonymous_consumer p) (get_consumer st) of
               Some k \<Rightarrow> Inr (set_user (cn_name k) (attach_consumer k ''basic-auth'' c))
             | None \<Rightarrow> basic_auth_reject p c)
      in case basic_credentials L c of
           None \<Rightarrow> anonymous
         | Some (username, password) \<Rightarrow>
             if hm_get (ba_users p) username = Some password then Inr (set_user username (hide c))
             else if ba_use_consumers p then
               (case find_by_credential st ''basic-auth'' username of
                  None \<Rightarrow> anonymous
                | Some k \<Rightarrow>
                    if Option.bind (Option.bind (hm_get (cn_credentials k) ''basic-auth'')
                         (\<lambda>v. json_get v ''password'')) as_str = Some password
                    then Inr (set_user username (attach_consumer k ''basic-auth'' (hide c)))
                    else anonymous)
             else anonymous)"

section \<open>multi-auth\<close>

definition multi_auth_entry ::
  "(string \<Rightarrow> config \<Rightarrow> string + 'w plugin) \<Rightarrow> nat \<times> json \<Rightarrow> string + 'w plugin" where
  "multi_auth_entry create ie =
     (case as_object (snd ie) of
        None \<Rightarrow> Inl (''multi-auth 'auth_plugins['' @ show_nat (fst ie) @
          '']' must be a single-key map {plugin-type: config}'')
      | Some [(t, inner)] \<Rightarrow>
          (case create t (unwrap_or [] (as_object inner)) of
             Inl e \<Rightarrow> Inl (''multi-auth sub-plugin '' @ sq t @ '': '' @ e)
           | Inr p \<Rightarrow> Inr p)
      | Some _ \<Rightarrow> Inl (''multi-auth 'auth_plugins['' @ show_nat (fst ie) @
          '']' must have exactly one key (the plugin type)''))"

definition multi_auth_from_config ::
  "(string \<Rightarrow> config \<Rightarrow> string + 'w plugin) \<Rightarrow> config \<Rightarrow> string + 'w plugin list" where
  "multi_auth_from_config create c =
     res_bind (ok_or (cfg_array c ''auth_plugins'') ''multi-auth plugin requires an 'auth_plugins' array'')
       (\<lambda>entries. if entries = [] then Inl ''multi-auth 'auth_plugins' must not be empty''
                  else traverse (multi_auth_entry create) (List.enumerate 0 entries))"

definition multi_auth_reject :: "gcontext \<Rightarrow> plugin_result" where
  "multi_auth_reject c =
     reject_json c 401 ''{\"error\": \"unauthorized\", \"message\": \"Authorization Failed\"}''
       ''MULTI_AUTH_FAILED'' ''all authentication methods failed''"

text \<open>The loop over the methods; a failed attempt keeps its context but not its response.\<close>

fun multi_auth_try :: "'w plugin list \<Rightarrow> gateway_response \<Rightarrow> 'w node_exec" where
  "multi_auth_try [] rsp c w = (multi_auth_reject c, w)"
| "multi_auth_try (p # ps) rsp c w =
     (case pl_exec p c w of
        (Inr c', w') \<Rightarrow> (Inr c', w')
      | (Inl (c', _), w') \<Rightarrow> multi_auth_try ps rsp (c'\<lparr>cx_response := rsp\<rparr>) w')"

definition multi_auth_exec :: "'w plugin list \<Rightarrow> 'w node_exec" where
  "multi_auth_exec subs c w = multi_auth_try subs (cx_response c) c w"

section \<open>attach-consumer-label\<close>

record attach_consumer_label =
  al_header_prefix :: string

definition attach_consumer_label_from_config :: "config \<Rightarrow> string + attach_consumer_label" where
  "attach_consumer_label_from_config c =
     Inr \<lparr>al_header_prefix = unwrap_or ''X-Consumer-'' (cfg_str c ''header_prefix'')\<rparr>"

definition attach_label :: "libs \<Rightarrow> string \<Rightarrow> string \<times> json \<Rightarrow> gcontext \<Rightarrow> gcontext" where
  "attach_label L pre kv c =
     (case as_str (snd kv) of
        Some v \<Rightarrow> set_rq_header (to_lowercase L (pre @ fst kv)) [v] c
      | None \<Rightarrow> c)"

definition attach_consumer_label_exec ::
  "libs \<Rightarrow> attach_consumer_label \<Rightarrow> gcontext \<Rightarrow> plugin_result" where
  "attach_consumer_label_exec L p c =
     Inr (case Option.bind (hm_get (cx_message c) ''consumer.labels'') as_object of
            None \<Rightarrow> c
          | Some labels \<Rightarrow> fold (attach_label L (al_header_prefix p)) labels c)"

section \<open>What a policy may rely on\<close>

locale auth_contract =
  fixes exec :: "gcontext \<Rightarrow> 'w \<Rightarrow> ((gcontext \<times> gateway_error) + gcontext) \<times> 'w"
  assumes admit_errors: "fst (exec c w) = Inr c' \<Longrightarrow> cx_errors c' = cx_errors c"
    and refuse_keeps: "fst (exec c w) = Inl (c', e) \<Longrightarrow>
      cx_request c' = cx_request c \<and> cx_message c' = cx_message c \<and> cx_errors c' = cx_errors c"
begin

sublocale plugin_contract exec
proof
  fix c w
  show "cx_errors (result_ctx (fst (exec c w))) = cx_errors c"
    using admit_errors [of c w] refuse_keeps [of c w]
    by (cases "fst (exec c w)") (auto simp: result_ctx_def)
qed

text \<open>Undoing the response of a refusal gives back the context that was refused.\<close>

lemma refuse_restore: "fst (exec c w) = Inl (c', e) \<Longrightarrow> c'\<lparr>cx_response := cx_response c\<rparr> = c"
  using refuse_keeps [of c w c' e] by (cases c; cases c') simp

end

sublocale gate_contract \<subseteq> auth_contract exec
  using pass_same reject_keeps by unfold_locales blast+

lemma attach_consumer_errors [simp]: "cx_errors (attach_consumer k t c) = cx_errors c"
  by (simp add: attach_consumer_def Let_def split: option.splits)

lemma remove_header_simps [simp]:
  "cx_errors (remove_rq_header k c) = cx_errors c" "cx_errors (remove_query_param k c) = cx_errors c"
  "cx_message (remove_rq_header k c) = cx_message c" "cx_message (remove_query_param k c) = cx_message c"
  by (simp_all add: remove_rq_header_def remove_query_param_def)

lemma strip_simps [simp]:
  "cx_errors (key_auth_strip p c) = cx_errors c" "cx_message (key_auth_strip p c) = cx_message c"
  by (simp_all add: key_auth_strip_def Let_def split: option.splits)

lemma set_user_errors [simp]: "cx_errors (set_user u c) = cx_errors c"
  by (simp add: set_user_def)

interpretation key_auth_node: auth_contract "reads_store (key_auth_exec p)" for p
  by unfold_locales
    (auto simp: reads_store_def key_auth_exec_def key_auth_reject_def reject_json_def Let_def
      split: option.splits if_splits)

interpretation basic_auth_node: auth_contract "reads_store (basic_auth_exec L p)" for L p
  by unfold_locales
    (auto simp: reads_store_def basic_auth_exec_def basic_auth_reject_def Let_def
      split: option.splits if_splits prod.splits)

lemma fold_attach_label_errors [simp]: "cx_errors (fold (attach_label L pre) ls c) = cx_errors c"
  by (induction ls arbitrary: c) (auto simp: attach_label_def split: option.splits)

interpretation attach_consumer_label_node: auth_contract "pure_exec (attach_consumer_label_exec L p)" for L p
  by unfold_locales (auto simp: attach_consumer_label_exec_def split: option.splits)

section \<open>multi-auth over methods that keep the contract\<close>

text \<open>Each method is tried on the context multi-auth was given.\<close>

fun first_success :: "'w plugin list \<Rightarrow> 'w node_exec" where
  "first_success [] c w = (multi_auth_reject c, w)"
| "first_success (p # ps) c w =
     (case pl_exec p c w of
        (Inr c', w') \<Rightarrow> (Inr c', w')
      | (Inl _, w') \<Rightarrow> first_success ps c w')"

lemma multi_auth_first:
  "list_all (\<lambda>p. auth_contract (pl_exec p)) ps \<Longrightarrow>
   multi_auth_try ps (cx_response c) c w = first_success ps c w"
proof (induction ps arbitrary: w)
  case Nil
  then show ?case by simp
next
  case (Cons p ps)
  then have k: "auth_contract (pl_exec p)" by simp
  obtain r w' where r: "pl_exec p c w = (r, w')" by (cases "pl_exec p c w")
  show ?case
  proof (cases r)
    case (Inl x)
    with r have "fst (pl_exec p c w) = Inl (fst x, snd x)" by simp
    from auth_contract.refuse_restore [OF k this] show ?thesis
      using Cons Inl r by (cases x) simp
  next
    case (Inr c')
    with r show ?thesis by simp
  qed
qed

lemma first_success_contract:
  assumes "list_all (\<lambda>p. auth_contract (pl_exec p)) ps"
  shows "auth_contract (first_success ps)"
proof (unfold_locales, goal_cases)
  case (1 c w c')
  then show ?case using assms
  proof (induction ps arbitrary: w)
    case Nil
    then show ?case by (simp add: multi_auth_reject_def)
  next
    case (Cons p ps)
    then have k: "auth_contract (pl_exec p)" by simp
    show ?case
    proof (cases "fst (pl_exec p c w)")
      case (Inl x)
      with Cons show ?thesis by (cases "pl_exec p c w") auto
    next
      case (Inr c1)
      with Cons.prems auth_contract.admit_errors [OF k, of c w c1] show ?thesis
        by (cases "pl_exec p c w") auto
    qed
  qed
next
  case (2 c w c' e)
  then show ?case using assms
  proof (induction ps arbitrary: w)
    case Nil
    then show ?case by (auto simp: multi_auth_reject_def dest: reject_json_keeps)
  next
    case (Cons p ps)
    then show ?case by (cases "pl_exec p c w"; cases "fst (pl_exec p c w)") auto
  qed
qed

lemma multi_auth_contract:
  assumes "list_all (\<lambda>p. auth_contract (pl_exec p)) ps"
  shows "auth_contract (multi_auth_exec ps)"
proof -
  have "multi_auth_exec ps = first_success ps"
    by (intro ext) (simp add: multi_auth_exec_def multi_auth_first [OF assms])
  then show ?thesis using first_success_contract [OF assms] by simp
qed

section \<open>Properties\<close>

text \<open>
  key-auth with a consumer store identifies the caller. Without inline keys and anonymous
  consumer, a request is admitted as consumer \<open>n\<close> exactly when the configuration declares a
  consumer of that name whose key-auth credential is the key presented (the configured header,
  else the query parameter); every other request is refused with 401 and UNAUTHORIZED.
\<close>

theorem key_auth_identifies:
  assumes "store_from_config cs = Inr st"
    and "ka_valid_keys p = []" "ka_use_consumers p" "ka_anonymous_consumer p = None"
  shows "((\<exists>c'. key_auth_exec p st c = Inr c' \<and> msg_str c' ''consumer.name'' = Some n) \<longleftrightarrow>
      (\<exists>k \<in> set cs. cn_name k = n \<and> (\<exists>cred v. (''key-auth'', cred) \<in> set (cn_credentials k) \<and>
         primary_value ''key-auth'' cred = Some v \<and> key_auth_key p c = Some v))) \<and>
    ((\<exists>c'. key_auth_exec p st c = Inr c') \<or>
     (\<exists>c' e. key_auth_exec p st c = Inl (c', e) \<and> rs_status_code (cx_response c') = 401 \<and>
        err_code e = ''UNAUTHORIZED''))"
proof -
  have a: "msg_str (attach_consumer k t c) ''consumer.name'' = Some (cn_name k)" for k t c
    by (auto simp: attach_consumer_def msg_str_def Let_def split: option.splits)
  note look = lookup_exact [OF assms(1), THEN conjunct1]
  show ?thesis
  proof (cases "key_auth_key p c")
    case None
    then show ?thesis
      using assms by (simp add: key_auth_exec_def key_auth_reject_def reject_json_def mk_error_def Let_def)
  next
    case (Some v)
    show ?thesis
    proof (cases "find_by_credential st ''key-auth'' v")
      case None
      then have "\<nexists>k cred. k \<in> set cs \<and> (''key-auth'', cred) \<in> set (cn_credentials k) \<and>
          primary_value ''key-auth'' cred = Some v"
        using look [of "''key-auth''" v] by auto
      with None Some show ?thesis
        using assms by (auto simp: key_auth_exec_def key_auth_reject_def reject_json_def mk_error_def Let_def)
    next
      case (Some k)
      have "(\<exists>k' \<in> set cs. cn_name k' = n \<and> (\<exists>cred v'. (''key-auth'', cred) \<in> set (cn_credentials k') \<and>
          primary_value ''key-auth'' cred = Some v' \<and> Some v = Some v')) \<longleftrightarrow> cn_name k = n"
        using look [of "''key-auth''" v] Some by (metis option.inject)
      with Some \<open>key_auth_key p c = Some v\<close> show ?thesis
        using assms a by (simp add: key_auth_exec_def Let_def)
    qed
  qed
qed

definition demo_key_auth :: key_auth where
  "demo_key_auth = \<lparr>ka_valid_keys = [], ka_header_name = ''x-api-key'', ka_query_param = None,
     ka_use_consumers = True, ka_anonymous_consumer = None, ka_hide_credentials = False\<rparr>"

definition demo_keyed :: "string \<Rightarrow> gcontext" where
  "demo_keyed k = new_context
     \<lparr>rq_method = ''GET'', rq_path = ''/'', rq_host = ''h'', rq_scheme = ''http'',
      rq_headers = [(''x-api-key'', [k])], rq_query_params = [], rq_body = [],
      rq_remote_addr = ''10.0.0.1:9'', rq_protocol = Http1\<rparr>"

theorem key_auth_identifies_witness:
  "\<exists>st c'. store_from_config [demo_consumer] = Inr st \<and>
     key_auth_exec demo_key_auth st (demo_keyed ''s3cret'') = Inr c' \<and>
     msg_str c' ''consumer.name'' = Some ''alice''"
proof -
  have p: "primary_value ''key-auth'' (JObj [(''key'', JStr ''s3cret'')]) = Some ''s3cret''"
    by (simp add: primary_value_def primary_credential_field_def)
  have "trim ''alice'' \<noteq> []" by code_simp
  then have "consumers_wf [demo_consumer]"
    by (simp add: consumers_wf_def credential_entries_def demo_consumer_def p)
  then obtain st where s: "store_from_config [demo_consumer] = Inr st"
    using store_from_config_iff by blast
  have "key_auth_key demo_key_auth (demo_keyed ''s3cret'') = Some ''s3cret''"
    by (simp add: key_auth_key_def demo_key_auth_def demo_keyed_def first_header_def or_else_def new_context_def)
  with key_auth_identifies [OF s, of demo_key_auth "demo_keyed ''s3cret''" "''alice''"] s p
  show ?thesis by (auto simp: demo_key_auth_def demo_consumer_def)
qed

text \<open>
  C29: multi-auth is the first success. When every method keeps the contract of an authentication
  plugin, each one is tried on the context multi-auth was given, the first that admits decides
  the result, and when all refuse nothing of their refusals is left but the shared state: the
  answer is multi-auth's own 401. The composition keeps the contract itself.
\<close>

theorem multi_auth_first_success:
  assumes "list_all (\<lambda>p. auth_contract (pl_exec p)) ps"
  shows "multi_auth_exec ps = first_success ps \<and> auth_contract (multi_auth_exec ps)"
  using multi_auth_first [OF assms] multi_auth_contract [OF assms]
  by (simp add: fun_eq_iff multi_auth_exec_def)


theorem multi_auth_first_success_witness:
  "multi_auth_exec [\<lparr>pl_type = ''key-auth'', pl_exec = reads_store (key_auth_exec demo_key_auth)\<rparr>]
   = first_success [\<lparr>pl_type = ''key-auth'', pl_exec =
       (reads_store (key_auth_exec demo_key_auth) :: (unit gw_world_scheme) node_exec)\<rparr>]"
proof -
  let ?x = "reads_store (key_auth_exec demo_key_auth) :: (unit gw_world_scheme) node_exec"
  have "auth_contract ?x" by (rule key_auth_node.auth_contract_axioms)
  then have "list_all (\<lambda>p. auth_contract (pl_exec p)) [\<lparr>pl_type = ''key-auth'', pl_exec = ?x\<rparr>]" by simp
  from multi_auth_first_success [OF this] show ?thesis by simp
qed

end
