(* ===== verification/Plugin_Rewrite.thy ===== *)
theory Plugin_Rewrite
  imports Plugin_Auth
begin

text \<open>
  Plugins that rewrite a request or a response and never fail (src/src/plugins/native/):
  listener, client, error-handler, proxy-rewrite, redirect, cors, request-id, error-page and
  exit-transformer, with the header helper of src/src/plugins/util/headers.rs.
\<close>

section \<open>Shared helpers\<close>

text \<open>\<open>remove_ci\<close>: drop a header under every spelling; says whether there was one.\<close>

definition remove_ci :: "string list hmap \<Rightarrow> string \<Rightarrow> string list hmap \<times> bool" where
  "remove_ci m name =
     (let target = to_ascii_lowercase name;
          matches = filter (\<lambda>k. eq_ignore_ascii_case k target) (hm_keys m)
      in (fold hm_remove matches m, matches \<noteq> []))"

definition rs_remove_ci :: "string \<Rightarrow> gcontext \<Rightarrow> gcontext" where
  "rs_remove_ci name c =
     c\<lparr>cx_response := (cx_response c)\<lparr>rs_headers := fst (remove_ci (rs_headers (cx_response c)) name)\<rparr>\<rparr>"

definition rq_remove_ci :: "string \<Rightarrow> gcontext \<Rightarrow> gcontext" where
  "rq_remove_ci name c =
     c\<lparr>cx_request := (cx_request c)\<lparr>rq_headers := fst (remove_ci (rq_headers (cx_request c)) name)\<rparr>\<rparr>"

definition rs_remove :: "string \<Rightarrow> gcontext \<Rightarrow> gcontext" where
  "rs_remove k c = c\<lparr>cx_response := (cx_response c)\<lparr>rs_headers := hm_remove k (rs_headers (cx_response c))\<rparr>\<rparr>"

definition rs_push :: "string \<Rightarrow> string \<Rightarrow> gcontext \<Rightarrow> gcontext" where
  "rs_push k v c = c\<lparr>cx_response := (cx_response c)\<lparr>rs_headers := hm_push k v (rs_headers (cx_response c))\<rparr>\<rparr>"

definition rq_push :: "string \<Rightarrow> string \<Rightarrow> gcontext \<Rightarrow> gcontext" where
  "rq_push k v c = c\<lparr>cx_request := (cx_request c)\<lparr>rq_headers := hm_push k v (rq_headers (cx_request c))\<rparr>\<rparr>"

definition set_path :: "string \<Rightarrow> gcontext \<Rightarrow> gcontext" where
  "set_path p c = c\<lparr>cx_request := (cx_request c)\<lparr>rq_path := p\<rparr>\<rparr>"

text \<open>A JSON scalar as a header value.\<close>

fun header_value_to_string :: "libs \<Rightarrow> json \<Rightarrow> string option" where
  "header_value_to_string L (JStr s) = Some s"
| "header_value_to_string L (JNum n) = Some (show_num L n)"
| "header_value_to_string L (JBool b) = Some (show_bool b)"
| "header_value_to_string L _ = None"

section \<open>listener, client and error-handler\<close>

definition listener_exec :: "gcontext \<Rightarrow> plugin_result" where
  "listener_exec c = Inr c"

definition client_exec :: "gcontext \<Rightarrow> plugin_result" where
  "client_exec c = Inr c"

record error_handler =
  eh_status_code :: nat
  eh_body_template :: string

definition error_handler_from_config :: "config \<Rightarrow> string + error_handler" where
  "error_handler_from_config c =
     Inr \<lparr>eh_status_code = as_u16 (unwrap_or 500 (cfg_u64 c ''status_code'')),
          eh_body_template = unwrap_or
            ''{\"error\": \"internal_error\", \"message\": \"An unexpected error occurred\"}''
            (cfg_str c ''body_template'')\<rparr>"

definition error_handler_body :: "error_handler \<Rightarrow> gateway_error list \<Rightarrow> string" where
  "error_handler_body p errors =
     (if errors = [] then eh_body_template p
      else
        (let e = last errors in
         replace_sub ''{{error.node_id}}'' (err_node_id e)
           (replace_sub ''{{error.message}}'' (err_message e)
             (replace_sub ''{{error.code}}'' (err_code e) (eh_body_template p)))))"

definition error_handler_exec :: "error_handler \<Rightarrow> gcontext \<Rightarrow> plugin_result" where
  "error_handler_exec p c =
     Inr (json_content (set_body (error_handler_body p (cx_errors c)) (set_status (eh_status_code p) c)))"

section \<open>proxy-rewrite\<close>

datatype rewrite_phase = RequestPhase | ResponsePhase

record proxy_rewrite =
  pw_strip_path_prefix :: "string option"
  pw_add_path_prefix :: "string option"
  pw_add_headers :: "string hmap"
  pw_remove_headers :: "string list"
  pw_phase :: rewrite_phase

definition add_header_entry :: "libs \<Rightarrow> json \<Rightarrow> string hmap \<Rightarrow> string + string hmap" where
  "add_header_entry L item headers =
     (case as_object item of
        None \<Rightarrow> Inl (''add_headers entries must be objects with 'name' and '' @ sq ''value'')
      | Some obj \<Rightarrow>
          (let name = unwrap_or [] (Option.bind (hm_get obj ''name'') as_str) in
           if trim name = [] then Inr headers
           else (case hm_get obj ''value'' of
                   None \<Rightarrow> Inr (hm_insert name [] headers)
                 | Some v \<Rightarrow>
                     (case header_value_to_string L v of
                        None \<Rightarrow> Inl (''add_headers['' @ sq name @ ''] must be a scalar value'')
                      | Some s \<Rightarrow> Inr (hm_insert name s headers)))))"

definition parse_add_headers :: "libs \<Rightarrow> config \<Rightarrow> string + string hmap" where
  "parse_add_headers L c =
     (case hm_get c ''add_headers'' of
        None \<Rightarrow> Inr []
      | Some (JObj m) \<Rightarrow>
          traverse (\<lambda>(k, v). res_bind (ok_or (header_value_to_string L v)
            (''add_headers['' @ sq k @ ''] must be a scalar value'')) (\<lambda>s. Inr (k, s))) m
      | Some (JArr items) \<Rightarrow> fold_res (add_header_entry L) items []
      | Some _ \<Rightarrow> Inl ''add_headers must be a map of name: value or a list of {name, value} objects'')"

definition proxy_rewrite_from_config :: "libs \<Rightarrow> config \<Rightarrow> string + proxy_rewrite" where
  "proxy_rewrite_from_config L c =
     (if hm_has c ''headers'' then
        Inl (''proxy-rewrite has no 'headers' key (that is response-rewrite's schema); '' @
             ''use add_headers: { name: value } and remove_headers: [name]'')
      else res_bind (parse_add_headers L c) (\<lambda>headers.
        Inr \<lparr>pw_strip_path_prefix = cfg_str c ''strip_path_prefix'',
             pw_add_path_prefix = cfg_str c ''add_path_prefix'',
             pw_add_headers = headers,
             pw_remove_headers = unwrap_or [] (cfg_strings c ''remove_headers''),
             pw_phase = (if cfg_str c ''phase'' = Some ''response'' then ResponsePhase else RequestPhase)\<rparr>))"

definition strip_path :: "string \<Rightarrow> string \<Rightarrow> string" where
  "strip_path pre path =
     (case strip_prefix path pre of
        None \<Rightarrow> path
      | Some rest \<Rightarrow>
          if rest = [] \<or> hd rest \<noteq> CHR ''/'' then CHR ''/'' # dropWhile (\<lambda>ch. ch = CHR ''/'') rest
          else rest)"

definition rewrite_path :: "proxy_rewrite \<Rightarrow> string \<Rightarrow> string" where
  "rewrite_path p path =
     (let stripped = (case pw_strip_path_prefix p of Some pre \<Rightarrow> strip_path pre path | None \<Rightarrow> path)
      in case pw_add_path_prefix p of Some pre \<Rightarrow> pre @ stripped | None \<Rightarrow> stripped)"

definition proxy_rewrite_exec :: "libs \<Rightarrow> proxy_rewrite \<Rightarrow> gcontext \<Rightarrow> plugin_result" where
  "proxy_rewrite_exec L p c =
     Inr (case pw_phase p of
            RequestPhase \<Rightarrow>
              fold rq_remove_ci (pw_remove_headers p)
                (fold (\<lambda>(k, v). rq_push (to_lowercase L k) v) (pw_add_headers p)
                  (set_path (rewrite_path p (rq_path (cx_request c))) c))
          | ResponsePhase \<Rightarrow>
              fold rs_remove_ci (pw_remove_headers p)
                (fold (\<lambda>(k, v). rs_push (to_lowercase L k) v) (pw_add_headers p) c))"

section \<open>redirect\<close>

record redirect =
  rd_http_to_https :: bool
  rd_uri :: "string option"
  rd_ret_code :: nat
  rd_append_query_string :: bool

definition redirect_from_config :: "config \<Rightarrow> string + redirect" where
  "redirect_from_config c =
     (let h = unwrap_or False (cfg_bool c ''http_to_https''); uri = cfg_str c ''uri'' in
      if h = (uri \<noteq> None) then Inl (''redirect plugin requires exactly one of 'uri' or '' @ sq ''http_to_https: true'')
      else
        res_bind (case hm_get c ''ret_code'' of
                    None \<Rightarrow> Inr 302
                  | Some v \<Rightarrow>
                      res_bind (ok_or (opt_filter (\<lambda>n. 200 \<le> n \<and> n < 600) (as_u64 v))
                        ''ret_code must be an integer status code >= 200'') (\<lambda>n. Inr (as_u16 n)))
          (\<lambda>code.
            let append = unwrap_or False (cfg_bool c ''append_query_string'') in
            if h \<and> append then
              Inl ''only one of 'http_to_https' and 'append_query_string' can be configured''
            else Inr \<lparr>rd_http_to_https = h, rd_uri = uri, rd_ret_code = code,
                      rd_append_query_string = append\<rparr>))"

definition redirect_to :: "string \<Rightarrow> nat \<Rightarrow> gcontext \<Rightarrow> gcontext" where
  "redirect_to uri code c =
     rs_remove ''content-encoding'' (rs_remove ''content-length''
       (set_body [] (set_rs_header ''location'' [uri] (set_status code c))))"

definition redirect_exec :: "libs \<Rightarrow> redirect \<Rightarrow> gcontext \<Rightarrow> plugin_result" where
  "redirect_exec L p c =
     Inr (if rd_http_to_https p then
            (if unwrap_or (rq_scheme (cx_request c)) (first_header c ''x-forwarded-proto'') = ''https'' then c
             else redirect_to (interpolate L c ''https://$host$request_uri'')
               (if rq_method (cx_request c) \<in> {''GET'', ''HEAD''} then 301 else 308) c)
          else
            (let uri = interpolate L c (unwrap_or [] (rd_uri p));
                 uri' = (if rd_append_query_string p then
                           (case resolve L c ''query_string'' of
                              Some qs \<Rightarrow> uri @ (if CHR ''?'' \<in> set uri then ''&'' else ''?'') @ qs
                            | None \<Rightarrow> uri)
                         else uri)
             in redirect_to uri' (rd_ret_code p) c))"

section \<open>cors\<close>

record cors =
  co_allowed_origins :: "string list"
  co_allowed_methods :: "string list"
  co_allowed_headers :: "string list"
  co_max_age :: nat
  co_allow_credentials :: bool

definition cors_from_config :: "config \<Rightarrow> string + cors" where
  "cors_from_config c =
     Inr \<lparr>co_allowed_origins = unwrap_or [''*''] (cfg_strings c ''allowed_origins''),
          co_allowed_methods = unwrap_or [''GET'', ''POST'', ''PUT'', ''DELETE'', ''OPTIONS'']
            (cfg_strings c ''allowed_methods''),
          co_allowed_headers = unwrap_or [''*''] (cfg_strings c ''allowed_headers''),
          co_max_age = unwrap_or 3600 (cfg_u64 c ''max_age''),
          co_allow_credentials = unwrap_or False (cfg_bool c ''allow_credentials'')\<rparr>"

definition origin_allowed :: "cors \<Rightarrow> string \<Rightarrow> bool" where
  "origin_allowed p origin \<longleftrightarrow> list_ex (\<lambda>x. x = ''*'' \<or> x = origin) (co_allowed_origins p)"

definition cors_exec :: "cors \<Rightarrow> gcontext \<Rightarrow> plugin_result" where
  "cors_exec p c =
     Inr (let origin = unwrap_or [] (first_header c ''origin'');
              preflight = (rq_method (cx_request c) = ''OPTIONS'')
          in if origin_allowed p origin then
               (let resp = (if list_ex (\<lambda>x. x = ''*'') (co_allowed_origins p) then ''*'' else origin);
                    c1 = set_rs_header ''access-control-allow-origin'' [resp] c;
                    c2 = (if co_allow_credentials p
                          then set_rs_header ''access-control-allow-credentials'' [''true''] c1 else c1)
                in if preflight then
                     set_body [] (set_status 204
                       (set_rs_header ''access-control-max-age'' [show_nat (co_max_age p)]
                         (set_rs_header ''access-control-allow-headers'' [join '', '' (co_allowed_headers p)]
                           (set_rs_header ''access-control-allow-methods''
                             [join '', '' (co_allowed_methods p)] c2))))
                   else c2)
             else c)"

section \<open>request-id\<close>

record request_id =
  ri_header_name :: string
  ri_include_in_response :: bool

definition request_id_from_config :: "libs \<Rightarrow> config \<Rightarrow> string + request_id" where
  "request_id_from_config L c =
     (case cfg_str c ''algorithm'' of
        Some a \<Rightarrow>
          if a = ''uuid'' then
            Inr \<lparr>ri_header_name = to_lowercase L (unwrap_or ''X-Request-Id'' (cfg_str c ''header_name'')),
                 ri_include_in_response = unwrap_or True (cfg_bool c ''include_in_response'')\<rparr>
          else Inl (''request-id algorithm '' @ sq a @ '' is not supported '' @ em_dash @ '' supported: uuid'')
      | None \<Rightarrow>
          Inr \<lparr>ri_header_name = to_lowercase L (unwrap_or ''X-Request-Id'' (cfg_str c ''header_name'')),
               ri_include_in_response = unwrap_or True (cfg_bool c ''include_in_response'')\<rparr>)"

definition first_non_empty :: "string list hmap \<Rightarrow> string \<Rightarrow> string option" where
  "first_non_empty headers header = opt_filter (\<lambda>v. v \<noteq> []) (first_value headers header)"

text \<open>\<open>uuid\<close> is the fresh identifier the uuid crate would give.\<close>

definition request_id_exec :: "string \<Rightarrow> request_id \<Rightarrow> gcontext \<Rightarrow> plugin_result" where
  "request_id_exec uuid p c =
     Inr (let (i, c1) =
                (case first_non_empty (rq_headers (cx_request c)) (ri_header_name p) of
                   Some existing \<Rightarrow> (existing, c)
                 | None \<Rightarrow> (uuid, set_rq_header (ri_header_name p) [uuid] c))
          in if ri_include_in_response p \<and>
                first_non_empty (rs_headers (cx_response c1)) (ri_header_name p) = None
             then set_rs_header (ri_header_name p) [i] c1 else c1)"

section \<open>error-page\<close>

record error_page =
  ep_body :: string
  ep_content_type :: string

definition supported_status :: "(nat \<times> string) list" where
  "supported_status =
     [(404, ''404 Not Found''), (500, ''500 Internal Server Error''), (502, ''502 Bad Gateway''),
      (503, ''503 Service Unavailable'')]"

definition newline :: string where
  "newline = [CHR 0x0A]"

definition default_body :: "string \<Rightarrow> string" where
  "default_body title =
     ''<html>'' @ newline @ ''<head><title>'' @ title @ ''</title></head>'' @ newline @ ''<body>'' @ newline @
     ''<center><h1>'' @ title @ ''</h1></center>'' @ newline @
     ''<hr><center>featherbit</center>'' @ newline @ ''</body>'' @ newline @ ''</html>''"

definition str_field :: "(string \<times> json) list \<Rightarrow> string \<Rightarrow> string \<Rightarrow> string \<Rightarrow> string + string" where
  "str_field obj k dflt err =
     (case hm_get obj k of None \<Rightarrow> Inr dflt | Some v \<Rightarrow> ok_or (as_str v) err)"

definition add_page ::
  "config \<Rightarrow> nat \<times> string \<Rightarrow> (nat \<times> error_page) list \<Rightarrow> string + (nat \<times> error_page) list" where
  "add_page c st pages =
     (let key = ''error_'' @ show_nat (fst st) in
      case hm_get c key of
        None \<Rightarrow> Inr pages
      | Some raw \<Rightarrow>
          res_bind (ok_or (as_object raw) (key @ '' must be an object'')) (\<lambda>obj.
          res_bind (str_field obj ''body'' (default_body (snd st)) (key @ ''.body must be a string'')) (\<lambda>body.
          res_bind (str_field obj ''content_type'' ''text/html'' (key @ ''.content_type must be a string''))
            (\<lambda>ct. Inr (hm_insert (fst st) \<lparr>ep_body = body, ep_content_type = ct\<rparr> pages)))))"

definition error_page_from_config :: "config \<Rightarrow> string + (nat \<times> error_page) list" where
  "error_page_from_config c = fold_res (add_page c) supported_status []"

definition error_page_exec :: "(nat \<times> error_page) list \<Rightarrow> gcontext \<Rightarrow> plugin_result" where
  "error_page_exec pages c =
     Inr (if cx_errors c \<noteq> [] then
            (case hm_get pages (rs_status_code (cx_response c)) of
               None \<Rightarrow> c
             | Some page \<Rightarrow>
                 rs_remove ''content-encoding'' (rs_remove ''content-length''
                   (set_rs_header ''content-type'' [ep_content_type page] (set_body (ep_body page) c))))
          else c)"

section \<open>exit-transformer\<close>

record exit_transformer =
  xt_status_map :: "(nat \<times> nat) list"
  xt_body :: "string option"
  xt_always :: bool

definition parse_status :: "string \<Rightarrow> string \<Rightarrow> nat option \<Rightarrow> string + nat" where
  "parse_status what raw value =
     res_bind (ok_or (or_else value (parse_uint u64_max raw))
       (''status_map '' @ what @ '' '' @ sq raw @ '' must be an integer'')) (\<lambda>n.
       if 100 \<le> n \<and> n \<le> 599 then Inr (as_u16 n)
       else Inl (''status_map '' @ what @ '' '' @ sq raw @ '' must be within 100-599''))"

definition add_status ::
  "libs \<Rightarrow> string \<times> json \<Rightarrow> (nat \<times> nat) list \<Rightarrow> string + (nat \<times> nat) list" where
  "add_status L kv m =
     res_bind (parse_status ''key'' (fst kv) None) (\<lambda>from_st.
     res_bind (parse_status ''value'' (json_print L (snd kv)) (as_u64 (snd kv))) (\<lambda>to_st.
       Inr (hm_insert from_st to_st m)))"

definition exit_transformer_from_config :: "libs \<Rightarrow> config \<Rightarrow> string + exit_transformer" where
  "exit_transformer_from_config L c =
     res_bind (case hm_get c ''status_map'' of
                 None \<Rightarrow> Inr []
               | Some raw \<Rightarrow>
                   res_bind (ok_or (as_object raw) ''status_map must be a map of status -> status'')
                     (\<lambda>obj. fold_res (add_status L) obj [])) (\<lambda>m.
     res_bind (case hm_get c ''body'' of
                 None \<Rightarrow> Inr None
               | Some v \<Rightarrow> res_bind (ok_or (as_str v) ''body must be a string'') (\<lambda>s. Inr (Some s))) (\<lambda>body.
       Inr \<lparr>xt_status_map = m, xt_body = body, xt_always = unwrap_or False (cfg_bool c ''always'')\<rparr>))"

definition exit_transformer_exec :: "libs \<Rightarrow> exit_transformer \<Rightarrow> gcontext \<Rightarrow> plugin_result" where
  "exit_transformer_exec L p c =
     Inr (if xt_always p \<or> cx_errors c \<noteq> [] then
            (let c1 = (case hm_get (xt_status_map p) (rs_status_code (cx_response c)) of
                         Some st \<Rightarrow> set_status st c | None \<Rightarrow> c)
             in case xt_body p of
                  None \<Rightarrow> c1
                | Some template \<Rightarrow>
                    rs_remove ''content-encoding'' (rs_remove ''content-length''
                      (set_body (interpolate L c1 template) c1)))
          else c)"

section \<open>They never fail\<close>

text \<open>The contract of a rewriting plugin: it always takes the success port.\<close>

locale rewriter_contract = plugin_contract exec
  for exec :: "gcontext \<Rightarrow> 'w \<Rightarrow> ((gcontext \<times> gateway_error) + gcontext) \<times> 'w" +
  assumes succeeds: "\<exists>c'. fst (exec c w) = Inr c'"
begin

lemma never_errs: "fst (exec c w) \<noteq> Inl x"
  using succeeds [of c w] by auto

lemma success_errors: "\<exists>c'. fst (exec c w) = Inr c' \<and> cx_errors c' = cx_errors c"
  using succeeds [of c w] keeps_errors [of c w] by (auto simp: result_ctx_def)

end

sublocale rewriter_contract \<subseteq> auth_contract exec
proof unfold_locales
  show "cx_errors c' = cx_errors c" if "fst (exec c w) = Inr c'" for c w c'
    using success_errors [of c w] that by auto
qed (simp add: never_errs)

definition rewriter :: "(gcontext \<Rightarrow> plugin_result) \<Rightarrow> bool" where
  "rewriter f \<longleftrightarrow> (\<forall>c. \<exists>c'. f c = Inr c' \<and> cx_errors c' = cx_errors c)"

lemma rewriter_rule: "rewriter f \<Longrightarrow> rewriter_contract (pure_exec f)"
proof unfold_locales
  fix c w assume "rewriter f"
  then obtain c' where "f c = Inr c'" "cx_errors c' = cx_errors c" by (auto simp: rewriter_def)
  then show "cx_errors (result_ctx (fst (pure_exec f c w))) = cx_errors c" by simp
  show "\<exists>c'. fst (pure_exec f c w) = Inr c'" using \<open>f c = Inr c'\<close> by simp
qed

lemma header_ops_errors [simp]:
  "cx_errors (rs_remove_ci k c) = cx_errors c" "cx_errors (rq_remove_ci k c) = cx_errors c"
  "cx_errors (rs_remove k c) = cx_errors c" "cx_errors (rs_push k v c) = cx_errors c"
  "cx_errors (rq_push k v c) = cx_errors c" "cx_errors (set_path p c) = cx_errors c"
  by (simp_all add: rs_remove_ci_def rq_remove_ci_def rs_remove_def rs_push_def rq_push_def set_path_def)

lemma fold_errors:
  "(\<And>x c. cx_errors (f x c) = cx_errors c) \<Longrightarrow> cx_errors (fold f xs c) = cx_errors c"
  by (induction xs arbitrary: c) auto

lemma rewriters:
  "rewriter listener_exec" "rewriter client_exec" "rewriter (error_handler_exec eh)"
  "rewriter (proxy_rewrite_exec L pw)" "rewriter (redirect_exec L rd)" "rewriter (cors_exec co)"
  "rewriter (request_id_exec uuid ri)" "rewriter (error_page_exec pages)"
  "rewriter (exit_transformer_exec L xt)"
  by (auto simp: rewriter_def listener_exec_def client_exec_def error_handler_exec_def
      proxy_rewrite_exec_def redirect_exec_def redirect_to_def cors_exec_def request_id_exec_def
      error_page_exec_def exit_transformer_exec_def Let_def fold_errors
      split: rewrite_phase.splits option.splits prod.splits)

interpretation listener_node: rewriter_contract "pure_exec listener_exec"
  by (rule rewriter_rule [OF rewriters(1)])

interpretation client_node: rewriter_contract "pure_exec client_exec"
  by (rule rewriter_rule [OF rewriters(2)])

interpretation error_handler_node: rewriter_contract "pure_exec (error_handler_exec p)" for p
  by (rule rewriter_rule [OF rewriters(3)])

interpretation proxy_rewrite_node: rewriter_contract "pure_exec (proxy_rewrite_exec L p)" for L p
  by (rule rewriter_rule [OF rewriters(4)])

interpretation redirect_node: rewriter_contract "pure_exec (redirect_exec L p)" for L p
  by (rule rewriter_rule [OF rewriters(5)])

interpretation cors_node: rewriter_contract "pure_exec (cors_exec p)" for p
  by (rule rewriter_rule [OF rewriters(6)])

interpretation request_id_node: rewriter_contract "pure_exec (request_id_exec uuid p)" for uuid p
  by (rule rewriter_rule [OF rewriters(7)])

interpretation error_page_node: rewriter_contract "pure_exec (error_page_exec pages)" for pages
  by (rule rewriter_rule [OF rewriters(8)])

interpretation exit_transformer_node: rewriter_contract "pure_exec (exit_transformer_exec L p)" for L p
  by (rule rewriter_rule [OF rewriters(9)])

section \<open>What they write\<close>

lemma fold_hm_remove_get: "hm_get (fold hm_remove ks m) k = (if k \<in> set ks then None else hm_get m k)"
  by (induction ks arbitrary: m) auto

lemma eq_ignore_lower [simp]: "eq_ignore_ascii_case k (to_ascii_lowercase n) = eq_ignore_ascii_case k n"
  by (simp add: eq_ignore_ascii_case_def)

lemma remove_ci_get:
  "hm_get (fst (remove_ci m name)) k = (if eq_ignore_ascii_case k name then None else hm_get m k)"
proof -
  have "hm_get m k = None" if "k \<notin> set (hm_keys m)"
    using that by (induction m) (auto simp: hm_get_def hm_keys_def)
  then show ?thesis by (auto simp: remove_ci_def Let_def fold_hm_remove_get)
qed

lemma remove_ci_found: "snd (remove_ci m name) \<longleftrightarrow> (\<exists>k \<in> set (hm_keys m). eq_ignore_ascii_case k name)"
  by (auto simp: remove_ci_def Let_def filter_empty_conv)

text \<open>
  Stripping a prefix is by text, not by segment: the rest of a longer segment becomes a segment.
\<close>

lemma strip_path_prefix [simp]:
  "strip_path pre (pre @ CHR ''/'' # rest) = CHR ''/'' # rest"
  "strip_path pre pre = ''/''"
  "x \<noteq> CHR ''/'' \<Longrightarrow> strip_path pre (pre @ x # rest) = CHR ''/'' # x # rest"
proof -
  have p: "strip_prefix (pre @ r) pre = Some r" for r by (simp add: strip_prefix_Some)
  from p [of "[]"] show "strip_path pre pre = ''/''" by (simp add: strip_path_def)
qed (simp_all add: strip_path_def strip_prefix_Some [THEN iffD2])

lemma strip_path_absolute: "starts_with path ''/'' \<Longrightarrow> starts_with (strip_path pre path) ''/''"
  by (auto simp: strip_path_def starts_with_iff neq_Nil_conv split: option.splits)

end
