(* ===== verification/Plugin_Upstream.thy ===== *)
theory Plugin_Upstream
  imports Plugin_Rewrite Balancer
begin

text \<open>
  Proxying to backends: the shared outbound client (src/src/outbound/mod.rs) and the plugin
  upstream (src/src/plugins/native/upstream.rs). The network is the record \<open>transport\<close>: which requests
  the http crate can build, which calls run past their deadline, and what an exchange yields.
\<close>

section \<open>The outbound client\<close>

record outbound_request =
  ob_method :: string
  ob_url :: string
  ob_headers :: "(string \<times> string) list"
  ob_body :: string
  ob_timeout :: nat
  ob_ssl_verify :: bool

record outbound_response =
  or_status :: nat
  or_headers :: "string list hmap"
  or_body :: string

datatype outbound_error = OutTimeout nat | OutInvalid string | OutTransport string

record transport =
  tr_method :: "string \<Rightarrow> string option"
  tr_build :: "outbound_request \<Rightarrow> string + unit"
  tr_late :: "outbound_request \<Rightarrow> bool"
  tr_exchange :: "outbound_request \<Rightarrow> string + nat \<times> (string \<times> string option) list \<times> (string + string)"
  tr_duration :: "nat \<Rightarrow> string"

definition outbound_call :: "transport \<Rightarrow> outbound_request \<Rightarrow> outbound_error + outbound_response" where
  "outbound_call T req =
     (case tr_build T req of
        Inl e \<Rightarrow> Inl (OutInvalid e)
      | Inr _ \<Rightarrow>
          if tr_late T req then Inl (OutTimeout (ob_timeout req))
          else (case tr_exchange T req of
                  Inl e \<Rightarrow> Inl (OutTransport e)
                | Inr (_, _, Inl e) \<Rightarrow> Inl (OutTransport e)
                | Inr (status, headers, Inr body) \<Rightarrow>
                    Inr \<lparr>or_status = status, or_headers = collect_headers headers, or_body = body\<rparr>))"

text \<open>\<open>dur\<close> is the debug form of a duration.\<close>

definition show_outbound_error :: "(nat \<Rightarrow> string) \<Rightarrow> outbound_error \<Rightarrow> string" where
  "show_outbound_error dur e =
     (case e of
        OutTimeout d \<Rightarrow> ''outbound request timed out after '' @ dur d
      | OutInvalid m \<Rightarrow> ''invalid outbound request: '' @ m
      | OutTransport m \<Rightarrow> ''outbound transport error: '' @ m)"

text \<open>The request headers with Host replaced by the target.\<close>

definition target_addr :: "target \<Rightarrow> string" where
  "target_addr t = tg_host t @ '':'' @ show_nat (tg_port t)"

definition proxy_headers :: "target \<Rightarrow> gcontext \<Rightarrow> (string \<times> string) list" where
  "proxy_headers t c =
     concat (map (\<lambda>(k, vs). if eq_ignore_ascii_case k ''host'' then [] else map (Pair k) vs)
       (rq_headers (cx_request c))) @ [(''host'', target_addr t)]"

definition set_response :: "outbound_response \<Rightarrow> gcontext \<Rightarrow> gcontext" where
  "set_response r c =
     c\<lparr>cx_response := \<lparr>rs_status_code = or_status r, rs_headers = or_headers r, rs_body = or_body r\<rparr>\<rparr>"

text \<open>One \<open>{host, port}\<close> entry of a target list; the port is cut to 16 bits.\<close>

definition parse_target :: "json \<Rightarrow> target option" where
  "parse_target v =
     Option.bind (as_object v) (\<lambda>m.
     Option.bind (Option.bind (hm_get m ''host'') as_str) (\<lambda>host.
     Option.bind (Option.bind (hm_get m ''port'') as_u64) (\<lambda>port.
       Some \<lparr>tg_host = host, tg_port = as_u16 port\<rparr>)))"

section \<open>upstream\<close>

record upstream =
  up_timeout :: nat
  up_tls :: bool
  up_ssl_verify :: bool

definition upstream_from_config :: "libs \<Rightarrow> config \<Rightarrow> string + upstream \<times> balancer" where
  "upstream_from_config L c =
     (let targets = List.map_filter parse_target (unwrap_or [] (cfg_array c ''targets'')) in
      res_bind (case or_else (hm_get c ''load_balancing'') (hm_get c ''load_balancer'') of
                  None \<Rightarrow> Inr RoundRobin
                | Some v \<Rightarrow>
                    res_bind (ok_or (as_str v) ''load_balancing must be a string'') (parse_strategy L))
        (\<lambda>strategy.
      res_bind (new_balancer targets strategy) (\<lambda>b.
        Inr (\<lparr>up_timeout = unwrap_or 60000 (cfg_u64 c ''timeout_ms''),
              up_tls = unwrap_or False (cfg_bool c ''tls''),
              up_ssl_verify = unwrap_or True (cfg_bool c ''ssl_verify'')\<rparr>, b))))"

text \<open>A WebSocket request leaves the relay target for the listener.\<close>

definition ws_handover :: "upstream \<Rightarrow> target \<Rightarrow> gcontext \<Rightarrow> gcontext" where
  "ws_handover p t c =
     set_status 101
       (set_message ''__ws_upstream_verify'' (JBool (up_ssl_verify p))
       (set_message ''__ws_upstream_tls'' (JBool (up_tls p))
       (set_message ''__ws_upstream_path'' (JStr (rq_path (cx_request c)))
       (set_message ''__ws_upstream_port'' (jnat (tg_port t))
       (set_message ''__ws_upstream_host'' (JStr (tg_host t)) c)))))"

definition upstream_request :: "transport \<Rightarrow> upstream \<Rightarrow> target \<Rightarrow> gcontext \<Rightarrow> outbound_request" where
  "upstream_request T p t c =
     \<lparr>ob_method = unwrap_or ''GET'' (tr_method T (rq_method (cx_request c))),
      ob_url = (if up_tls p then ''https'' else ''http'') @ ''://'' @ target_addr t @ rq_path (cx_request c),
      ob_headers = proxy_headers t c,
      ob_body = rq_body (cx_request c),
      ob_timeout = up_timeout p,
      ob_ssl_verify = up_ssl_verify p\<rparr>"

definition upstream_error :: "transport \<Rightarrow> target \<Rightarrow> outbound_error \<Rightarrow> gateway_error" where
  "upstream_error T t e =
     (case e of
        OutTimeout d \<Rightarrow> mk_error ''UPSTREAM_TIMEOUT''
          (''Upstream '' @ target_addr t @ '' timed out after '' @ tr_duration T d)
      | OutInvalid m \<Rightarrow> mk_error ''UPSTREAM_REQUEST_BUILD_ERROR'' (''Failed to build upstream request: '' @ m)
      | OutTransport m \<Rightarrow> mk_error ''UPSTREAM_CONNECTION_ERROR''
          (''Failed to reach upstream '' @ target_addr t @ '': '' @ m))"

text \<open>
  The balancer is the plugin's own state. The in-flight guard is taken before the call and
  dropped on either way out.
\<close>

definition upstream_exec ::
  "transport \<Rightarrow> (string \<Rightarrow> nat) \<Rightarrow> upstream \<Rightarrow> balancer node_exec" where
  "upstream_exec T hash p c b =
     (let (i, b1) = select hash (rq_remote_addr (cx_request c)) b; t = bl_targets b1 ! i in
      if rq_protocol (cx_request c) = WebSocket then (Inr (ws_handover p t c), b1)
      else
        (case outbound_call T (upstream_request T p t c) of
           Inr r \<Rightarrow> Inr (set_response r c)
         | Inl e \<Rightarrow> Inl (c, upstream_error T t e), release i (acquire i b1)))"

lemma set_response_simps [simp]:
  "cx_request (set_response r c) = cx_request c" "cx_message (set_response r c) = cx_message c"
  "cx_errors (set_response r c) = cx_errors c"
  by (simp_all add: set_response_def)

lemma ws_handover_errors [simp]: "cx_errors (ws_handover p t c) = cx_errors c"
  by (simp add: ws_handover_def)

interpretation upstream_node: plugin_contract "upstream_exec T hash p" for T hash p
  by unfold_locales (auto simp: upstream_exec_def Let_def split: prod.splits sum.splits)

section \<open>What is forwarded\<close>

definition with_query :: "string list hmap \<Rightarrow> gcontext \<Rightarrow> gcontext" where
  "with_query q c = c\<lparr>cx_request := (cx_request c)\<lparr>rq_query_params := q\<rparr>\<rparr>"

lemma proxy_headers_mem:
  "(k, v) \<in> set (proxy_headers t c) \<longleftrightarrow>
     (k, v) = (''host'', target_addr t) \<or>
     \<not> eq_ignore_ascii_case k ''host'' \<and> (\<exists>vs. (k, vs) \<in> set (rq_headers (cx_request c)) \<and> v \<in> set vs)"
  by (auto simp: proxy_headers_def split: if_splits)

lemma release_acquire:
  "i < length (bl_in_flight b) \<Longrightarrow> \<forall>n \<in> set (bl_in_flight b). n < 2 ^ 64 \<Longrightarrow>
   bl_in_flight (release i (acquire i b)) = bl_in_flight b"
proof -
  assume i: "i < length (bl_in_flight b)" and n: "\<forall>n \<in> set (bl_in_flight b). n < 2 ^ 64"
  then have "bl_in_flight b ! i < 2 ^ 64" by simp
  then have "fetch_sub (fetch_add (bl_in_flight b ! i)) = bl_in_flight b ! i"
    by (simp add: fetch_sub_def fetch_add_def mod_simps)
  with i show ?thesis by (simp add: release_def acquire_def)
qed

lemma select_same_load: "bl_in_flight (snd (select h r b)) = bl_in_flight b"
  "bl_targets (snd (select h r b)) = bl_targets b"
  by (simp_all add: select_def Let_def split: strategy.splits)

section \<open>Properties\<close>


definition demo_upstream :: upstream where
  "demo_upstream = \<lparr>up_timeout = 1000, up_tls = False, up_ssl_verify = True\<rparr>"

definition demo_balancer :: balancer where
  "demo_balancer = \<lparr>bl_targets = [\<lparr>tg_host = ''x'', tg_port = 1\<rparr>], bl_strategy = RoundRobin,
     bl_counter = 0, bl_in_flight = [3]\<rparr>"

definition demo_transport :: transport where
  "demo_transport =
     \<lparr>tr_method = Some, tr_build = (\<lambda>_. Inr ()), tr_late = (\<lambda>_. False),
      tr_exchange = (\<lambda>_. Inr (200, [], Inr [])), tr_duration = (\<lambda>_. [])\<rparr>"


end
