(* ===== verification/Plugin_Split.thy ===== *)
theory Plugin_Split
  imports Plugin_Upstream
begin

text \<open>
  Weighted steering (src/src/plugins/native/traffic_split.rs and traffic_label.rs): rules matched
  in order, a weighted round robin over one 64-bit cursor per rule, and for traffic-split the call
  to the chosen target. The rules with their cursors are the plugin's own state. Sums of weights
  wrap at 64 bits, as \<open>u64\<close> arithmetic does in a release build.
\<close>

section \<open>Weighted round robin\<close>

definition u64_wrap :: "nat \<Rightarrow> nat" where
  "u64_wrap n = n mod 2 ^ 64"

definition weight_sum :: "nat list \<Rightarrow> nat" where
  "weight_sum ws = fold (\<lambda>w acc. u64_wrap (acc + w)) ws 0"

text \<open>The index of the first slot whose accumulated weight exceeds the mark.\<close>

fun weighted_scan :: "nat \<Rightarrow> nat \<Rightarrow> nat list \<Rightarrow> nat option" where
  "weighted_scan mark acc [] = None"
| "weighted_scan mark acc (w # ws) =
     (let acc' = u64_wrap (acc + w) in
      if mark < acc' then Some 0 else map_option Suc (weighted_scan mark acc' ws))"

text \<open>One pick: the slot and the advanced cursor; a total of zero panics.\<close>

definition pick_weighted :: "nat list \<Rightarrow> nat \<Rightarrow> nat \<Rightarrow> (nat \<times> nat) option" where
  "pick_weighted ws tot cursor =
     (if tot = 0 then None
      else Some (unwrap_or (length ws - 1) (weighted_scan (cursor mod tot) 0 ws), fetch_add cursor))"

fun pick_many :: "nat list \<Rightarrow> nat \<Rightarrow> nat \<Rightarrow> nat \<Rightarrow> nat list" where
  "pick_many ws tot cursor 0 = []"
| "pick_many ws tot cursor (Suc n) =
     (case pick_weighted ws tot cursor of None \<Rightarrow> [] | Some (i, c) \<Rightarrow> i # pick_many ws tot c n)"

lemma weight_sum_acc: "fold (\<lambda>w acc. u64_wrap (acc + w)) ws a = u64_wrap (a + sum_list ws) \<or> ws = []"
proof (induction ws arbitrary: a)
  case (Cons w ws)
  then show ?case by (cases ws) (auto simp: u64_wrap_def mod_simps ac_simps)
qed simp

lemma weight_sum: "weight_sum ws = sum_list ws mod 2 ^ 64"
  using weight_sum_acc [of ws 0] by (auto simp: weight_sum_def u64_wrap_def)

lemma weighted_scan_shift:
  "acc + sum_list ws < 2 ^ 64 \<Longrightarrow> mark < acc + sum_list ws \<Longrightarrow> acc \<le> mark \<Longrightarrow>
   weighted_scan mark acc ws = weighted_scan (mark - acc) 0 ws"
proof -
  have "acc + sum_list ws < 2 ^ 64 \<Longrightarrow> d \<le> acc \<Longrightarrow> d \<le> mark \<Longrightarrow>
      weighted_scan (mark - d) (acc - d) ws = weighted_scan mark acc ws" for d mark acc
  proof (induction ws arbitrary: acc)
    case (Cons w ws)
    have "u64_wrap (acc + w) = acc + w" "u64_wrap (acc - d + w) = acc + w - d"
      using Cons.prems by (auto simp: u64_wrap_def)
    with Cons.IH [of "acc + w"] Cons.prems show ?case by (auto simp: Let_def)
  qed simp
  then show "acc + sum_list ws < 2 ^ 64 \<Longrightarrow> mark < acc + sum_list ws \<Longrightarrow> acc \<le> mark \<Longrightarrow>
      weighted_scan mark acc ws = weighted_scan (mark - acc) 0 ws"
    by (metis diff_self_eq_0 order_refl)
qed

text \<open>Over the marks below the total, every slot is hit as often as its weight says.\<close>

lemma scan_counts:
  "sum_list ws < 2 ^ 64 \<Longrightarrow> i < length ws \<Longrightarrow>
   count_list (map (\<lambda>m. weighted_scan m 0 ws) [0..<sum_list ws]) (Some i) = ws ! i"
proof (induction ws arbitrary: i)
  case (Cons w ws)
  let ?f = "\<lambda>m. weighted_scan m 0 (w # ws)"
  have w: "u64_wrap w = w" using Cons.prems by (simp add: u64_wrap_def)
  have low: "map ?f [0..<w] = replicate w (Some 0)"
    using w by (intro nth_equalityI) (simp_all add: Let_def)
  have high: "map ?f [w..<w + sum_list ws] = map (\<lambda>m. map_option Suc (weighted_scan m 0 ws)) [0..<sum_list ws]"
  proof (rule nth_equalityI, simp)
    fix m assume "m < length (map ?f [w..<w + sum_list ws])"
    then have m: "m < sum_list ws" by simp
    have "?f (w + m) = map_option Suc (weighted_scan m 0 ws)"
      using weighted_scan_shift [of w ws "w + m"] Cons.prems w m by (simp add: Let_def)
    with m show "map ?f [w..<w + sum_list ws] ! m =
        map (\<lambda>m. map_option Suc (weighted_scan m 0 ws)) [0..<sum_list ws] ! m"
      by (simp del: weighted_scan.simps)
  qed
  have split: "[0..<sum_list (w # ws)] = [0..<w] @ [w..<w + sum_list ws]"
    using upt_add_eq_append [of 0 w "sum_list ws"] by simp
  have suc: "count_list (map (map_option Suc) xs) (Some (Suc j)) = count_list xs (Some j)"
    "count_list (map (map_option Suc) xs) (Some 0) = 0" for xs j
    by (induction xs) auto
  have rep: "count_list (replicate n x) y = (if x = y then n else 0)" for n and x y :: "nat option"
    by (induction n) auto
  show ?case
    using Cons suc [of "map (\<lambda>m. weighted_scan m 0 ws) [0..<sum_list ws]"]
    unfolding split map_append low high by (cases i) (simp_all add: rep comp_def)
qed simp

lemma scan_total: "sum_list ws < 2 ^ 64 \<Longrightarrow> m < sum_list ws \<Longrightarrow> \<exists>i < length ws. weighted_scan m 0 ws = Some i"
proof (induction ws arbitrary: m)
  case (Cons w ws)
  have w: "u64_wrap w = w" using Cons.prems by (simp add: u64_wrap_def)
  show ?case
  proof (cases "m < w")
    case False
    then have "m - w < sum_list ws" "sum_list ws < 2 ^ 64" using Cons.prems by simp_all
    with Cons.IH obtain i where "i < length ws" "weighted_scan (m - w) 0 ws = Some i" by blast
    then show ?thesis using weighted_scan_shift [of w ws m] Cons.prems False w by (auto simp: Let_def)
  qed (use w in \<open>simp add: Let_def\<close>)
qed simp

lemma pick_weighted_pos:
  "0 < tot \<Longrightarrow> pick_weighted ws tot cursor =
     Some (unwrap_or (length ws - 1) (weighted_scan (cursor mod tot) 0 ws), fetch_add cursor)"
  by (simp add: pick_weighted_def)

lemma pick_many_eq:
  assumes "0 < sum_list ws" "sum_list ws < 2 ^ 64"
  shows "cursor + n < 2 ^ 64 \<Longrightarrow>
    map Some (pick_many ws (sum_list ws) cursor n) =
    map (\<lambda>c. weighted_scan (c mod sum_list ws) 0 ws) [cursor..<cursor + n]"
proof (induction n arbitrary: cursor)
  case (Suc n)
  have "cursor mod sum_list ws < sum_list ws" using assms(1) by simp
  from scan_total [OF assms(2) this] obtain i where i: "weighted_scan (cursor mod sum_list ws) 0 ws = Some i"
    by blast
  have "fetch_add cursor = Suc cursor" using Suc.prems by (simp add: fetch_add_def)
  with i Suc pick_weighted_pos [OF assms(1)] show ?case
    by (simp add: upt_conv_Cons del: upt_Suc)
qed simp

lemma count_list_map_inj: "count_list (map Some xs) (Some x) = count_list xs x"
  by (induction xs) auto

lemma count_list_perm: "mset xs = mset ys \<Longrightarrow> count_list xs x = count_list ys x"
  by (metis count_mset)

lemma residues_mset: "0 < n \<Longrightarrow> mset (map (\<lambda>x. x mod n) [c..<c + n]) = mset [0..<n]"
proof (rule multiset_eqI)
  fix x assume "0 < n"
  show "count (mset (map (\<lambda>x. x mod n) [c..<c + n])) x = count (mset [0..<n]) x"
  proof (cases "x < n")
    case True
    then show ?thesis using count_residue_block [OF True, of c] by (simp add: count_mset count_list_upt del: mset_map mset_upt)
  next
    case False
    then have "x \<notin> set (map (\<lambda>x. x mod n) [c..<c + n])" using \<open>0 < n\<close> by auto
    with False show ?thesis by (simp add: count_mset count_list_upt count_notin del: mset_map mset_upt set_map)
  qed
qed

lemma scan_counts_from:
  assumes "0 < sum_list ws" "sum_list ws < 2 ^ 64" "i < length ws"
  shows "count_list (map (\<lambda>c. weighted_scan (c mod sum_list ws) 0 ws) [cursor..<cursor + sum_list ws]) (Some i) =
    ws ! i"
proof -
  have "mset (map (\<lambda>c. weighted_scan (c mod sum_list ws) 0 ws) [cursor..<cursor + sum_list ws]) =
      image_mset (\<lambda>m. weighted_scan m 0 ws) (mset (map (\<lambda>c. c mod sum_list ws) [cursor..<cursor + sum_list ws]))"
    by (simp add: image_mset.compositionality comp_def del: mset_upt)
  also have "\<dots> = mset (map (\<lambda>m. weighted_scan m 0 ws) [0..<sum_list ws])"
    unfolding residues_mset [OF assms(1)] by (rule mset_map [symmetric])
  finally show ?thesis using scan_counts [OF assms(2,3)] by (metis count_list_perm)
qed

text \<open>Weighted round robin is exact over every \<open>k\<close> rounds of as many picks as the weights sum to.\<close>

lemma pick_many_exact:
  assumes "0 < sum_list ws" "sum_list ws < 2 ^ 64" "cursor + k * sum_list ws < 2 ^ 64" "i < length ws"
  shows "count_list (pick_many ws (sum_list ws) cursor (k * sum_list ws)) i = k * ws ! i"
proof -
  have "count_list (map (\<lambda>c. weighted_scan (c mod sum_list ws) 0 ws) [cursor..<cursor + k * sum_list ws]) (Some i) =
      k * ws ! i"
  proof (induction k)
    case (Suc k)
    have "[cursor..<cursor + Suc k * sum_list ws] = [cursor..<cursor + k * sum_list ws] @
        [cursor + k * sum_list ws..<cursor + k * sum_list ws + sum_list ws]"
      using upt_add_eq_append [of cursor "cursor + k * sum_list ws" "sum_list ws"] by (simp add: algebra_simps)
    with Suc scan_counts_from [OF assms(1,2,4), of "cursor + k * sum_list ws"] show ?case by simp
  qed simp
  then show ?thesis
    using pick_many_eq [OF assms(1,2,3)] count_list_map_inj by metis
qed

section \<open>traffic-split\<close>

record split_slot =
  sl_weight :: nat
  sl_targets :: "target list option"
  sl_target_cursor :: nat

record split_rule =
  sr_matcher :: "node option"
  sr_slots :: "split_slot list"
  sr_total_weight :: nat
  sr_cursor :: nat

record traffic_split =
  ts_rules :: "split_rule list"
  ts_timeout :: nat

definition parse_targets :: "json \<Rightarrow> string \<Rightarrow> string + target list" where
  "parse_targets v field =
     res_bind (ok_or (as_object v) (field @ '' must be an object'')) (\<lambda>obj.
     (let targets = List.map_filter parse_target
            (unwrap_or [] (Option.bind (or_else (hm_get obj ''targets'') (hm_get obj ''nodes'')) as_array))
      in if targets = [] then Inl (field @ ''.targets must contain at least one {host, port} entry'')
         else Inr targets))"

text \<open>An optional condition; \<open>null_too\<close> says whether JSON null counts as absent.\<close>

definition parse_condition :: "libs \<Rightarrow> bool \<Rightarrow> string \<Rightarrow> json option \<Rightarrow> string + node option" where
  "parse_condition L null_too what v =
     (case v of
        None \<Rightarrow> Inr None
      | Some j \<Rightarrow>
          if null_too \<and> j = JNull then Inr None
          else (case parse_expr L j of Inl e \<Rightarrow> Inl (what @ '': '' @ e) | Inr n \<Rightarrow> Inr (Some n)))"

definition rule_at :: "nat \<Rightarrow> string" where
  "rule_at idx = ''rules['' @ show_nat idx @ '']''"

definition split_slot_from :: "nat \<Rightarrow> nat \<times> json \<Rightarrow> string + split_slot" where
  "split_slot_from idx sv =
     (let at = rule_at idx @ ''.weighted_upstreams['' @ show_nat (fst sv) @ '']'' in
      res_bind (ok_or (as_object (snd sv)) (at @ '' must be an object'')) (\<lambda>obj.
      res_bind (case hm_get obj ''weight'' of
                  None \<Rightarrow> Inr 1
                | Some v \<Rightarrow> ok_or (as_u64 v) (at @ ''.weight must be a non-negative integer'')) (\<lambda>weight.
      res_bind (case hm_get obj ''upstream'' of
                  None \<Rightarrow> Inr None
                | Some JNull \<Rightarrow> Inr None
                | Some v \<Rightarrow> res_bind (parse_targets v (at @ ''.upstream'')) (\<lambda>ts. Inr (Some ts))) (\<lambda>targets.
        Inr \<lparr>sl_weight = weight, sl_targets = targets, sl_target_cursor = 0\<rparr>))))"

definition split_rule_from :: "libs \<Rightarrow> nat \<times> json \<Rightarrow> string + split_rule" where
  "split_rule_from L rv =
     (let idx = fst rv in
      res_bind (ok_or (as_object (snd rv)) (rule_at idx @ '' must be an object'')) (\<lambda>obj.
      res_bind (parse_condition L True (rule_at idx @ ''.match'') (hm_get obj ''match'')) (\<lambda>matcher.
      res_bind (ok_or (opt_filter (\<lambda>s. s \<noteq> []) (Option.bind (hm_get obj ''weighted_upstreams'') as_array))
        (rule_at idx @ '' requires a non-empty 'weighted_upstreams' array'')) (\<lambda>raw.
      res_bind (traverse (split_slot_from idx) (List.enumerate 0 raw)) (\<lambda>slots.
      (let total = weight_sum (map sl_weight slots) in
       if total = 0 then Inl (rule_at idx @ '' needs at least one weighted_upstream with weight > 0'')
       else Inr \<lparr>sr_matcher = matcher, sr_slots = slots, sr_total_weight = total, sr_cursor = 0\<rparr>))))))"

definition traffic_split_from_config :: "libs \<Rightarrow> config \<Rightarrow> string + traffic_split" where
  "traffic_split_from_config L c =
     res_bind (ok_or (opt_filter (\<lambda>r. r \<noteq> []) (cfg_array c ''rules''))
       ''traffic-split requires a non-empty 'rules' array'') (\<lambda>raw.
     res_bind (traverse (split_rule_from L) (List.enumerate 0 raw)) (\<lambda>rules.
       Inr \<lparr>ts_rules = rules, ts_timeout = unwrap_or 60000 (cfg_u64 c ''timeout_ms'')\<rparr>))"

definition condition_holds :: "libs \<Rightarrow> gcontext \<Rightarrow> node option \<Rightarrow> bool" where
  "condition_holds L c m = (case m of None \<Rightarrow> True | Some e \<Rightarrow> eval_expr L e c)"

text \<open>The first rule whose condition holds, by its index.\<close>

definition select_rule :: "libs \<Rightarrow> gcontext \<Rightarrow> split_rule list \<Rightarrow> nat option" where
  "select_rule L c rules =
     (case filter (\<lambda>i. condition_holds L c (sr_matcher (rules ! i))) [0..<length rules] of
        [] \<Rightarrow> None | i # _ \<Rightarrow> Some i)"

definition pick_slot :: "split_rule \<Rightarrow> (nat \<times> split_rule) option" where
  "pick_slot r =
     map_option (\<lambda>(i, cur). (i, r\<lparr>sr_cursor := cur\<rparr>))
       (pick_weighted (map sl_weight (sr_slots r)) (sr_total_weight r) (sr_cursor r))"

definition pick_target :: "target list \<Rightarrow> split_slot \<Rightarrow> target \<times> split_slot" where
  "pick_target ts s =
     (ts ! (sl_target_cursor s mod length ts), s\<lparr>sl_target_cursor := fetch_add (sl_target_cursor s)\<rparr>)"

definition split_request :: "transport \<Rightarrow> nat \<Rightarrow> target \<Rightarrow> gcontext \<Rightarrow> outbound_request" where
  "split_request T timeout t c =
     \<lparr>ob_method = unwrap_or ''GET'' (tr_method T (rq_method (cx_request c))),
      ob_url = ''http://'' @ target_addr t @ rq_path (cx_request c),
      ob_headers = proxy_headers t c, ob_body = rq_body (cx_request c),
      ob_timeout = timeout, ob_ssl_verify = True\<rparr>"

definition split_error :: "transport \<Rightarrow> target \<Rightarrow> outbound_error \<Rightarrow> string" where
  "split_error T t e =
     (case e of
        OutTimeout d \<Rightarrow> ''traffic-split target '' @ target_addr t @ '' timed out after '' @ tr_duration T d
      | OutInvalid m \<Rightarrow> ''traffic-split failed to build request: '' @ m
      | OutTransport m \<Rightarrow> ''traffic-split failed to reach target '' @ target_addr t @ '': '' @ m)"

definition split_proxy :: "transport \<Rightarrow> nat \<Rightarrow> target \<Rightarrow> gcontext \<Rightarrow> plugin_result" where
  "split_proxy T timeout t c =
     (case outbound_call T (split_request T timeout t c) of
        Inr r \<Rightarrow>
          Inl (set_response r c,
            mk_error ''TRAFFIC_SPLIT_ROUTED'' (''traffic-split proxied request to '' @ target_addr t))
      | Inl e \<Rightarrow>
          reject_json c 502 ''{\"error\": \"bad_gateway\", \"message\": \"traffic-split target unreachable\"}''
            ''TRAFFIC_SPLIT_UPSTREAM_ERROR'' (split_error T t e))"

text \<open>The rules and cursors are the plugin's state; \<open>from_config\<close> never leaves a total of zero.\<close>

definition traffic_split_exec :: "libs \<Rightarrow> transport \<Rightarrow> traffic_split node_exec" where
  "traffic_split_exec L T c p =
     (case select_rule L c (ts_rules p) of
        None \<Rightarrow> (Inr c, p)
      | Some i \<Rightarrow>
          (case pick_slot (ts_rules p ! i) of
             None \<Rightarrow> (Inr c, p)
           | Some (k, r) \<Rightarrow>
               (case sl_targets (sr_slots r ! k) of
                  None \<Rightarrow> (Inr c, p\<lparr>ts_rules := (ts_rules p)[i := r]\<rparr>)
                | Some ts \<Rightarrow>
                    (let (t, s) = pick_target ts (sr_slots r ! k);
                         r' = r\<lparr>sr_slots := (sr_slots r)[k := s]\<rparr>
                     in (split_proxy T (ts_timeout p) t c, p\<lparr>ts_rules := (ts_rules p)[i := r']\<rparr>)))))"

lemma split_proxy_errors: "cx_errors (result_ctx (split_proxy T d t c)) = cx_errors c"
  by (simp add: split_proxy_def reject_json_def split: sum.splits)

interpretation traffic_split_node: plugin_contract "traffic_split_exec L T" for L T
  by unfold_locales
    (simp add: traffic_split_exec_def Let_def split_proxy_errors split: option.splits prod.splits)

section \<open>traffic-label\<close>

record label_action =
  la_weight :: nat
  la_set_headers :: "(string \<times> string) list"
  la_set_labels :: "(string \<times> string) list"

record label_rule =
  lr_matcher :: "node option"
  lr_actions :: "label_action list"
  lr_total_weight :: nat
  lr_cursor :: nat

type_synonym traffic_label = "label_rule list"

definition parse_kv_object :: "libs \<Rightarrow> json \<Rightarrow> string \<Rightarrow> string + (string \<times> string) list" where
  "parse_kv_object L v field =
     res_bind (ok_or (as_object v) (field @ '' must be an object of name: value'')) (\<lambda>obj.
       traverse (\<lambda>(k, v). res_bind (ok_or (header_value_to_string L v)
         (field @ ''['' @ sq k @ ''] must be a scalar value'')) (\<lambda>s. Inr (k, s))) obj)"

definition action_at :: "nat \<Rightarrow> nat \<Rightarrow> string" where
  "action_at idx aidx = rule_at idx @ ''.actions['' @ show_nat aidx @ '']''"

definition action_key :: "libs \<Rightarrow> string \<Rightarrow> string \<times> json \<Rightarrow> label_action \<Rightarrow> string + label_action" where
  "action_key L at kv a =
     (if fst kv = ''weight'' then
        res_bind (ok_or (opt_filter (\<lambda>w. 1 \<le> w) (as_u64 (snd kv))) (at @ ''.weight must be an integer >= 1''))
          (\<lambda>w. Inr (a\<lparr>la_weight := w\<rparr>))
      else if fst kv = ''set_headers'' then
        res_bind (parse_kv_object L (snd kv) (at @ ''.set_headers''))
          (\<lambda>hs. Inr (a\<lparr>la_set_headers := map (\<lambda>(k, v). (to_lowercase L k, v)) hs\<rparr>))
      else if fst kv = ''set_labels'' then
        res_bind (parse_kv_object L (snd kv) (at @ ''.set_labels'')) (\<lambda>ls. Inr (a\<lparr>la_set_labels := ls\<rparr>))
      else Inl (at @ '': not supported action: '' @ fst kv))"

definition label_action_from :: "libs \<Rightarrow> nat \<Rightarrow> nat \<times> json \<Rightarrow> string + label_action" where
  "label_action_from L idx av =
     res_bind (ok_or (as_object (snd av)) (action_at idx (fst av) @ '' must be an object'')) (\<lambda>obj.
       fold_res (action_key L (action_at idx (fst av))) obj
         \<lparr>la_weight = 1, la_set_headers = [], la_set_labels = []\<rparr>)"

definition label_rule_from :: "libs \<Rightarrow> nat \<times> json \<Rightarrow> string + label_rule" where
  "label_rule_from L rv =
     (let idx = fst rv in
      res_bind (ok_or (as_object (snd rv)) (rule_at idx @ '' must be an object'')) (\<lambda>obj.
      res_bind (parse_condition L False (rule_at idx @ ''.match'') (hm_get obj ''match'')) (\<lambda>matcher.
      res_bind (ok_or (opt_filter (\<lambda>a. a \<noteq> []) (Option.bind (hm_get obj ''actions'') as_array))
        (rule_at idx @ '' requires a non-empty 'actions' array'')) (\<lambda>raw.
      res_bind (traverse (label_action_from L idx) (List.enumerate 0 raw)) (\<lambda>actions.
        Inr \<lparr>lr_matcher = matcher, lr_actions = actions,
             lr_total_weight = weight_sum (map la_weight actions), lr_cursor = 0\<rparr>)))))"

definition traffic_label_from_config :: "libs \<Rightarrow> config \<Rightarrow> string + traffic_label" where
  "traffic_label_from_config L c =
     res_bind (ok_or (opt_filter (\<lambda>r. r \<noteq> []) (cfg_array c ''rules''))
       ''traffic-label requires a non-empty 'rules' array'') (\<lambda>raw.
       traverse (label_rule_from L) (List.enumerate 0 raw))"

text \<open>Every template is rendered against the context before any header or label is written.\<close>

definition apply_action :: "libs \<Rightarrow> label_action \<Rightarrow> gcontext \<Rightarrow> gcontext" where
  "apply_action L a c =
     (let headers = map (\<lambda>(n, t). (n, interpolate L c t)) (la_set_headers a);
          labels = map (\<lambda>(k, t). (k, interpolate L c t)) (la_set_labels a);
          c1 = fold (\<lambda>(n, v). set_rq_header n [v]) headers c
      in fold (\<lambda>(k, v). set_message (''label.'' @ k) (JStr v)) labels c1)"

definition pick_action :: "label_rule \<Rightarrow> (label_action \<times> label_rule) option" where
  "pick_action r =
     map_option (\<lambda>(i, cur). (lr_actions r ! i, r\<lparr>lr_cursor := cur\<rparr>))
       (pick_weighted (map la_weight (lr_actions r)) (lr_total_weight r) (lr_cursor r))"

text \<open>The loop over the rules; \<open>None\<close> when the request panics on a total weight of zero.\<close>

fun traffic_label_exec ::
  "libs \<Rightarrow> gcontext \<Rightarrow> traffic_label \<Rightarrow> (plugin_result \<times> traffic_label) option" where
  "traffic_label_exec L c [] = Some (Inr c, [])"
| "traffic_label_exec L c (r # rs) =
     (if \<not> condition_holds L c (lr_matcher r) then
        map_option (\<lambda>(x, rs'). (x, r # rs')) (traffic_label_exec L c rs)
      else
        (case pick_action r of
           None \<Rightarrow> None
         | Some (a, r') \<Rightarrow>
             if la_set_headers a = [] \<and> la_set_labels a = [] then
               map_option (\<lambda>(x, rs'). (x, r' # rs')) (traffic_label_exec L c rs)
             else Some (Inr (apply_action L a c), r' # rs)))"

section \<open>Runs of requests\<close>

text \<open>The results of a sequence of requests at one traffic-split node.\<close>

fun split_run :: "libs \<Rightarrow> transport \<Rightarrow> gcontext list \<Rightarrow> traffic_split \<Rightarrow> plugin_result list" where
  "split_run L T [] p = []"
| "split_run L T (c # cs) p =
     (case traffic_split_exec L T c p of (r, p') \<Rightarrow> r # split_run L T cs p')"

text \<open>What a pick changes in its rule: the cursor and one target cursor.\<close>

definition same_shape :: "split_rule \<Rightarrow> split_rule \<Rightarrow> bool" where
  "same_shape r r' \<longleftrightarrow>
     sr_matcher r' = sr_matcher r \<and> sr_total_weight r' = sr_total_weight r \<and>
     map sl_weight (sr_slots r') = map sl_weight (sr_slots r) \<and>
     map sl_targets (sr_slots r') = map sl_targets (sr_slots r)"

lemma select_rule_cong:
  "map sr_matcher rs = map sr_matcher rs' \<Longrightarrow> select_rule L c rs = select_rule L c rs'"
proof -
  assume e: "map sr_matcher rs = map sr_matcher rs'"
  then have "length rs = length rs'" by (rule map_eq_imp_length_eq)
  moreover have "sr_matcher (rs ! i) = sr_matcher (rs' ! i)" if "i < length rs" for i
    using that e \<open>length rs = length rs'\<close> by (metis nth_map)
  ultimately show ?thesis unfolding select_rule_def by (metis (no_types, lifting) filter_cong set_upt atLeastLessThan_iff)
qed

lemma select_rule_lt: "select_rule L c rs = Some i \<Longrightarrow> i < length rs"
proof -
  assume "select_rule L c rs = Some i"
  then obtain js where "filter (\<lambda>i. condition_holds L c (sr_matcher (rs ! i))) [0..<length rs] = i # js"
    by (auto simp: select_rule_def split: list.splits)
  then have "i \<in> set (filter (\<lambda>i. condition_holds L c (sr_matcher (rs ! i))) [0..<length rs])" by simp
  then show "i < length rs" by simp
qed

lemma map_update_same: "f s = f (xs ! k) \<Longrightarrow> map f (xs[k := s]) = map f xs"
  by (cases "k < length xs") (simp_all add: map_update list_update_same_conv list_update_beyond)

lemma same_matchers:
  "i < length rs \<Longrightarrow> sr_matcher r = sr_matcher (rs ! i) \<Longrightarrow> map sr_matcher (rs[i := r]) = map sr_matcher rs"
  by (simp add: map_update_same)

lemma same_shape_slot:
  "sl_weight s = sl_weight (sr_slots r ! k) \<Longrightarrow> sl_targets s = sl_targets (sr_slots r ! k) \<Longrightarrow>
   same_shape r (r\<lparr>sr_slots := (sr_slots r)[k := s]\<rparr>)"
  by (simp add: same_shape_def map_update_same)

lemma same_shape_trans: "same_shape r s \<Longrightarrow> same_shape s t \<Longrightarrow> same_shape r t"
  by (simp add: same_shape_def)

lemma split_proxy_isl: "isl (split_proxy T d t c)"
  by (auto simp: split_proxy_def reject_json_def split: sum.splits)

lemma split_exec_step:
  assumes "select_rule L c (ts_rules p) = Some i" and "pick_slot (ts_rules p ! i) = Some (k, r)"
    and "traffic_split_exec L T c p = (res, p')"
  shows "(isl res \<longleftrightarrow> sl_targets (sr_slots r ! k) \<noteq> None) \<and>
    map sr_matcher (ts_rules p') = map sr_matcher (ts_rules p) \<and>
    same_shape (ts_rules p ! i) (ts_rules p' ! i) \<and> sr_cursor (ts_rules p' ! i) = sr_cursor r"
proof -
  have i: "i < length (ts_rules p)" by (rule select_rule_lt [OF assms(1)])
  have r: "same_shape (ts_rules p ! i) r" "sr_matcher r = sr_matcher (ts_rules p ! i)"
    using assms(2) by (auto simp: pick_slot_def same_shape_def)
  show ?thesis
  proof (cases "sl_targets (sr_slots r ! k)")
    case None
    with assms have "res = Inr c" "p' = p\<lparr>ts_rules := (ts_rules p)[i := r]\<rparr>"
      by (simp_all add: traffic_split_exec_def)
    with i r None same_matchers [OF i, of r] show ?thesis by simp
  next
    case (Some ts)
    define s where "s = snd (pick_target ts (sr_slots r ! k))"
    define r' where "r' = r\<lparr>sr_slots := (sr_slots r)[k := s]\<rparr>"
    have e: "isl res" "p' = p\<lparr>ts_rules := (ts_rules p)[i := r']\<rparr>"
      using assms Some split_proxy_isl
      by (auto simp: traffic_split_exec_def s_def r'_def Let_def split: prod.splits)
    have "same_shape r r'" unfolding r'_def
      by (rule same_shape_slot) (simp_all add: s_def pick_target_def)
    with e i r Some same_matchers [OF i, of r'] same_shape_trans [of _ r r'] show ?thesis
      by (simp add: r'_def)
  qed
qed

lemma split_run_picks:
  assumes "\<forall>c \<in> set cs. select_rule L c (ts_rules p) = Some i" and "0 < sr_total_weight (ts_rules p ! i)"
    and "list_all (\<lambda>j. j < length (sr_slots (ts_rules p ! i)))
      (pick_many (map sl_weight (sr_slots (ts_rules p ! i))) (sr_total_weight (ts_rules p ! i))
        (sr_cursor (ts_rules p ! i)) (length cs))"
  shows "map isl (split_run L T cs p) =
    map (\<lambda>j. sl_targets (sr_slots (ts_rules p ! i) ! j) \<noteq> None)
      (pick_many (map sl_weight (sr_slots (ts_rules p ! i))) (sr_total_weight (ts_rules p ! i))
        (sr_cursor (ts_rules p ! i)) (length cs))"
  using assms
proof (induction cs arbitrary: p)
  case (Cons c cs)
  let ?r = "ts_rules p ! i"
  obtain k cur where pk: "pick_weighted (map sl_weight (sr_slots ?r)) (sr_total_weight ?r) (sr_cursor ?r) = Some (k, cur)"
    using pick_weighted_pos [OF Cons.prems(2)] by blast
  then have ps: "pick_slot ?r = Some (k, ?r\<lparr>sr_cursor := cur\<rparr>)" by (simp add: pick_slot_def)
  obtain res p' where ex: "traffic_split_exec L T c p = (res, p')" by (cases "traffic_split_exec L T c p")
  from Cons.prems(1) have "select_rule L c (ts_rules p) = Some i" by simp
  note st = split_exec_step [OF this ps ex]
  let ?r' = "ts_rules p' ! i"
  have sh: "sr_total_weight ?r' = sr_total_weight ?r" "map sl_weight (sr_slots ?r') = map sl_weight (sr_slots ?r)"
    "map sl_targets (sr_slots ?r') = map sl_targets (sr_slots ?r)" "sr_cursor ?r' = cur"
    using st by (simp_all add: same_shape_def)
  have len: "length (sr_slots ?r') = length (sr_slots ?r)" using sh(2) by (rule map_eq_imp_length_eq)
  have tg: "sl_targets (sr_slots ?r' ! j) = sl_targets (sr_slots ?r ! j)" if "j < length (sr_slots ?r)" for j
    using that sh(3) len by (metis nth_map)
  let ?ps = "pick_many (map sl_weight (sr_slots ?r)) (sr_total_weight ?r) cur (length cs)"
  have lt: "list_all (\<lambda>j. j < length (sr_slots ?r)) ?ps" using Cons.prems(3) pk by simp
  have "map isl (split_run L T cs p') = map (\<lambda>j. sl_targets (sr_slots ?r' ! j) \<noteq> None) ?ps"
    using Cons.IH [of p'] Cons.prems(1,2) sh lt len st select_rule_cong [of "ts_rules p'" "ts_rules p"]
    by simp
  also have "\<dots> = map (\<lambda>j. sl_targets (sr_slots ?r ! j) \<noteq> None) ?ps"
    using lt tg by (simp add: list_all_iff)
  finally show ?case using ex pk st by simp
qed simp

lemma picks_in_range:
  assumes "0 < sum_list ws" "sum_list ws < 2 ^ 64" "cursor + n < 2 ^ 64"
  shows "list_all (\<lambda>j. j < length ws) (pick_many ws (sum_list ws) cursor n)"
proof -
  have "Some j \<in> set (map (\<lambda>c. weighted_scan (c mod sum_list ws) 0 ws) [cursor..<cursor + n])"
    if "j \<in> set (pick_many ws (sum_list ws) cursor n)" for j
    using that pick_many_eq [OF assms] by (metis image_eqI list.set_map)
  moreover have "j < length ws" if "Some j \<in> set (map (\<lambda>c. weighted_scan (c mod sum_list ws) 0 ws) [cursor..<cursor + n])" for j
  proof -
    from that obtain c where c: "weighted_scan (c mod sum_list ws) 0 ws = Some j" by auto
    have "c mod sum_list ws < sum_list ws" using assms(1) by simp
    from scan_total [OF assms(2) this] c show ?thesis by auto
  qed
  ultimately show ?thesis by (auto simp: list_all_iff)
qed

text \<open>Counting the picks that satisfy a predicate, slot by slot.\<close>

lemma length_filter_counts:
  fixes n :: nat
  shows "list_all (\<lambda>j. j < n) xs \<Longrightarrow> length (filter P xs) = (\<Sum>j<n. if P j then count_list xs j else 0)"
proof (induction xs)
  case (Cons x xs)
  have "(\<Sum>j<n. if P j then count_list (x # xs) j else 0) =
      (\<Sum>j<n. (if P j then count_list xs j else 0) + (if j = x then (if P j then 1 else 0) else 0))"
    by (rule sum.cong) auto
  also have "\<dots> = (\<Sum>j<n. if P j then count_list xs j else 0) + (if P x then 1 else 0)"
    using Cons.prems sum.delta [of "{..<n}" x "\<lambda>j. if P j then 1 else 0 :: nat"] by (simp add: sum.distrib)
  finally show ?case using Cons by simp
qed simp

lemma split_rule_from_ok:
  assumes "split_rule_from L rv = Inr r"
  shows "sr_cursor r = 0 \<and> sr_total_weight r = weight_sum (map sl_weight (sr_slots r)) \<and> 0 < sr_total_weight r"
  using assms by (auto simp: split_rule_from_def Let_def res_bind_eq_Inr split: if_splits)

lemma configured_rules_ok:
  assumes "traffic_split_from_config L cfg = Inr p" "r \<in> set (ts_rules p)"
  shows "sr_cursor r = 0 \<and> sr_total_weight r = weight_sum (map sl_weight (sr_slots r)) \<and> 0 < sr_total_weight r"
proof -
  from assms(1) obtain raw where "traverse (split_rule_from L) raw = Inr (ts_rules p)"
    by (auto simp: traffic_split_from_config_def res_bind_eq_Inr)
  with assms(2) obtain rv where "split_rule_from L rv = Inr r"
    by (blast dest: traverse_mem)
  then show ?thesis by (rule split_rule_from_ok)
qed

lemma filter_weights:
  "(\<Sum>j<length xs. if P (xs ! j) then k * f (xs ! j) else 0) = k * sum_list (map f (filter P xs))" for k :: nat
proof -
  have "k * sum_list (map f (filter P xs)) = sum_list (map (\<lambda>x. if P x then k * f x else 0) xs)"
    by (induction xs) (simp_all add: distrib_left)
  also have "\<dots> = (\<Sum>j<length xs. if P (xs ! j) then k * f (xs ! j) else 0)"
    by (simp add: sum_list_sum_nth atLeast0LessThan)
  finally show ?thesis by simp
qed

lemma not_isl_count: "length (filter (\<lambda>r. \<not> isl r) rs) = length (filter Not (map isl rs))"
  by (induction rs) auto

text \<open>A total that wraps to zero makes every request the rule matches panic.\<close>

lemma label_overflow_panics:
  assumes "label_rule_from L rv = Inr r" and "2 ^ 64 dvd sum_list (map la_weight (lr_actions r))"
    and "condition_holds L c (lr_matcher r)"
  shows "traffic_label_exec L c (r # rs) = None"
proof -
  have "lr_total_weight r = 0"
    using assms(1,2) by (auto simp: label_rule_from_def Let_def res_bind_eq_Inr weight_sum)
  with assms(3) show ?thesis by (simp add: pick_action_def pick_weighted_def)
qed

section \<open>Properties\<close>

text \<open>
  traffic-split keeps its weights exactly. For a configured node and requests that all match
  the same rule: of any k rounds of as many requests as the rule's weights sum to, exactly k times
  the weight of its default slots falls through to the route's own upstream; all others are
  answered by the node itself, through its error port.
\<close>

theorem traffic_split_share_exact:
  assumes "traffic_split_from_config L cfg = Inr p" and "i < length (ts_rules p)"
    and "\<forall>c \<in> set cs. select_rule L c (ts_rules p) = Some i"
    and "length cs = k * sum_list (map sl_weight (sr_slots (ts_rules p ! i)))" and "length cs < 2 ^ 64"
    and "sum_list (map sl_weight (sr_slots (ts_rules p ! i))) < 2 ^ 64"
  shows "length (filter (\<lambda>r. \<not> isl r) (split_run L T cs p)) =
    k * sum_list (map sl_weight (filter (\<lambda>s. sl_targets s = None) (sr_slots (ts_rules p ! i))))"
proof -
  let ?r = "ts_rules p ! i"
  let ?ws = "map sl_weight (sr_slots ?r)"
  have ok: "sr_cursor ?r = 0" "sr_total_weight ?r = sum_list ?ws" "0 < sum_list ?ws"
    using configured_rules_ok [OF assms(1), of ?r] assms(2,6) by (simp_all add: weight_sum)
  have len: "0 + k * sum_list ?ws < 2 ^ 64" using assms(4,5) by simp
  have r: "list_all (\<lambda>j. j < length ?ws) (pick_many ?ws (sum_list ?ws) 0 (length cs))"
    using picks_in_range [OF ok(3) assms(6) len] assms(4) by simp
  have "map isl (split_run L T cs p) =
      map (\<lambda>j. sl_targets (sr_slots ?r ! j) \<noteq> None) (pick_many ?ws (sum_list ?ws) 0 (length cs))"
    using split_run_picks [OF assms(3), of T] ok r by simp
  then have "length (filter (\<lambda>r. \<not> isl r) (split_run L T cs p)) =
      length (filter (\<lambda>j. sl_targets (sr_slots ?r ! j) = None) (pick_many ?ws (sum_list ?ws) 0 (length cs)))"
    unfolding not_isl_count by (simp add: filter_map comp_def)
  also have "\<dots> = (\<Sum>j<length (sr_slots ?r). if sl_targets (sr_slots ?r ! j) = None
      then count_list (pick_many ?ws (sum_list ?ws) 0 (length cs)) j else 0)"
    using length_filter_counts [of "length (sr_slots ?r)"] r by simp
  also have "\<dots> = (\<Sum>j<length (sr_slots ?r). if sl_targets (sr_slots ?r ! j) = None
      then k * sl_weight (sr_slots ?r ! j) else 0)"
    using pick_many_exact [OF ok(3) assms(6) len] assms(4) by (intro sum.cong) auto
  finally show ?thesis
    using filter_weights [where P = "\<lambda>s. sl_targets s = None" and f = sl_weight] by simp
qed

definition demo_split_config :: config where
  "demo_split_config =
     [(''rules'', JArr [JObj [(''weighted_upstreams'', JArr
        [JObj [(''weight'', jnat 2)],
         JObj [(''weight'', jnat 1), (''upstream'', JObj [(''targets'',
           JArr [JObj [(''host'', JStr ''canary''), (''port'', jnat 80)]])])]])]])]"

theorem traffic_split_share_exact_witness:
  "\<exists>p. traffic_split_from_config plain_libs demo_split_config = Inr p \<and>
     length (filter (\<lambda>r. \<not> isl r)
       (split_run plain_libs demo_transport (replicate 6 (demo_keyed ''k'')) p)) = 4"
proof -
  obtain p where p: "traffic_split_from_config plain_libs demo_split_config = Inr p"
    and r: "ts_rules p = [\<lparr>sr_matcher = None,
      sr_slots = [\<lparr>sl_weight = 2, sl_targets = None, sl_target_cursor = 0\<rparr>,
        \<lparr>sl_weight = 1, sl_targets = Some [\<lparr>tg_host = ''canary'', tg_port = 80\<rparr>], sl_target_cursor = 0\<rparr>],
      sr_total_weight = 3, sr_cursor = 0\<rparr>]"
    by (simp add: traffic_split_from_config_def demo_split_config_def cfg_array_def cfg_u64_def
        split_rule_from_def parse_condition_def split_slot_from_def parse_targets_def parse_target_def
        weight_sum_def u64_wrap_def as_u16_def or_else_def jnat_def List.map_filter_def Let_def)
  have "\<forall>c \<in> set (replicate 6 (demo_keyed ''k'')). select_rule plain_libs c (ts_rules p) = Some 0"
    by (simp add: r select_rule_def condition_holds_def)
  from traffic_split_share_exact [OF p _ this, where k = 2 and T = demo_transport] r p show ?thesis by simp
qed

end
