(* ===== verification/Real_Ip.thy ===== *)
theory Real_Ip
  imports Plugin_Rewrite
begin

text \<open>
  The real-ip plugin (src/src/plugins/native/real_ip.rs): replacing the peer address by one a
  trusted proxy reports, and what a client can make of it. Networks are those of the ipnet crate
  (\<open>net_parse\<close>, \<open>net_of_ip\<close> and \<open>net_has\<close> of \<open>libs\<close>).
\<close>

record real_ip =
  rp_source :: string
  rp_trusted :: "string list option"
  rp_recursive :: bool

definition parse_port :: "string \<Rightarrow> nat option" where
  "parse_port s = opt_filter (\<lambda>p. 0 < p) (parse_uint 65535 s)"

definition parse_ip_port :: "string \<Rightarrow> (ip_addr \<times> nat option) option" where
  "parse_ip_port text =
     (let addr = trim text in
      case strip_prefix addr ''['' of
        Some rest \<Rightarrow>
          Option.bind (split_once CHR '']'' rest) (\<lambda>(ip, tail).
          Option.bind (parse_ip ip) (\<lambda>ip.
            case strip_prefix tail '':'' of
              Some p \<Rightarrow> Option.bind (parse_port p) (\<lambda>port. Some (ip, Some port))
            | None \<Rightarrow> if tail = [] then Some (ip, None) else None))
      | None \<Rightarrow>
          (case parse_ip addr of
             Some ip \<Rightarrow> Some (ip, None)
           | None \<Rightarrow>
               Option.bind (rsplit_once CHR '':'' addr) (\<lambda>(ip, port).
                 if has_char CHR '':'' ip then None
                 else Option.bind (parse_ip ip) (\<lambda>ip.
                      Option.bind (parse_port port) (\<lambda>port. Some (ip, Some port))))))"

text \<open>One trusted entry: a network, or a single address.\<close>

definition trusted_entry :: "libs \<Rightarrow> json \<Rightarrow> string + string" where
  "trusted_entry L item =
     res_bind (ok_or (as_str item) ''trusted_addresses items must be strings'') (\<lambda>s.
       case net_parse L s of
         Some net \<Rightarrow> Inr net
       | None \<Rightarrow>
           (case parse_ip s of
              Some ip \<Rightarrow> Inr (net_of_ip L ip)
            | None \<Rightarrow> Inl (''invalid ip address: '' @ s)))"

definition real_ip_from_config :: "libs \<Rightarrow> config \<Rightarrow> string + real_ip" where
  "real_ip_from_config L c =
     res_bind (ok_or (opt_filter (\<lambda>s. s \<noteq> []) (cfg_str c ''source''))
       ''real-ip plugin requires 'source' (a variable name, e.g. http_x_real_ip)'') (\<lambda>source.
     res_bind (case hm_get c ''trusted_addresses'' of
                 None \<Rightarrow> Inr None
               | Some raw \<Rightarrow>
                   res_bind (ok_or (as_array raw) ''trusted_addresses must be an array of IPs/CIDRs'') (\<lambda>items.
                     if items = [] then Inl ''trusted_addresses must contain at least one IP/CIDR''
                     else res_bind (traverse (trusted_entry L) items) (\<lambda>nets. Inr (Some nets)))) (\<lambda>trusted.
       Inr \<lparr>rp_source = source, rp_trusted = trusted,
            rp_recursive = unwrap_or False (cfg_bool c ''recursive'')\<rparr>))"

definition is_trusted :: "libs \<Rightarrow> real_ip \<Rightarrow> ip_addr \<Rightarrow> bool" where
  "is_trusted L p ip =
     (case rp_trusted p of None \<Rightarrow> False | Some nets \<Rightarrow> list_ex (\<lambda>n. net_has L n ip) nets)"

definition hop_trusted :: "libs \<Rightarrow> real_ip \<Rightarrow> string \<Rightarrow> bool" where
  "hop_trusted L p part = (case parse_ip part of None \<Rightarrow> False | Some ip \<Rightarrow> is_trusted L p ip)"

definition last_value :: "string list \<Rightarrow> string option" where
  "last_value vs = (if vs = [] then None else Some (last vs))"

definition get_addr :: "libs \<Rightarrow> real_ip \<Rightarrow> gcontext \<Rightarrow> string option" where
  "get_addr L p c =
     (if rp_source p = ''http_x_forwarded_for'' then
        Option.bind (Option.bind (hm_get (rq_headers (cx_request c)) ''x-forwarded-for'') last_value) (\<lambda>value.
          (let parts = map trim (split_on CHR '','' value) in
           if length parts = 1 then Some (hd parts)
           else if rp_recursive p \<and> rp_trusted p \<noteq> None then
             (case filter (\<lambda>part. \<not> hop_trusted L p part) (rev (tl parts)) of
                part # _ \<Rightarrow> Some part
              | [] \<Rightarrow> Some (hd parts))
           else last_value parts))
      else resolve L c (rp_source p))"

fun show_peer :: "ip_addr \<Rightarrow> nat option \<Rightarrow> string" where
  "show_peer (V6 w) (Some p) = ''['' @ show_v6 w @ '']:'' @ show_nat p"
| "show_peer ip (Some p) = show_ip ip @ '':'' @ show_nat p"
| "show_peer ip None = show_ip ip"

definition set_remote :: "string \<Rightarrow> gcontext \<Rightarrow> gcontext" where
  "set_remote a c = c\<lparr>cx_request := (cx_request c)\<lparr>rq_remote_addr := a\<rparr>\<rparr>"

definition real_ip_exec :: "libs \<Rightarrow> real_ip \<Rightarrow> gcontext \<Rightarrow> plugin_result" where
  "real_ip_exec L p c =
     (let direct = parse_ip_port (rq_remote_addr (cx_request c)) in
      if rp_trusted p \<noteq> None \<and> \<not> (case direct of None \<Rightarrow> False | Some (ip, _) \<Rightarrow> is_trusted L p ip)
      then Inr c
      else (case Option.bind (get_addr L p c) parse_ip_port of
              None \<Rightarrow> Inr c
            | Some (ip, port) \<Rightarrow>
                Inr (set_remote (show_peer ip (or_else port (Option.bind direct snd))) c)))"

lemma set_remote_simps [simp]:
  "cx_errors (set_remote a c) = cx_errors c" "cx_message (set_remote a c) = cx_message c"
  "cx_response (set_remote a c) = cx_response c" "rq_remote_addr (cx_request (set_remote a c)) = a"
  by (simp_all add: set_remote_def)

lemma real_ip_rewriter: "rewriter (real_ip_exec L p)"
  by (auto simp: rewriter_def real_ip_exec_def Let_def split: option.splits prod.splits)

interpretation real_ip_node: rewriter_contract "pure_exec (real_ip_exec L p)" for L p
  by (rule rewriter_rule [OF real_ip_rewriter])

text \<open>The right-to-left walk stops at the last entry that is not a trusted proxy.\<close>

lemma walk_stops:
  assumes "\<forall>x \<in> set hops. hop_trusted L p x" and "\<not> hop_trusted L p h"
    and "map trim (split_on CHR '','' value) = pre @ h # hops"
    and "rp_source p = ''http_x_forwarded_for''" and "rp_recursive p" and "rp_trusted p \<noteq> None"
    and "hm_get (rq_headers (cx_request c)) ''x-forwarded-for'' = Some (vs @ [value])"
  shows "get_addr L p c = Some h"
proof -
  have "filter (\<lambda>x. \<not> hop_trusted L p x) (rev hops) = []"
    using assms(1) by (simp add: filter_empty_conv)
  then show ?thesis
    using assms(2-7) by (cases pre) (auto simp: get_addr_def last_value_def Let_def)
qed

section \<open>Properties\<close>

text \<open>
  C33: A client cannot choose its address through trusted proxies. With recursive lookup, let the
  last X-Forwarded-For value end in an entry that is not a trusted proxy followed by trusted ones:
  whatever the entries before it claim, the peer address becomes that entry (with the original
  port when it carries none) when the direct peer is trusted, and stays as it is when it is not.
\<close>

theorem real_ip_ignores_spoofed_hops:
  assumes "rp_trusted p \<noteq> None" and "rp_recursive p" and "rp_source p = ''http_x_forwarded_for''"
    and "hm_get (rq_headers (cx_request c)) ''x-forwarded-for'' = Some (vs @ [value])"
    and "map trim (split_on CHR '','' value) = spoofed @ h # hops"
    and "\<forall>x \<in> set hops. hop_trusted L p x" and "\<not> hop_trusted L p h"
    and "parse_ip_port h = Some (ip, port)"
    and "parse_ip_port (rq_remote_addr (cx_request c)) = Some (peer, peer_port)"
  shows "real_ip_exec L p c =
    Inr (if is_trusted L p peer then set_remote (show_peer ip (or_else port peer_port)) c else c)"
  using walk_stops [OF assms(6,7,5,3,2,1,4)] assms(1,8,9) by (simp add: real_ip_exec_def Let_def)

definition demo_real_ip :: real_ip where
  "demo_real_ip = \<lparr>rp_source = ''http_x_forwarded_for'', rp_trusted = Some [''10.0.0.2''], rp_recursive = True\<rparr>"

definition demo_forwarded :: gcontext where
  "demo_forwarded = new_context
     \<lparr>rq_method = ''GET'', rq_path = ''/'', rq_host = ''h'', rq_scheme = ''http'',
      rq_headers = [(''x-forwarded-for'', [''10.0.0.2,1.2.3.4,10.0.0.2''])], rq_query_params = [], rq_body = [],
      rq_remote_addr = ''10.0.0.2:9'', rq_protocol = Http1\<rparr>"

lemma demo_digits:
  "show_nat 0 = ''0''" "show_nat 1 = ''1''" "show_nat 2 = ''2''" "show_nat 3 = ''3''" "show_nat 4 = ''4''"
  "show_nat 9 = ''9''" "show_nat 10 = ''10''"
  by code_simp+

lemma demo_texts:
  "show_v4 0x01020304 = ''1.2.3.4''" "show_v4 0x0A000002 = ''10.0.0.2''"
  using demo_digits by (simp_all add: show_v4_def octet_of_def)

lemma demo_addresses:
  "parse_ip ''10.0.0.2'' = Some (V4 0x0A000002)" "parse_ip ''1.2.3.4'' = Some (V4 0x01020304)"
  using parse_show_v4 [of "0x0A000002"] parse_show_v4 [of "0x01020304"] by (simp_all add: demo_texts)

lemma demo_strings:
  "trim ''1.2.3.4'' = ''1.2.3.4''" "trim ''10.0.0.2:9'' = ''10.0.0.2:9''"
  "strip_prefix ''1.2.3.4'' ''['' = None" "strip_prefix ''10.0.0.2:9'' ''['' = None"
  "rsplit_once CHR '':'' ''10.0.0.2:9'' = Some (''10.0.0.2'', ''9'')" "\<not> has_char CHR '':'' ''10.0.0.2''"
  "map trim (split_on CHR '','' ''10.0.0.2,1.2.3.4,10.0.0.2'') = [''10.0.0.2''] @ ''1.2.3.4'' # [''10.0.0.2'']"
  by code_simp+

lemma demo_ports:
  "parse_ip_port ''1.2.3.4'' = Some (V4 0x01020304, None)"
  "parse_ip_port ''10.0.0.2:9'' = Some (V4 0x0A000002, Some 9)"
proof -
  have "parse_port ''9'' = Some 9"
    by (simp add: parse_port_def parse_uint_def digits_val_def is_digit_def digit_val_def)
  moreover have "parse_ip ''10.0.0.2:9'' = None"
    using parse_show_v4_port [of "0x0A000002" "''9''"] by (simp add: demo_texts)
  ultimately show "parse_ip_port ''1.2.3.4'' = Some (V4 0x01020304, None)"
    "parse_ip_port ''10.0.0.2:9'' = Some (V4 0x0A000002, Some 9)"
    using demo_strings demo_addresses by (simp_all add: parse_ip_port_def)
qed

theorem real_ip_ignores_spoofed_hops_witness:
  "real_ip_exec plain_libs demo_real_ip demo_forwarded = Inr (set_remote ''1.2.3.4:9'' demo_forwarded)"
proof -
  have t: "hop_trusted plain_libs demo_real_ip ''10.0.0.2''" "\<not> hop_trusted plain_libs demo_real_ip ''1.2.3.4''"
    "is_trusted plain_libs demo_real_ip (V4 0x0A000002)"
    by (simp_all add: hop_trusted_def is_trusted_def demo_real_ip_def plain_libs_def demo_addresses)
  have h: "hm_get (rq_headers (cx_request demo_forwarded)) ''x-forwarded-for'' =
      Some ([] @ [''10.0.0.2,1.2.3.4,10.0.0.2''])"
    "rq_remote_addr (cx_request demo_forwarded) = ''10.0.0.2:9''"
    by (simp_all add: demo_forwarded_def new_context_def)
  have d: "rp_trusted demo_real_ip \<noteq> None" "rp_recursive demo_real_ip" "rp_source demo_real_ip = ''http_x_forwarded_for''"
    by (simp_all add: demo_real_ip_def)
  have "show_peer (V4 0x01020304) (or_else None (Some 9)) = ''1.2.3.4:9''"
    by (simp add: or_else_def demo_texts demo_digits)
  with real_ip_ignores_spoofed_hops [OF d h(1) demo_strings(7) _ t(2) demo_ports(1), of "V4 0x0A000002" "Some 9"]
  show ?thesis using t h(2) demo_ports(2) by simp
qed

end
