(* ===== verification/Batch.thy ===== *)
theory Batch
  imports Json
begin

text \<open>
  The batching sink of the logger plugins (src/src/batch/mod.rs): its configuration, the bounded
  channel that \<open>push\<close> fills without waiting, and the background task that collects entries and
  flushes them by size, inactivity, age or shutdown, with retries.

  The task and its callers run concurrently, so the sink is a state machine: every event is one
  atomic step of a caller (\<open>Push\<close>, \<open>CloseSink\<close>), of the task (\<open>Recv\<close>, \<open>Timer\<close>, \<open>Resume\<close>), of the
  flusher it waits for (\<open>Answer\<close>), or of the clock. Times are milliseconds; \<open>lim\<close> is the first
  instant the platform's \<open>Instant\<close> cannot represent, where adding a duration panics. \<open>sk_settled\<close>,
  \<open>sk_accepted\<close> and \<open>sk_refused\<close> record what happened to every entry and are read by no step.
\<close>

section \<open>Configuration\<close>

record batch_config =
  bt_batch_max_size :: nat
  bt_inactive_timeout :: nat
  bt_buffer_duration :: nat
  bt_max_retry_count :: nat
  bt_retry_delay :: nat
  bt_max_pending_entries :: nat

text \<open>Durations are configured in seconds.\<close>

definition ms_of_secs :: "nat \<Rightarrow> nat" where
  "ms_of_secs s = s * 1000"

definition default_batch_config :: batch_config where
  "default_batch_config =
     \<lparr>bt_batch_max_size = 1000, bt_inactive_timeout = ms_of_secs 5, bt_buffer_duration = ms_of_secs 60,
      bt_max_retry_count = 0, bt_retry_delay = ms_of_secs 1, bt_max_pending_entries = 10000\<rparr>"

definition int_key :: "libs \<Rightarrow> config \<Rightarrow> string \<Rightarrow> string + nat option" where
  "int_key L c key =
     (case hm_get c key of
        None \<Rightarrow> Inr None
      | Some JNull \<Rightarrow> Inr None
      | Some v \<Rightarrow>
          (case as_u64 v of
             Some n \<Rightarrow> Inr (Some n)
           | None \<Rightarrow> Inl (''batch config key `'' @ key @ ''` must be a non-negative integer, got '' @
               json_print L v)))"

definition batch_from_config :: "libs \<Rightarrow> config \<Rightarrow> string + batch_config" where
  "batch_from_config L c =
     (let d = default_batch_config in
      res_bind (int_key L c ''batch_max_size'') (\<lambda>size.
      res_bind (int_key L c ''inactive_timeout'') (\<lambda>inactive.
      res_bind (int_key L c ''buffer_duration'') (\<lambda>age.
      res_bind (int_key L c ''max_retry_count'') (\<lambda>retries.
      res_bind (int_key L c ''retry_delay'') (\<lambda>delay.
      res_bind (int_key L c ''max_pending_entries'') (\<lambda>pending.
        Inr \<lparr>bt_batch_max_size = unwrap_or (bt_batch_max_size d) size,
             bt_inactive_timeout = unwrap_or (bt_inactive_timeout d) (map_option ms_of_secs inactive),
             bt_buffer_duration = unwrap_or (bt_buffer_duration d) (map_option ms_of_secs age),
             bt_max_retry_count = unwrap_or (bt_max_retry_count d) (map_option (\<lambda>v. v mod 2 ^ 32) retries),
             bt_retry_delay = unwrap_or (bt_retry_delay d) (map_option ms_of_secs delay),
             bt_max_pending_entries = unwrap_or (bt_max_pending_entries d) pending\<rparr>)))))))"

section \<open>The sink\<close>

record flush_error =
  fe_message :: string
  fe_first_fail :: "nat option"

text \<open>
  Where the task is: at the top of its loop, waiting for the flusher with a batch that failed \<open>n\<close>
  times (and whether it exits after it), sleeping before a retry, returned, or panicked.
\<close>

datatype 'e batch_phase =
    Receiving
  | Flushing "'e list" nat bool
  | Backoff "'e list" nat nat bool
  | Finished
  | Gone

datatype fate = Delivered | Lost

record 'e sink =
  sk_queue :: "'e list"
  sk_closed :: bool
  sk_buffer :: "'e list"
  sk_first_at :: nat
  sk_last_at :: nat
  sk_phase :: "'e batch_phase"
  sk_now :: nat
  sk_settled :: "('e \<times> fate) list"
  sk_accepted :: "'e list"
  sk_refused :: "'e list"

definition batch_spawn :: "nat \<Rightarrow> 'e sink" where
  "batch_spawn now =
     \<lparr>sk_queue = [], sk_closed = False, sk_buffer = [], sk_first_at = now, sk_last_at = now,
      sk_phase = Receiving, sk_now = now, sk_settled = [], sk_accepted = [], sk_refused = []\<rparr>"

definition batch_capacity :: "batch_config \<Rightarrow> nat" where
  "batch_capacity cfg = max (bt_max_pending_entries cfg) 1"

definition batch_limit :: "batch_config \<Rightarrow> nat" where
  "batch_limit cfg = max (bt_batch_max_size cfg) 1"

text \<open>\<open>try_send\<close>: an entry is dropped when the channel is full or the task is gone.\<close>

definition batch_push :: "batch_config \<Rightarrow> 'e \<Rightarrow> 'e sink \<Rightarrow> 'e sink" where
  "batch_push cfg e s =
     (if sk_phase s \<notin> {Finished, Gone} \<and> length (sk_queue s) < batch_capacity cfg
      then s\<lparr>sk_queue := sk_queue s @ [e], sk_accepted := sk_accepted s @ [e]\<rparr>
      else s\<lparr>sk_refused := sk_refused s @ [e]\<rparr>)"

definition batch_deadline :: "batch_config \<Rightarrow> 'e sink \<Rightarrow> nat" where
  "batch_deadline cfg s =
     min (sk_first_at s + bt_buffer_duration cfg) (sk_last_at s + bt_inactive_timeout cfg)"

definition deadline_panics :: "nat \<Rightarrow> batch_config \<Rightarrow> 'e sink \<Rightarrow> bool" where
  "deadline_panics lim cfg s \<longleftrightarrow>
     lim \<le> sk_first_at s + bt_buffer_duration cfg \<or> lim \<le> sk_last_at s + bt_inactive_timeout cfg"

text \<open>\<open>flush_with_retry\<close> is entered with the whole buffer; an empty one returns at once.\<close>

definition start_flush :: "bool \<Rightarrow> 'e sink \<Rightarrow> 'e sink" where
  "start_flush exits s =
     (if sk_buffer s = [] then s\<lparr>sk_phase := (if exits then Finished else Receiving)\<rparr>
      else s\<lparr>sk_buffer := [], sk_phase := Flushing (sk_buffer s) 0 exits\<rparr>)"

text \<open>The end of a round of the loop: the size trigger, then the next deadline.\<close>

definition next_round :: "nat \<Rightarrow> batch_config \<Rightarrow> 'e sink \<Rightarrow> 'e sink" where
  "next_round lim cfg s =
     (if batch_limit cfg \<le> length (sk_buffer s) then start_flush False s
      else if sk_buffer s \<noteq> [] \<and> deadline_panics lim cfg s then s\<lparr>sk_phase := Gone\<rparr>
      else s\<lparr>sk_phase := Receiving\<rparr>)"

definition batch_recv :: "nat \<Rightarrow> batch_config \<Rightarrow> 'e sink \<Rightarrow> 'e sink option" where
  "batch_recv lim cfg s =
     (if sk_phase s \<noteq> Receiving then None
      else case sk_queue s of
        e # q \<Rightarrow>
          Some (next_round lim cfg
            (s\<lparr>sk_queue := q, sk_buffer := sk_buffer s @ [e], sk_last_at := sk_now s,
               sk_first_at := (if sk_buffer s = [] then sk_now s else sk_first_at s)\<rparr>))
      | [] \<Rightarrow> if sk_closed s then Some (start_flush True s) else None)"

definition batch_timer :: "batch_config \<Rightarrow> 'e sink \<Rightarrow> 'e sink option" where
  "batch_timer cfg s =
     (if sk_phase s = Receiving \<and> sk_buffer s \<noteq> [] \<and> batch_deadline cfg s \<le> sk_now s
      then Some (start_flush False s) else None)"

definition settle :: "fate \<Rightarrow> 'e list \<Rightarrow> 'e sink \<Rightarrow> 'e sink" where
  "settle f es s = s\<lparr>sk_settled := sk_settled s @ map (\<lambda>e. (e, f)) es\<rparr>"

definition after_flush :: "bool \<Rightarrow> 'e sink \<Rightarrow> 'e sink" where
  "after_flush exits s = s\<lparr>sk_phase := (if exits then Finished else Receiving)\<rparr>"

text \<open>\<open>time::sleep\<close>: a duration too long to represent sleeps for thirty years.\<close>

definition wake_at :: "nat \<Rightarrow> nat \<Rightarrow> nat \<Rightarrow> nat" where
  "wake_at lim now d = (if now + d < lim then now + d else now + ms_of_secs (86400 * 365 * 30))"

definition batch_answer ::
  "nat \<Rightarrow> batch_config \<Rightarrow> flush_error option \<Rightarrow> 'e sink \<Rightarrow> 'e sink option" where
  "batch_answer lim cfg r s =
     (case sk_phase s of
        Flushing es n exits \<Rightarrow>
          Some (case r of
             None \<Rightarrow> after_flush exits (settle Delivered es s)
           | Some err \<Rightarrow>
               (let k = (case fe_first_fail err of None \<Rightarrow> 0 | Some f \<Rightarrow> min f (length es));
                    rest = drop k es; s1 = settle Delivered (take k es) s;
                    n' = (n + 1) mod 2 ^ 32
                in if rest = [] then after_flush exits s1
                   else if bt_max_retry_count cfg < n' then after_flush exits (settle Lost rest s1)
                   else s1\<lparr>sk_phase := Backoff rest n' (wake_at lim (sk_now s) (bt_retry_delay cfg)) exits\<rparr>))
      | _ \<Rightarrow> None)"

definition batch_resume :: "'e sink \<Rightarrow> 'e sink option" where
  "batch_resume s =
     (case sk_phase s of
        Backoff es n until exits \<Rightarrow>
          if until \<le> sk_now s then Some (s\<lparr>sk_phase := Flushing es n exits\<rparr>) else None
      | _ \<Rightarrow> None)"

datatype 'e sink_event =
    Push 'e
  | CloseSink
  | Recv
  | Timer
  | Answer "flush_error option"
  | Resume
  | Passes nat

text \<open>One event; \<open>None\<close> when it cannot happen now. Nobody pushes after the last handle is gone.\<close>

fun sink_step :: "nat \<Rightarrow> batch_config \<Rightarrow> 'e sink_event \<Rightarrow> 'e sink \<Rightarrow> 'e sink option" where
  "sink_step lim cfg (Push e) s = (if sk_closed s then None else Some (batch_push cfg e s))"
| "sink_step lim cfg CloseSink s = Some (s\<lparr>sk_closed := True\<rparr>)"
| "sink_step lim cfg Recv s = batch_recv lim cfg s"
| "sink_step lim cfg Timer s = batch_timer cfg s"
| "sink_step lim cfg (Answer r) s = batch_answer lim cfg r s"
| "sink_step lim cfg Resume s = batch_resume s"
| "sink_step lim cfg (Passes d) s = Some (s\<lparr>sk_now := sk_now s + d\<rparr>)"

fun sink_run :: "nat \<Rightarrow> batch_config \<Rightarrow> 'e sink_event list \<Rightarrow> 'e sink \<Rightarrow> 'e sink option" where
  "sink_run lim cfg [] s = Some s"
| "sink_run lim cfg (ev # evs) s = Option.bind (sink_step lim cfg ev s) (sink_run lim cfg evs)"

inductive sink_reach :: "nat \<Rightarrow> batch_config \<Rightarrow> 'e sink \<Rightarrow> bool" for lim cfg where
  reach_spawn: "sink_reach lim cfg (batch_spawn now)"
| reach_step: "sink_reach lim cfg s \<Longrightarrow> sink_step lim cfg ev s = Some s' \<Longrightarrow> sink_reach lim cfg s'"

section \<open>The invariant\<close>

fun in_flight :: "'e batch_phase \<Rightarrow> 'e list" where
  "in_flight (Flushing es n x) = es"
| "in_flight (Backoff es n u x) = es"
| "in_flight _ = []"

text \<open>
  Every accepted entry is settled, in flight, buffered or queued, in this order; queue, buffer and
  batch respect their limits, and a finished task has left nothing.
\<close>

definition sink_ok :: "batch_config \<Rightarrow> 'e sink \<Rightarrow> bool" where
  "sink_ok cfg s \<longleftrightarrow>
     sk_accepted s = map fst (sk_settled s) @ in_flight (sk_phase s) @ sk_buffer s @ sk_queue s \<and>
     length (sk_queue s) \<le> batch_capacity cfg \<and>
     length (sk_buffer s) < batch_limit cfg \<and>
     length (in_flight (sk_phase s)) \<le> batch_limit cfg \<and>
     (sk_phase s \<notin> {Receiving, Gone} \<longrightarrow> sk_buffer s = []) \<and>
     (sk_phase s = Finished \<longrightarrow> sk_closed s \<and> sk_queue s = []) \<and>
     (case sk_phase s of
        Flushing es n x \<Rightarrow> es \<noteq> [] \<and> n \<le> bt_max_retry_count cfg \<and> (x \<longrightarrow> sk_closed s \<and> sk_queue s = [])
      | Backoff es n u x \<Rightarrow> es \<noteq> [] \<and> n \<le> bt_max_retry_count cfg \<and> (x \<longrightarrow> sk_closed s \<and> sk_queue s = [])
      | _ \<Rightarrow> True)"

lemma batch_limit_pos [simp]: "0 < batch_limit cfg" "batch_limit cfg \<noteq> 0"
  by (simp_all add: batch_limit_def)

lemma sink_ok_spawn: "sink_ok cfg (batch_spawn now)"
  by (simp add: sink_ok_def batch_spawn_def)

lemma sink_ok_push: "sink_ok cfg s \<Longrightarrow> \<not> sk_closed s \<Longrightarrow> sink_ok cfg (batch_push cfg e s)"
  by (auto simp: sink_ok_def batch_push_def split: batch_phase.splits)

lemma sink_ok_start_flush:
  assumes "sk_accepted s = map fst (sk_settled s) @ sk_buffer s @ sk_queue s"
    and "length (sk_queue s) \<le> batch_capacity cfg" "length (sk_buffer s) \<le> batch_limit cfg"
    and "x \<Longrightarrow> sk_closed s \<and> sk_queue s = []"
  shows "sink_ok cfg (start_flush x s)"
  using assms by (auto simp: sink_ok_def start_flush_def)

lemma sink_ok_recv:
  assumes "sink_ok cfg s" "batch_recv lim cfg s = Some s'"
  shows "sink_ok cfg s'"
proof -
  have r: "sk_phase s = Receiving" using assms(2) by (auto simp: batch_recv_def split: if_splits)
  show ?thesis
  proof (cases "sk_queue s")
    case Nil
    with assms r have s': "s' = start_flush True s" and "sk_closed s"
      by (auto simp: batch_recv_def split: if_splits)
    with assms(1) r Nil show ?thesis
      unfolding s' by (intro sink_ok_start_flush) (auto simp: sink_ok_def)
  next
    case (Cons e q)
    define t where "t = s\<lparr>sk_queue := q, sk_buffer := sk_buffer s @ [e], sk_last_at := sk_now s,
        sk_first_at := (if sk_buffer s = [] then sk_now s else sk_first_at s)\<rparr>"
    from Cons assms(2) r have s': "s' = next_round lim cfg t" by (simp add: batch_recv_def t_def)
    show ?thesis
    proof (cases "batch_limit cfg \<le> length (sk_buffer t)")
      case True
      have "sink_ok cfg (start_flush False t)"
        using assms(1) r Cons by (intro sink_ok_start_flush) (auto simp: sink_ok_def t_def)
      with True show ?thesis by (simp add: s' next_round_def)
    next
      case False
      with assms(1) r Cons show ?thesis unfolding s' next_round_def by (auto simp: sink_ok_def t_def)
    qed
  qed
qed

lemma sink_ok_answer:
  assumes "sink_ok cfg s" "batch_answer lim cfg r s = Some s'"
  shows "sink_ok cfg s'"
proof -
  obtain es n x where p: "sk_phase s = Flushing es n x"
    using assms(2) by (auto simp: batch_answer_def split: batch_phase.splits)
  show ?thesis
  proof (cases r)
    case None
    with assms p show ?thesis by (auto simp: batch_answer_def sink_ok_def after_flush_def settle_def comp_def)
  next
    case (Some err)
    define k where "k = (case fe_first_fail err of None \<Rightarrow> 0 | Some f \<Rightarrow> min f (length es))"
    have s': "s' = (let rest = drop k es; s1 = settle Delivered (take k es) s; n' = (n + 1) mod 2 ^ 32
       in if rest = [] then after_flush x s1
          else if bt_max_retry_count cfg < n' then after_flush x (settle Lost rest s1)
          else s1\<lparr>sk_phase := Backoff rest n' (wake_at lim (sk_now s) (bt_retry_delay cfg)) x\<rparr>)"
      using assms(2) p Some by (simp add: batch_answer_def k_def [symmetric] Let_def)
    have es: "take k es @ drop k es @ ys = es @ ys" for ys
      using append_take_drop_id [of k es] by (metis append.assoc)
    show ?thesis
      using assms(1) p es unfolding s'
      by (auto simp: sink_ok_def after_flush_def settle_def comp_def Let_def)
  qed
qed

lemma sink_ok_step: "sink_ok cfg s \<Longrightarrow> sink_step lim cfg ev s = Some s' \<Longrightarrow> sink_ok cfg s'"
proof (cases ev)
  case Timer
  then show "sink_ok cfg s \<Longrightarrow> sink_step lim cfg ev s = Some s' \<Longrightarrow> sink_ok cfg s'"
    using sink_ok_start_flush [of s cfg False] by (auto simp: batch_timer_def sink_ok_def split: if_splits)
next
  case Resume
  then show "sink_ok cfg s \<Longrightarrow> sink_step lim cfg ev s = Some s' \<Longrightarrow> sink_ok cfg s'"
    by (auto simp: batch_resume_def sink_ok_def split: batch_phase.splits if_splits)
next
  case CloseSink
  then show "sink_ok cfg s \<Longrightarrow> sink_step lim cfg ev s = Some s' \<Longrightarrow> sink_ok cfg s'"
    by (auto simp: sink_ok_def split: batch_phase.splits)
next
  case (Passes d)
  then show "sink_ok cfg s \<Longrightarrow> sink_step lim cfg ev s = Some s' \<Longrightarrow> sink_ok cfg s'"
    by (auto simp: sink_ok_def split: batch_phase.splits)
qed (auto split: if_splits intro: sink_ok_recv sink_ok_answer sink_ok_push)

lemma sink_reach_ok: "sink_reach lim cfg s \<Longrightarrow> sink_ok cfg s"
  by (induction rule: sink_reach.induct) (auto intro: sink_ok_spawn sink_ok_step)

section \<open>Shutting down\<close>

fun task_event :: "'e sink_event \<Rightarrow> bool" where
  "task_event (Push e) = False"
| "task_event CloseSink = False"
| "task_event (Passes d) = False"
| "task_event _ = True"

text \<open>
  How many task events a closed sink can still take: two for every failure a batch has left, one
  more for receiving an entry, and one to exit.
\<close>

fun phase_rank :: "batch_config \<Rightarrow> 'e batch_phase \<Rightarrow> nat" where
  "phase_rank cfg Receiving = 1"
| "phase_rank cfg (Flushing es n x) = 2 * (bt_max_retry_count cfg + 1 - n) + 1"
| "phase_rank cfg (Backoff es n u x) = 2 * (bt_max_retry_count cfg + 1 - n) + 2"
| "phase_rank cfg _ = 0"

definition batch_rank :: "batch_config \<Rightarrow> 'e sink \<Rightarrow> nat" where
  "batch_rank cfg s =
     (2 * bt_max_retry_count cfg + 3) * (length (sk_buffer s) + length (sk_queue s)) +
     length (sk_queue s) + phase_rank cfg (sk_phase s)"

lemma start_flush_rank:
  "batch_rank cfg (start_flush x s) \<le>
     (2 * bt_max_retry_count cfg + 3) * (length (sk_buffer s) + length (sk_queue s)) + length (sk_queue s) +
     (if sk_buffer s = [] \<and> x then 0 else if sk_buffer s = [] then 1 else 0)"
  by (cases "sk_buffer s") (auto simp: start_flush_def batch_rank_def)

lemma recv_rank:
  assumes "sink_ok cfg s" "batch_recv lim cfg s = Some s'"
  shows "batch_rank cfg s' < batch_rank cfg s"
proof -
  have r: "sk_phase s = Receiving" using assms(2) by (auto simp: batch_recv_def split: if_splits)
  show ?thesis
  proof (cases "sk_queue s")
    case Nil
    with assms r have s': "s' = start_flush True s" by (auto simp: batch_recv_def split: if_splits)
    have "batch_rank cfg s' \<le> (2 * bt_max_retry_count cfg + 3) * length (sk_buffer s)"
      using start_flush_rank [of cfg True s] Nil by (simp add: s' split: if_splits)
    then show ?thesis using Nil r by (simp add: batch_rank_def)
  next
    case (Cons e q)
    define t where "t = s\<lparr>sk_queue := q, sk_buffer := sk_buffer s @ [e], sk_last_at := sk_now s,
        sk_first_at := (if sk_buffer s = [] then sk_now s else sk_first_at s)\<rparr>"
    from Cons assms(2) r have s': "s' = next_round lim cfg t" by (simp add: batch_recv_def t_def)
    have "batch_rank cfg (start_flush False t) < batch_rank cfg s"
      using start_flush_rank [of cfg False t] Cons r
      by (simp add: t_def batch_rank_def split: if_splits)
    then show ?thesis
      using Cons r by (auto simp: s' next_round_def t_def [symmetric]) (auto simp: t_def batch_rank_def)
  qed
qed

lemma timer_rank:
  assumes "batch_timer cfg s = Some s'"
  shows "batch_rank cfg s' < batch_rank cfg s"
  using assms start_flush_rank [of cfg False s]
  by (auto simp: batch_timer_def batch_rank_def split: if_splits)

lemma answer_rank:
  assumes "sink_ok cfg s" "batch_answer lim cfg r s = Some s'" "bt_max_retry_count cfg < 2 ^ 32 - 1"
  shows "batch_rank cfg s' < batch_rank cfg s"
proof -
  obtain es n x where p: "sk_phase s = Flushing es n x"
    using assms(2) by (auto simp: batch_answer_def split: batch_phase.splits)
  have n: "n \<le> bt_max_retry_count cfg" using assms(1) p by (simp add: sink_ok_def)
  with assms(3) have "(n + 1) mod 2 ^ 32 = n + 1" by simp
  with n assms(2) p show ?thesis
    by (auto simp: batch_answer_def after_flush_def settle_def batch_rank_def Let_def
        split: option.splits if_splits)
qed

lemma resume_rank: "batch_resume s = Some s' \<Longrightarrow> batch_rank cfg s' < batch_rank cfg s"
  by (auto simp: batch_resume_def batch_rank_def split: batch_phase.splits if_splits)

lemma task_rank:
  assumes "sink_ok cfg s" "bt_max_retry_count cfg < 2 ^ 32 - 1" "task_event ev"
    and "sink_step lim cfg ev s = Some s'"
  shows "batch_rank cfg s' < batch_rank cfg s"
  using assms by (cases ev) (auto intro: recv_rank timer_rank answer_rank resume_rank)

lemma other_rank:
  "sk_closed s \<Longrightarrow> \<not> task_event ev \<Longrightarrow> sink_step lim cfg ev s = Some s' \<Longrightarrow>
     batch_rank cfg s' = batch_rank cfg s"
  by (cases ev) (auto simp: batch_rank_def split: if_splits)

lemma step_closed:
  assumes "sink_step lim cfg ev s = Some s'" "sk_closed s" shows "sk_closed s'"
  using assms
  by (cases ev) (auto simp: batch_recv_def batch_timer_def batch_answer_def batch_resume_def start_flush_def
      next_round_def after_flush_def settle_def Let_def split: if_splits list.splits batch_phase.splits option.splits)

lemma run_rank:
  assumes "sink_ok cfg s" "sk_closed s" "bt_max_retry_count cfg < 2 ^ 32 - 1"
    and "sink_run lim cfg evs s = Some s'"
  shows "length (filter task_event evs) + batch_rank cfg s' \<le> batch_rank cfg s"
  using assms
proof (induction evs arbitrary: s)
  case Nil
  then show ?case by simp
next
  case (Cons ev evs)
  then obtain t where t: "sink_step lim cfg ev s = Some t" "sink_run lim cfg evs t = Some s'"
    by (auto simp: Option.bind_eq_Some_conv)
  from Cons.IH [OF sink_ok_step [OF Cons.prems(1) t(1)] step_closed [OF t(1) Cons.prems(2)] Cons.prems(3) t(2)]
  show ?case
    using task_rank [OF Cons.prems(1,3) _ t(1)] other_rank [OF Cons.prems(2) _ t(1)] by (cases "task_event ev") auto
qed

text \<open>A closed sink is never stuck: when time has passed, its task can take a step.\<close>

lemma closed_progress:
  assumes "sk_closed s" "sk_phase s \<notin> {Finished, Gone}"
  shows "\<exists>d ev s'. task_event ev \<and> sink_run lim cfg [Passes d, ev] s = Some s'"
proof (cases "sk_phase s")
  case Receiving
  then have "sink_run lim cfg [Passes 0, Recv] s \<noteq> None"
    using assms by (auto simp: batch_recv_def split: list.splits)
  then show ?thesis by (metis option.exhaust task_event.simps(4))
next
  case (Flushing es n x)
  then have "sink_run lim cfg [Passes 0, Answer None] s \<noteq> None" by (simp add: batch_answer_def)
  then show ?thesis by (metis option.exhaust task_event.simps(6))
next
  case (Backoff es n u x)
  then have "sink_run lim cfg [Passes u, Resume] s \<noteq> None" by (simp add: batch_resume_def)
  then show ?thesis by (metis option.exhaust task_event.simps(7))
qed (use assms in auto)

lemma reach_run: "sink_reach lim cfg s \<Longrightarrow> sink_run lim cfg evs s = Some s' \<Longrightarrow> sink_reach lim cfg s'"
proof (induction evs arbitrary: s)
  case (Cons ev evs)
  then show ?case by (auto simp: Option.bind_eq_Some_conv intro: reach_step)
qed simp

lemma gone_by_deadline: "sink_reach lim cfg s \<Longrightarrow> sk_phase s = Gone \<Longrightarrow> deadline_panics lim cfg s"
proof (induction rule: sink_reach.induct)
  case (reach_step s ev s')
  then show ?case
    by (cases ev) (auto simp: batch_push_def batch_recv_def batch_timer_def batch_answer_def batch_resume_def
        start_flush_def next_round_def after_flush_def settle_def deadline_panics_def Let_def
        split: if_splits list.splits batch_phase.splits option.splits)
qed (simp add: batch_spawn_def)

text \<open>A retry count of \<open>2 ^ 32\<close> is read as zero retries.\<close>

lemma retry_count_truncates:
  "batch_from_config L [(''max_retry_count'', jnat (2 ^ 32))] = Inr default_batch_config"
  by (simp add: batch_from_config_def int_key_def jnat_def Let_def default_batch_config_def)

section \<open>Properties\<close>

text \<open>
  C30: The batch sink settles entries in order and loses none in silence. However pushes, receives,
  flusher answers, retries and the clock interleave: the accepted entries are, in the order of
  their pushes, those settled (delivered, or dropped after the last retry), the batch in flight,
  the buffer and the queue; the queue holds at most max_pending_entries and a flush at most
  batch_max_size entries; and once the task has returned every accepted entry has been settled.
\<close>

theorem batch_settles_in_order:
  assumes "sink_reach lim cfg s"
  shows "sk_accepted s = map fst (sk_settled s) @ in_flight (sk_phase s) @ sk_buffer s @ sk_queue s \<and>
    length (sk_queue s) \<le> max (bt_max_pending_entries cfg) 1 \<and>
    length (in_flight (sk_phase s)) \<le> max (bt_batch_max_size cfg) 1 \<and>
    (sk_phase s \<noteq> Finished \<or> map fst (sk_settled s) = sk_accepted s)"
  using sink_reach_ok [OF assms]
  by (auto simp: sink_ok_def batch_capacity_def batch_limit_def)

definition demo_batch :: batch_config where
  "demo_batch = default_batch_config\<lparr>bt_batch_max_size := 2, bt_max_retry_count := 1\<rparr>"

definition demo_events :: "nat sink_event list" where
  "demo_events =
     [Push 1, Push 2, Push 3, Recv, Recv, Answer (Some \<lparr>fe_message = [], fe_first_fail = Some 1\<rparr>),
      Passes 1000, Resume, Answer (Some \<lparr>fe_message = [], fe_first_fail = None\<rparr>), CloseSink, Recv, Recv,
      Answer None]"

theorem batch_settles_in_order_witness:
  "\<exists>s. sink_run (2 ^ 70) demo_batch demo_events (batch_spawn 0) = Some s \<and> sk_phase s = Finished \<and>
     sk_settled s = [(1, Delivered), (2, Lost), (3, Delivered)] \<and> sk_accepted s = [1, 2, 3]"
proof -
  obtain s where s: "sink_run (2 ^ 70) demo_batch demo_events (batch_spawn 0) = Some s"
    and p: "sk_phase s = Finished" "sk_settled s = [(1, Delivered), (2, Lost), (3, Delivered)]"
    by (simp add: demo_events_def demo_batch_def default_batch_config_def batch_spawn_def batch_push_def
        batch_capacity_def batch_recv_def next_round_def batch_limit_def start_flush_def batch_answer_def
        deadline_panics_def settle_def after_flush_def wake_at_def batch_resume_def ms_of_secs_def Let_def)
  have "sink_reach (2 ^ 70) demo_batch s" by (rule reach_run [OF reach_spawn s])
  from batch_settles_in_order [OF this] p s show ?thesis by auto
qed

text \<open>
  C31: A batch task whose sink is dropped ends. From a closed sink every run takes at most
  \<open>batch_rank\<close> task steps (two for every retry a batch has left, one for every queued entry, one to
  exit); as long as the task has neither returned nor panicked it can take one once time has
  passed; and it panics only when a flush deadline is not representable. This needs a retry limit
  below \<open>2 ^ 32 - 1\<close>, the count at which the failure counter wraps.
\<close>

theorem batch_task_stops:
  assumes "sink_reach lim cfg s" and "sk_closed s" and "bt_max_retry_count cfg < 2 ^ 32 - 1"
  shows "(\<forall>evs s'. sink_run lim cfg evs s = Some s' \<longrightarrow> length (filter task_event evs) \<le> batch_rank cfg s) \<and>
    (sk_phase s \<in> {Finished, Gone} \<or>
      (\<exists>d ev s'. task_event ev \<and> sink_run lim cfg [Passes d, ev] s = Some s')) \<and>
    (sk_phase s = Gone \<longrightarrow> deadline_panics lim cfg s)"
  using run_rank [OF sink_reach_ok [OF assms(1)] assms(2,3)] closed_progress [OF assms(2)]
    gone_by_deadline [OF assms(1)]
  by fastforce

definition demo_closed :: "nat sink" where
  "demo_closed = batch_push demo_batch 7 (batch_spawn 0)\<lparr>sk_closed := True\<rparr>"

theorem batch_task_stops_witness:
  "\<exists>d ev s'. task_event ev \<and> sink_run (2 ^ 70) demo_batch [Passes d, ev] demo_closed = Some s'"
proof -
  have "sink_run (2 ^ 70) demo_batch [Push 7, CloseSink] (batch_spawn 0) = Some demo_closed"
    by (simp add: demo_closed_def batch_push_def batch_spawn_def)
  from reach_run [OF reach_spawn this] have r: "sink_reach (2 ^ 70) demo_batch demo_closed" .
  have "sk_closed demo_closed" "sk_phase demo_closed = Receiving"
    by (simp_all add: demo_closed_def batch_push_def batch_spawn_def demo_batch_def batch_capacity_def
        default_batch_config_def)
  with batch_task_stops [OF r] show ?thesis by (simp add: demo_batch_def default_batch_config_def)
qed

end
