(* ===== verification/Plugin_Response.thy ===== *)
theory Plugin_Response
  imports Plugin_Rewrite
begin

text \<open>
  Plugins that produce or rewrite response bodies (src/src/plugins/native/): response-rewrite,
  echo, mocking, fault-injection, gzip and brotli, over the content codec of
  src/src/plugins/util/content_codec.rs. The compressors, the replacement of regular expressions
  and the parsing of an \<open>f32\<close> belong to crates and the standard library: \<open>body_lib\<close>.
\<close>

section \<open>Content codings\<close>

datatype content_encoding = Gzip | Deflate | Brotli

definition parse_encoding :: "string \<Rightarrow> string + content_encoding option" where
  "parse_encoding value =
     (let n = to_ascii_lowercase (trim value) in
      if n = [] \<or> n = ''identity'' then Inr None
      else if n = ''gzip'' then Inr (Some Gzip)
      else if n = ''deflate'' then Inr (Some Deflate)
      else if n = ''br'' then Inr (Some Brotli)
      else Inl (''unsupported content-encoding: '' @ n))"

fun encoding_header_value :: "content_encoding \<Rightarrow> string" where
  "encoding_header_value Gzip = ''gzip''"
| "encoding_header_value Deflate = ''deflate''"
| "encoding_header_value Brotli = ''br''"

text \<open>
  The crates: decoding and encoding at a level (with their error texts), the first and all
  replacements of a regular expression, and whether \<open>parse::<f32>()\<close> gives zero.
\<close>

record body_lib =
  bl_decode :: "content_encoding \<Rightarrow> string \<Rightarrow> string + string"
  bl_encode :: "content_encoding \<Rightarrow> nat \<Rightarrow> string \<Rightarrow> string + string"
  rx_replace :: "string \<Rightarrow> string \<Rightarrow> string \<Rightarrow> string"
  rx_replace_all :: "string \<Rightarrow> string \<Rightarrow> string \<Rightarrow> string"
  f32_zero :: "string \<Rightarrow> bool"

fun codec_name :: "content_encoding \<Rightarrow> string" where
  "codec_name Gzip = ''gzip''"
| "codec_name Deflate = ''deflate''"
| "codec_name Brotli = ''brotli''"

definition codec_decode :: "body_lib \<Rightarrow> content_encoding \<Rightarrow> string \<Rightarrow> string + string" where
  "codec_decode B enc body =
     (case bl_decode B enc body of
        Inl e \<Rightarrow> Inl (codec_name enc @ '' decode error: '' @ e)
      | Inr out \<Rightarrow> Inr out)"

fun max_level :: "content_encoding \<Rightarrow> nat" where
  "max_level Brotli = 11"
| "max_level _ = 9"

definition codec_encode :: "body_lib \<Rightarrow> content_encoding \<Rightarrow> string \<Rightarrow> nat \<Rightarrow> string + string" where
  "codec_encode B enc body level =
     (case bl_encode B enc (min level (max_level enc)) body of
        Inl e \<Rightarrow> Inl (codec_name enc @ '' encode error: '' @ e)
      | Inr out \<Rightarrow> Inr out)"

definition rs_header :: "gcontext \<Rightarrow> string \<Rightarrow> string option" where
  "rs_header c k = first_value (rs_headers (cx_response c)) k"

section \<open>Durations from floats\<close>

definition as_f64 :: "libs \<Rightarrow> json \<Rightarrow> f64 option" where
  "as_f64 L v = (case v of JNum n \<Rightarrow> Some (num_f64 L n) | _ \<Rightarrow> None)"

definition f64_is_finite :: "f64 \<Rightarrow> bool" where
  "f64_is_finite w \<longleftrightarrow> uint (take_bit 63 w) < 0x7FF0000000000000"

text \<open>A finite non-negative float as \<open>m * 2 ^ e\<close>.\<close>

definition f64_parts :: "f64 \<Rightarrow> nat \<times> int" where
  "f64_parts w =
     (let n = unat (take_bit 63 w); ex = n div 2 ^ 52; fr = n mod 2 ^ 52
      in if ex = 0 then (fr, - 1074) else (fr + 2 ^ 52, int ex - 1075))"

definition round_half_even :: "nat \<Rightarrow> nat \<Rightarrow> nat" where
  "round_half_even a b =
     (let q = a div b; r = a mod b in
      if b < 2 * r \<or> (2 * r = b \<and> odd q) then q + 1 else q)"

text \<open>\<open>Duration::from_secs_f64\<close> in nanoseconds; it panics (\<open>None\<close>) past \<open>u64::MAX\<close> seconds.\<close>

definition from_secs_f64 :: "f64 \<Rightarrow> nat option" where
  "from_secs_f64 w =
     (let (m, e) = f64_parts w;
          n = (if 0 \<le> e then m * nanos_per_sec * 2 ^ nat e
               else round_half_even (m * nanos_per_sec) (2 ^ nat (- e)))
      in if n < 2 ^ 64 * nanos_per_sec then Some n else None)"

definition seconds_field :: "libs \<Rightarrow> json \<Rightarrow> f64 option" where
  "seconds_field L v = opt_filter (\<lambda>d. f64_le 0 d \<and> f64_is_finite d) (as_f64 L v)"

section \<open>Header lists\<close>

text \<open>A map of scalars, or a list of name and value objects with blank rows skipped.\<close>

definition header_row :: "libs \<Rightarrow> string \<Rightarrow> json \<Rightarrow> string + (string \<times> string) list" where
  "header_row L field item =
     (case as_object item of
        None \<Rightarrow> Inl (field @ '' entries must be objects with '' @ sq ''name'' @ '' and '' @ sq ''value'')
      | Some obj \<Rightarrow>
          (let name = unwrap_or [] (Option.bind (hm_get obj ''name'') as_str) in
           if trim name = [] then Inr []
           else (case hm_get obj ''value'' of
                   None \<Rightarrow> Inr [(to_lowercase L name, [])]
                 | Some v \<Rightarrow>
                     res_bind (ok_or (header_value_to_string L v)
                       (field @ ''['' @ sq name @ ''] must be a scalar value''))
                       (\<lambda>s. Inr [(to_lowercase L name, s)]))))"

definition header_rows :: "libs \<Rightarrow> string \<Rightarrow> json \<Rightarrow> string + (string \<times> string) list" where
  "header_rows L field v =
     (case v of
        JObj m \<Rightarrow>
          traverse (\<lambda>(k, v). res_bind (ok_or (header_value_to_string L v)
            (field @ ''['' @ sq k @ ''] must be a scalar value'')) (\<lambda>s. Inr (to_lowercase L k, s))) m
      | JArr items \<Rightarrow> res_bind (traverse (header_row L field) items) (\<lambda>rows. Inr (concat rows))
      | _ \<Rightarrow> Inl (field @ '' must be a map of name: value or a list of {name, value} objects''))"

definition set_rs_headers :: "(string \<times> string) list \<Rightarrow> gcontext \<Rightarrow> gcontext" where
  "set_rs_headers hs c = fold (\<lambda>(k, v). set_rs_header k [v]) hs c"

section \<open>echo\<close>

record echo =
  ec_body :: "string option"
  ec_before_body :: "string option"
  ec_after_body :: "string option"
  ec_headers :: "string hmap"

definition optional_string :: "config \<Rightarrow> string \<Rightarrow> string + string option" where
  "optional_string c key =
     (case hm_get c key of
        None \<Rightarrow> Inr None
      | Some (JStr s) \<Rightarrow> Inr (Some s)
      | Some _ \<Rightarrow> Inl (key @ '' must be a string''))"

definition echo_header_map :: "libs \<Rightarrow> config \<Rightarrow> string + string hmap" where
  "echo_header_map L c =
     (case hm_get c ''headers'' of
        None \<Rightarrow> Inr []
      | Some v \<Rightarrow>
          res_bind (header_rows L ''headers'' v) (\<lambda>rows. Inr (fold (\<lambda>(k, v). hm_insert k v) rows [])))"

definition echo_from_config :: "libs \<Rightarrow> config \<Rightarrow> string + echo" where
  "echo_from_config L c =
     res_bind (optional_string c ''body'') (\<lambda>body.
     res_bind (optional_string c ''before_body'') (\<lambda>before.
     res_bind (optional_string c ''after_body'') (\<lambda>after.
       if body = None \<and> before = None \<and> after = None then
         Inl (''echo plugin requires at least one of '' @ sq ''body'' @ '', '' @ sq ''before_body'' @
              '' or '' @ sq ''after_body'')
       else res_bind (echo_header_map L c) (\<lambda>hs.
         Inr \<lparr>ec_body = body, ec_before_body = before, ec_after_body = after, ec_headers = hs\<rparr>))))"

text \<open>The upstream body as text: decoded where its coding is known and the stream is sound.\<close>

definition decoded_body :: "body_lib \<Rightarrow> gcontext \<Rightarrow> string" where
  "decoded_body B c =
     (let body = rs_body (cx_response c) in
      case rs_header c ''content-encoding'' of
        None \<Rightarrow> body
      | Some v \<Rightarrow>
          (case parse_encoding v of
             Inr (Some enc) \<Rightarrow> (case codec_decode B enc body of Inr out \<Rightarrow> out | Inl _ \<Rightarrow> body)
           | _ \<Rightarrow> body))"

definition echo_exec :: "body_lib \<Rightarrow> echo \<Rightarrow> gcontext \<Rightarrow> plugin_result" where
  "echo_exec B p c =
     (let current = (case ec_body p of Some b \<Rightarrow> b | None \<Rightarrow> decoded_body B c);
          body = unwrap_or [] (ec_before_body p) @ current @ unwrap_or [] (ec_after_body p)
      in Inr (set_rs_headers (ec_headers p)
           (rs_remove ''content-encoding'' (rs_remove ''content-length'' (set_body body c)))))"

section \<open>mocking\<close>

definition supported_content_types :: "string list" where
  "supported_content_types =
     [''application/xml'', ''application/json'', ''text/plain'', ''text/html'', ''text/xml'']"

record mocking =
  mk_delay :: nat
  mk_response_status :: nat
  mk_content_type :: string
  mk_response_example :: string
  mk_response_headers :: "(string \<times> string) list"
  mk_with_mock_header :: bool

text \<open>An optional field with its own check.\<close>

definition opt_field :: "config \<Rightarrow> string \<Rightarrow> (json \<Rightarrow> 'a option) \<Rightarrow> string \<Rightarrow> 'a \<Rightarrow> string + 'a" where
  "opt_field c k f err dflt = (case hm_get c k of None \<Rightarrow> Inr dflt | Some v \<Rightarrow> ok_or (f v) err)"

text \<open>\<open>None\<close>: the conversion of the delay panics while the configuration is loaded.\<close>

definition mocking_from_config :: "libs \<Rightarrow> config \<Rightarrow> (string + mocking) option" where
  "mocking_from_config L c =
     (let fields =
       (if hm_has c ''response_schema'' then
          Inl (''mocking: '' @ sq ''response_schema'' @ '' (random body generation) is not implemented '' @
               em_dash @ '' use '' @ sq ''response_example'' @ '' instead'')
        else
        res_bind (ok_or (cfg_str c ''response_example'')
          (''mocking requires '' @ sq ''response_example'' @ '' (string body)'')) (\<lambda>example.
        res_bind (opt_field c ''response_status'' (\<lambda>v. opt_filter (\<lambda>s. 100 \<le> s \<and> s \<le> 599) (as_u64 v))
          ''response_status must be an integer 100-599'' 200) (\<lambda>status.
        res_bind (opt_field c ''content_type'' as_str ''content_type must be a string''
          ''application/json;charset=utf8'') (\<lambda>ct.
        if trim (first_segment CHR '';'' ct) \<notin> set supported_content_types then
          Inl (''unsupported content type '' @ sq ct @ '' '' @ em_dash @ '' supported: '' @
               join '', '' supported_content_types)
        else
        res_bind (case hm_get c ''response_headers'' of
                    None \<Rightarrow> Inr [] | Some v \<Rightarrow> header_rows L ''response_headers'' v) (\<lambda>hs.
        res_bind (opt_field c ''with_mock_header'' as_bool ''with_mock_header must be a boolean'' True)
          (\<lambda>mock.
        res_bind (opt_field c ''delay'' (seconds_field L)
          ''delay must be a non-negative number of seconds'' 0) (\<lambda>delay.
          Inr (delay, \<lparr>mk_delay = 0, mk_response_status = as_u16 status, mk_content_type = ct,
                       mk_response_example = example, mk_response_headers = hs,
                       mk_with_mock_header = mock\<rparr>))))))))
      in case fields of
           Inl e \<Rightarrow> Some (Inl e)
         | Inr (delay, p) \<Rightarrow> map_option (\<lambda>n. Inr (p\<lparr>mk_delay := n\<rparr>)) (from_secs_f64 delay))"

text \<open>The node sleeps \<open>mk_delay\<close> before it answers, which no context can observe.\<close>

definition mocking_exec :: "libs \<Rightarrow> mocking \<Rightarrow> gcontext \<Rightarrow> plugin_result" where
  "mocking_exec L p c =
     (let body = interpolate L c (mk_response_example p);
          hs = map (\<lambda>(k, t). (k, interpolate L c t)) (mk_response_headers p);
          c1 = set_rs_header ''content-type'' [mk_content_type p]
                 (set_body body (set_status (mk_response_status p) c));
          c2 = (if mk_with_mock_header p then set_rs_header ''x-mock-by'' [''featherbit-mocking''] c1 else c1)
      in Inr (set_rs_headers hs c2))"

section \<open>fault-injection\<close>

record abort_rule =
  ab_http_status :: nat
  ab_body :: "string option"
  ab_headers :: "(string \<times> string) list"
  ab_percentage :: "nat option"
  ab_vars :: "node list option"

record delay_rule =
  dl_duration :: nat
  dl_percentage :: "nat option"
  dl_vars :: "node list option"

record fault_injection =
  fi_abort :: "abort_rule option"
  fi_delay :: "delay_rule option"

text \<open>\<open>roll\<close> is the random number below 100.\<close>

definition sample_hit :: "nat \<Rightarrow> nat option \<Rightarrow> bool" where
  "sample_hit roll p = (case p of None \<Rightarrow> True | Some n \<Rightarrow> roll < n)"

definition vars_match :: "libs \<Rightarrow> node list option \<Rightarrow> gcontext \<Rightarrow> bool" where
  "vars_match L vs c = (case vs of None \<Rightarrow> True | Some es \<Rightarrow> list_ex (\<lambda>e. eval_expr L e c) es)"

definition first_str :: "json \<Rightarrow> string option" where
  "first_str v = (case v of JArr (x # _) \<Rightarrow> as_str x | _ \<Rightarrow> None)"

definition prefix_err :: "string \<Rightarrow> string + 'a \<Rightarrow> string + 'a" where
  "prefix_err pre r = (case r of Inl e \<Rightarrow> Inl (pre @ e) | Inr x \<Rightarrow> Inr x)"

text \<open>Rules that are alternatives, or one flat expression.\<close>

definition parse_or_vars :: "libs \<Rightarrow> string \<Rightarrow> json \<Rightarrow> string + node list" where
  "parse_or_vars L field v =
     (case v of
        JArr items \<Rightarrow>
          (case (case items of [] \<Rightarrow> None | i # _ \<Rightarrow> first_str i) of
             Some s \<Rightarrow>
               if \<not> eq_ignore_ascii_case s ''and'' \<and> \<not> eq_ignore_ascii_case s ''or''
               then res_bind (prefix_err (field @ ''.vars: '') (parse_expr L v)) (\<lambda>e. Inr [e])
               else traverse (\<lambda>i. prefix_err (field @ ''.vars: '')
                 (parse_expr L (if first_str i \<noteq> None then JArr [i] else i))) items
           | None \<Rightarrow> traverse (\<lambda>i. prefix_err (field @ ''.vars: '')
                 (parse_expr L (if first_str i \<noteq> None then JArr [i] else i))) items)
      | _ \<Rightarrow> Inl (field @ ''.vars must be an array''))"

definition parse_percentage :: "string \<Rightarrow> json hmap \<Rightarrow> string + nat option" where
  "parse_percentage field obj =
     (case hm_get obj ''percentage'' of
        None \<Rightarrow> Inr None
      | Some v \<Rightarrow>
          res_bind (ok_or (opt_filter (\<lambda>n. n \<le> 100) (as_u64 v))
            (field @ ''.percentage must be an integer 0-100'')) (\<lambda>n. Inr (Some n)))"

definition optional :: "('a \<Rightarrow> 'e + 'b) \<Rightarrow> 'a option \<Rightarrow> 'e + 'b option" where
  "optional f x = (case x of None \<Rightarrow> Inr None | Some v \<Rightarrow> res_bind (f v) (\<lambda>y. Inr (Some y)))"

definition parse_abort :: "libs \<Rightarrow> json \<Rightarrow> string + abort_rule" where
  "parse_abort L v =
     res_bind (ok_or (as_object v) ''abort must be an object'') (\<lambda>obj.
     res_bind (ok_or (opt_filter (\<lambda>n. 200 \<le> n \<and> n \<le> 599) (Option.bind (hm_get obj ''http_status'') as_u64))
       ''abort.http_status is required and must be an integer >= 200'') (\<lambda>st.
     res_bind (optional (\<lambda>b. ok_or (as_str b) ''abort.body must be a string'') (hm_get obj ''body'')) (\<lambda>body.
     res_bind (case hm_get obj ''headers'' of None \<Rightarrow> Inr [] | Some h \<Rightarrow> header_rows L ''abort.headers'' h) (\<lambda>hs.
     res_bind (parse_percentage ''abort'' obj) (\<lambda>pc.
     res_bind (optional (parse_or_vars L ''abort'') (hm_get obj ''vars'')) (\<lambda>vs.
       Inr \<lparr>ab_http_status = as_u16 st, ab_body = body, ab_headers = hs, ab_percentage = pc, ab_vars = vs\<rparr>))))))"

text \<open>The duration stays a float until the conversion that may panic.\<close>

definition parse_delay :: "libs \<Rightarrow> json \<Rightarrow> string + f64 \<times> nat option \<times> node list option" where
  "parse_delay L v =
     res_bind (ok_or (as_object v) ''delay must be an object'') (\<lambda>obj.
     res_bind (ok_or (Option.bind (hm_get obj ''duration'') (seconds_field L))
       ''delay.duration is required and must be a non-negative number of seconds'') (\<lambda>d.
     res_bind (parse_percentage ''delay'' obj) (\<lambda>pc.
     res_bind (optional (parse_or_vars L ''delay'') (hm_get obj ''vars'')) (\<lambda>vs. Inr (d, pc, vs)))))"

definition fault_injection_from_config :: "libs \<Rightarrow> config \<Rightarrow> (string + fault_injection) option" where
  "fault_injection_from_config L c =
     (case optional (parse_abort L) (hm_get c ''abort'') of
        Inl e \<Rightarrow> Some (Inl e)
      | Inr abort \<Rightarrow>
          (case optional (parse_delay L) (hm_get c ''delay'') of
             Inl e \<Rightarrow> Some (Inl e)
           | Inr None \<Rightarrow>
               Some (if abort = None then
                       Inl (''fault-injection requires at least one of '' @ sq ''abort'' @ '' or '' @ sq ''delay'')
                     else Inr \<lparr>fi_abort = abort, fi_delay = None\<rparr>)
           | Inr (Some (d, pc, vs)) \<Rightarrow>
               map_option (\<lambda>n. Inr \<lparr>fi_abort = abort,
                   fi_delay = Some \<lparr>dl_duration = n, dl_percentage = pc, dl_vars = vs\<rparr>\<rparr>)
                 (from_secs_f64 d)))"

text \<open>The time a request sleeps, from the first roll; the abort uses the second.\<close>

definition fault_sleep :: "libs \<Rightarrow> nat \<Rightarrow> fault_injection \<Rightarrow> gcontext \<Rightarrow> nat" where
  "fault_sleep L roll p c =
     (case fi_delay p of
        None \<Rightarrow> 0
      | Some d \<Rightarrow> if sample_hit roll (dl_percentage d) \<and> vars_match L (dl_vars d) c then dl_duration d else 0)"

definition fault_injection_exec :: "libs \<Rightarrow> nat \<Rightarrow> fault_injection \<Rightarrow> gcontext \<Rightarrow> plugin_result" where
  "fault_injection_exec L roll p c =
     (case fi_abort p of
        None \<Rightarrow> Inr c
      | Some a \<Rightarrow>
          if sample_hit roll (ab_percentage a) \<and> vars_match L (ab_vars a) c then
            (let body = unwrap_or [] (map_option (interpolate L c) (ab_body a));
                 hs = map (\<lambda>(k, t). (k, interpolate L c t)) (ab_headers a)
             in Inl (set_rs_headers hs (set_body body (set_status (ab_http_status a) c)),
                     mk_error ''FAULT_INJECTED''
                       (''fault injected: abort with status '' @ show_nat (ab_http_status a))))
          else Inr c)"

section \<open>response-rewrite\<close>

record body_filter =
  bf_regex :: string
  bf_replace :: string
  bf_global :: bool

record response_rewrite =
  rr_status_code :: "nat option"
  rr_body :: "string option"
  rr_filters :: "body_filter list"
  rr_add_headers :: "(string \<times> string) list"
  rr_set_headers :: "(string \<times> string) list"
  rr_remove_headers :: "string list"
  rr_vars :: "node option"

definition body_derived_headers :: "string list" where
  "body_derived_headers = [''content-length'', ''content-encoding'', ''last-modified'', ''etag'']"

definition clear_body_derived :: "gcontext \<Rightarrow> gcontext" where
  "clear_body_derived c = fold rs_remove_ci body_derived_headers c"

fun header_text :: "libs \<Rightarrow> json \<Rightarrow> string option" where
  "header_text L (JStr s) = Some s"
| "header_text L (JNum n) = Some (show_num L n)"
| "header_text L _ = None"

definition contains_whitespace :: "string \<Rightarrow> bool" where
  "contains_whitespace s = list_ex (\<lambda>w. has_sub w s) whitespace"

definition parse_add_entry :: "libs \<Rightarrow> string \<Rightarrow> string + string \<times> string" where
  "parse_add_entry L entry =
     (case split_once CHR '':'' entry of
        None \<Rightarrow> Inl (''headers.add entry '' @ sq entry @ '' must be '' @ sq ''Name: value'')
      | Some (n, v) \<Rightarrow>
          (let name = trim n; value = trim v in
           if name = [] \<or> contains_whitespace name then
             Inl (''headers.add entry '' @ sq entry @ '' has an invalid header name'')
           else if value = [] \<or> CHR '':'' \<in> set value then
             Inl (''headers.add entry '' @ sq entry @
                  '' has an invalid header value (must be non-empty, no '' @ sq '':'' @ '')'')
           else Inr (to_lowercase L name, value)))"

definition set_entry :: "libs \<Rightarrow> string \<Rightarrow> string \<times> json \<Rightarrow> string + string \<times> string" where
  "set_entry L field kv =
     res_bind (ok_or (header_text L (snd kv)) (field @ ''['' @ sq (fst kv) @ ''] must be a string or number''))
       (\<lambda>v. Inr (to_lowercase L (fst kv), v))"

text \<open>The lists to add, to set and to remove; a flat map sets every key.\<close>

definition rr_parse_headers ::
  "libs \<Rightarrow> json \<Rightarrow> string + (string \<times> string) list \<times> (string \<times> string) list \<times> string list" where
  "rr_parse_headers L raw =
     res_bind (ok_or (as_object raw) ''headers must be an object'') (\<lambda>obj.
       let structured =
         Option.bind (hm_get obj ''add'') as_array \<noteq> None \<or>
         Option.bind (hm_get obj ''set'') as_object \<noteq> None \<or>
         Option.bind (hm_get obj ''remove'') as_array \<noteq> None
       in if structured then
            res_bind (case hm_get obj ''add'' of
                None \<Rightarrow> Inr []
              | Some v \<Rightarrow> res_bind (ok_or (as_array v) ''headers.add must be an array'')
                  (traverse (\<lambda>e. res_bind (ok_or (as_str e)
                    (''headers.add entries must be strings ('' @ sq ''Name: value'' @ '')''))
                    (parse_add_entry L)))) (\<lambda>add.
            res_bind (case hm_get obj ''set'' of
                None \<Rightarrow> Inr []
              | Some v \<Rightarrow> res_bind (ok_or (as_object v) ''headers.set must be a map'')
                  (traverse (set_entry L ''headers.set''))) (\<lambda>st.
            res_bind (case hm_get obj ''remove'' of
                None \<Rightarrow> Inr []
              | Some v \<Rightarrow> res_bind (ok_or (as_array v) ''headers.remove must be an array'')
                  (traverse (\<lambda>n. res_bind (ok_or (as_str n) ''headers.remove entries must be strings'')
                    (\<lambda>s. Inr (to_lowercase L s))))) (\<lambda>rem. Inr (add, st, rem))))
          else res_bind (traverse (set_entry L ''headers'') obj) (\<lambda>st. Inr ([], st, [])))"

definition parse_filter :: "libs \<Rightarrow> json \<Rightarrow> string + body_filter" where
  "parse_filter L v =
     res_bind (ok_or (as_object v) ''filters entries must be objects'') (\<lambda>obj.
     res_bind (ok_or (opt_filter (\<lambda>s. s \<noteq> []) (Option.bind (hm_get obj ''regex'') as_str))
       (''filters entries require a non-empty '' @ sq ''regex'' @ '' string'')) (\<lambda>pattern.
     res_bind (ok_or (Option.bind (hm_get obj ''replace'') as_str)
       (''filters entries require a '' @ sq ''replace'' @ '' string'')) (\<lambda>replace.
     res_bind (case Option.bind (hm_get obj ''scope'') as_str of
                 None \<Rightarrow> Inr False
               | Some s \<Rightarrow>
                   if s = ''once'' then Inr False else if s = ''global'' then Inr True
                   else Inl (''filters scope must be '' @ sq ''once'' @ '' or '' @ sq ''global'' @
                             '', got '' @ sq s)) (\<lambda>global.
     res_bind (let opts = unwrap_or [] (Option.bind (hm_get obj ''options'') as_str) in
               if opts = [] then Inr False else if opts = ''i'' then Inr True
               else Inl (''filters options only supports '' @ sq ''i'' @
                         '' (case-insensitive), got '' @ sq opts)) (\<lambda>ci.
       let full = (if ci then ''(?i)'' @ pattern else pattern) in
       case rx_error L full of
         Some e \<Rightarrow> Inl (''filters regex '' @ [CHR 0x22] @ pattern @ [CHR 0x22] @ '' validation failed: '' @ e)
       | None \<Rightarrow> Inr \<lparr>bf_regex = full, bf_replace = replace, bf_global = global\<rparr>)))))"

definition misplaced_key :: "config \<Rightarrow> string option" where
  "misplaced_key c = find (\<lambda>k. hm_has c k) [''add_headers'', ''set_headers'', ''remove_headers'']"

definition rr_status_field :: "config \<Rightarrow> string + nat option" where
  "rr_status_field c =
     optional (\<lambda>v. res_bind (ok_or (as_u64 v) ''status_code must be an integer'') (\<lambda>code.
         if 200 \<le> code \<and> code \<le> 598 then Inr (as_u16 code)
         else Inl (''status_code must be within 200-598, got '' @ show_nat code)))
       (hm_get c ''status_code'')"

definition rr_body_field :: "libs \<Rightarrow> config \<Rightarrow> string + string option" where
  "rr_body_field L c =
     (let b64 = unwrap_or False (cfg_bool c ''body_base64'') in
      case hm_get c ''body'' of
        None \<Rightarrow> if b64 then Inl (''body_base64 requires '' @ sq ''body'' @ '' to be set'') else Inr None
      | Some v \<Rightarrow>
          res_bind (ok_or (as_str v) ''body must be a string'') (\<lambda>s.
            if b64 then
              (if s = [] then Inl ''invalid base64 content''
               else res_bind (ok_or (b64_decode L (trim s)) ''invalid base64 content'') (\<lambda>d. Inr (Some d)))
            else Inr (Some s)))"

definition response_rewrite_from_config :: "libs \<Rightarrow> config \<Rightarrow> string + response_rewrite" where
  "response_rewrite_from_config L c =
     (case misplaced_key c of
        Some wrong \<Rightarrow>
          Inl (''response-rewrite has no '' @ sq wrong @ '' key (that is proxy-rewrite's schema); '' @
               ''use headers with add/set/remove, e.g. '' @
               ''headers: { set: { x-foo: bar }, remove: [x-powered-by] }'')
      | None \<Rightarrow>
          res_bind (rr_status_field c) (\<lambda>st.
          res_bind (rr_body_field L c) (\<lambda>body.
          res_bind (case hm_get c ''filters'' of
                      None \<Rightarrow> Inr []
                    | Some v \<Rightarrow>
                        res_bind (ok_or (as_array v) ''filters must be an array'') (\<lambda>arr.
                          if arr = [] then Inl ''filters must contain at least one entry''
                          else traverse (parse_filter L) arr)) (\<lambda>filters.
          if body \<noteq> None \<and> filters \<noteq> [] then
            Inl (sq ''body'' @ '' and '' @ sq ''filters'' @ '' are mutually exclusive'')
          else
          res_bind (case hm_get c ''headers'' of
                      None \<Rightarrow> Inr ([], [], []) | Some raw \<Rightarrow> rr_parse_headers L raw) (\<lambda>(add, st_hs, rem).
          res_bind (optional (\<lambda>v. prefix_err (''failed to validate the '' @ sq ''vars'' @ '' expression: '')
                      (parse_expr L v)) (hm_get c ''vars'')) (\<lambda>vs.
            Inr \<lparr>rr_status_code = st, rr_body = body, rr_filters = filters, rr_add_headers = add,
                 rr_set_headers = st_hs, rr_remove_headers = rem, rr_vars = vs\<rparr>))))))"

definition run_filter :: "body_lib \<Rightarrow> body_filter \<Rightarrow> string \<Rightarrow> string" where
  "run_filter B f text =
     (if bf_global f then rx_replace_all B (bf_regex f) text (bf_replace f)
      else rx_replace B (bf_regex f) text (bf_replace f))"

text \<open>
  The plain body by the content-encoding header; \<open>None\<close> for an unknown coding or a bad stream.
\<close>

definition decoded_content :: "body_lib \<Rightarrow> gcontext \<Rightarrow> string option" where
  "decoded_content B c =
     (let body = rs_body (cx_response c) in
      case parse_encoding (unwrap_or [] (rs_header c ''content-encoding'')) of
        Inl _ \<Rightarrow> None
      | Inr None \<Rightarrow> Some body
      | Inr (Some enc) \<Rightarrow> (case codec_decode B enc body of Inr out \<Rightarrow> Some out | Inl _ \<Rightarrow> None))"

text \<open>The decoded body is filtered and left plain; a body that cannot be read stays as it is.\<close>

definition apply_filters :: "body_lib \<Rightarrow> response_rewrite \<Rightarrow> gcontext \<Rightarrow> gcontext" where
  "apply_filters B p c =
     (case decoded_content B c of
        None \<Rightarrow> c
      | Some plain \<Rightarrow>
          if utf8_ok plain then clear_body_derived (set_body (fold (run_filter B) (rr_filters p) plain) c)
          else c)"

definition response_rewrite_exec :: "libs \<Rightarrow> body_lib \<Rightarrow> response_rewrite \<Rightarrow> gcontext \<Rightarrow> plugin_result" where
  "response_rewrite_exec L B p c =
     Inr (if (case rr_vars p of Some e \<Rightarrow> \<not> eval_expr L e c | None \<Rightarrow> False) then c
          else
            (let c1 = (case rr_status_code p of Some st \<Rightarrow> set_status st c | None \<Rightarrow> c);
                 c2 = (case rr_body p of
                         Some b \<Rightarrow> clear_body_derived (set_body b c1)
                       | None \<Rightarrow> if rr_filters p \<noteq> [] then apply_filters B p c1 else c1);
                 c3 = fold (\<lambda>(k, v) c. rs_push k (interpolate L c v) c) (rr_add_headers p) c2;
                 c4 = fold (\<lambda>(k, v) c. set_rs_header k [interpolate L c v] c) (rr_set_headers p) c3
             in fold rs_remove_ci (rr_remove_headers p) c4))"

section \<open>gzip and brotli\<close>

datatype content_types = AnyType | TypeList "string list"

definition parse_types :: "json option \<Rightarrow> string list \<Rightarrow> string + content_types" where
  "parse_types raw dflt =
     (case raw of
        None \<Rightarrow> Inr (TypeList dflt)
      | Some (JStr s) \<Rightarrow>
          if s = ''*'' then Inr AnyType
          else Inl (''types must be '' @ [CHR 0x22] @ ''*'' @ [CHR 0x22] @ '' or an array of content types'')
      | Some (JArr items) \<Rightarrow>
          if items = [] then Inl ''types must contain at least one content type''
          else res_bind (traverse (\<lambda>v. ok_or (opt_filter (\<lambda>s. s \<noteq> []) (as_str v))
                 ''types entries must be non-empty strings'') items) (\<lambda>ts. Inr (TypeList ts))
      | Some _ \<Rightarrow> Inl (''types must be '' @ [CHR 0x22] @ ''*'' @ [CHR 0x22] @ '' or an array of content types''))"

definition types_match :: "content_types \<Rightarrow> gcontext \<Rightarrow> bool" where
  "types_match ts c =
     (case rs_header c ''content-type'' of
        None \<Rightarrow> False
      | Some ct \<Rightarrow>
          (case ts of
             AnyType \<Rightarrow> True
           | TypeList l \<Rightarrow> trim (first_segment CHR '';'' ct) \<in> set l))"

text \<open>One element of \<open>Accept-Encoding\<close> that names the coding (or \<open>*\<close>) without \<open>q=0\<close>.\<close>

definition part_accepts :: "body_lib \<Rightarrow> string \<Rightarrow> string \<Rightarrow> bool" where
  "part_accepts B token part =
     (let (name, params) = (case split_once CHR '';'' (trim part) of
                              Some (a, b) \<Rightarrow> (a, Some b) | None \<Rightarrow> (trim part, None));
          n = to_ascii_lowercase (trim name)
      in (n = token \<or> n = ''*'') \<and>
         \<not> (case Option.bind params (\<lambda>ps. strip_prefix (trim ps) ''q='') of
              Some q \<Rightarrow> f32_zero B (trim q) | None \<Rightarrow> False))"

definition accepts_encoding :: "body_lib \<Rightarrow> gcontext \<Rightarrow> string \<Rightarrow> bool" where
  "accepts_encoding B c token =
     (case hm_get (rq_headers (cx_request c)) ''accept-encoding'' of
        None \<Rightarrow> False
      | Some vs \<Rightarrow> list_ex (\<lambda>v. list_ex (part_accepts B token) (split_on CHR '','' v)) vs)"

definition response_already_encoded :: "gcontext \<Rightarrow> bool" where
  "response_already_encoded c =
     (case rs_header c ''content-encoding'' of None \<Rightarrow> False | Some v \<Rightarrow> parse_encoding v \<noteq> Inr None)"

record compress =
  cp_types :: content_types
  cp_min_length :: nat
  cp_comp_level :: nat
  cp_vary :: bool

definition min_length_field :: "config \<Rightarrow> string + nat" where
  "min_length_field c =
     opt_field c ''min_length'' (\<lambda>v. opt_filter (\<lambda>n. 1 \<le> n) (as_u64 v)) ''min_length must be an integer >= 1'' 20"

definition gzip_from_config :: "config \<Rightarrow> string + compress" where
  "gzip_from_config c =
     res_bind (parse_types (hm_get c ''types'') [''text/html'']) (\<lambda>types.
     res_bind (min_length_field c) (\<lambda>min_len.
     res_bind (case hm_get c ''comp_level'' of
                 None \<Rightarrow> Inr 1
               | Some v \<Rightarrow> res_bind (ok_or (as_u64 v) ''comp_level must be an integer'') (\<lambda>n.
                   if 1 \<le> n \<and> n \<le> 9 then Inr n
                   else Inl (''comp_level must be within 1-9, got '' @ show_nat n))) (\<lambda>level.
       Inr \<lparr>cp_types = types, cp_min_length = min_len, cp_comp_level = level,
            cp_vary = unwrap_or False (cfg_bool c ''vary'')\<rparr>)))"

definition brotli_from_config :: "config \<Rightarrow> string + compress" where
  "brotli_from_config c =
     res_bind (parse_types (hm_get c ''types'') [''text/html'']) (\<lambda>types.
     res_bind (min_length_field c) (\<lambda>min_len.
     res_bind (case hm_get c ''comp_level'' of
                 None \<Rightarrow> Inr 6
               | Some v \<Rightarrow> res_bind (ok_or (as_u64 v) ''comp_level must be an integer'') (\<lambda>n.
                   if n \<le> 11 then Inr n
                   else Inl (''comp_level must be within 0-11, got '' @ show_nat n))) (\<lambda>level.
       Inr \<lparr>cp_types = types, cp_min_length = min_len, cp_comp_level = level,
            cp_vary = unwrap_or False (cfg_bool c ''vary'')\<rparr>)))"

definition weaken_etag :: "gcontext \<Rightarrow> gcontext" where
  "weaken_etag c =
     (case rs_header c ''etag'' of
        None \<Rightarrow> c
      | Some etag \<Rightarrow>
          if starts_with etag ''W/'' then c
          else if 2 \<le> length etag \<and> starts_with etag [CHR 0x22] \<and> ends_with etag [CHR 0x22]
          then set_rs_header ''etag'' [''W/'' @ etag] c
          else rs_remove ''etag'' c)"

definition skip_compression :: "body_lib \<Rightarrow> string \<Rightarrow> compress \<Rightarrow> gcontext \<Rightarrow> bool" where
  "skip_compression B token p c \<longleftrightarrow>
     \<not> accepts_encoding B c token \<or> response_already_encoded c \<or> \<not> types_match (cp_types p) c \<or>
     length (rs_body (cx_response c)) < cp_min_length p"

definition compressed :: "content_encoding \<Rightarrow> string \<Rightarrow> gcontext \<Rightarrow> gcontext" where
  "compressed enc z c =
     set_rs_header ''content-encoding'' [encoding_header_value enc]
       (rs_remove ''content-length'' (set_body z c))"

definition add_vary :: "compress \<Rightarrow> gcontext \<Rightarrow> gcontext" where
  "add_vary p c = (if cp_vary p then rs_push ''vary'' ''Accept-Encoding'' c else c)"

definition gzip_exec :: "body_lib \<Rightarrow> compress \<Rightarrow> gcontext \<Rightarrow> plugin_result" where
  "gzip_exec B p c =
     Inr (if skip_compression B ''gzip'' p c then c
          else (case codec_encode B Gzip (rs_body (cx_response c)) (cp_comp_level p) of
                  Inl _ \<Rightarrow> c
                | Inr z \<Rightarrow> add_vary p (compressed Gzip z c)))"

definition brotli_exec :: "body_lib \<Rightarrow> compress \<Rightarrow> gcontext \<Rightarrow> plugin_result" where
  "brotli_exec B p c =
     Inr (if skip_compression B ''br'' p c then c
          else (case codec_encode B Brotli (rs_body (cx_response c)) (cp_comp_level p) of
                  Inl _ \<Rightarrow> c
                | Inr z \<Rightarrow> add_vary p (weaken_etag (compressed Brotli z c))))"

section \<open>Contracts\<close>

lemma set_rs_headers_errors [simp]: "cx_errors (set_rs_headers hs c) = cx_errors c"
  unfolding set_rs_headers_def by (rule fold_errors) auto

lemma clear_body_derived_errors [simp]: "cx_errors (clear_body_derived c) = cx_errors c"
  unfolding clear_body_derived_def by (rule fold_errors) simp

lemma apply_filters_errors [simp]: "cx_errors (apply_filters B p c) = cx_errors c"
  by (simp add: apply_filters_def split: option.splits)

lemma response_rewrite_errors: "rewriter (response_rewrite_exec L B p)"
  by (auto simp: rewriter_def response_rewrite_exec_def Let_def fold_errors
      split: option.splits prod.splits)

lemma body_rewriters:
  "rewriter (echo_exec B ec)" "rewriter (mocking_exec L mk)" "rewriter (gzip_exec B cp)"
  "rewriter (brotli_exec B cp)"
  by (auto simp: rewriter_def echo_exec_def mocking_exec_def gzip_exec_def brotli_exec_def
      add_vary_def weaken_etag_def compressed_def Let_def split: option.splits sum.splits)

interpretation response_rewrite_node: rewriter_contract "pure_exec (response_rewrite_exec L B p)" for L B p
  by (rule rewriter_rule [OF response_rewrite_errors])

interpretation echo_node: rewriter_contract "pure_exec (echo_exec B p)" for B p
  by (rule rewriter_rule [OF body_rewriters(1)])

interpretation mocking_node: rewriter_contract "pure_exec (mocking_exec L p)" for L p
  by (rule rewriter_rule [OF body_rewriters(2)])

interpretation gzip_node: rewriter_contract "pure_exec (gzip_exec B p)" for B p
  by (rule rewriter_rule [OF body_rewriters(3)])

interpretation brotli_node: rewriter_contract "pure_exec (brotli_exec B p)" for B p
  by (rule rewriter_rule [OF body_rewriters(4)])

lemma set_rs_headers_frame [simp]:
  "cx_request (set_rs_headers hs c) = cx_request c" "cx_message (set_rs_headers hs c) = cx_message c"
  by (induction hs arbitrary: c) (auto simp: set_rs_headers_def)

interpretation fault_injection_node: gate_contract "pure_exec (fault_injection_exec L roll p)" for L roll p
proof
  show "c' = c" if "fst (pure_exec (fault_injection_exec L roll p) c w) = Inr c'" for c w c'
    using that by (auto simp: fault_injection_exec_def Let_def split: option.splits if_splits)
  show "cx_request c' = cx_request c \<and> cx_message c' = cx_message c \<and> cx_errors c' = cx_errors c"
    if "fst (pure_exec (fault_injection_exec L roll p) c w) = Inl (c', e)" for c w c' e
    using that by (auto simp: fault_injection_exec_def Let_def split: option.splits if_splits)
qed

section \<open>Compression keeps the content\<close>

text \<open>What the crates' encoders and decoders promise together.\<close>

definition codec_sound :: "body_lib \<Rightarrow> bool" where
  "codec_sound B \<longleftrightarrow> (\<forall>enc l b z. bl_encode B enc l b = Inr z \<longrightarrow> bl_decode B enc z = Inr b)"

lemma rs_header_simps [simp]:
  "rs_header (set_rs_header k vs c) k' = (if k' = k then first_value [(k, vs)] k else rs_header c k')"
  "rs_header (rs_remove k c) k' = (if k' = k then None else rs_header c k')"
  "k' \<noteq> k \<Longrightarrow> rs_header (rs_push k v c) k' = rs_header c k'"
  "rs_header (set_body b c) k' = rs_header c k'"
  by (simp_all add: rs_header_def first_value_def set_rs_header_def rs_remove_def rs_push_def set_body_def
      split: option.splits list.splits)

lemma header_ops_body [simp]:
  "rs_body (cx_response (set_rs_header k vs c)) = rs_body (cx_response c)"
  "rs_body (cx_response (rs_remove k c)) = rs_body (cx_response c)"
  "rs_body (cx_response (rs_push k v c)) = rs_body (cx_response c)"
  by (simp_all add: set_rs_header_def rs_remove_def rs_push_def)

lemma parse_codings:
  "parse_encoding ''gzip'' = Inr (Some Gzip)" "parse_encoding ''deflate'' = Inr (Some Deflate)"
  "parse_encoding ''br'' = Inr (Some Brotli)"
  by code_simp+

lemma parse_own_encoding [simp]: "parse_encoding (encoding_header_value enc) = Inr (Some enc)"
  by (cases enc) (simp_all add: parse_codings)

lemma parse_no_encoding: "parse_encoding [] = Inr None"
  by code_simp

text \<open>What the two nodes have in common.\<close>

definition compress_with :: "body_lib \<Rightarrow> content_encoding \<Rightarrow> (gcontext \<Rightarrow> gcontext) \<Rightarrow> gcontext \<Rightarrow> gcontext \<Rightarrow> bool" where
  "compress_with B enc tidy c c' \<longleftrightarrow> c' = c \<or>
     (\<not> response_already_encoded c \<and>
      (\<exists>l z. codec_encode B enc (rs_body (cx_response c)) l = Inr z \<and> c' = tidy (compressed enc z c)))"

lemma gzip_step: "gzip_exec B p c = Inr c' \<Longrightarrow> compress_with B Gzip (add_vary p) c c'"
  by (auto simp: gzip_exec_def compress_with_def skip_compression_def split: if_splits sum.splits)

lemma brotli_step: "brotli_exec B p c = Inr c' \<Longrightarrow> compress_with B Brotli (\<lambda>x. add_vary p (weaken_etag x)) c c'"
  by (auto simp: brotli_exec_def compress_with_def skip_compression_def split: if_splits sum.splits)

definition tidies :: "(gcontext \<Rightarrow> gcontext) \<Rightarrow> bool" where
  "tidies f \<longleftrightarrow> (\<forall>c. rs_body (cx_response (f c)) = rs_body (cx_response c) \<and>
     rs_header (f c) ''content-encoding'' = rs_header c ''content-encoding'')"

lemma add_vary_tidies: "tidies (add_vary p)"
  by (simp add: tidies_def add_vary_def)

lemma weaken_tidies: "tidies (\<lambda>x. add_vary p (weaken_etag x))"
  by (simp add: tidies_def add_vary_def weaken_etag_def split: option.splits)

lemma compress_with_content:
  assumes "compress_with B enc tidy c c'" and "codec_sound B" and "tidies tidy"
  shows "decoded_content B c' = decoded_content B c"
  using assms(1)
proof (unfold compress_with_def, elim disjE conjE exE)
  fix l z
  assume n: "\<not> response_already_encoded c" and e: "codec_encode B enc (rs_body (cx_response c)) l = Inr z"
    and c': "c' = tidy (compressed enc z c)"
  have "decoded_content B c = Some (rs_body (cx_response c))"
    using n by (auto simp: response_already_encoded_def decoded_content_def parse_no_encoding Let_def
        split: option.splits)
  moreover have "bl_decode B enc z = Inr (rs_body (cx_response c))"
    using e assms(2) by (auto simp: codec_encode_def codec_sound_def split: sum.splits)
  ultimately show ?thesis
    using assms(3) by (simp add: c' tidies_def decoded_content_def compressed_def codec_decode_def
        first_value_def Let_def)
qed simp

lemma compress_with_twice:
  "compress_with B enc tidy c c' \<Longrightarrow> response_already_encoded c \<Longrightarrow> c' = c"
  by (auto simp: compress_with_def)

definition is_compressor :: "body_lib \<Rightarrow> (gcontext \<Rightarrow> plugin_result) \<Rightarrow> bool" where
  "is_compressor B f \<longleftrightarrow> (\<exists>p. f = gzip_exec B p \<or> f = brotli_exec B p)"

lemma compressor_cases:
  assumes "is_compressor B f" and "f c = Inr c'"
  obtains enc tidy where "compress_with B enc tidy c c'" and "tidies tidy"
  using assms gzip_step brotli_step add_vary_tidies weaken_tidies unfolding is_compressor_def by metis

lemma compressor_total: "is_compressor B f \<Longrightarrow> \<exists>c'. f c = Inr c'"
  by (auto simp: is_compressor_def gzip_exec_def brotli_exec_def)

lemma run_compressors:
  assumes "\<forall>f \<in> set fs. is_compressor B f" and "run_gates fs c = Inr c'" and "codec_sound B"
  shows "decoded_content B c' = decoded_content B c \<and> (response_already_encoded c \<longrightarrow> c' = c)"
  using assms(1,2)
proof (induction fs arbitrary: c)
  case Nil
  then show ?case by simp
next
  case (Cons f fs)
  then obtain c1 where f: "f c = Inr c1" and r: "run_gates fs c1 = Inr c'"
    using compressor_total [of B f c] by auto
  obtain enc tidy where s: "compress_with B enc tidy c c1" "tidies tidy"
    using compressor_cases [of B f c c1] Cons.prems(1) f by auto
  show ?case
    using Cons.IH [OF _ r] Cons.prems(1) compress_with_content [OF s(1) assms(3) s(2)]
      compress_with_twice [OF s(1)] by auto
qed

lemma run_compressors_total: "\<forall>f \<in> set fs. is_compressor B f \<Longrightarrow> \<exists>c'. run_gates fs c = Inr c'"
proof (induction fs arbitrary: c)
  case (Cons f fs)
  then show ?case using compressor_total [of B f c] by force
qed simp

lemma set_rs_headers_body [simp]: "rs_body (cx_response (set_rs_headers hs c)) = rs_body (cx_response c)"
  by (induction hs arbitrary: c) (auto simp: set_rs_headers_def)

lemma decoded_body_content: "decoded_content B c = Some t \<Longrightarrow> decoded_body B c = t"
  by (auto simp: decoded_content_def decoded_body_def parse_no_encoding Let_def
      split: option.splits sum.splits)

text \<open>
  C22: Compression never changes what a response says. Given that the crates' decoders undo their
  encoders, after any sequence of gzip and brotli nodes, whatever their settings, the body still
  decodes to the same content by its content-encoding header; a response that is encoded is never
  encoded again; and an echo node after them that adds text before and after wraps the original
  text, not the compressed bytes.
\<close>

theorem compression_keeps_content:
  assumes "codec_sound B" and "\<forall>f \<in> set fs. is_compressor B f" and "run_gates fs c = Inr c'"
  shows "decoded_content B c' = decoded_content B c \<and>
     (response_already_encoded c \<longrightarrow> c' = c) \<and>
     (\<forall>p t. ec_body p = None \<and> decoded_content B c = Some t \<longrightarrow>
        (\<exists>c''. echo_exec B p c' = Inr c'' \<and>
           rs_body (cx_response c'') = unwrap_or [] (ec_before_body p) @ t @ unwrap_or [] (ec_after_body p)))"
  using run_compressors [OF assms(2,3,1)] by (auto simp: echo_exec_def Let_def decoded_body_content)

definition demo_codec :: body_lib where
  "demo_codec = \<lparr>bl_decode = (\<lambda>_ z. Inr (rev z)), bl_encode = (\<lambda>_ _ b. Inr (rev b)),
     rx_replace = (\<lambda>_ t _. t), rx_replace_all = (\<lambda>_ t _. t), f32_zero = (\<lambda>q. q = ''0'')\<rparr>"

definition demo_page :: gcontext where
  "demo_page = (let c = new_context \<lparr>rq_method = ''GET'', rq_path = ''/'', rq_host = ''h'', rq_scheme = ''http'',
       rq_headers = [(''accept-encoding'', [''gzip, br''])], rq_query_params = [], rq_body = [],
       rq_remote_addr = ''1.2.3.4:5'', rq_protocol = Http1\<rparr>
     in set_rs_header ''content-type'' [''text/html''] (set_body ''hello'' c))"

definition demo_compress :: compress where
  "demo_compress = \<lparr>cp_types = AnyType, cp_min_length = 1, cp_comp_level = 1, cp_vary = True\<rparr>"

lemma demo_page_compressed:
  "part_accepts demo_codec ''gzip'' ''gzip''" "split_on CHR '','' ''gzip, br'' = [''gzip'', '' br'']"
  by code_simp+

theorem compression_keeps_content_witness:
  "\<exists>c'. run_gates [gzip_exec demo_codec demo_compress, brotli_exec demo_codec demo_compress] demo_page = Inr c' \<and>
     rs_body (cx_response c') = ''olleh'' \<and> decoded_content demo_codec c' = Some ''hello''"
proof -
  let ?fs = "[gzip_exec demo_codec demo_compress, brotli_exec demo_codec demo_compress]"
  have s: "codec_sound demo_codec" by (simp add: codec_sound_def demo_codec_def)
  have k: "\<forall>f \<in> set ?fs. is_compressor demo_codec f" by (auto simp: is_compressor_def)
  have h: "rs_header demo_page ''content-encoding'' = None" "rs_header demo_page ''content-type'' = Some ''text/html''"
    "accepts_encoding demo_codec demo_page ''gzip''" "rs_body (cx_response demo_page) = ''hello''"
    by (simp_all add: demo_page_def new_context_def rs_header_def set_rs_header_def first_value_def
        empty_response_def accepts_encoding_def demo_page_compressed Let_def)
  define c1 where "c1 = add_vary demo_compress (compressed Gzip ''olleh'' demo_page)"
  have g: "gzip_exec demo_codec demo_compress demo_page = Inr c1"
    using h by (simp add: gzip_exec_def skip_compression_def response_already_encoded_def demo_compress_def
        types_match_def codec_encode_def c1_def) (simp add: demo_codec_def)
  have "response_already_encoded c1"
    by (simp add: response_already_encoded_def c1_def add_vary_def compressed_def demo_compress_def
        first_value_def parse_codings)
  then have "brotli_exec demo_codec demo_compress c1 = Inr c1"
    by (simp add: brotli_exec_def skip_compression_def)
  with g have r: "run_gates ?fs demo_page = Inr c1" by simp
  have "rs_body (cx_response c1) = ''olleh''" by (simp add: c1_def add_vary_def compressed_def)
  moreover have "decoded_content demo_codec demo_page = Some ''hello''"
    using h by (simp add: decoded_content_def parse_no_encoding)
  ultimately show ?thesis using compression_keeps_content [OF s k r] r by auto
qed

end
