(* ===== verification/Plugin_Validate.thy ===== *)
theory Plugin_Validate
  imports Plugin_Response
begin

text \<open>
  Plugins that mask, validate or transform request bodies (src/src/plugins/native/): data-mask,
  request-validation, oas-validator, degraphql and body-transformer. Parsing JSON text and
  validating against a JSON schema are crates: \<open>schema_lib\<close>, where a compiled validator is the
  schema it was built from.
\<close>

record schema_lib =
  js_parse :: "string \<Rightarrow> string + json"
  sc_error :: "json \<Rightarrow> string option"
  sc_check :: "json \<Rightarrow> json \<Rightarrow> string option"

definition json_error :: "libs \<Rightarrow> string \<Rightarrow> string \<Rightarrow> string" where
  "json_error L err msg = json_print L (JObj [(''error'', JStr err), (''message'', JStr msg)])"

definition rq_remove :: "string \<Rightarrow> gcontext \<Rightarrow> gcontext" where
  "rq_remove k c = c\<lparr>cx_request := (cx_request c)\<lparr>rq_headers := hm_remove k (rq_headers (cx_request c))\<rparr>\<rparr>"

definition set_rq_body :: "string \<Rightarrow> gcontext \<Rightarrow> gcontext" where
  "set_rq_body b c = c\<lparr>cx_request := (cx_request c)\<lparr>rq_body := b\<rparr>\<rparr>"

section \<open>data-mask\<close>

datatype mask_target = MQuery | MHeader | MBody

datatype mask_action = MRemove | MReplace string | MRegex string string

datatype path_seg = Key string | Index nat

record mask_rule =
  mr_target :: mask_target
  mr_name :: string
  mr_segs :: "path_seg list"
  mr_action :: mask_action

record data_mask =
  dm_rules :: "mask_rule list"
  dm_max_body_size :: nat

definition usize_max :: nat where "usize_max = u64_max"

definition path_seg_of :: "string \<Rightarrow> path_seg" where
  "path_seg_of s = (case parse_uint usize_max s of Some i \<Rightarrow> Index i | None \<Rightarrow> Key s)"

definition parse_dotted_path :: "string \<Rightarrow> string + path_seg list" where
  "parse_dotted_path raw =
     (let trimmed = (case strip_prefix raw ''$.'' of
                       Some r \<Rightarrow> r
                     | None \<Rightarrow> (case strip_prefix raw ''$'' of Some r \<Rightarrow> r | None \<Rightarrow> raw))
      in if trimmed = [] then Inl (''body rule path '' @ sq raw @ '' is empty'')
         else traverse (\<lambda>s. if s = [] then Inl (''body rule path '' @ sq raw @ '' has an empty segment'')
                            else Inr (path_seg_of s)) (split_on CHR ''.'' trimmed))"

text \<open>The masked text, or \<open>None\<close> where nothing is masked.\<close>

definition regex_mask :: "libs \<Rightarrow> body_lib \<Rightarrow> string \<Rightarrow> string \<Rightarrow> string \<Rightarrow> string option" where
  "regex_mask L B re rep s = (if rx_match L re s then Some (rx_replace B re s rep) else None)"

definition mask_string :: "libs \<Rightarrow> body_lib \<Rightarrow> string \<Rightarrow> string \<Rightarrow> json \<Rightarrow> json option" where
  "mask_string L B re rep v = (case v of JStr s \<Rightarrow> map_option JStr (regex_mask L B re rep s) | _ \<Rightarrow> None)"

text \<open>\<open>Vec::remove\<close>\<close>

definition remove_at :: "nat \<Rightarrow> 'a list \<Rightarrow> 'a list" where
  "remove_at i xs = take i xs @ drop (Suc i) xs"

fun mask_last :: "libs \<Rightarrow> body_lib \<Rightarrow> mask_action \<Rightarrow> path_seg \<Rightarrow> json \<Rightarrow> json option" where
  "mask_last L B action (Key k) (JObj m) =
     (case hm_get m k of
        None \<Rightarrow> None
      | Some v \<Rightarrow>
          (case action of
             MRemove \<Rightarrow> Some (JObj (hm_remove k m))
           | MReplace value \<Rightarrow> Some (JObj (hm_insert k (JStr value) m))
           | MRegex re value \<Rightarrow> map_option (\<lambda>v'. JObj (hm_insert k v' m)) (mask_string L B re value v)))"
| "mask_last L B action (Index i) (JArr xs) =
     (if length xs \<le> i then None
      else (case action of
              MRemove \<Rightarrow> Some (JArr (remove_at i xs))
            | MReplace value \<Rightarrow> Some (JArr (xs[i := JStr value]))
            | MRegex re value \<Rightarrow> map_option (\<lambda>v'. JArr (xs[i := v'])) (mask_string L B re value (xs ! i))))"
| "mask_last L B action _ _ = None"

text \<open>The document after masking, or \<open>None\<close> where the path leads nowhere or nothing is masked.\<close>

fun apply_to_json :: "libs \<Rightarrow> body_lib \<Rightarrow> path_seg list \<Rightarrow> mask_action \<Rightarrow> json \<Rightarrow> json option" where
  "apply_to_json L B [] action v = None"
| "apply_to_json L B [seg] action v = mask_last L B action seg v"
| "apply_to_json L B (seg # s2 # segs) action v =
     (case (seg, v) of
        (Key k, JObj m) \<Rightarrow>
          (case hm_get m k of
             None \<Rightarrow> None
           | Some x \<Rightarrow> map_option (\<lambda>y. JObj (hm_insert k y m)) (apply_to_json L B (s2 # segs) action x))
      | (Index i, JArr xs) \<Rightarrow>
          (if length xs \<le> i then None
           else map_option (\<lambda>y. JArr (xs[i := y])) (apply_to_json L B (s2 # segs) action (xs ! i)))
      | _ \<Rightarrow> None)"

definition mask_values :: "libs \<Rightarrow> body_lib \<Rightarrow> string \<Rightarrow> string \<Rightarrow> string list \<Rightarrow> string list" where
  "mask_values L B re rep vs = map (\<lambda>v. unwrap_or v (regex_mask L B re rep v)) vs"

definition apply_to_multimap ::
  "libs \<Rightarrow> body_lib \<Rightarrow> string \<Rightarrow> mask_action \<Rightarrow> string list hmap \<Rightarrow> string list hmap" where
  "apply_to_multimap L B name action m =
     (case hm_get m name of
        None \<Rightarrow> m
      | Some vs \<Rightarrow>
          (case action of
             MRemove \<Rightarrow> hm_remove name m
           | MReplace value \<Rightarrow> hm_insert name [value] m
           | MRegex re value \<Rightarrow> hm_insert name (mask_values L B re value vs) m))"

definition mask_target_of :: "json hmap \<Rightarrow> string + mask_target" where
  "mask_target_of obj =
     (case Option.bind (hm_get obj ''type'') as_str of
        None \<Rightarrow> Inl (sq ''type'' @ '' is required'')
      | Some t \<Rightarrow>
          if t = ''query'' then Inr MQuery else if t = ''header'' then Inr MHeader
          else if t = ''body'' then Inr MBody
          else Inl (''unknown type '' @ sq t @ '' (query|header|body)''))"

definition mask_action_of :: "libs \<Rightarrow> json hmap \<Rightarrow> string + mask_action" where
  "mask_action_of L obj =
     (let get_str = (\<lambda>k. Option.bind (hm_get obj k) as_str) in
      case get_str ''action'' of
        None \<Rightarrow> Inl (sq ''action'' @ '' is required'')
      | Some a \<Rightarrow>
          if a = ''remove'' then Inr MRemove
          else if a = ''replace'' then
            res_bind (ok_or (get_str ''value'') (sq ''value'' @ '' is required for action '' @ sq ''replace''))
              (\<lambda>v. Inr (MReplace v))
          else if a = ''regex'' then
            res_bind (ok_or (get_str ''regex'') (sq ''regex'' @ '' is required for action '' @ sq ''regex'')) (\<lambda>p.
            res_bind (ok_or (get_str ''value'') (sq ''value'' @ '' is required for action '' @ sq ''regex'')) (\<lambda>v.
              case rx_error L p of
                Some e \<Rightarrow> Inl (''invalid regex '' @ sq p @ '': '' @ e)
              | None \<Rightarrow> Inr (MRegex p v)))
          else Inl (''unknown action '' @ sq a @ '' (remove|replace|regex)''))"

definition parse_mask_rule :: "libs \<Rightarrow> json \<Rightarrow> string + mask_rule" where
  "parse_mask_rule L item =
     res_bind (ok_or (as_object item) ''must be an object'') (\<lambda>obj.
     res_bind (mask_target_of obj) (\<lambda>target.
     res_bind (ok_or (opt_filter (\<lambda>s. s \<noteq> []) (Option.bind (hm_get obj ''name'') as_str))
       (sq ''name'' @ '' is required'')) (\<lambda>name.
     res_bind (if target = MBody then
                 (case Option.bind (hm_get obj ''body_format'') as_str of
                    None \<Rightarrow> Inl (sq ''body_format'' @ '' is required for body rules'')
                  | Some f \<Rightarrow> if f = ''json'' then Inr ()
                      else Inl (''body_format '' @ sq f @ '' is not supported '' @ em_dash @
                                '' featherbit implements '' @ sq ''json'' @ '' only''))
               else Inr ()) (\<lambda>_.
     res_bind (mask_action_of L obj) (\<lambda>action.
     res_bind (if target = MBody then parse_dotted_path name else Inr []) (\<lambda>segs.
       Inr \<lparr>mr_target = target, mr_name = name, mr_segs = segs, mr_action = action\<rparr>))))))"

definition data_mask_from_config :: "libs \<Rightarrow> config \<Rightarrow> string + data_mask" where
  "data_mask_from_config L c =
     res_bind (case hm_get c ''request'' of
                 None \<Rightarrow> Inr []
               | Some raw \<Rightarrow>
                   res_bind (ok_or (as_array raw) (''data-mask: '' @ sq ''request'' @ '' must be an array of rule objects''))
                     (\<lambda>items. traverse (\<lambda>(i, item). prefix_err (''data-mask rule '' @ show_nat i @ '': '')
                        (parse_mask_rule L item)) (List.enumerate 0 items))) (\<lambda>rules.
     res_bind (opt_field c ''max_body_size'' (\<lambda>v. opt_filter (\<lambda>n. 0 < n) (as_u64 v))
       (''data-mask: '' @ sq ''max_body_size'' @ '' must be a positive integer'') 1048576) (\<lambda>mx.
       Inr \<lparr>dm_rules = rules, dm_max_body_size = mx\<rparr>))"

text \<open>
  One rule: the context, the parsed body once a rule needed it, and whether it was masked. Body
  rules are skipped when the body is empty, too long or not JSON.
\<close>

definition apply_mask_rule ::
  "libs \<Rightarrow> body_lib \<Rightarrow> schema_lib \<Rightarrow> nat \<Rightarrow> mask_rule \<Rightarrow> gcontext \<times> json option \<times> bool
     \<Rightarrow> gcontext \<times> json option \<times> bool" where
  "apply_mask_rule L B J mx r st =
     (case st of (c, doc, masked) \<Rightarrow>
        (case mr_target r of
           MQuery \<Rightarrow>
             (c\<lparr>cx_request := (cx_request c)\<lparr>rq_query_params :=
                 apply_to_multimap L B (mr_name r) (mr_action r) (rq_query_params (cx_request c))\<rparr>\<rparr>, doc, masked)
         | MHeader \<Rightarrow>
             (c\<lparr>cx_request := (cx_request c)\<lparr>rq_headers :=
                 apply_to_multimap L B (to_lowercase L (mr_name r)) (mr_action r) (rq_headers (cx_request c))\<rparr>\<rparr>,
              doc, masked)
         | MBody \<Rightarrow>
             (let body = rq_body (cx_request c) in
              if body = [] \<or> mx < length body then st
              else (case (case doc of Some d \<Rightarrow> Some d
                          | None \<Rightarrow> (case js_parse J body of Inr d \<Rightarrow> Some d | Inl _ \<Rightarrow> None)) of
                      None \<Rightarrow> st
                    | Some d \<Rightarrow>
                        (case apply_to_json L B (mr_segs r) (mr_action r) d of
                           Some d' \<Rightarrow> (c, Some d', True)
                         | None \<Rightarrow> (c, Some d, masked))))))"

definition data_mask_exec :: "libs \<Rightarrow> body_lib \<Rightarrow> schema_lib \<Rightarrow> data_mask \<Rightarrow> gcontext \<Rightarrow> plugin_result" where
  "data_mask_exec L B J p c =
     (case fold (apply_mask_rule L B J (dm_max_body_size p)) (dm_rules p) (c, None, False) of
        (c', doc, masked) \<Rightarrow>
          Inr (case doc of
                 Some d \<Rightarrow> if masked then rq_remove ''content-length'' (set_rq_body (json_print L d) c') else c'
               | None \<Rightarrow> c'))"

section \<open>request-validation\<close>

record request_validation =
  rv_header_schema :: "json option"
  rv_body_schema :: "json option"
  rv_rejected_code :: nat
  rv_rejected_msg :: "string option"

definition compile_schema :: "schema_lib \<Rightarrow> config \<Rightarrow> string \<Rightarrow> string + json option" where
  "compile_schema J c key =
     (case hm_get c key of
        None \<Rightarrow> Inr None
      | Some raw \<Rightarrow>
          if as_object raw = None then Inl (''request-validation: '' @ sq key @ '' must be a JSON Schema object'')
          else (case sc_error J raw of
                  Some e \<Rightarrow> Inl (''request-validation: invalid '' @ sq key @ '': '' @ e)
                | None \<Rightarrow> Inr (Some raw)))"

definition request_validation_from_config :: "schema_lib \<Rightarrow> config \<Rightarrow> string + request_validation" where
  "request_validation_from_config J c =
     res_bind (compile_schema J c ''header_schema'') (\<lambda>hs.
     res_bind (compile_schema J c ''body_schema'') (\<lambda>bs.
       if hs = None \<and> bs = None then
         Inl (''request-validation: at least one of '' @ sq ''header_schema'' @ '' or '' @ sq ''body_schema'' @
              '' is required'')
       else
       res_bind (opt_field c ''rejected_code'' (\<lambda>v. opt_filter (\<lambda>n. 200 \<le> n \<and> n \<le> 599) (as_u64 v))
         (''request-validation: '' @ sq ''rejected_code'' @ '' must be an integer in 200..=599'') 400) (\<lambda>code.
         Inr \<lparr>rv_header_schema = hs, rv_body_schema = bs, rv_rejected_code = as_u16 code,
              rv_rejected_msg = cfg_str c ''rejected_msg''\<rparr>)))"

definition add_form_field :: "string \<Rightarrow> json \<Rightarrow> json hmap \<Rightarrow> json hmap" where
  "add_form_field k v m =
     (case hm_get m k of
        None \<Rightarrow> hm_insert k v m
      | Some (JArr vs) \<Rightarrow> hm_insert k (JArr (vs @ [v])) m
      | Some first \<Rightarrow> hm_insert k (JArr [first, v]) m)"

definition form_pair :: "string \<Rightarrow> json hmap \<Rightarrow> json hmap" where
  "form_pair pair m =
     (if pair = [] then m
      else (case split_once CHR ''='' pair of
              Some (k, v) \<Rightarrow> add_form_field (urldecode k) (JStr (urldecode v)) m
            | None \<Rightarrow> add_form_field (urldecode pair) (JBool True) m))"

definition decode_urlencoded :: "string \<Rightarrow> json" where
  "decode_urlencoded body = JObj (fold form_pair (split_on CHR ''&'' body) [])"

text \<open>The detail, or the configured message in its place.\<close>

definition rv_reject :: "libs \<Rightarrow> request_validation \<Rightarrow> gcontext \<Rightarrow> string \<Rightarrow> plugin_result" where
  "rv_reject L p c detail =
     (let msg = unwrap_or detail (rv_rejected_msg p) in
      reject_json c (rv_rejected_code p) (json_error L ''validation_failed'' msg) ''VALIDATION_FAILED'' msg)"

definition header_object :: "string list hmap \<Rightarrow> json" where
  "header_object hs =
     JObj (List.map_filter (\<lambda>(k, vs). case vs of v # _ \<Rightarrow> Some (k, JStr v) | [] \<Rightarrow> None) hs)"

definition content_type_starts :: "libs \<Rightarrow> string \<Rightarrow> bool \<Rightarrow> gcontext \<Rightarrow> bool" where
  "content_type_starts L pre dflt c =
     (case first_value (rq_headers (cx_request c)) ''content-type'' of
        Some ct \<Rightarrow> starts_with (to_lowercase L ct) pre | None \<Rightarrow> dflt)"

definition validate_body :: "libs \<Rightarrow> schema_lib \<Rightarrow> request_validation \<Rightarrow> json \<Rightarrow> gcontext \<Rightarrow> plugin_result" where
  "validate_body L J p schema c =
     (let body = rq_body (cx_request c) in
      if body = [] then rv_reject L p c ''request body is required''
      else if content_type_starts L ''application/x-www-form-urlencoded'' False c then
        (case sc_check J schema (decode_urlencoded (utf8_lossy body)) of
           Some e \<Rightarrow> rv_reject L p c (''body validation failed: '' @ e)
         | None \<Rightarrow> Inr c)
      else
        (case js_parse J body of
           Inl e \<Rightarrow> rv_reject L p c (''failed to decode the request body: '' @ e)
         | Inr parsed \<Rightarrow>
             (case sc_check J schema parsed of
                Some e \<Rightarrow> rv_reject L p c (''body validation failed: '' @ e)
              | None \<Rightarrow> Inr (rq_remove ''content-length'' (set_rq_body (json_print L parsed) c)))))"

definition request_validation_exec :: "libs \<Rightarrow> schema_lib \<Rightarrow> request_validation \<Rightarrow> gcontext \<Rightarrow> plugin_result" where
  "request_validation_exec L J p c =
     (case (case rv_header_schema p of
              None \<Rightarrow> None
            | Some schema \<Rightarrow> sc_check J schema (header_object (rq_headers (cx_request c)))) of
        Some e \<Rightarrow> rv_reject L p c (''header validation failed: '' @ e)
      | None \<Rightarrow>
          (case rv_body_schema p of None \<Rightarrow> Inr c | Some schema \<Rightarrow> validate_body L J p schema c))"

section \<open>degraphql\<close>

record degraphql =
  dg_query :: string
  dg_variables :: "string list"
  dg_operation_name :: "string option"

text \<open>The brace depth after the text, or \<open>None\<close> once it goes below zero.\<close>

fun brace_depth :: "string \<Rightarrow> int \<Rightarrow> int option" where
  "brace_depth [] d = Some d"
| "brace_depth (ch # cs) d =
     (if ch = CHR 0x7B then brace_depth cs (d + 1)
      else if ch = CHR 0x7D then (if d - 1 < 0 then None else brace_depth cs (d - 1))
      else brace_depth cs d)"

definition check_query :: "string \<Rightarrow> string + unit" where
  "check_query query =
     (if trim query = [] then Inl (''degraphql: '' @ sq ''query'' @ '' must not be blank'')
      else if brace_depth query 0 \<noteq> Some 0 then
        Inl (''degraphql: '' @ sq ''query'' @ '' has unbalanced braces'')
      else if CHR 0x7B \<notin> set query then Inl (''degraphql: '' @ sq ''query'' @ '' has no selection set'')
      else Inr ())"

definition en_dash :: string where
  "en_dash = [CHR 0xE2, CHR 0x80, CHR 0x93]"

definition degraphql_from_config :: "config \<Rightarrow> string + degraphql" where
  "degraphql_from_config c =
     res_bind (ok_or (cfg_str c ''query'') (''degraphql: '' @ sq ''query'' @ '' is required'')) (\<lambda>query.
     if 1024 < length query then Inl (''degraphql: '' @ sq ''query'' @ '' must be at most 1024 characters'')
     else
     res_bind (check_query query) (\<lambda>_.
     res_bind (case hm_get c ''variables'' of
                 None \<Rightarrow> Inr []
               | Some raw \<Rightarrow>
                   res_bind (ok_or (as_array raw) (''degraphql: '' @ sq ''variables'' @ '' must be an array of strings''))
                     (\<lambda>items. if items = [] then
                          Inl (''degraphql: '' @ sq ''variables'' @ '' must not be empty when present'')
                        else traverse (\<lambda>v. ok_or (opt_filter (\<lambda>s. s \<noteq> []) (as_str v))
                          (''degraphql: '' @ sq ''variables'' @ '' items must be non-empty strings'')) items)) (\<lambda>vars.
     res_bind (optional (\<lambda>v. ok_or (opt_filter (\<lambda>s. s \<noteq> [] \<and> length s \<le> 1024) (as_str v))
         (''degraphql: '' @ sq ''operation_name'' @ '' must be a string of 1'' @ en_dash @ ''1024 characters''))
       (hm_get c ''operation_name'')) (\<lambda>operation.
       Inr \<lparr>dg_query = query, dg_variables = vars, dg_operation_name = operation\<rparr>))))"

definition dg_fail :: "libs \<Rightarrow> gcontext \<Rightarrow> nat \<Rightarrow> string \<Rightarrow> string \<Rightarrow> string \<Rightarrow> plugin_result" where
  "dg_fail L c status code err msg = reject_json c status (json_error L err msg) code msg"

text \<open>
  The variables in order: the query parameter first, then the field of the JSON body, which is
  parsed when the first variable needs it.
\<close>

fun collect_variables ::
  "schema_lib \<Rightarrow> gcontext \<Rightarrow> json option \<Rightarrow> string list \<Rightarrow> json hmap \<Rightarrow> string + json hmap" where
  "collect_variables J c doc [] vars = Inr vars"
| "collect_variables J c doc (name # names) vars =
     (case first_value (rq_query_params (cx_request c)) name of
        Some v \<Rightarrow> collect_variables J c doc names (hm_insert name (JStr v) vars)
      | None \<Rightarrow>
          if rq_body (cx_request c) = [] then collect_variables J c doc names vars
          else
            (case (case doc of Some d \<Rightarrow> Inr d | None \<Rightarrow> js_parse J (rq_body (cx_request c))) of
               Inl e \<Rightarrow> Inl e
             | Inr d \<Rightarrow>
                 (case json_get d name of
                    Some v \<Rightarrow> collect_variables J c (Some d) names (hm_insert name v vars)
                  | None \<Rightarrow> collect_variables J c (Some d) names vars)))"

definition graphql_body :: "degraphql \<Rightarrow> json hmap option \<Rightarrow> json" where
  "graphql_body p vars =
     JObj ([(''query'', JStr (dg_query p))] @
       (case dg_operation_name p of Some nm \<Rightarrow> [(''operationName'', JStr nm)] | None \<Rightarrow> []) @
       (case vars of Some m \<Rightarrow> [(''variables'', JObj m)] | None \<Rightarrow> []))"

definition set_method :: "string \<Rightarrow> gcontext \<Rightarrow> gcontext" where
  "set_method m c = c\<lparr>cx_request := (cx_request c)\<lparr>rq_method := m\<rparr>\<rparr>"

definition degraphql_exec :: "libs \<Rightarrow> schema_lib \<Rightarrow> degraphql \<Rightarrow> gcontext \<Rightarrow> plugin_result" where
  "degraphql_exec L J p c =
     (let meth = rq_method (cx_request c) in
      if meth \<noteq> ''GET'' \<and> meth \<noteq> ''POST'' then
        dg_fail L c 405 ''METHOD_NOT_ALLOWED'' ''method_not_allowed''
          (''degraphql accepts GET and POST, got '' @ meth)
      else
        (case (if dg_variables p = [] then Inr None
               else map_sum id Some (collect_variables J c None (dg_variables p) [])) of
           Inl e \<Rightarrow>
             dg_fail L c 400 ''INVALID_REQUEST_BODY'' ''invalid_request_body''
               (''request body can't be decoded as JSON: '' @ e)
         | Inr vars \<Rightarrow>
             Inr (rq_remove ''content-encoding'' (rq_remove ''content-length''
               (set_rq_header ''content-type'' [''application/json'']
                 (set_rq_body (json_print L (graphql_body p vars)) (set_method ''POST'' c)))))))"

section \<open>body-transformer\<close>

record body_transformer =
  bt_request :: "string option"
  bt_response :: "string option"

definition open_braces :: string where "open_braces = [CHR 0x7B, CHR 0x7B]"
definition close_braces :: string where "close_braces = [CHR 0x7D, CHR 0x7D]"

lemma braces_not_Nil [simp]: "open_braces \<noteq> []" "close_braces \<noteq> []"
  by (simp_all add: open_braces_def close_braces_def)

function placeholders_closed :: "string \<Rightarrow> bool" where
  "placeholders_closed rest =
     (case split_once_str open_braces rest of
        None \<Rightarrow> True
      | Some (_, after) \<Rightarrow>
          (case split_once_str close_braces after of
             Some (_, rest') \<Rightarrow> placeholders_closed rest'
           | None \<Rightarrow> False))"
  by pat_completeness auto
termination
  by (relation "measure length") (auto dest!: split_once_str_length)

declare placeholders_closed.simps [simp del]

definition parse_transform :: "config \<Rightarrow> string \<Rightarrow> string + string option" where
  "parse_transform c key =
     (case hm_get c key of
        None \<Rightarrow> Inr None
      | Some raw \<Rightarrow>
          res_bind (ok_or (as_object raw) (''body-transformer: '' @ sq key @ '' must be an object'')) (\<lambda>obj.
          res_bind (ok_or (opt_filter (\<lambda>s. s \<noteq> []) (Option.bind (hm_get obj ''template'') as_str))
            (''body-transformer: '' @ sq (key @ ''.template'') @ '' is required'')) (\<lambda>template.
          res_bind (case Option.bind (hm_get obj ''input_format'') as_str of
                      None \<Rightarrow> Inr ()
                    | Some f \<Rightarrow> if f = ''json'' then Inr ()
                        else Inl (''body-transformer: '' @ sq (key @ ''.input_format'') @ '' '' @ sq f @
                          '' is not supported '' @ em_dash @ '' featherbit implements '' @ sq ''json'' @ '' only'')) (\<lambda>_.
          if Option.bind (hm_get obj ''template_is_base64'') as_bool = Some True then
            Inl (''body-transformer: '' @ sq (key @ ''.template_is_base64'') @ '' is not supported '' @ em_dash @
                 '' store the template literally'')
          else if \<not> placeholders_closed template then
            Inl (''body-transformer: '' @ sq (key @ ''.template'') @ '' has an unclosed '' @ sq open_braces @
                 '' placeholder'')
          else Inr (Some template)))))"

definition body_transformer_from_config :: "config \<Rightarrow> string + body_transformer" where
  "body_transformer_from_config c =
     res_bind (parse_transform c ''request'') (\<lambda>req.
     res_bind (parse_transform c ''response'') (\<lambda>rsp.
       if req = None \<and> rsp = None then
         Inl (''body-transformer: at least one of '' @ sq ''request'' @ '' or '' @ sq ''response'' @ '' is required'')
       else Inr \<lparr>bt_request = req, bt_response = rsp\<rparr>))"

fun walk_path :: "json \<Rightarrow> string list \<Rightarrow> json option" where
  "walk_path v [] = Some v"
| "walk_path v (seg # segs) =
     (case path_seg_of seg of
        Index i \<Rightarrow> (case v of JArr xs \<Rightarrow> if i < length xs then walk_path (xs ! i) segs else None | _ \<Rightarrow> None)
      | Key k \<Rightarrow> (case json_get v k of Some x \<Rightarrow> walk_path x segs | None \<Rightarrow> None))"

definition json_path :: "json \<Rightarrow> string \<Rightarrow> json option" where
  "json_path v path = (if path = [] then Some v else walk_path v (split_on CHR ''.'' path))"

fun json_to_template_string :: "libs \<Rightarrow> json \<Rightarrow> string" where
  "json_to_template_string L (JStr s) = s"
| "json_to_template_string L JNull = []"
| "json_to_template_string L (JNum n) = show_num L n"
| "json_to_template_string L (JBool b) = show_bool b"
| "json_to_template_string L v = json_print L v"

text \<open>The text of one placeholder; an unknown one is empty.\<close>

definition placeholder_text :: "libs \<Rightarrow> gcontext \<Rightarrow> json \<Rightarrow> string \<Rightarrow> string" where
  "placeholder_text L c body raw =
     (let expr = trim raw in
      case strip_prefix expr ''$'' of
        Some var \<Rightarrow> unwrap_or [] (resolve L c var)
      | None \<Rightarrow>
          if expr = ''body'' then json_to_template_string L body
          else (case strip_prefix expr ''body.'' of
                  Some path \<Rightarrow>
                    (case json_path body path of Some v \<Rightarrow> json_to_template_string L v | None \<Rightarrow> [])
                | None \<Rightarrow> []))"

function render :: "libs \<Rightarrow> gcontext \<Rightarrow> json \<Rightarrow> string \<Rightarrow> string" where
  "render L c body rest =
     (case split_once_str open_braces rest of
        None \<Rightarrow> interpolate L c rest
      | Some (pre, after) \<Rightarrow>
          interpolate L c pre @
          (case split_once_str close_braces after of
             Some (expr, rest') \<Rightarrow> placeholder_text L c body expr @ render L c body rest'
           | None \<Rightarrow> interpolate L c (open_braces @ after)))"
  by pat_completeness auto
termination
  by (relation "measure (\<lambda>(_, _, _, s). length s)") (auto dest!: split_once_str_length)

declare render.simps [simp del]

definition parse_body :: "schema_lib \<Rightarrow> string \<Rightarrow> string + json" where
  "parse_body J body =
     (if body = [] then Inr JNull else prefix_err ''body is not valid JSON: '' (js_parse J body))"

definition bt_fail :: "libs \<Rightarrow> gcontext \<Rightarrow> nat \<Rightarrow> string \<Rightarrow> plugin_result" where
  "bt_fail L c status detail =
     reject_json c status (json_error L ''body_decode_failed'' detail) ''BODY_DECODE_FAILED'' detail"

definition transform_request :: "libs \<Rightarrow> schema_lib \<Rightarrow> string \<Rightarrow> gcontext \<Rightarrow> plugin_result" where
  "transform_request L J template c =
     (case parse_body J (rq_body (cx_request c)) of
        Inl e \<Rightarrow> bt_fail L c 400 (''request '' @ e)
      | Inr parsed \<Rightarrow>
          Inr (rq_remove ''content-encoding'' (rq_remove ''content-length''
            (set_rq_body (render L c parsed template) c))))"

text \<open>The plain response body: an unknown coding or a bad stream is an error here.\<close>

definition plain_response :: "body_lib \<Rightarrow> gcontext \<Rightarrow> string + string" where
  "plain_response B c =
     (let body = rs_body (cx_response c) in
      case rs_header c ''content-encoding'' of
        None \<Rightarrow> Inr body
      | Some v \<Rightarrow>
          res_bind (parse_encoding v) (\<lambda>enc.
            case enc of None \<Rightarrow> Inr body | Some e \<Rightarrow> codec_decode B e body))"

definition transform_response ::
  "libs \<Rightarrow> body_lib \<Rightarrow> schema_lib \<Rightarrow> string \<Rightarrow> gcontext \<Rightarrow> plugin_result" where
  "transform_response L B J template c =
     (case res_bind (plain_response B c) (parse_body J) of
        Inl e \<Rightarrow> bt_fail L c 502 (''response '' @ e)
      | Inr parsed \<Rightarrow>
          Inr (rs_remove ''content-encoding'' (rs_remove ''content-length''
            (set_body (render L c parsed template) c))))"

definition body_transformer_exec ::
  "libs \<Rightarrow> body_lib \<Rightarrow> schema_lib \<Rightarrow> body_transformer \<Rightarrow> gcontext \<Rightarrow> plugin_result" where
  "body_transformer_exec L B J p c =
     (case (case bt_request p of Some t \<Rightarrow> transform_request L J t c | None \<Rightarrow> Inr c) of
        Inl r \<Rightarrow> Inl r
      | Inr c1 \<Rightarrow>
          (case bt_response p of Some t \<Rightarrow> transform_response L B J t c1 | None \<Rightarrow> Inr c1))"

section \<open>oas-validator\<close>

datatype segment = Literal string | Param

record compiled_op =
  co_method :: string
  co_segments :: "segment list"
  co_literal_count :: nat
  co_required_query :: "string list"
  co_required_headers :: "string list"
  co_body_schema :: "json option"
  co_body_required :: bool

record oas_validator =
  ov_operations :: "compiled_op list"
  ov_rejected_code :: nat
  ov_rejected_msg :: "string option"

text \<open>JSON pointers as \<open>serde_json::Value::pointer\<close> reads them.\<close>

definition pointer_index :: "string \<Rightarrow> nat option" where
  "pointer_index s =
     (if starts_with s ''+'' \<or> (starts_with s ''0'' \<and> length s \<noteq> 1) then None else parse_uint usize_max s)"

fun pointer_walk :: "json \<Rightarrow> string list \<Rightarrow> json option" where
  "pointer_walk v [] = Some v"
| "pointer_walk (JObj m) (t # ts) = (case hm_get m t of Some x \<Rightarrow> pointer_walk x ts | None \<Rightarrow> None)"
| "pointer_walk (JArr xs) (t # ts) =
     (case pointer_index t of
        Some i \<Rightarrow> if i < length xs then pointer_walk (xs ! i) ts else None
      | None \<Rightarrow> None)"
| "pointer_walk _ (t # ts) = None"

definition json_pointer :: "json \<Rightarrow> string \<Rightarrow> json option" where
  "json_pointer v p =
     (if p = [] then Some v
      else if \<not> starts_with p ''/'' then None
      else pointer_walk v (map (\<lambda>t. replace_sub ''~0'' ''~'' (replace_sub ''~1'' ''/'' t))
             (tl (split_on CHR ''/'' p))))"

definition resolve_ref :: "json \<Rightarrow> string \<Rightarrow> json option" where
  "resolve_ref root ref = (case strip_prefix ref ''#'' of Some p \<Rightarrow> json_pointer root p | None \<Rightarrow> None)"

definition path_parts :: "string \<Rightarrow> string list" where
  "path_parts path = filter (\<lambda>s. s \<noteq> []) (split_on CHR ''/'' path)"

definition template_segment :: "string \<Rightarrow> segment" where
  "template_segment part =
     (if starts_with part [CHR 0x7B] \<and> ends_with part [CHR 0x7D] then Param else Literal part)"

definition parse_template :: "string \<Rightarrow> segment list \<times> nat" where
  "parse_template path =
     (let segs = map template_segment (path_parts path)
      in (segs, length (filter (\<lambda>s. s \<noteq> Param) segs)))"

fun segment_matches :: "segment \<Rightarrow> string \<Rightarrow> bool" where
  "segment_matches Param part = (part \<noteq> [])"
| "segment_matches (Literal l) part = (l = part)"

definition path_matches :: "segment list \<Rightarrow> string \<Rightarrow> bool" where
  "path_matches segs path \<longleftrightarrow> list_all2 segment_matches segs (path_parts path)"

text \<open>One parameter of an operation: what it adds to the required queries and headers.\<close>

definition required_param ::
  "libs \<Rightarrow> json \<Rightarrow> json \<Rightarrow> string list \<times> string list \<Rightarrow> string + string list \<times> string list" where
  "required_param L spec raw acc =
     res_bind (case Option.bind (json_get raw ''$ref'') as_str of
                 None \<Rightarrow> Inr raw
               | Some r \<Rightarrow> ok_or (resolve_ref spec r) (''oas-validator: unresolved parameter $ref '' @ sq r)) (\<lambda>param.
       Inr (if unwrap_or False (Option.bind (json_get param ''required'') as_bool) then
              (case Option.bind (json_get param ''name'') as_str of
                 None \<Rightarrow> acc
               | Some name \<Rightarrow>
                   (case acc of (qs, hs) \<Rightarrow>
                      (let loc = Option.bind (json_get param ''in'') as_str in
                       if loc = Some ''query'' then (qs @ [name], hs)
                       else if loc = Some ''header'' then (qs, hs @ [to_lowercase L name])
                       else (qs, hs))))
            else acc))"

definition required_list ::
  "libs \<Rightarrow> json \<Rightarrow> json option \<Rightarrow> string list \<times> string list \<Rightarrow> string + string list \<times> string list" where
  "required_list L spec l acc =
     (case l of
        None \<Rightarrow> Inr acc
      | Some v \<Rightarrow>
          res_bind (ok_or (as_array v) (''oas-validator: '' @ sq ''parameters'' @ '' must be an array''))
            (\<lambda>arr. fold_res (required_param L spec) arr acc))"

definition collect_required_params :: "libs \<Rightarrow> json \<Rightarrow> json \<Rightarrow> json \<Rightarrow> string + string list \<times> string list" where
  "collect_required_params L spec path_item operation =
     res_bind (required_list L spec (json_get path_item ''parameters'') ([], []))
       (required_list L spec (json_get operation ''parameters''))"

definition compile_body_schema ::
  "schema_lib \<Rightarrow> json \<Rightarrow> json \<Rightarrow> string \<Rightarrow> string \<Rightarrow> string + json option \<times> bool" where
  "compile_body_schema J spec operation meth template =
     (case json_get operation ''requestBody'' of
        None \<Rightarrow> Inr (None, False)
      | Some rb0 \<Rightarrow>
          res_bind (case Option.bind (json_get rb0 ''$ref'') as_str of
                      None \<Rightarrow> Inr rb0
                    | Some r \<Rightarrow> ok_or (resolve_ref spec r) (''oas-validator: unresolved requestBody $ref '' @ sq r))
            (\<lambda>rb.
             let required = unwrap_or False (Option.bind (json_get rb ''required'') as_bool) in
             case Option.bind (Option.bind (json_get rb ''content'') (\<lambda>v. json_get v ''application/json''))
                    (\<lambda>v. json_get v ''schema'') of
               None \<Rightarrow> Inr (None, required)
             | Some schema \<Rightarrow>
                 (case schema of
                    JObj m \<Rightarrow>
                      (let root = JObj (case json_get spec ''components'' of
                                          Some comps \<Rightarrow>
                                            if hm_has m ''components'' then m else hm_insert ''components'' comps m
                                        | None \<Rightarrow> m)
                       in case sc_error J root of
                            Some e \<Rightarrow> Inl (''oas-validator: invalid requestBody schema for '' @ meth @ '' '' @
                                           template @ '': '' @ e)
                          | None \<Rightarrow> Inr (Some root, required))
                  | _ \<Rightarrow> Inl (''oas-validator: '' @ meth @ '' '' @ template @
                              '' requestBody schema must be an object''))))"

definition http_methods :: "string list" where
  "http_methods = [''get'', ''put'', ''post'', ''delete'', ''options'', ''head'', ''patch'', ''trace'']"

definition compile_op ::
  "libs \<Rightarrow> schema_lib \<Rightarrow> json \<Rightarrow> string \<Rightarrow> json \<Rightarrow> string \<Rightarrow> string + compiled_op list" where
  "compile_op L J spec template path_item meth =
     (case json_get path_item meth of
        None \<Rightarrow> Inr []
      | Some operation \<Rightarrow>
          if as_object operation = None then
            Inl (''oas-validator: operation '' @ sq (meth @ '' '' @ template) @ '' must be an object'')
          else
          res_bind (collect_required_params L spec path_item operation) (\<lambda>(qs, hs).
          res_bind (compile_body_schema J spec operation meth template) (\<lambda>(schema, required).
            let (segs, literals) = parse_template template in
            Inr [\<lparr>co_method = to_uppercase L meth, co_segments = segs, co_literal_count = literals,
                  co_required_query = qs, co_required_headers = hs, co_body_schema = schema,
                  co_body_required = required\<rparr>])))"

definition compile_path :: "libs \<Rightarrow> schema_lib \<Rightarrow> json \<Rightarrow> string \<times> json \<Rightarrow> string + compiled_op list" where
  "compile_path L J spec tp =
     (case tp of (template, item) \<Rightarrow>
        if as_object item = None then Inl (''oas-validator: path item '' @ sq template @ '' must be an object'')
        else res_bind (traverse (compile_op L J spec template item) http_methods) (\<lambda>ops. Inr (concat ops)))"

definition oas_validator_from_config :: "libs \<Rightarrow> schema_lib \<Rightarrow> config \<Rightarrow> string + oas_validator" where
  "oas_validator_from_config L J c =
     res_bind (ok_or (hm_get c ''spec'')
       (''oas-validator: '' @ sq ''spec'' @ '' (inline OpenAPI JSON object) is required'')) (\<lambda>spec.
     if as_object spec = None then Inl (''oas-validator: '' @ sq ''spec'' @ '' must be a JSON object'')
     else
     res_bind (ok_or (Option.bind (json_get spec ''paths'') as_object)
       (''oas-validator: spec is missing a '' @ sq ''paths'' @ '' object'')) (\<lambda>paths.
     res_bind (traverse (compile_path L J spec) paths) (\<lambda>ops.
     res_bind (opt_field c ''rejected_code'' (\<lambda>v. opt_filter (\<lambda>n. 400 \<le> n \<and> n \<le> 599) (as_u64 v))
       (''oas-validator: '' @ sq ''rejected_code'' @ '' must be an integer in 400..=599'') 400) (\<lambda>code.
       Inr \<lparr>ov_operations = concat ops, ov_rejected_code = as_u16 code,
            ov_rejected_msg = cfg_str c ''rejected_msg''\<rparr>))))"

text \<open>\<open>max_by_key\<close>: the last of the operations with the most literal segments.\<close>

definition most_literal :: "compiled_op list \<Rightarrow> compiled_op option" where
  "most_literal ops =
     fold (\<lambda>op best. case best of
         None \<Rightarrow> Some op
       | Some b \<Rightarrow> if co_literal_count b \<le> co_literal_count op then Some op else Some b) ops None"

definition match_operation :: "oas_validator \<Rightarrow> string \<Rightarrow> string \<Rightarrow> compiled_op option" where
  "match_operation p meth path =
     most_literal (filter (\<lambda>op. co_method op = meth \<and> path_matches (co_segments op) path) (ov_operations p))"

definition ov_reject :: "libs \<Rightarrow> oas_validator \<Rightarrow> gcontext \<Rightarrow> string \<Rightarrow> plugin_result" where
  "ov_reject L p c detail =
     (let msg = unwrap_or detail (ov_rejected_msg p) in
      reject_json c (ov_rejected_code p) (json_error L ''oas_validation_failed'' msg) ''OAS_VALIDATION_FAILED'' msg)"

definition check_operation ::
  "libs \<Rightarrow> schema_lib \<Rightarrow> oas_validator \<Rightarrow> compiled_op \<Rightarrow> gcontext \<Rightarrow> plugin_result" where
  "check_operation L J p op c =
     (let req = cx_request c; body = rq_body req in
      case find (\<lambda>q. \<not> hm_has (rq_query_params req) q) (co_required_query op) of
        Some q \<Rightarrow> ov_reject L p c (''missing required query parameter '' @ sq q)
      | None \<Rightarrow>
      (case find (\<lambda>h. \<not> hm_has (rq_headers req) h) (co_required_headers op) of
        Some h \<Rightarrow> ov_reject L p c (''missing required header '' @ sq h)
      | None \<Rightarrow>
        if co_body_required op \<and> body = [] then ov_reject L p c ''request body is required''
        else
        (case co_body_schema op of
           None \<Rightarrow> Inr c
         | Some schema \<Rightarrow>
             if body = [] \<or> \<not> content_type_starts L ''application/json'' True c then Inr c
             else (case js_parse J body of
                     Inl e \<Rightarrow> ov_reject L p c (''failed to decode the request body: '' @ e)
                   | Inr parsed \<Rightarrow>
                       (case sc_check J schema parsed of
                          Some e \<Rightarrow> ov_reject L p c (''body validation failed: '' @ e)
                        | None \<Rightarrow> Inr c)))))"

definition oas_validator_exec :: "libs \<Rightarrow> schema_lib \<Rightarrow> oas_validator \<Rightarrow> gcontext \<Rightarrow> plugin_result" where
  "oas_validator_exec L J p c =
     (case match_operation p (rq_method (cx_request c)) (rq_path (cx_request c)) of
        None \<Rightarrow> Inr c
      | Some op \<Rightarrow> check_operation L J p op c)"

section \<open>Contracts\<close>

lemma rq_ops_errors [simp]:
  "cx_errors (rq_remove k c) = cx_errors c" "cx_errors (set_rq_body b c) = cx_errors c"
  "cx_errors (set_method m c) = cx_errors c"
  by (simp_all add: rq_remove_def set_rq_body_def set_method_def)

lemma apply_mask_rule_errors: "cx_errors (fst (apply_mask_rule L B J mx r st)) = cx_errors (fst st)"
  by (auto simp: apply_mask_rule_def Let_def split: prod.splits mask_target.splits option.splits sum.splits)

lemma apply_mask_rules_errors:
  "cx_errors (fst (fold (apply_mask_rule L B J mx) rs st)) = cx_errors (fst st)"
  by (induction rs arbitrary: st) (simp_all add: apply_mask_rule_errors)

lemma data_mask_rewriter: "rewriter (data_mask_exec L B J p)"
  unfolding rewriter_def
proof
  fix c
  obtain c' doc m where f: "fold (apply_mask_rule L B J (dm_max_body_size p)) (dm_rules p) (c, None, False) = (c', doc, m)"
    by (metis prod_cases3)
  then have "cx_errors c' = cx_errors c"
    using apply_mask_rules_errors [of L B J "dm_max_body_size p" "dm_rules p" "(c, None, False)"] by simp
  with f show "\<exists>c'. data_mask_exec L B J p c = Inr c' \<and> cx_errors c' = cx_errors c"
    by (auto simp: data_mask_exec_def split: option.splits)
qed

interpretation data_mask_node: rewriter_contract "pure_exec (data_mask_exec L B J p)" for L B J p
  by (rule rewriter_rule [OF data_mask_rewriter])

lemma reject_errors [simp]: "cx_errors (result_ctx (reject_json c st b cd m)) = cx_errors c"
  by (simp add: reject_json_def)

interpretation request_validation_node: plugin_contract "pure_exec (request_validation_exec L J p)" for L J p
  by unfold_locales
    (auto simp: request_validation_exec_def validate_body_def rv_reject_def Let_def
      split: option.splits sum.splits)

interpretation degraphql_node: plugin_contract "pure_exec (degraphql_exec L J p)" for L J p
  by unfold_locales (auto simp: degraphql_exec_def dg_fail_def Let_def split: sum.splits)

lemma transform_errors:
  "cx_errors (result_ctx (transform_request L J t c)) = cx_errors c"
  "cx_errors (result_ctx (transform_response L B J t c)) = cx_errors c"
  by (auto simp: transform_request_def transform_response_def bt_fail_def split: sum.splits)

interpretation body_transformer_node: plugin_contract "pure_exec (body_transformer_exec L B J p)" for L B J p
proof
  fix c and w :: 'x
  show "cx_errors (result_ctx (fst (pure_exec (body_transformer_exec L B J p) c w))) = cx_errors c"
    using transform_errors(1) [of L J _ c] transform_errors(2) [of L B J]
    by (auto simp: body_transformer_exec_def split: option.splits sum.splits)
      (metis result_ctx_simps)+
qed

lemma ov_reject_gate: "ov_reject L p c d = Inl (c', e) \<Longrightarrow>
     cx_request c' = cx_request c \<and> cx_message c' = cx_message c \<and> cx_errors c' = cx_errors c"
  by (auto simp: ov_reject_def Let_def dest!: reject_json_keeps)

interpretation oas_validator_node: gate_contract "pure_exec (oas_validator_exec L J p)" for L J p
proof
  show "c' = c" if "fst (pure_exec (oas_validator_exec L J p) c w) = Inr c'" for c w c'
    using that
    by (auto simp: oas_validator_exec_def check_operation_def ov_reject_def Let_def
        split: option.splits sum.splits if_splits)
  show "cx_request c' = cx_request c \<and> cx_message c' = cx_message c \<and> cx_errors c' = cx_errors c"
    if "fst (pure_exec (oas_validator_exec L J p) c w) = Inl (c', e)" for c w c' e
    using that
    by (auto simp: oas_validator_exec_def check_operation_def Let_def ov_reject_gate
        split: option.splits sum.splits if_splits)
qed

section \<open>What data-mask hides\<close>

text \<open>Two maps with the same keys whose values differ at most under the keys in \<open>K\<close>.\<close>

definition agree :: "string set \<Rightarrow> string list hmap \<Rightarrow> string list hmap \<Rightarrow> bool" where
  "agree K m1 m2 \<longleftrightarrow> list_all2 (\<lambda>a b. fst a = fst b \<and> (fst a \<in> K \<or> snd a = snd b)) m1 m2"

definition overwrites :: "mask_action \<Rightarrow> bool" where
  "overwrites a \<longleftrightarrow> (case a of MRegex _ _ \<Rightarrow> False | _ \<Rightarrow> True)"

definition masked_queries :: "mask_rule list \<Rightarrow> string set" where
  "masked_queries rs = {mr_name r | r. r \<in> set rs \<and> mr_target r = MQuery \<and> overwrites (mr_action r)}"

definition masked_headers :: "libs \<Rightarrow> mask_rule list \<Rightarrow> string set" where
  "masked_headers L rs =
     {to_lowercase L (mr_name r) | r. r \<in> set rs \<and> mr_target r = MHeader \<and> overwrites (mr_action r)}"

lemma agree_empty: "agree {} m1 m2 \<Longrightarrow> m1 = m2"
  unfolding agree_def
proof (induction m1 m2 rule: list_all2_induct)
  case (Cons x xs y ys)
  then show ?case by (simp add: prod_eq_iff)
qed simp

lemma agree_get:
  "agree K m1 m2 \<Longrightarrow> (hm_get m1 k = None \<longleftrightarrow> hm_get m2 k = None) \<and> (k \<notin> K \<longrightarrow> hm_get m1 k = hm_get m2 k)"
  unfolding agree_def by (induction m1 m2 rule: list_all2_induct) (auto simp: hm_get_def split: if_splits)

lemma agree_remove: "agree K m1 m2 \<Longrightarrow> agree (K - {k}) (hm_remove k m1) (hm_remove k m2)"
  unfolding agree_def hm_remove_def AList.delete_eq
  by (induction m1 m2 rule: list_all2_induct) auto

lemma agree_mono: "agree K m1 m2 \<Longrightarrow> K \<subseteq> K' \<Longrightarrow> agree K' m1 m2"
  unfolding agree_def by (auto elim!: list_all2_mono)

lemma agree_without:
  "agree K m1 m2 \<Longrightarrow> k \<notin> fst ` set m1 \<Longrightarrow> agree (K - {k}) m1 m2"
  unfolding agree_def by (induction m1 m2 rule: list_all2_induct) auto

lemma agree_insert: "agree K m1 m2 \<Longrightarrow> hm_ok m1 \<Longrightarrow> agree (K - {k}) (hm_insert k v m1) (hm_insert k v m2)"
  unfolding hm_insert_def hm_ok_def
proof (induction m1 arbitrary: m2)
  case Nil
  then show ?case by (simp add: agree_def)
next
  case (Cons x m1)
  obtain y m2' where m2: "m2 = y # m2'" and xy: "fst x = fst y" "fst x \<in> K \<or> snd x = snd y"
    and a: "agree K m1 m2'"
    using Cons.prems(1) by (auto simp: agree_def list_all2_Cons1)
  show ?case
  proof (cases "fst x = k")
    case True
    then have "agree (K - {k}) m1 m2'" using agree_without [OF a, of k] Cons.prems(2) by auto
    then show ?thesis using True xy m2 by (cases x; cases y) (simp add: agree_def)
  next
    case False
    then show ?thesis using Cons.IH [OF a] Cons.prems(2) xy m2 by (cases x; cases y) (auto simp: agree_def)
  qed
qed

lemma agree_multimap:
  assumes "agree K m1 m2" and "hm_ok m1"
  shows "agree (if overwrites a then K - {k} else K) (apply_to_multimap L B k a m1) (apply_to_multimap L B k a m2)"
proof -
  have same: "hm_get m1 k = None \<longleftrightarrow> hm_get m2 k = None" "k \<notin> K \<Longrightarrow> hm_get m1 k = hm_get m2 k"
    using agree_get [OF assms(1)] by auto
  show ?thesis
  proof (cases "hm_get m1 k")
    case None
    then have "k \<notin> fst ` set m1" by (simp add: hm_get_def map_of_eq_None_iff)
    then show ?thesis
      using None same assms(1) agree_without [OF assms(1)] by (simp add: apply_to_multimap_def)
  next
    case (Some vs)
    then obtain vs2 where vs2: "hm_get m2 k = Some vs2" using same by auto
    show ?thesis
    proof (cases a)
      case MRemove
      then show ?thesis using Some vs2 agree_remove [OF assms(1)] by (simp add: apply_to_multimap_def overwrites_def)
    next
      case (MReplace x)
      then show ?thesis
        using Some vs2 agree_insert [OF assms] by (simp add: apply_to_multimap_def overwrites_def)
    next
      case (MRegex re x)
      have "agree K (hm_insert k u m1) (hm_insert k u' m2)" if "k \<in> K \<or> u = u'" for u u'
        using assms(1) that unfolding agree_def hm_insert_def
        by (induction m1 m2 rule: list_all2_induct) auto
      then show ?thesis using MRegex Some vs2 same by (auto simp: apply_to_multimap_def overwrites_def)
    qed
  qed
qed

lemma apply_to_multimap_ok: "hm_ok m \<Longrightarrow> hm_ok (apply_to_multimap L B k a m)"
  by (simp add: apply_to_multimap_def split: option.splits mask_action.splits)

text \<open>Two contexts that differ at most under the given query and header names.\<close>

definition same_but :: "string set \<Rightarrow> string set \<Rightarrow> gcontext \<Rightarrow> gcontext \<Rightarrow> bool" where
  "same_but Q H c1 c2 \<longleftrightarrow>
     hm_ok (rq_query_params (cx_request c1)) \<and> hm_ok (rq_headers (cx_request c1)) \<and>
     agree Q (rq_query_params (cx_request c1)) (rq_query_params (cx_request c2)) \<and>
     agree H (rq_headers (cx_request c1)) (rq_headers (cx_request c2)) \<and>
     c2 = c1\<lparr>cx_request := (cx_request c1)\<lparr>rq_query_params := rq_query_params (cx_request c2),
        rq_headers := rq_headers (cx_request c2)\<rparr>\<rparr>"

lemma same_but_body: "same_but Q H c1 c2 \<Longrightarrow> rq_body (cx_request c2) = rq_body (cx_request c1)"
  unfolding same_but_def by (metis gateway_request.select_convs(7) gateway_request.surjective
      gateway_request.update_convs(5,6) gcontext.select_convs(1) gcontext.surjective gcontext.update_convs(1))

lemma same_but_query:
  assumes "same_but Q H c1 c2"
    and "hm_ok m1" and "agree Q' m1 m2"
  shows "same_but Q' H (c1\<lparr>cx_request := (cx_request c1)\<lparr>rq_query_params := m1\<rparr>\<rparr>)
     (c2\<lparr>cx_request := (cx_request c2)\<lparr>rq_query_params := m2\<rparr>\<rparr>)"
proof -
  obtain q h where "c2 = c1\<lparr>cx_request := (cx_request c1)\<lparr>rq_query_params := q, rq_headers := h\<rparr>\<rparr>"
    using assms(1) unfolding same_but_def by blast
  then show ?thesis using assms by (simp add: same_but_def)
qed

lemma same_but_header:
  assumes "same_but Q H c1 c2"
    and "hm_ok m1" and "agree H' m1 m2"
  shows "same_but Q H' (c1\<lparr>cx_request := (cx_request c1)\<lparr>rq_headers := m1\<rparr>\<rparr>)
     (c2\<lparr>cx_request := (cx_request c2)\<lparr>rq_headers := m2\<rparr>\<rparr>)"
proof -
  obtain q h where "c2 = c1\<lparr>cx_request := (cx_request c1)\<lparr>rq_query_params := q, rq_headers := h\<rparr>\<rparr>"
    using assms(1) unfolding same_but_def by blast
  then show ?thesis using assms by (simp add: same_but_def)
qed

lemma mask_rule_step:
  assumes "same_but Q H c1 c2" and "apply_mask_rule L B J mx r (c1, doc, b) = (c1', doc1, b1)"
  shows "\<exists>c2'. apply_mask_rule L B J mx r (c2, doc, b) = (c2', doc1, b1) \<and>
     same_but (Q - masked_queries [r]) (H - masked_headers L [r]) c1' c2'"
proof -
  have ok: "hm_ok (rq_query_params (cx_request c1))" "hm_ok (rq_headers (cx_request c1))"
    "agree Q (rq_query_params (cx_request c1)) (rq_query_params (cx_request c2))"
    "agree H (rq_headers (cx_request c1)) (rq_headers (cx_request c2))"
    using assms(1) by (auto simp: same_but_def)
  show ?thesis
  proof (cases "mr_target r")
    case MQuery
    let ?f = "apply_to_multimap L B (mr_name r) (mr_action r)"
    have "Q - masked_queries [r] = (if overwrites (mr_action r) then Q - {mr_name r} else Q)"
      "H - masked_headers L [r] = H"
      using MQuery by (auto simp: masked_queries_def masked_headers_def)
    moreover have "same_but (if overwrites (mr_action r) then Q - {mr_name r} else Q) H
        (c1\<lparr>cx_request := (cx_request c1)\<lparr>rq_query_params := ?f (rq_query_params (cx_request c1))\<rparr>\<rparr>)
        (c2\<lparr>cx_request := (cx_request c2)\<lparr>rq_query_params := ?f (rq_query_params (cx_request c2))\<rparr>\<rparr>)"
      by (rule same_but_query [OF assms(1) apply_to_multimap_ok [OF ok(1)] agree_multimap [OF ok(3,1)]])
    ultimately show ?thesis using MQuery assms(2) by (auto simp: apply_mask_rule_def)
  next
    case MHeader
    let ?f = "apply_to_multimap L B (to_lowercase L (mr_name r)) (mr_action r)"
    have "H - masked_headers L [r] =
        (if overwrites (mr_action r) then H - {to_lowercase L (mr_name r)} else H)"
      "Q - masked_queries [r] = Q"
      using MHeader by (auto simp: masked_queries_def masked_headers_def)
    moreover have "same_but Q (if overwrites (mr_action r) then H - {to_lowercase L (mr_name r)} else H)
        (c1\<lparr>cx_request := (cx_request c1)\<lparr>rq_headers := ?f (rq_headers (cx_request c1))\<rparr>\<rparr>)
        (c2\<lparr>cx_request := (cx_request c2)\<lparr>rq_headers := ?f (rq_headers (cx_request c2))\<rparr>\<rparr>)"
      by (rule same_but_header [OF assms(1) apply_to_multimap_ok [OF ok(2)] agree_multimap [OF ok(4,2)]])
    ultimately show ?thesis using MHeader assms(2) by (auto simp: apply_mask_rule_def)
  next
    case MBody
    have "Q - masked_queries [r] = Q" "H - masked_headers L [r] = H"
      using MBody by (auto simp: masked_queries_def masked_headers_def)
    then show ?thesis
      using MBody assms same_but_body [OF assms(1)]
      by (auto simp: apply_mask_rule_def Let_def split: option.splits sum.splits if_splits)
  qed
qed

lemma masked_Cons:
  "masked_queries (r # rs) = masked_queries [r] \<union> masked_queries rs"
  "masked_headers L (r # rs) = masked_headers L [r] \<union> masked_headers L rs"
  by (auto simp: masked_queries_def masked_headers_def)

lemma mask_rules_run:
  assumes "same_but Q H c1 c2" and "Q \<subseteq> masked_queries rs" and "H \<subseteq> masked_headers L rs"
  shows "fold (apply_mask_rule L B J mx) rs (c1, doc, b) = fold (apply_mask_rule L B J mx) rs (c2, doc, b)"
  using assms
proof (induction rs arbitrary: c1 c2 Q H doc b)
  case Nil
  then have "Q = {}" "H = {}" by (auto simp: masked_queries_def masked_headers_def)
  with Nil(1) have "rq_query_params (cx_request c2) = rq_query_params (cx_request c1)"
    "rq_headers (cx_request c2) = rq_headers (cx_request c1)"
    by (auto simp: same_but_def dest!: agree_empty)
  with Nil(1) have "c1 = c2" by (simp add: same_but_def)
  then show ?case by simp
next
  case (Cons r rs)
  obtain c1' doc1 b1 where s: "apply_mask_rule L B J mx r (c1, doc, b) = (c1', doc1, b1)"
    by (metis prod_cases3)
  obtain c2' where s2: "apply_mask_rule L B J mx r (c2, doc, b) = (c2', doc1, b1)"
    and n: "same_but (Q - masked_queries [r]) (H - masked_headers L [r]) c1' c2'"
    using mask_rule_step [OF Cons.prems(1) s] by blast
  have "Q - masked_queries [r] \<subseteq> masked_queries rs" "H - masked_headers L [r] \<subseteq> masked_headers L rs"
    using Cons.prems(2,3) unfolding masked_Cons(1) [of r rs] masked_Cons(2) [of L r rs] by auto
  from Cons.IH [OF n this] show ?case by (simp add: s s2)
qed

text \<open>
  C21: What data-mask hides does not flow on. Two requests with the same parameter and header
  names whose values differ only under names that some rule removes or replaces leave the node as
  one and the same context, body rules and regular expressions included, so nothing after the
  node (an upstream, a log, a trace) can tell them apart.
\<close>

theorem masked_values_do_not_flow:
  assumes "same_but (masked_queries (dm_rules p)) (masked_headers L (dm_rules p)) c1 c2"
  shows "data_mask_exec L B J p c1 = data_mask_exec L B J p c2"
  using mask_rules_run [OF assms subset_refl subset_refl] by (simp add: data_mask_exec_def)

definition demo_mask :: data_mask where
  "demo_mask = \<lparr>dm_rules = [\<lparr>mr_target = MHeader, mr_name = ''X-Key'', mr_segs = [], mr_action = MReplace ''***''\<rparr>],
     dm_max_body_size = 10\<rparr>"

definition demo_secret :: "string \<Rightarrow> gcontext" where
  "demo_secret k = new_context \<lparr>rq_method = ''GET'', rq_path = ''/'', rq_host = ''h'', rq_scheme = ''http'',
     rq_headers = [(''x-key'', [k])], rq_query_params = [], rq_body = [], rq_remote_addr = [], rq_protocol = Http1\<rparr>"

definition demo_schemas :: schema_lib where
  "demo_schemas = \<lparr>js_parse = (\<lambda>_. Inl ''no JSON''), sc_error = (\<lambda>_. None), sc_check = (\<lambda>_ _. None)\<rparr>"

theorem masked_values_do_not_flow_witness:
  "data_mask_exec plain_libs demo_codec demo_schemas demo_mask (demo_secret ''a'') =
     data_mask_exec plain_libs demo_codec demo_schemas demo_mask (demo_secret ''b'')
     \<and> demo_secret ''a'' \<noteq> demo_secret ''b''"
proof -
  have "is_ascii ''X-Key''" "to_ascii_lowercase ''X-Key'' = ''x-key''" by code_simp+
  then have "to_lowercase plain_libs ''X-Key'' = ''x-key''" by (simp add: to_lowercase_ascii)
  then have "''x-key'' \<in> masked_headers plain_libs (dm_rules demo_mask)"
    by (simp add: masked_headers_def demo_mask_def overwrites_def)
  then have "same_but (masked_queries (dm_rules demo_mask)) (masked_headers plain_libs (dm_rules demo_mask))
      (demo_secret ''a'') (demo_secret ''b'')"
    by (simp add: same_but_def demo_secret_def new_context_def agree_def hm_ok_def)
  moreover have "demo_secret ''a'' \<noteq> demo_secret ''b''" by (simp add: demo_secret_def new_context_def)
  ultimately show ?thesis by (intro conjI masked_values_do_not_flow)
qed

end
