(* ===== verification/Plugin_Flow.thy ===== *)
theory Plugin_Flow
  imports Plugin_Traffic Plugin_Response Plugin_Upstream
begin

text \<open>
  Plugins that decide whether and where a request goes on (src/src/plugins/native/): workflow,
  the token-bucket rate-limit and proxy-mirror. The float arithmetic of the bucket is the
  hardware's: \<open>float_ops\<close>; comparisons are computed on the bits.
\<close>

section \<open>workflow\<close>

record 's wf_limit =
  wl_count :: nat
  wl_time_window :: nat
  wl_key_template :: string
  wl_rejected_code :: nat
  wl_rejected_msg :: "string option"
  wl_counter_prefix :: string
  wl_store :: "'s counter_incr"

datatype 's wf_action = WReturn nat | WLimitCount "'s wf_limit"

record 's wf_rule =
  wr_case :: "node option"
  wr_action :: "'s wf_action"

definition rule_label :: "nat \<Rightarrow> string" where
  "rule_label i = ''rules['' @ show_nat i @ '']''"

text \<open>Optional action parameters with their own message.\<close>

definition opt_param :: "json hmap \<Rightarrow> string \<Rightarrow> (json \<Rightarrow> 'a option) \<Rightarrow> string \<Rightarrow> string + 'a option" where
  "opt_param ps k f err = optional (\<lambda>v. ok_or (f v) err) (hm_get ps k)"

text \<open>The window stays a float until the conversion that may panic.\<close>

definition wf_limit_from ::
  "libs \<Rightarrow> 's counter_incr hmap \<Rightarrow> nat \<Rightarrow> nat \<Rightarrow> json hmap \<Rightarrow> string + f64 \<times> 's wf_limit" where
  "wf_limit_from L stores inst i ps =
     res_bind (ok_or (opt_filter (\<lambda>n. 0 < n) (Option.bind (hm_get ps ''count'') as_u64))
       (rule_label i @ '': '' @ sq ''limit-count'' @ '' requires '' @ sq ''count'' @ '' (integer > 0)'')) (\<lambda>cnt.
     res_bind (ok_or (opt_filter (\<lambda>w. f64_lt 0 w \<and> f64_is_finite w) (Option.bind (hm_get ps ''time_window'') (as_f64 L)))
       (rule_label i @ '': '' @ sq ''limit-count'' @ '' requires '' @ sq ''time_window'' @ '' (seconds > 0)'')) (\<lambda>tw.
     res_bind (opt_param ps ''key'' as_str (rule_label i @ '': '' @ sq ''key'' @ '' must be a string'')) (\<lambda>key.
     res_bind (opt_param ps ''rejected_code'' (\<lambda>v. opt_filter (\<lambda>n. 200 \<le> n \<and> n \<le> 599) (as_u64 v))
       (rule_label i @ '': '' @ sq ''rejected_code'' @ '' must be an integer 200-599'')) (\<lambda>code.
     res_bind (opt_param ps ''rejected_msg'' as_str
       (rule_label i @ '': '' @ sq ''rejected_msg'' @ '' must be a string'')) (\<lambda>msg.
     res_bind (get_store stores (unwrap_or ''local'' (Option.bind (hm_get ps ''policy'') as_str))) (\<lambda>store.
       Inr (tw, \<lparr>wl_count = cnt, wl_time_window = 0, wl_key_template = unwrap_or ''$remote_addr'' key,
                 wl_rejected_code = as_u16 (unwrap_or 503 code), wl_rejected_msg = msg,
                 wl_counter_prefix = ''workflow:'' @ show_nat inst @ '':'' @ show_nat i,
                 wl_store = store\<rparr>)))))))"

text \<open>The first action of a rule: its name and its parameters.\<close>

definition wf_first_action :: "nat \<Rightarrow> json hmap \<Rightarrow> string + string \<times> json hmap" where
  "wf_first_action i obj =
     res_bind (ok_or (opt_filter (\<lambda>a. a \<noteq> []) (Option.bind (hm_get obj ''actions'') as_array))
       (rule_label i @ '' requires a non-empty '' @ sq ''actions'' @ '' array'')) (\<lambda>actions.
     res_bind (ok_or (opt_filter (\<lambda>a. a \<noteq> []) (as_array (hd actions)))
       (rule_label i @ ''.actions[0] must be a non-empty array'')) (\<lambda>arr.
     res_bind (ok_or (as_str (hd arr)) (rule_label i @ '': action name must be a string'')) (\<lambda>name.
     res_bind (case tl arr of
                 [] \<Rightarrow> Inr []
               | v # _ \<Rightarrow> ok_or (as_object v)
                   (rule_label i @ '': '' @ sq name @ '' action params must be an object'')) (\<lambda>ps.
       Inr (name, ps)))))"

text \<open>A rule, or \<open>None\<close> where converting its window panics.\<close>

definition wf_rule_from ::
  "libs \<Rightarrow> 's counter_incr hmap \<Rightarrow> nat \<Rightarrow> nat \<Rightarrow> json \<Rightarrow> (string + 's wf_rule) option" where
  "wf_rule_from L stores inst i raw =
     (case res_bind (ok_or (as_object raw) (rule_label i @ '' must be an object'')) (\<lambda>obj.
           res_bind (optional (\<lambda>v. prefix_err (rule_label i @ ''.case: '') (parse_expr L v)) (hm_get obj ''case'')) (\<lambda>cs.
           res_bind (wf_first_action i obj) (\<lambda>(name, ps). Inr (cs, name, ps)))) of
        Inl e \<Rightarrow> Some (Inl e)
      | Inr (cs, name, ps) \<Rightarrow>
          (if name = ''return'' then
             Some (res_bind (ok_or (opt_filter (\<lambda>n. 100 \<le> n \<and> n \<le> 599) (Option.bind (hm_get ps ''code'') as_u64))
                 (rule_label i @ '': '' @ sq ''return'' @ '' action requires '' @ sq ''code'' @ '' (100-599)''))
               (\<lambda>code. Inr \<lparr>wr_case = cs, wr_action = WReturn (as_u16 code)\<rparr>))
           else if name = ''limit-count'' then
             (case wf_limit_from L stores inst i ps of
                Inl e \<Rightarrow> Some (Inl e)
              | Inr (tw, lim) \<Rightarrow>
                  map_option (\<lambda>n. Inr \<lparr>wr_case = cs, wr_action = WLimitCount (lim\<lparr>wl_time_window := n\<rparr>)\<rparr>)
                    (from_secs_f64 tw))
           else Some (Inl (rule_label i @ '': unsupported action: '' @ name @ '' '' @ em_dash @
                           '' supported: return, limit-count''))))"

fun wf_rules_from ::
  "libs \<Rightarrow> 's counter_incr hmap \<Rightarrow> nat \<Rightarrow> nat \<Rightarrow> json list \<Rightarrow> (string + 's wf_rule list) option" where
  "wf_rules_from L stores inst i [] = Some (Inr [])"
| "wf_rules_from L stores inst i (raw # raws) =
     (case wf_rule_from L stores inst i raw of
        None \<Rightarrow> None
      | Some (Inl e) \<Rightarrow> Some (Inl e)
      | Some (Inr r) \<Rightarrow>
          map_option (\<lambda>rest. res_bind rest (\<lambda>rs. Inr (r # rs))) (wf_rules_from L stores inst (Suc i) raws))"

definition workflow_from_config ::
  "libs \<Rightarrow> 's counter_incr hmap \<Rightarrow> nat \<Rightarrow> config \<Rightarrow> (string + 's wf_rule list) option" where
  "workflow_from_config L stores inst c =
     (case cfg_array c ''rules'' of
        None \<Rightarrow> Some (Inl (''workflow requires a '' @ sq ''rules'' @ '' array''))
      | Some raws \<Rightarrow>
          (if raws = [] then Some (Inl (''workflow '' @ sq ''rules'' @ '' must not be empty''))
           else wf_rules_from L stores inst 0 raws))"

definition wf_quota_headers :: "window_result \<Rightarrow> gcontext \<Rightarrow> gcontext" where
  "wf_quota_headers r c =
     set_rs_header ''x-ratelimit-reset'' [show_nat (wr_reset r div nanos_per_sec)]
       (set_rs_header ''x-ratelimit-remaining'' [show_nat (wr_remaining r)]
         (set_rs_header ''x-ratelimit-limit'' [show_nat (wr_limit r)] c))"

definition wf_limit_exec :: "libs \<Rightarrow> 's wf_limit \<Rightarrow> 's node_exec" where
  "wf_limit_exec L p c w =
     (case wl_store p (wl_counter_prefix p @ '':'' @ interpolate L c (wl_key_template p)) (wl_count p)
             (wl_time_window p) w of
        (Inl e, w1) \<Rightarrow>
          (reject_json c 500 ''{\"error_msg\":\"rate limit backend error\"}'' ''RATE_LIMIT_ERROR'' e, w1)
      | (Inr r, w1) \<Rightarrow>
          (let c1 = wf_quota_headers r c in
           if wr_allowed r then (Inr c1, w1)
           else (reject_json c1 (wl_rejected_code p)
                   (case wl_rejected_msg p of Some msg \<Rightarrow> json_msg L ''error_msg'' msg | None \<Rightarrow> [])
                   ''RATE_LIMITED'' ''rejected by workflow limit-count'', w1)))"

text \<open>The first rule whose case holds acts; the others are not looked at.\<close>

definition rule_applies :: "libs \<Rightarrow> gcontext \<Rightarrow> 's wf_rule \<Rightarrow> bool" where
  "rule_applies L c r \<longleftrightarrow> (case wr_case r of None \<Rightarrow> True | Some e \<Rightarrow> eval_expr L e c)"

definition workflow_exec :: "libs \<Rightarrow> 's wf_rule list \<Rightarrow> 's node_exec" where
  "workflow_exec L rules c w =
     (case find (rule_applies L c) rules of
        None \<Rightarrow> (Inr c, w)
      | Some r \<Rightarrow>
          (case wr_action r of
             WReturn code \<Rightarrow>
               (reject_json c code ''{\"error_msg\":\"rejected by workflow\"}'' ''WORKFLOW_REJECTED''
                  ''rejected by workflow'', w)
           | WLimitCount lim \<Rightarrow> wf_limit_exec L lim c w))"

lemma wf_quota_headers_frame [simp]:
  "cx_errors (wf_quota_headers r c) = cx_errors c" "cx_request (wf_quota_headers r c) = cx_request c"
  by (simp_all add: wf_quota_headers_def)

interpretation workflow_node: plugin_contract "workflow_exec L rules" for L rules
  by unfold_locales
    (auto simp: workflow_exec_def wf_limit_exec_def reject_json_def Let_def
      split: option.splits wf_action.splits prod.splits sum.splits)

section \<open>rate-limit\<close>

record float_ops =
  fp_add :: "f64 \<Rightarrow> f64 \<Rightarrow> f64"
  fp_sub :: "f64 \<Rightarrow> f64 \<Rightarrow> f64"
  fp_mul :: "f64 \<Rightarrow> f64 \<Rightarrow> f64"
  fp_of :: "nat \<Rightarrow> f64"
  fp_secs :: "nat \<Rightarrow> f64"

definition fp_one :: f64 where "fp_one = 0x3FF0000000000000"

text \<open>\<open>f64::min\<close>: the other operand where one is not a number.\<close>

definition f64_min :: "f64 \<Rightarrow> f64 \<Rightarrow> f64" where
  "f64_min a b = (if f64_is_nan a then b else if f64_is_nan b then a else if f64_lt b a then b else a)"

datatype key_source = RemoteAddr | Header string

record rate_limit =
  rl_requests_per_second :: nat
  rl_burst :: nat
  rl_key_source :: key_source

record token_bucket =
  tb_tokens :: f64
  tb_last_refill :: nat
  tb_max_tokens :: f64
  tb_refill_rate :: f64

text \<open>A node's own state: its buckets, and the clock it reads.\<close>

record rl_state =
  rl_now :: nat
  rl_buckets :: "token_bucket hmap"

definition new_bucket :: "nat \<Rightarrow> f64 \<Rightarrow> f64 \<Rightarrow> token_bucket" where
  "new_bucket now mx rate =
     \<lparr>tb_tokens = mx, tb_last_refill = now, tb_max_tokens = mx, tb_refill_rate = rate\<rparr>"

definition try_consume :: "float_ops \<Rightarrow> nat \<Rightarrow> token_bucket \<Rightarrow> bool \<times> token_bucket" where
  "try_consume F now b =
     (let elapsed = fp_secs F (now - tb_last_refill b);
          tokens = f64_min (fp_add F (tb_tokens b) (fp_mul F elapsed (tb_refill_rate b))) (tb_max_tokens b);
          b1 = b\<lparr>tb_tokens := tokens, tb_last_refill := now\<rparr>
      in if f64_le fp_one tokens then (True, b1\<lparr>tb_tokens := fp_sub F tokens fp_one\<rparr>) else (False, b1))"

definition rate_limit_from_config :: "config \<Rightarrow> string + rate_limit" where
  "rate_limit_from_config c =
     (let rps = unwrap_or 100 (cfg_u64 c ''requests_per_second'') in
      Inr \<lparr>rl_requests_per_second = rps, rl_burst = unwrap_or rps (cfg_u64 c ''burst''),
           rl_key_source =
             (case Option.bind (cfg_str c ''key_from'') (\<lambda>s. strip_prefix s ''header:'') of
                Some h \<Rightarrow> Header h | None \<Rightarrow> RemoteAddr)\<rparr>)"

definition rate_limit_key :: "rate_limit \<Rightarrow> gcontext \<Rightarrow> string" where
  "rate_limit_key p c =
     (case rl_key_source p of
        RemoteAddr \<Rightarrow> rq_remote_addr (cx_request c)
      | Header h \<Rightarrow> unwrap_or (rq_remote_addr (cx_request c)) (first_value (rq_headers (cx_request c)) h))"

definition rate_limit_reject :: "gcontext \<Rightarrow> plugin_result" where
  "rate_limit_reject c =
     Inl (set_rs_header ''retry-after'' [''1'']
            (json_content (set_body ''{\"error\": \"rate_limited\", \"message\": \"Too many requests\"}''
              (set_status 429 c))),
          mk_error ''RATE_LIMITED'' ''Too many requests'')"

definition rate_limit_exec :: "float_ops \<Rightarrow> rate_limit \<Rightarrow> rl_state node_exec" where
  "rate_limit_exec F p c s =
     (let key = rate_limit_key p c;
          bucket = hm_entry (rl_buckets s) key
            (new_bucket (rl_now s) (fp_of F (rl_burst p)) (fp_of F (rl_requests_per_second p)));
          (allowed, b) = try_consume F (rl_now s) bucket;
          s1 = s\<lparr>rl_buckets := hm_insert key b (rl_buckets s)\<rparr>
      in (if allowed then Inr c else rate_limit_reject c, s1))"

interpretation rate_limit_node: gate_contract "rate_limit_exec F p" for F p
  by unfold_locales
    (auto simp: rate_limit_exec_def rate_limit_reject_def Let_def split: prod.splits if_splits)

section \<open>proxy-mirror\<close>

record proxy_mirror =
  pm_host :: string
  pm_path :: "string option"
  pm_sample_ratio :: f64

definition proxy_mirror_from_config :: "libs \<Rightarrow> config \<Rightarrow> string + proxy_mirror" where
  "proxy_mirror_from_config L c =
     res_bind (ok_or (opt_filter (\<lambda>s. s \<noteq> []) (cfg_str c ''host''))
       (''proxy-mirror requires '' @ sq ''host'' @ '' (e.g. '' @ [CHR 0x22] @ ''http://shadow:8080'' @ [CHR 0x22] @ '')'')) (\<lambda>raw.
     let host = trim_end_char CHR ''/'' raw in
     if \<not> starts_with host ''http://'' \<and> \<not> starts_with host ''https://'' then
       Inl (''proxy-mirror '' @ sq ''host'' @ '' must start with http:// or https:// (got '' @ sq host @ '')'')
     else
     res_bind (opt_field c ''sample_ratio'' (\<lambda>v. opt_filter (\<lambda>r. f64_le 0 r \<and> f64_le r fp_one) (as_f64 L v))
       (''proxy-mirror '' @ sq ''sample_ratio'' @ '' must be a number in 0.0..=1.0'') fp_one) (\<lambda>ratio.
       Inr \<lparr>pm_host = host, pm_path = opt_filter (\<lambda>s. s \<noteq> []) (cfg_str c ''path''), pm_sample_ratio = ratio\<rparr>))"

text \<open>\<open>roll\<close> is the random fraction.\<close>

definition should_mirror :: "f64 \<Rightarrow> proxy_mirror \<Rightarrow> bool" where
  "should_mirror roll p =
     (if f64_le fp_one (pm_sample_ratio p) then True else f64_lt roll (pm_sample_ratio p))"

definition mirror_timeout :: nat where "mirror_timeout = from_secs 60"

definition mirror_request :: "libs \<Rightarrow> transport \<Rightarrow> proxy_mirror \<Rightarrow> gcontext \<Rightarrow> outbound_request" where
  "mirror_request L T p c =
     (let path = unwrap_or (rq_path (cx_request c)) (pm_path p) in
      \<lparr>ob_method = unwrap_or ''GET'' (tr_method T (rq_method (cx_request c))),
       ob_url = (case resolve L c ''query_string'' of
                   Some qs \<Rightarrow> pm_host p @ path @ ''?'' @ qs | None \<Rightarrow> pm_host p @ path),
       ob_headers = concat (map (\<lambda>(k, vs). map (Pair k) vs) (rq_headers (cx_request c))),
       ob_body = rq_body (cx_request c), ob_timeout = mirror_timeout, ob_ssl_verify = True\<rparr>)"

text \<open>The world here is the list of requests handed to detached tasks.\<close>

definition proxy_mirror_exec ::
  "libs \<Rightarrow> transport \<Rightarrow> f64 \<Rightarrow> proxy_mirror \<Rightarrow> outbound_request list node_exec" where
  "proxy_mirror_exec L T roll p c sent =
     (Inr c, if should_mirror roll p then sent @ [mirror_request L T p c] else sent)"

interpretation proxy_mirror_node: rewriter_contract "proxy_mirror_exec L T roll p" for L T roll p
  by unfold_locales (auto simp: proxy_mirror_exec_def)

section \<open>A burst\<close>

text \<open>
  Arithmetic on the whole numbers up to \<open>n\<close> is exact, as IEEE 754 has it below \<open>2 ^ 53\<close>: adding
  the refill of no time changes nothing, one less is one less, and the order is that of the
  numbers.
\<close>

definition exact_upto :: "float_ops \<Rightarrow> f64 \<Rightarrow> nat \<Rightarrow> bool" where
  "exact_upto F rate n \<longleftrightarrow>
     (\<forall>k \<le> n. \<not> f64_is_nan (fp_of F k) \<and>
        fp_add F (fp_of F k) (fp_mul F (fp_secs F 0) rate) = fp_of F k \<and>
        (f64_le fp_one (fp_of F k) \<longleftrightarrow> 1 \<le> k) \<and> \<not> f64_lt (fp_of F n) (fp_of F k) \<and>
        fp_sub F (fp_of F (Suc k)) fp_one = fp_of F k)"

lemma exact_consume:
  assumes "exact_upto F rate n" and "k \<le> n"
    and b: "tb_tokens b = fp_of F k" "tb_last_refill b = now" "tb_max_tokens b = fp_of F n" "tb_refill_rate b = rate"
  shows "try_consume F now b = (1 \<le> k, b\<lparr>tb_tokens := fp_of F (k - 1)\<rparr>)"
proof -
  have e: "\<not> f64_is_nan (fp_of F k)" "\<not> f64_is_nan (fp_of F n)"
    "fp_add F (fp_of F k) (fp_mul F (fp_secs F 0) rate) = fp_of F k"
    "f64_le fp_one (fp_of F k) \<longleftrightarrow> 1 \<le> k" "\<not> f64_lt (fp_of F n) (fp_of F k)"
    using assms(1,2) unfolding exact_upto_def by blast+
  have s: "fp_sub F (fp_of F k) fp_one = fp_of F (k - 1)" if "1 \<le> k"
  proof -
    have "fp_sub F (fp_of F (Suc (k - 1))) fp_one = fp_of F (k - 1)"
      using assms(1,2) unfolding exact_upto_def by (meson diff_le_self le_trans)
    then show ?thesis using that by simp
  qed
  have t: "f64_min (fp_of F k) (fp_of F n) = fp_of F k"
    using e by (simp add: f64_min_def)
  show ?thesis
  proof (cases "1 \<le> k")
    case True
    then show ?thesis
      using e s [OF True] b t by (cases b) (simp add: try_consume_def Let_def)
  next
    case False
    then have "k = 0" by simp
    then show ?thesis
      using e b t by (cases b) (simp add: try_consume_def Let_def)
  qed
qed

fun run_node :: "'w node_exec \<Rightarrow> gcontext list \<Rightarrow> 'w \<Rightarrow> plugin_result list \<times> 'w" where
  "run_node ex [] w = ([], w)"
| "run_node ex (c # cs) w =
     (let (r, w1) = ex c w; (rs, w2) = run_node ex cs w1 in (r # rs, w2))"

definition bucket_at :: "float_ops \<Rightarrow> rate_limit \<Rightarrow> nat \<Rightarrow> nat \<Rightarrow> token_bucket" where
  "bucket_at F p now k =
     (new_bucket now (fp_of F (rl_burst p)) (fp_of F (rl_requests_per_second p)))\<lparr>tb_tokens := fp_of F k\<rparr>"

lemma burst_step:
  assumes "exact_upto F (fp_of F (rl_requests_per_second p)) (rl_burst p)" and "k \<le> rl_burst p"
    and "rate_limit_key p c = key"
    and "hm_entry (rl_buckets s) key (bucket_at F p (rl_now s) (rl_burst p)) = bucket_at F p (rl_now s) k"
  shows "\<exists>s1. rate_limit_exec F p c s = (if 1 \<le> k then Inr c else rate_limit_reject c, s1) \<and>
     rl_now s1 = rl_now s \<and> hm_get (rl_buckets s1) key = Some (bucket_at F p (rl_now s) (k - 1))"
proof -
  have n: "new_bucket (rl_now s) (fp_of F (rl_burst p)) (fp_of F (rl_requests_per_second p)) =
      bucket_at F p (rl_now s) (rl_burst p)"
    by (simp add: bucket_at_def new_bucket_def)
  have "try_consume F (rl_now s) (bucket_at F p (rl_now s) k) = (1 \<le> k, bucket_at F p (rl_now s) (k - 1))"
    using exact_consume [OF assms(1,2), of "bucket_at F p (rl_now s) k" "rl_now s"]
    by (simp add: bucket_at_def new_bucket_def)
  then show ?thesis using assms(3,4) by (simp add: rate_limit_exec_def n Let_def)
qed

lemma burst_run:
  assumes "exact_upto F (fp_of F (rl_requests_per_second p)) (rl_burst p)"
    and "\<forall>c \<in> set cs. rate_limit_key p c = key" and "k \<le> rl_burst p"
    and "hm_entry (rl_buckets s) key (bucket_at F p (rl_now s) (rl_burst p)) = bucket_at F p (rl_now s) k"
  shows "fst (run_node (rate_limit_exec F p) cs s) = map Inr (take k cs) @ map rate_limit_reject (drop k cs)"
  using assms(2-4)
proof (induction cs arbitrary: k s)
  case Nil
  then show ?case by simp
next
  case (Cons c cs)
  obtain s1 where e: "rate_limit_exec F p c s = (if 1 \<le> k then Inr c else rate_limit_reject c, s1)"
    and s1: "rl_now s1 = rl_now s" "hm_get (rl_buckets s1) key = Some (bucket_at F p (rl_now s) (k - 1))"
    using burst_step [OF assms(1) Cons.prems(2) _ Cons.prems(3), of c] Cons.prems(1) by auto
  have "fst (run_node (rate_limit_exec F p) cs s1) = map Inr (take (k - 1) cs) @ map rate_limit_reject (drop (k - 1) cs)"
    using Cons.IH [of "k - 1" s1] Cons.prems s1 by (simp add: hm_entry_def)
  then show ?case using e by (cases k) (simp_all add: Let_def case_prod_unfold)
qed

text \<open>
  C23: A burst is what was configured. Where float arithmetic is exact on the whole numbers up to
  the configured burst, any sequence of requests of one fresh key that arrive at the same moment
  has exactly its first \<open>burst\<close> requests pass untouched, and all later ones are answered with 429.
\<close>

theorem rate_limit_burst_exact:
  assumes "rate_limit_from_config conf = Inr p"
    and "exact_upto F (fp_of F (rl_requests_per_second p)) (rl_burst p)"
    and "\<forall>c \<in> set cs. rate_limit_key p c = key" and "hm_get (rl_buckets s) key = None"
  shows "fst (run_node (rate_limit_exec F p) cs s) =
     map Inr (take (rl_burst p) cs) @ map rate_limit_reject (drop (rl_burst p) cs)"
  using burst_run [OF assms(2,3) order_refl, of s] assms(4) by (simp add: hm_entry_def)

definition demo_floats :: float_ops where
  "demo_floats = \<lparr>fp_add = (\<lambda>a _. a), fp_sub = (\<lambda>a _. if a = 0x4000000000000000 then fp_one else 0),
     fp_mul = (\<lambda>_ _. 0),
     fp_of = (\<lambda>n. if n = 0 then 0 else if n = 1 then fp_one else 0x4000000000000000), fp_secs = (\<lambda>_. 0)\<rparr>"

theorem rate_limit_burst_exact_witness:
  "fst (run_node (rate_limit_exec demo_floats \<lparr>rl_requests_per_second = 1, rl_burst = 1, rl_key_source = RemoteAddr\<rparr>)
      [demo_page, demo_page] \<lparr>rl_now = 7, rl_buckets = []\<rparr>) = [Inr demo_page, rate_limit_reject demo_page]"
proof -
  let ?p = "\<lparr>rl_requests_per_second = 1, rl_burst = 1, rl_key_source = RemoteAddr\<rparr>"
  have c: "rate_limit_from_config [(''requests_per_second'', jnat 1)] = Inr ?p"
    by (simp add: rate_limit_from_config_def cfg_u64_def cfg_str_def)
  have le: "k \<le> 1 \<Longrightarrow> k = 0 \<or> k = Suc 0" for k :: nat by arith
  have o: "\<not> f64_is_nan 0" "\<not> f64_is_nan fp_one" "\<not> f64_le fp_one 0" "f64_le fp_one fp_one"
    "\<not> f64_lt fp_one 0" "\<not> f64_lt fp_one fp_one" "fp_one \<noteq> 0x4000000000000000" "fp_one \<noteq> 0"
    by code_simp+
  have "exact_upto demo_floats (fp_of demo_floats (rl_requests_per_second ?p)) (rl_burst ?p)"
    unfolding exact_upto_def using o by (auto simp: demo_floats_def dest!: le)
  from rate_limit_burst_exact [OF c this, of "[demo_page, demo_page]" "''1.2.3.4:5''"
      "\<lparr>rl_now = 7, rl_buckets = []\<rparr>"]
  show ?thesis by (simp add: rate_limit_key_def demo_page_def new_context_def Let_def)
qed

end
