(* ===== verification/Routing.thy ===== *)
theory Routing
  imports Vars
begin

text \<open>
  The configuration types of src/src/config/gateway.rs and route matching
  (src/src/routing/mod.rs): which configured route handles a request.
\<close>

section \<open>Configuration\<close>

record match_rule =
  mr_path :: "string option"
  mr_methods :: "string list"
  mr_headers :: "string hmap"
  mr_host :: "string option"

record route_config =
  rc_name :: string
  rc_match :: match_rule
  rc_policy :: string

record node_config =
  nc_id :: string
  nc_type :: string
  nc_config :: config

record edge_config =
  ec_from :: string
  ec_to :: string

record policy_config =
  pc_name :: string
  pc_error_handler :: "string option"
  pc_nodes :: "node_config list"
  pc_edges :: "edge_config list"

section \<open>Matching\<close>

definition match_segment :: "string \<Rightarrow> string \<Rightarrow> bool" where
  "match_segment p s \<longleftrightarrow> p = ''*'' \<or> p = s"

definition match_path :: "string \<Rightarrow> string \<Rightarrow> bool" where
  "match_path pattern path =
     (if pattern = path then True
      else (case strip_suffix pattern ''/*'' of
              Some pre \<Rightarrow> path = pre \<or> starts_with path (pre @ ''/'')
            | None \<Rightarrow>
                (let ps = split_on CHR ''/'' pattern; ss = split_on CHR ''/'' path in
                 if length ps \<noteq> length ss then False
                 else list_all (\<lambda>(p, s). match_segment p s) (zip ps ss))))"

definition match_methods :: "libs \<Rightarrow> string list \<Rightarrow> string \<Rightarrow> bool" where
  "match_methods L methods meth \<longleftrightarrow>
     methods = [] \<or> list_ex (\<lambda>m. to_uppercase L m = to_uppercase L meth) methods"

definition match_header :: "libs \<Rightarrow> (string \<times> string) list \<Rightarrow> string \<times> string \<Rightarrow> bool" where
  "match_header L headers req =
     list_ex (\<lambda>(k, v). to_lowercase L k = to_lowercase L (fst req) \<and> v = snd req) headers"

definition matches_route ::
  "libs \<Rightarrow> match_rule \<Rightarrow> string \<Rightarrow> string \<Rightarrow> (string \<times> string) list \<Rightarrow> string \<Rightarrow> bool" where
  "matches_route L rule path meth headers host =
     (if (case mr_path rule of None \<Rightarrow> False | Some p \<Rightarrow> \<not> match_path p path) then False
      else if \<not> match_methods L (mr_methods rule) meth then False
      else if \<not> list_all (match_header L headers) (mr_headers rule) then False
      else if (case mr_host rule of None \<Rightarrow> False | Some h \<Rightarrow> \<not> eq_ignore_ascii_case host h) then False
      else True)"

text \<open>\<open>routes.iter().find(...)\<close>: the first route in configuration order that matches.\<close>

definition find_route ::
  "libs \<Rightarrow> (route_config \<times> 'g) list \<Rightarrow> string \<Rightarrow> string \<Rightarrow> (string \<times> string) list \<Rightarrow> string
     \<Rightarrow> (route_config \<times> 'g) option" where
  "find_route L routes path meth headers host =
     find (\<lambda>(r, _). matches_route L (rc_match r) path meth headers host) routes"

section \<open>Facts\<close>

lemma match_path_refl [simp]: "match_path p p"
  by (simp add: match_path_def)

lemma match_path_prefix:
  "match_path (pre @ ''/*'') path \<longleftrightarrow>
     path = pre @ ''/*'' \<or> path = pre \<or> (\<exists>r. path = pre @ ''/'' @ r)"
  by (auto simp: match_path_def strip_suffix_def starts_with_iff)

lemma list_all_zip_match:
  "length ps = length ss \<Longrightarrow>
   list_all (\<lambda>(p, s). match_segment p s) (zip ps ss) = list_all2 match_segment ps ss"
  by (auto simp: list_all2_iff list_all_iff)

lemma list_all2_segment_refl: "list_all2 match_segment ps ps"
  by (simp add: list_all2_refl match_segment_def)

lemma match_path_segments:
  assumes "\<not> ends_with pattern ''/*''"
  shows "match_path pattern path \<longleftrightarrow>
     list_all2 match_segment (split_on CHR ''/'' pattern) (split_on CHR ''/'' path)"
  using assms
  by (auto simp: match_path_def strip_suffix_def list_all_zip_match list_all2_segment_refl Let_def
      dest: list_all2_lengthD)

lemma matches_route_iff:
  "matches_route L rule path meth headers host \<longleftrightarrow>
     (\<forall>p. mr_path rule = Some p \<longrightarrow> match_path p path) \<and>
     match_methods L (mr_methods rule) meth \<and>
     (\<forall>req \<in> set (mr_headers rule). match_header L headers req) \<and>
     (\<forall>h. mr_host rule = Some h \<longrightarrow> eq_ignore_ascii_case host h)"
  by (auto simp: matches_route_def list_all_iff split: option.splits)

lemma find_route_first:
  "find_route L routes path meth headers host = Some rg \<Longrightarrow>
   \<exists>i < length routes. routes ! i = rg \<and> matches_route L (rc_match (fst rg)) path meth headers host \<and>
     (\<forall>j < i. \<not> matches_route L (rc_match (fst (routes ! j))) path meth headers host)"
  by (force simp: find_route_def find_Some_iff)

end
