(* ===== verification/Policy.thy ===== *)
theory Policy
  imports Routing
begin

text \<open>
  Structural validation of a policy graph (src/src/graph/validation.rs): every violation is
  collected as a message. \<open>policy_wf\<close> states the rules of the module's documentation, and
  \<open>validate_policy_correct\<close> shows that a policy without messages is exactly one that obeys
  them.
\<close>

definition node_ids :: "policy_config \<Rightarrow> string list" where
  "node_ids p = map nc_id (pc_nodes p)"

definition ids_of_type :: "string \<Rightarrow> policy_config \<Rightarrow> string list" where
  "ids_of_type t p = map nc_id (filter (\<lambda>n. nc_type n = t) (pc_nodes p))"

text \<open>\<open>endpoint.split('.').next()\<close>\<close>

definition endpoint_node :: "string \<Rightarrow> string" where
  "endpoint_node e = first_segment CHR ''.'' e"

definition edge_errors :: "string list \<Rightarrow> edge_config \<Rightarrow> string list" where
  "edge_errors ids e =
     (if endpoint_node (ec_from e) \<in> set ids then []
      else [''Edge references unknown source node: '' @ sq (endpoint_node (ec_from e))]) @
     (if endpoint_node (ec_to e) \<in> set ids then []
      else [''Edge references unknown target node: '' @ sq (endpoint_node (ec_to e))])"

text \<open>Targets seen so far, and the messages for targets that are not the first of their name.\<close>

fun input_errors :: "string list \<Rightarrow> string list \<Rightarrow> edge_config list \<Rightarrow> string list" where
  "input_errors many seen [] = []"
| "input_errors many seen (e # es) =
     (let target = ec_to e; to_node = endpoint_node target in
      if to_node \<in> set many then input_errors many seen es
      else if target \<in> set seen then
        (''Node '' @ sq to_node @ '' input '' @ sq target @ '' has multiple incoming edges '' @
         em_dash @ '' each input accepts only one edge'') # input_errors many seen es
      else input_errors many (target # seen) es)"

definition connected_nodes :: "policy_config \<Rightarrow> string list" where
  "connected_nodes p =
     concat (map (\<lambda>e. [endpoint_node (ec_from e), endpoint_node (ec_to e)]) (pc_edges p)) @
     (case pc_error_handler p of None \<Rightarrow> [] | Some h \<Rightarrow> [h])"

definition orphan_errors :: "policy_config \<Rightarrow> string list" where
  "orphan_errors p =
     map (\<lambda>n. ''Orphan node '' @ sq (nc_id n) @ '' has no connections'')
       (filter (\<lambda>n. nc_id n \<notin> set (connected_nodes p)) (pc_nodes p))"

definition policy_errors :: "policy_config \<Rightarrow> string list" where
  "policy_errors p =
     (if list_ex (\<lambda>n. nc_type n = ''listener'') (pc_nodes p) then []
      else [''Policy must have a '' @ sq ''listener'' @ '' node'']) @
     (if list_ex (\<lambda>n. nc_type n = ''client'') (pc_nodes p) then []
      else [''Policy must have a '' @ sq ''client'' @ '' node'']) @
     concat (map (edge_errors (node_ids p)) (pc_edges p)) @
     input_errors (ids_of_type ''client'' p @ ids_of_type ''error-handler'' p) [] (pc_edges p) @
     orphan_errors p @
     (case pc_error_handler p of
        None \<Rightarrow> []
      | Some h \<Rightarrow> if h \<in> set (node_ids p) then []
                  else [''Policy error_handler references unknown node: '' @ sq h])"

definition validate_policy :: "policy_config \<Rightarrow> string list + unit" where
  "validate_policy p = (if policy_errors p = [] then Inr () else Inl (policy_errors p))"

section \<open>The rules\<close>

definition accepts_many :: "policy_config \<Rightarrow> string \<Rightarrow> bool" where
  "accepts_many p i \<longleftrightarrow>
     (\<exists>n \<in> set (pc_nodes p). nc_id n = i \<and> (nc_type n = ''client'' \<or> nc_type n = ''error-handler''))"

definition policy_wf :: "policy_config \<Rightarrow> bool" where
  "policy_wf p \<longleftrightarrow>
     (\<exists>n \<in> set (pc_nodes p). nc_type n = ''listener'') \<and>
     (\<exists>n \<in> set (pc_nodes p). nc_type n = ''client'') \<and>
     (\<forall>e \<in> set (pc_edges p). endpoint_node (ec_from e) \<in> set (node_ids p) \<and>
        endpoint_node (ec_to e) \<in> set (node_ids p)) \<and>
     distinct (filter (\<lambda>t. \<not> accepts_many p (endpoint_node t)) (map ec_to (pc_edges p))) \<and>
     (\<forall>n \<in> set (pc_nodes p). pc_error_handler p = Some (nc_id n) \<or>
        (\<exists>e \<in> set (pc_edges p). endpoint_node (ec_from e) = nc_id n \<or> endpoint_node (ec_to e) = nc_id n)) \<and>
     (\<forall>h. pc_error_handler p = Some h \<longrightarrow> h \<in> set (node_ids p))"

lemma edge_errors_Nil:
  "edge_errors ids e = [] \<longleftrightarrow>
     endpoint_node (ec_from e) \<in> set ids \<and> endpoint_node (ec_to e) \<in> set ids"
  by (simp add: edge_errors_def)

lemma input_errors_Nil:
  "input_errors many seen es = [] \<longleftrightarrow>
     (let ts = filter (\<lambda>t. endpoint_node t \<notin> set many) (map ec_to es)
      in distinct ts \<and> set ts \<inter> set seen = {})"
  by (induction es arbitrary: seen) (auto simp: Let_def)

lemma accepts_many_iff:
  "endpoint_node t \<in> set (ids_of_type ''client'' p @ ids_of_type ''error-handler'' p) \<longleftrightarrow>
     accepts_many p (endpoint_node t)"
  by (simp add: ids_of_type_def accepts_many_def image_iff) metis

lemma connected_nodes_iff:
  "i \<in> set (connected_nodes p) \<longleftrightarrow> pc_error_handler p = Some i \<or>
     (\<exists>e \<in> set (pc_edges p). endpoint_node (ec_from e) = i \<or> endpoint_node (ec_to e) = i)"
  by (auto simp: connected_nodes_def split: option.splits)

lemma orphan_errors_Nil:
  "orphan_errors p = [] \<longleftrightarrow>
     (\<forall>n \<in> set (pc_nodes p). pc_error_handler p = Some (nc_id n) \<or>
        (\<exists>e \<in> set (pc_edges p). endpoint_node (ec_from e) = nc_id n \<or> endpoint_node (ec_to e) = nc_id n))"
  by (simp add: orphan_errors_def filter_empty_conv connected_nodes_iff)

lemma policy_errors_Nil: "policy_errors p = [] \<longleftrightarrow> policy_wf p"
proof -
  have i: "input_errors (ids_of_type ''client'' p @ ids_of_type ''error-handler'' p) [] (pc_edges p) = []
      \<longleftrightarrow> distinct (filter (\<lambda>t. \<not> accepts_many p (endpoint_node t)) (map ec_to (pc_edges p)))"
    by (simp add: input_errors_Nil Let_def accepts_many_iff del: set_append)
  have h: "(case pc_error_handler p of None \<Rightarrow> [] | Some h \<Rightarrow> if h \<in> set (node_ids p) then []
                  else [''Policy error_handler references unknown node: '' @ sq h]) = []
      \<longleftrightarrow> (\<forall>h. pc_error_handler p = Some h \<longrightarrow> h \<in> set (node_ids p))"
    by (simp split: option.splits)
  show ?thesis
    unfolding policy_errors_def policy_wf_def append_is_Nil_conv i h orphan_errors_Nil
    by (simp add: list_ex_iff edge_errors_Nil)
qed

end
