(* ===== verification/Env.thy ===== *)
theory Env
  imports Json
begin

text \<open>
  Environment interpolation of configuration text and of JSON node configurations
  (src/src/config/loader.rs). The regular expression of \<open>interpolate_env\<close>,
  \<open>${NAME}\<close> or \<open>${NAME:-default}\<close>, is written out as a scanner: a name is a letter or
  underscore followed by letters, digits and underscores, and a default runs to the first
  closing brace that no backslash escapes. The process environment is a parameter.
\<close>

definition name_start :: "char \<Rightarrow> bool" where
  "name_start c \<longleftrightarrow> is_alnum c \<and> \<not> is_digit c \<or> c = CHR ''_''"

definition name_char :: "char \<Rightarrow> bool" where
  "name_char c \<longleftrightarrow> is_alnum c \<or> c = CHR ''_''"

text \<open>The default up to its closing brace, and the text after the brace.\<close>

fun env_default :: "string \<Rightarrow> (string \<times> string) option" where
  "env_default [] = None"
| "env_default (c # s) =
     (if c = CHR ''}'' then Some ([], s)
      else if c = CHR 0x5C then
        (case s of
           [] \<Rightarrow> None
         | d # r \<Rightarrow>
             if d = CHR 0x0A then None
             else map_option (map_prod (\<lambda>t. c # d # t) id) (env_default r))
      else map_option (map_prod (Cons c) id) (env_default s))"

text \<open>One reference, after its opening \<open>${\<close>: the name, the default and the rest.\<close>

definition env_ref :: "string \<Rightarrow> (string \<times> string \<times> string) option" where
  "env_ref s =
     (let name = takeWhile name_char s; rest = drop (length name) s in
      if name = [] \<or> \<not> name_start (hd name) then None
      else (case rest of
              [] \<Rightarrow> None
            | c # r \<Rightarrow>
                if c = CHR ''}'' then Some (name, [], r)
                else (case strip_prefix rest '':-'' of
                        None \<Rightarrow> None
                      | Some d \<Rightarrow> map_option (\<lambda>(dv, r'). (name, dv, r')) (env_default d))))"

lemma env_default_shrinks: "env_default s = Some (d, r) \<Longrightarrow> length r < length s"
proof (induction s arbitrary: d r rule: env_default.induct)
  case 1
  then show ?case by simp
next
  case (2 c s)
  then show ?case by (auto split: if_splits list.splits) fastforce+
qed

lemma env_ref_shrinks: "env_ref s = Some (n, d, r) \<Longrightarrow> length r < length s"
proof -
  assume e: "env_ref s = Some (n, d, r)"
  define rest where "rest = drop (length (takeWhile name_char s)) s"
  have l: "length rest \<le> length s" by (simp add: rest_def)
  from e have "length r < length rest"
    by (auto simp: env_ref_def Let_def rest_def [symmetric] strip_prefix_Some
        split: if_splits list.splits option.splits dest!: env_default_shrinks)
  with l show ?thesis by simp
qed

function interpolate_env :: "(string \<Rightarrow> string option) \<Rightarrow> string \<Rightarrow> string" where
  "interpolate_env env s =
     (case s of
        [] \<Rightarrow> []
      | c # t \<Rightarrow>
          (case (if starts_with s ''${'' then env_ref (drop 2 s) else None) of
             Some (name, d, rest) \<Rightarrow> unwrap_or d (env name) @ interpolate_env env rest
           | None \<Rightarrow> c # interpolate_env env t))"
  by pat_completeness auto
termination
proof (relation "measure (\<lambda>(env, s). length s)", simp_all, goal_cases)
  case (1 s c t x name y d rest)
  then have "env_ref (drop 2 (c # t)) = Some (name, d, rest)" by (auto split: if_splits)
  then have "length rest < length (drop 2 (c # t))" by (rule env_ref_shrinks)
  then show ?case by simp
qed

declare interpolate_env.simps [simp del]

fun interpolate_env_json :: "(string \<Rightarrow> string option) \<Rightarrow> json \<Rightarrow> json" where
  "interpolate_env_json env (JStr s) = JStr (if has_sub ''${'' s then interpolate_env env s else s)"
| "interpolate_env_json env (JArr xs) = JArr (map (interpolate_env_json env) xs)"
| "interpolate_env_json env (JObj m) = JObj (map (map_prod id (interpolate_env_json env)) m)"
| "interpolate_env_json env v = v"

section \<open>Facts\<close>

lemma interpolate_env_Nil [simp]: "interpolate_env env [] = []"
  by (simp add: interpolate_env.simps)

lemma interpolate_env_step:
  "\<not> starts_with (c # s) ''${'' \<Longrightarrow> interpolate_env env (c # s) = c # interpolate_env env s"
  by (simp add: interpolate_env.simps [of env "c # s"])

lemma interpolate_env_plain: "\<not> has_sub ''${'' s \<Longrightarrow> interpolate_env env s = s"
  by (induction s) (auto simp: interpolate_env_step)

definition env_name :: "string \<Rightarrow> bool" where
  "env_name n \<longleftrightarrow> (case n of [] \<Rightarrow> False | c # _ \<Rightarrow> name_start c \<and> list_all name_char n)"

lemma env_ref_plain: "env_name n \<Longrightarrow> env_ref (n @ CHR ''}'' # s) = Some (n, [], s)"
proof -
  assume n: "env_name n"
  then have "takeWhile name_char (n @ CHR ''}'' # s) = n"
    by (subst takeWhile_append2)
      (auto simp: env_name_def list_all_iff name_char_def is_alnum_def split: list.splits)
  with n show ?thesis
    by (cases n) (auto simp: env_ref_def env_name_def)
qed

lemma interpolate_env_ref:
  "env_name n \<Longrightarrow>
   interpolate_env env (''${'' @ n @ ''}'' @ s) = unwrap_or [] (env n) @ interpolate_env env s"
  by (subst interpolate_env.simps) (simp add: env_ref_plain starts_with_def)

lemma interpolate_env_json_get:
  "hm_get (map (map_prod id f) m) k = map_option f (hm_get m k)"
  by (induction m) auto

end
