(* ===== verification/Engine.thy ===== *)
theory Engine
  imports Policy Plugin Debug_Trace Env
begin

text \<open>
  Policy compilation and graph execution (src/src/graph/engine.rs). The per-request loop is
  \<open>run\<close>, a partial function: it is \<open>None\<close> where the loop of the code does not end. \<open>run_fuel\<close> is
  the same loop with a step bound; the two are related by \<open>run_iff_fuel\<close>.
\<close>

section \<open>Compilation\<close>

definition parse_edge_endpoint :: "string \<Rightarrow> string \<times> string" where
  "parse_edge_endpoint e =
     (case rsplit_once CHR ''.'' e of Some np \<Rightarrow> np | None \<Rightarrow> (e, ''out''))"

record 'w compiled_graph =
  cg_nodes :: "'w plugin hmap"
  cg_success_edges :: "string hmap"
  cg_error_edges :: "string hmap"
  cg_entry_node_id :: string
  cg_terminal_node_ids :: "string list"
  cg_catch_all_handler :: "string option"
  cg_policy_name :: string
  cg_metrics :: bool

text \<open>What the loop over the nodes accumulates: the plugins, the listener, the client nodes.\<close>

definition add_node ::
  "(string \<Rightarrow> config \<Rightarrow> string + 'w plugin) \<Rightarrow> (string \<Rightarrow> string option) \<Rightarrow> node_config
     \<Rightarrow> 'w plugin hmap \<times> string option \<times> string list
     \<Rightarrow> string + 'w plugin hmap \<times> string option \<times> string list" where
  "add_node create env n acc =
     (case acc of (nodes, lst, terms) \<Rightarrow>
        res_bind (create (nc_type n) (map (map_prod id (interpolate_env_json env)) (nc_config n)))
          (\<lambda>p. Inr (hm_insert (nc_id n) p nodes,
                    if nc_type n = ''listener'' then Some (nc_id n) else lst,
                    if nc_type n = ''client'' then nc_id n # terms else terms)))"

definition add_edge ::
  "edge_config \<Rightarrow> string hmap \<times> string hmap \<Rightarrow> string + string hmap \<times> string hmap" where
  "add_edge e acc =
     (case acc of (se, ee) \<Rightarrow>
        (let (from_node, from_port) = parse_edge_endpoint (ec_from e);
             (to_node, to_port) = parse_edge_endpoint (ec_to e)
         in if from_port = ''success'' \<or> from_port = ''out'' then Inr (hm_insert from_node to_node se, ee)
            else if from_port = ''error'' then Inr (se, hm_insert from_node to_node ee)
            else Inl (''Unknown edge port: '' @ sq from_port)))"

definition compile_policy ::
  "(string \<Rightarrow> config \<Rightarrow> string + 'w plugin) \<Rightarrow> (string \<Rightarrow> string option) \<Rightarrow> bool \<Rightarrow> policy_config
     \<Rightarrow> string + 'w compiled_graph" where
  "compile_policy create env metrics p =
     res_bind (fold_res (add_node create env) (pc_nodes p) ([], None, [])) (\<lambda>(nodes, lst, terms).
     res_bind (ok_or lst ''Policy must have a listener node'') (\<lambda>listener.
     res_bind (fold_res add_edge (pc_edges p) ([], [])) (\<lambda>(se, ee).
       Inr \<lparr>cg_nodes = nodes, cg_success_edges = se, cg_error_edges = ee,
            cg_entry_node_id = unwrap_or listener (hm_get se listener),
            cg_terminal_node_ids = terms, cg_catch_all_handler = pc_error_handler p,
            cg_policy_name = pc_name p, cg_metrics = metrics\<rparr>)))"

section \<open>Execution\<close>

datatype metric = NodeExecuted string string string | NodeErrored string string string

text \<open>
  The state of the loop: the context, the shared world, the recorder when the request is traced,
  the metric events emitted, and how many nodes have run (an index into the measured durations).
\<close>

record 'w run_state =
  ru_ctx :: gcontext
  ru_world :: 'w
  ru_recorder :: "trace_recorder option"
  ru_metrics :: "metric list"
  ru_clock :: nat

definition missing_node :: "string \<Rightarrow> gcontext \<Rightarrow> gcontext" where
  "missing_node i c =
     set_body (''Graph error: node '' @ sq i @ '' not found'') (set_status 500 c)"

definition unhandled_error :: "gcontext \<Rightarrow> gcontext" where
  "unhandled_error c =
     json_content (set_body
       ''{\"error\": \"internal_error\", \"message\": \"Unhandled error in routing policy\"}''
       (set_status 500 c))"

definition push_error :: "gateway_error \<Rightarrow> gcontext \<Rightarrow> gcontext" where
  "push_error e c = c\<lparr>cx_errors := cx_errors c @ [e]\<rparr>"

definition node_executed :: "'w compiled_graph \<Rightarrow> string \<Rightarrow> string \<Rightarrow> metric list \<Rightarrow> metric list" where
  "node_executed g i t ms =
     (if cg_metrics g then ms @ [NodeExecuted (cg_policy_name g) i t] else ms)"

definition node_errored :: "'w compiled_graph \<Rightarrow> string \<Rightarrow> string \<Rightarrow> metric list \<Rightarrow> metric list" where
  "node_errored g i code ms =
     (if cg_metrics g then ms @ [NodeErrored (cg_policy_name g) i code] else ms)"

text \<open>The success branch: where the walk goes on and how the edge is classified.\<close>

definition success_next :: "'w compiled_graph \<Rightarrow> string \<Rightarrow> string option \<times> edge_kind" where
  "success_next g i =
     (if i \<in> set (cg_terminal_node_ids g) then (None, EdgeTerminal)
      else (case hm_get (cg_success_edges g) i of
              Some nx \<Rightarrow> (Some nx, EdgeSuccess)
            | None \<Rightarrow> (None, EdgeEndOfChain)))"

text \<open>The error branch: the node's own error edge first, then the policy's catch-all.\<close>

definition error_next :: "'w compiled_graph \<Rightarrow> string \<Rightarrow> string option \<times> edge_kind" where
  "error_next g i =
     (case hm_get (cg_error_edges g) i of
        Some nx \<Rightarrow> (Some nx, EdgeError)
      | None \<Rightarrow> (case cg_catch_all_handler g of
                   Some h \<Rightarrow> (Some h, EdgeCatchAll)
                 | None \<Rightarrow> (None, EdgeUnhandled)))"

text \<open>One turn of the loop at node \<open>i\<close>: the next node, or \<open>None\<close> for \<open>break\<close>.\<close>

definition step ::
  "libs \<Rightarrow> 'w compiled_graph \<Rightarrow> (nat \<Rightarrow> nat) \<Rightarrow> string \<Rightarrow> 'w run_state \<Rightarrow> string option \<times> 'w run_state" where
  "step L g elapsed i s =
     (case hm_get (cg_nodes g) i of
        None \<Rightarrow>
          (let c = missing_node i (ru_ctx s) in
           (None, s\<lparr>ru_ctx := c,
              ru_recorder := map_option
                (record_step L i ''<missing>''
                  (StepError ''NODE_NOT_FOUND'' (''node '' @ sq i @ '' not found''))
                  0 EdgeNodeNotFound None c) (ru_recorder s)\<rparr>))
      | Some p \<Rightarrow>
          (let dur = elapsed (ru_clock s);
               (res, w) = pl_exec p (ru_ctx s) (ru_world s);
               ms = node_executed g i (pl_type p) (ru_metrics s)
           in case res of
                Inr c \<Rightarrow>
                  (let (nx, edge) = success_next g i in
                   (nx, s\<lparr>ru_ctx := c, ru_world := w, ru_metrics := ms, ru_clock := Suc (ru_clock s),
                      ru_recorder := map_option
                        (record_step L i (pl_type p) StepSuccess dur edge nx c) (ru_recorder s)\<rparr>))
              | Inl (c0, e) \<Rightarrow>
                  (let e' = e\<lparr>err_node_id := i\<rparr>;
                       (nx, edge) = error_next g i;
                       c1 = push_error e' c0;
                       c = (if nx = None then unhandled_error c1 else c1)
                   in (nx, s\<lparr>ru_ctx := c, ru_world := w,
                         ru_metrics := node_errored g i (err_code e) ms,
                         ru_clock := Suc (ru_clock s),
                         ru_recorder := map_option
                           (record_step L i (pl_type p) (StepError (err_code e) (err_message e))
                              dur edge nx c) (ru_recorder s)\<rparr>))))"

partial_function (option) run ::
  "libs \<Rightarrow> 'w compiled_graph \<Rightarrow> (nat \<Rightarrow> nat) \<Rightarrow> string \<Rightarrow> 'w run_state \<Rightarrow> 'w run_state option" where
  "run L g elapsed i s =
     (case step L g elapsed i s of
        (None, s') \<Rightarrow> Some s'
      | (Some nx, s') \<Rightarrow> run L g elapsed nx s')"

fun run_fuel ::
  "libs \<Rightarrow> 'w compiled_graph \<Rightarrow> (nat \<Rightarrow> nat) \<Rightarrow> nat \<Rightarrow> string \<Rightarrow> 'w run_state \<Rightarrow> 'w run_state option" where
  "run_fuel L g elapsed 0 i s = None"
| "run_fuel L g elapsed (Suc n) i s =
     (case step L g elapsed i s of
        (None, s') \<Rightarrow> Some s'
      | (Some nx, s') \<Rightarrow> run_fuel L g elapsed n nx s')"

definition start_state :: "gcontext \<Rightarrow> 'w \<Rightarrow> trace_recorder option \<Rightarrow> 'w run_state" where
  "start_state c w r =
     \<lparr>ru_ctx = c, ru_world = w, ru_recorder = r, ru_metrics = [], ru_clock = 0\<rparr>"

definition execute ::
  "libs \<Rightarrow> 'w compiled_graph \<Rightarrow> (nat \<Rightarrow> nat) \<Rightarrow> gcontext \<Rightarrow> 'w \<Rightarrow> 'w run_state option" where
  "execute L g elapsed c w = run L g elapsed (cg_entry_node_id g) (start_state c w None)"

definition execute_traced ::
  "libs \<Rightarrow> 'w compiled_graph \<Rightarrow> (nat \<Rightarrow> nat) \<Rightarrow> gcontext \<Rightarrow> 'w \<Rightarrow> trace_recorder \<Rightarrow> 'w run_state option" where
  "execute_traced L g elapsed c w r = run L g elapsed (cg_entry_node_id g) (start_state c w (Some r))"

section \<open>The loop and its bounded form\<close>

lemma run_fuel_run: "run_fuel L g el n i s = Some t \<Longrightarrow> run L g el i s = Some t"
proof (induction n arbitrary: i s)
  case 0
  then show ?case by simp
next
  case (Suc n)
  then show ?case by (subst run.simps) (auto split: prod.splits option.splits)
qed

lemma run_run_fuel:
  assumes "run L g el i s = Some t"
  shows "\<exists>n. run_fuel L g el n i s = Some t"
proof (rule run.raw_induct [where P = "\<lambda>L g el i s t. \<exists>n. run_fuel L g el n i s = Some t",
      OF _ assms], goal_cases)
  case (1 rec L g el i s t)
  show ?case
  proof (cases "step L g el i s")
    case (Pair nx s')
    show ?thesis
    proof (cases nx)
      case None
      with 1(2) Pair have "run_fuel L g el (Suc 0) i s = Some t" by simp
      then show ?thesis by blast
    next
      case (Some j)
      with 1(2) Pair have "rec L g el j s' = Some t" by simp
      then obtain n where "run_fuel L g el n j s' = Some t" using 1(1) by blast
      with Pair Some have "run_fuel L g el (Suc n) i s = Some t" by simp
      then show ?thesis by blast
    qed
  qed
qed

lemma run_iff_fuel: "run L g el i s = Some t \<longleftrightarrow> (\<exists>n. run_fuel L g el n i s = Some t)"
  using run_fuel_run run_run_fuel by metis

lemma run_None_fuel: "(\<And>n. run_fuel L g el n i s = None) \<Longrightarrow> run L g el i s = None"
  by (metis not_None_eq run_run_fuel)

lemma run_fuel_mono: "run_fuel L g el n i s = Some t \<Longrightarrow> run_fuel L g el (n + k) i s = Some t"
proof (induction n arbitrary: i s)
  case 0
  then show ?case by simp
next
  case (Suc n)
  then show ?case by (auto split: prod.splits option.splits)
qed

text \<open>An invariant of every turn of the loop holds where the loop ends.\<close>

lemma run_fuel_invariant:
  assumes "run_fuel L g el n i s = Some t" and "I i s"
    and "\<And>i s j s'. I i s \<Longrightarrow> step L g el i s = (Some j, s') \<Longrightarrow> I j s'"
    and "\<And>i s s'. I i s \<Longrightarrow> step L g el i s = (None, s') \<Longrightarrow> Q s'"
  shows "Q t"
  using assms(1,2)
proof (induction n arbitrary: i s)
  case 0
  then show ?case by simp
next
  case (Suc n)
  then show ?case using assms(3,4) by (auto split: prod.splits option.splits)
qed

end
