(* ===== verification/Graph_Walk.thy ===== *)
theory Graph_Walk
  imports Engine
begin

text \<open>
  The walk of a request through a compiled policy graph: the states of the loop
  (\<open>reach\<close>), which nodes can follow which (\<open>hop\<close>), and what compilation keeps of a
  validated policy. The properties state that validation accepts exactly the well-formed
  policies, that a validated policy never walks off the graph, that tracing does not change
  what a request sees, when the walk ends and when it cannot.
\<close>

section \<open>States of the loop\<close>

inductive reach ::
  "libs \<Rightarrow> 'w compiled_graph \<Rightarrow> (nat \<Rightarrow> nat) \<Rightarrow> 'w run_state \<Rightarrow> string \<times> 'w run_state \<Rightarrow> bool"
  for L g el s0 where
  reach_start: "reach L g el s0 (cg_entry_node_id g, s0)"
| reach_turn: "reach L g el s0 (i, s) \<Longrightarrow> step L g el i s = (Some j, s') \<Longrightarrow> reach L g el s0 (j, s')"

text \<open>Which node can follow which, whatever the request.\<close>

inductive hop :: "'w compiled_graph \<Rightarrow> string \<Rightarrow> string \<Rightarrow> bool" for g where
  hop_success:
    "hm_get (cg_nodes g) i = Some p \<Longrightarrow> i \<notin> set (cg_terminal_node_ids g) \<Longrightarrow>
     hm_get (cg_success_edges g) i = Some j \<Longrightarrow> hop g i j"
| hop_error:
    "hm_get (cg_nodes g) i = Some p \<Longrightarrow> \<not> never_fails (pl_exec p) \<Longrightarrow>
     fst (error_next g i) = Some j \<Longrightarrow> hop g i j"

lemma step_missing:
  "hm_get (cg_nodes g) i = None \<Longrightarrow>
   step L g el i s = (None, snd (step L g el i s)) \<and>
   ru_ctx (snd (step L g el i s)) = missing_node i (ru_ctx s)"
  by (simp add: step_def Let_def)

lemma step_ok:
  assumes "hm_get (cg_nodes g) i = Some p" "pl_exec p (ru_ctx s) (ru_world s) = (Inr c, w)"
  shows "fst (step L g el i s) = fst (success_next g i)"
    "ru_ctx (snd (step L g el i s)) = c" "ru_world (snd (step L g el i s)) = w"
  using assms by (simp_all add: step_def Let_def split: prod.splits)

lemma step_err:
  assumes "hm_get (cg_nodes g) i = Some p" "pl_exec p (ru_ctx s) (ru_world s) = (Inl (c, e), w)"
  shows "fst (step L g el i s) = fst (error_next g i)"
    "ru_ctx (snd (step L g el i s)) =
       (if fst (error_next g i) = None then unhandled_error (push_error (e\<lparr>err_node_id := i\<rparr>) c)
        else push_error (e\<lparr>err_node_id := i\<rparr>) c)"
    "ru_world (snd (step L g el i s)) = w"
  using assms by (simp_all add: step_def Let_def split: prod.splits)

lemma step_hop:
  assumes "step L g el i s = (Some j, s')"
  shows "hop g i j"
proof (cases "hm_get (cg_nodes g) i")
  case None
  then show ?thesis using assms by (simp add: step_def Let_def)
next
  case (Some p)
  obtain r w where x: "pl_exec p (ru_ctx s) (ru_world s) = (r, w)"
    by (cases "pl_exec p (ru_ctx s) (ru_world s)")
  show ?thesis
  proof (cases r)
    case (Inr c)
    then have "fst (success_next g i) = Some j"
      using step_ok(1) [OF Some, of s c w] x assms by (metis fst_conv)
    then show ?thesis
      by (auto simp: success_next_def split: if_splits option.splits intro: hop_success [OF Some])
  next
    case (Inl ce)
    obtain c e where "ce = (c, e)" by (cases ce)
    then have "fst (error_next g i) = Some j"
      using step_err(1) [OF Some, of s c e w] x Inl assms by (metis fst_conv)
    moreover have "\<not> never_fails (pl_exec p)"
      using x Inl by (metis Inl_Inr_False fst_conv never_fails_def)
    ultimately show ?thesis by (rule hop_error [OF Some, rotated])
  qed
qed

section \<open>Compilation of a validated policy\<close>

text \<open>An endpoint with at most one dot: there the validator and the compiler agree.\<close>

definition plain_endpoint :: "string \<Rightarrow> bool" where
  "plain_endpoint e \<longleftrightarrow> count_list e CHR ''.'' \<le> 1"

definition edge_target :: "edge_config \<Rightarrow> string" where
  "edge_target e = fst (parse_edge_endpoint (ec_to e))"

lemma parse_edge_plain:
  assumes "plain_endpoint e"
  shows "fst (parse_edge_endpoint e) = endpoint_node e"
proof (cases "rsplit_once CHR ''.'' e")
  case None
  then have "CHR ''.'' \<notin> set e" by (simp add: rsplit_once_None)
  then have "takeWhile (\<lambda>x. x \<noteq> CHR ''.'') e = e"
    by (induction e) auto
  with None show ?thesis
    by (simp add: parse_edge_endpoint_def endpoint_node_def first_segment_def del: takeWhile_eq_all_conv)
next
  case (Some np)
  obtain a b where np: "np = (a, b)" by (cases np)
  with Some have e: "e = a @ CHR ''.'' # b" by (simp add: rsplit_once_Some)
  with assms have "CHR ''.'' \<notin> set a"
    by (simp add: plain_endpoint_def count_list_0_iff [symmetric])
  then have "takeWhile (\<lambda>x. x \<noteq> CHR ''.'') e = a"
    unfolding e by (subst takeWhile_append2) auto
  then show ?thesis
    using Some np by (simp add: parse_edge_endpoint_def endpoint_node_def first_segment_def)
qed

lemma fold_add_node:
  "fold_res (add_node create env) ns (nodes, lst, terms) = Inr (nodes', lst', terms') \<Longrightarrow>
   {i. hm_get nodes' i \<noteq> None} = {i. hm_get nodes i \<noteq> None} \<union> set (map nc_id ns) \<and>
   set terms' = set terms \<union> {nc_id n | n. n \<in> set ns \<and> nc_type n = ''client''} \<and>
   (\<forall>l. lst' = Some l \<longrightarrow> lst = Some l \<or> (\<exists>n \<in> set ns. nc_id n = l \<and> nc_type n = ''listener''))"
proof (induction ns arbitrary: nodes lst terms)
  case Nil
  then show ?case by auto
next
  case (Cons n ns)
  let ?cfg = "map (map_prod id (interpolate_env_json env)) (nc_config n)"
  show ?case
  proof (cases "create (nc_type n) ?cfg")
    case (Inl e)
    with Cons.prems show ?thesis by (simp add: add_node_def)
  next
    case (Inr p)
    have "add_node create env n (nodes, lst, terms) = Inr
       (hm_insert (nc_id n) p nodes,
        if nc_type n = ''listener'' then Some (nc_id n) else lst,
        if nc_type n = ''client'' then nc_id n # terms else terms)"
      using Inr by (simp add: add_node_def)
    with Cons.prems have r: "fold_res (add_node create env) ns
       (hm_insert (nc_id n) p nodes,
        if nc_type n = ''listener'' then Some (nc_id n) else lst,
        if nc_type n = ''client'' then nc_id n # terms else terms) = Inr (nodes', lst', terms')"
      by (simp del: if_split)
    show ?thesis using Cons.IH [OF r] by (auto split: if_splits)
  qed
qed

lemma fold_add_edge:
  "fold_res add_edge es (se, ee) = Inr (se', ee') \<Longrightarrow>
   (\<forall>i j. hm_get se' i = Some j \<or> hm_get ee' i = Some j \<longrightarrow>
      hm_get se i = Some j \<or> hm_get ee i = Some j \<or> j \<in> set (map edge_target es))"
proof (induction es arbitrary: se ee)
  case Nil
  then show ?case by auto
next
  case (Cons e es)
  obtain fn fp where f: "parse_edge_endpoint (ec_from e) = (fn, fp)" by force
  obtain tn tp where t: "parse_edge_endpoint (ec_to e) = (tn, tp)" by force
  define se1 where "se1 = (if fp = ''success'' \<or> fp = ''out'' then hm_insert fn tn se else se)"
  define ee1 where "ee1 = (if fp = ''success'' \<or> fp = ''out'' then ee else hm_insert fn tn ee)"
  have a: "add_edge e (se, ee) = Inr (se1, ee1) \<or> (\<exists>m. add_edge e (se, ee) = Inl m)"
    using f t by (simp add: add_edge_def se1_def ee1_def)
  with Cons.prems have r: "fold_res add_edge es (se1, ee1) = Inr (se', ee')" by auto
  show ?case
    using Cons.IH [OF r] t by (auto simp: se1_def ee1_def edge_target_def split: if_splits)
qed

lemma compile_policy_parts:
  assumes "compile_policy create env m p = Inr g"
  shows "{i. hm_get (cg_nodes g) i \<noteq> None} = set (node_ids p)"
    and "set (cg_terminal_node_ids g) = set (ids_of_type ''client'' p)"
    and "hm_get (cg_success_edges g) i = Some j \<or> hm_get (cg_error_edges g) i = Some j \<Longrightarrow>
      j \<in> set (map edge_target (pc_edges p))"
    and "cg_catch_all_handler g = pc_error_handler p"
    and "cg_entry_node_id g \<in> set (map edge_target (pc_edges p)) \<union> set (node_ids p)"
    and "cg_policy_name g = pc_name p" and "cg_metrics g = m"
proof -
  obtain nodes lst terms se ee l where
    n: "fold_res (add_node create env) (pc_nodes p) ([], None, []) = Inr (nodes, lst, terms)"
    and l: "lst = Some l"
    and e: "fold_res add_edge (pc_edges p) ([], []) = Inr (se, ee)"
    and g: "g = \<lparr>cg_nodes = nodes, cg_success_edges = se, cg_error_edges = ee,
            cg_entry_node_id = unwrap_or l (hm_get se l),
            cg_terminal_node_ids = terms, cg_catch_all_handler = pc_error_handler p,
            cg_policy_name = pc_name p, cg_metrics = m\<rparr>"
    using assms by (auto simp: compile_policy_def res_bind_eq_Inr ok_or_eq_Inr)
  note N = fold_add_node [OF n] and E = fold_add_edge [OF e]
  show "{i. hm_get (cg_nodes g) i \<noteq> None} = set (node_ids p)"
    using N by (simp add: g node_ids_def)
  show "set (cg_terminal_node_ids g) = set (ids_of_type ''client'' p)"
    using N by (auto simp: g ids_of_type_def)
  show "hm_get (cg_success_edges g) i = Some j \<or> hm_get (cg_error_edges g) i = Some j \<Longrightarrow>
      j \<in> set (map edge_target (pc_edges p))"
    using E by (auto simp: g)
  show "cg_entry_node_id g \<in> set (map edge_target (pc_edges p)) \<union> set (node_ids p)"
    using N E l by (force simp: g node_ids_def unwrap_or_def split: option.splits)
qed (use assms in \<open>auto simp: compile_policy_def res_bind_eq_Inr ok_or_eq_Inr\<close>)

lemma wf_targets:
  assumes "policy_wf p" and "\<forall>e \<in> set (pc_edges p). plain_endpoint (ec_to e)"
  shows "set (map edge_target (pc_edges p)) \<subseteq> set (node_ids p)"
  using assms by (auto simp: edge_target_def parse_edge_plain policy_wf_def)

lemma compiled_hop_exists:
  assumes "compile_policy create env m p = Inr g" and "policy_wf p"
    and "\<forall>e \<in> set (pc_edges p). plain_endpoint (ec_to e)" and "hop g i j"
  shows "hm_get (cg_nodes g) j \<noteq> None"
proof -
  note parts = compile_policy_parts [OF assms(1)]
  have "j \<in> set (node_ids p)"
    using assms(4)
  proof (cases rule: hop.cases)
    case (hop_success q)
    then show ?thesis using parts(3) wf_targets [OF assms(2,3)] by blast
  next
    case (hop_error q)
    then show ?thesis
      using parts(3,4) wf_targets [OF assms(2,3)] assms(2)
      by (auto simp: error_next_def policy_wf_def split: option.splits)
  qed
  then show ?thesis using parts(1) by auto
qed

section \<open>Tracing\<close>

definition erase :: "'w run_state \<Rightarrow> 'w run_state" where
  "erase s = s\<lparr>ru_recorder := None\<rparr>"

lemma erase_start [simp]: "erase (start_state c w r) = start_state c w None"
  by (simp add: erase_def start_state_def)

lemma step_erase:
  "step L g el i (erase s) = map_prod id erase (step L g el i s)"
  by (simp add: step_def erase_def Let_def split: option.splits prod.splits sum.splits)

lemma run_fuel_erase: "run_fuel L g el n i (erase s) = map_option erase (run_fuel L g el n i s)"
proof (induction n arbitrary: i s)
  case 0
  then show ?case by simp
next
  case (Suc n)
  then show ?case by (simp add: step_erase split: prod.splits option.splits)
qed

lemma run_erase: "run L g el i (erase s) = map_option erase (run L g el i s)"
proof (cases "run L g el i s")
  case (Some t)
  then obtain n where "run_fuel L g el n i s = Some t" by (auto simp: run_iff_fuel)
  then have "run_fuel L g el n i (erase s) = Some (erase t)" by (simp add: run_fuel_erase)
  then show ?thesis using Some run_fuel_run by fastforce
next
  case None
  then have "run_fuel L g el n i s = None" for n
    by (metis not_None_eq run_fuel_run)
  then have "run L g el i (erase s) = None"
    by (intro run_None_fuel) (simp add: run_fuel_erase)
  with None show ?thesis by simp
qed

text \<open>The steps of a trace follow one another.\<close>

definition chained :: "node_step list \<Rightarrow> bool" where
  "chained xs \<longleftrightarrow> (\<forall>k. Suc k < length xs \<longrightarrow> ns_next_node_id (xs ! k) = Some (ns_node_id (xs ! Suc k)))"

lemma chained_snoc:
  "chained (xs @ [x]) \<longleftrightarrow>
     chained xs \<and> (xs \<noteq> [] \<longrightarrow> ns_next_node_id (last xs) = Some (ns_node_id x))"
proof (cases xs rule: rev_cases)
  case Nil
  then show ?thesis by (simp add: chained_def)
next
  case (snoc ys y)
  show ?thesis
    unfolding snoc chained_def
    by (auto simp: nth_append less_Suc_eq split: if_splits)
qed

text \<open>\<open>trace_at entry i r\<close>: the recorder \<open>r\<close> has seen a walk from \<open>entry\<close> that is now about to run \<open>i\<close>.\<close>

definition trace_at :: "string \<Rightarrow> string option \<Rightarrow> trace_recorder \<Rightarrow> bool" where
  "trace_at entry nx r \<longleftrightarrow> recorder_ok r \<and> chained (tr_steps r) \<and>
     (tr_steps r \<noteq> [] \<longrightarrow> ns_node_id (hd (tr_steps r)) = entry) \<and>
     (length (tr_steps r) < tr_max_steps r \<longrightarrow>
        (if tr_steps r = [] then nx = Some entry else ns_next_node_id (last (tr_steps r)) = nx))"

lemma trace_at_record:
  "trace_at entry (Some i) r \<Longrightarrow> trace_at entry nx (record_step L i t out d e nx c r)"
  using record_step_ok [of r L i t out d e nx c]
  by (auto simp: trace_at_def record_step_def Let_def chained_snoc hd_append recorder_ok_def
      split: if_splits)

lemma step_recorder:
  "\<exists>t out d e c. ru_recorder (snd (step L g el i s)) =
     map_option (record_step L i t out d e (fst (step L g el i s)) c) (ru_recorder s)"
  by (auto simp: step_def Let_def split: option.splits prod.splits sum.splits) blast+

lemma step_trace_at:
  assumes "ru_recorder s = Some r" "trace_at entry (Some i) r" "step L g el i s = (nx, s')"
  shows "\<exists>r'. ru_recorder s' = Some r' \<and> trace_at entry nx r' \<and> tr_max_steps r' = tr_max_steps r"
  using step_recorder [of L g el i s] assms by (auto intro: trace_at_record)

section \<open>Errors and metrics\<close>

fun is_errored :: "metric \<Rightarrow> bool" where
  "is_errored (NodeErrored p i c) = True"
| "is_errored (NodeExecuted p i t) = False"

text \<open>\<open>errors_since g es s\<close>: what the loop has added to the errors \<open>es\<close> it started with.\<close>

definition errors_since :: "'w compiled_graph \<Rightarrow> gateway_error list \<Rightarrow> 'w run_state \<Rightarrow> bool" where
  "errors_since g es s \<longleftrightarrow> (\<exists>new. cx_errors (ru_ctx s) = es @ new \<and>
     (\<forall>e \<in> set new. hm_get (cg_nodes g) (err_node_id e) \<noteq> None) \<and>
     (cg_metrics g \<longrightarrow> filter is_errored (ru_metrics s) =
        map (\<lambda>e. NodeErrored (cg_policy_name g) (err_node_id e) (err_code e)) new))"

lemma step_errors_since:
  assumes contract: "\<And>i p. hm_get (cg_nodes g) i = Some p \<Longrightarrow> plugin_contract (pl_exec p)"
    and "errors_since g es s" and "step L g el i s = (nx, s')"
  shows "errors_since g es s'"
proof (cases "hm_get (cg_nodes g) i")
  case None
  then show ?thesis
    using assms(2,3) by (auto simp: step_def Let_def errors_since_def missing_node_def)
next
  case (Some p)
  obtain r w where x: "pl_exec p (ru_ctx s) (ru_world s) = (r, w)" by force
  show ?thesis
  proof (cases r)
    case (Inr c)
    with plugin_contract.ok_errors [OF contract [OF Some]] x
    have "cx_errors c = cx_errors (ru_ctx s)" by blast
    then show ?thesis
      using assms(2,3) Some x Inr
      by (auto simp: step_def Let_def errors_since_def node_executed_def split: prod.splits)
  next
    case (Inl ce)
    obtain c e where ce: "ce = (c, e)" by force
    with plugin_contract.err_errors [OF contract [OF Some]] x Inl
    have "cx_errors c = cx_errors (ru_ctx s)" by blast
    moreover obtain new where "cx_errors (ru_ctx s) = es @ new"
      and "\<forall>e \<in> set new. hm_get (cg_nodes g) (err_node_id e) \<noteq> None"
      and "cg_metrics g \<longrightarrow> filter is_errored (ru_metrics s) =
        map (\<lambda>e. NodeErrored (cg_policy_name g) (err_node_id e) (err_code e)) new"
      using assms(2) by (auto simp: errors_since_def)
    ultimately show ?thesis
      using assms(3) Some x Inl ce unfolding errors_since_def
      by (intro exI [of _ "new @ [e\<lparr>err_node_id := i\<rparr>]"])
        (auto simp: step_def Let_def node_executed_def node_errored_def push_error_def
          unhandled_error_def split: prod.splits if_splits)
  qed
qed

lemma run_errors_since:
  assumes "\<And>i p. hm_get (cg_nodes g) i = Some p \<Longrightarrow> plugin_contract (pl_exec p)"
    and "execute L g el c w = Some t"
  shows "errors_since g (cx_errors c) t"
proof -
  obtain n where "run_fuel L g el n (cg_entry_node_id g) (start_state c w None) = Some t"
    using assms(2) by (auto simp: execute_def run_iff_fuel)
  then show ?thesis
  proof (rule run_fuel_invariant [where I = "\<lambda>_. errors_since g (cx_errors c)"])
    show "errors_since g (cx_errors c) (start_state c w None)"
      by (simp add: errors_since_def start_state_def)
  qed (rule step_errors_since [OF assms(1)], assumption+)+
qed

section \<open>Termination\<close>

lemma step_clock: "ru_clock (snd (step L g el i s)) \<le> Suc (ru_clock s)"
  by (simp add: step_def Let_def split: option.splits prod.splits sum.splits)

lemma ranked_run:
  assumes "\<And>i j. hop g i j \<Longrightarrow> rank j < (rank i :: nat)"
  shows "\<exists>t. run_fuel L g el (Suc (rank i)) i s = Some t \<and> ru_clock t \<le> ru_clock s + Suc (rank i)"
proof (induction "rank i" arbitrary: i s rule: less_induct)
  case less
  obtain nx s' where st: "step L g el i s = (nx, s')" by force
  have clk: "ru_clock s' \<le> Suc (ru_clock s)" using step_clock [of L g el i s] st by simp
  show ?case
  proof (cases nx)
    case None
    then show ?thesis using st clk by simp
  next
    case (Some j)
    with st have "rank j < rank i" using assms step_hop by metis
    with less obtain t where t: "run_fuel L g el (Suc (rank j)) j s' = Some t"
      and "ru_clock t \<le> ru_clock s' + Suc (rank j)" by blast
    moreover have "run_fuel L g el (Suc (rank j) + (rank i - Suc (rank j))) j s' = Some t"
      by (rule run_fuel_mono [OF t])
    ultimately show ?thesis using \<open>rank j < rank i\<close> st Some clk by simp
  qed
qed

section \<open>A small policy for the witnesses\<close>

definition pass_plugin :: "string \<Rightarrow> unit plugin" where
  "pass_plugin t = \<lparr>pl_type = t, pl_exec = pure_exec Inr\<rparr>"

definition fail_plugin :: "string \<Rightarrow> unit plugin" where
  "fail_plugin t = \<lparr>pl_type = t, pl_exec = pure_exec (\<lambda>c. Inl (c, mk_error ''BAD'' ''no''))\<rparr>"

definition demo_create :: "string \<Rightarrow> config \<Rightarrow> string + unit plugin" where
  "demo_create t cfg = Inr (if t = ''bad'' then fail_plugin t else pass_plugin t)"

definition demo_policy :: policy_config where
  "demo_policy =
     \<lparr>pc_name = ''p'', pc_error_handler = None,
      pc_nodes = [\<lparr>nc_id = ''l'', nc_type = ''listener'', nc_config = []\<rparr>,
                  \<lparr>nc_id = ''c'', nc_type = ''client'', nc_config = []\<rparr>],
      pc_edges = [\<lparr>ec_from = ''l.out'', ec_to = ''c.in''\<rparr>]\<rparr>"

definition demo_graph :: "unit compiled_graph" where
  "demo_graph =
     \<lparr>cg_nodes = [(''l'', pass_plugin ''listener''), (''c'', pass_plugin ''client'')],
      cg_success_edges = [(''l'', ''c'')], cg_error_edges = [], cg_entry_node_id = ''c'',
      cg_terminal_node_ids = [''c''], cg_catch_all_handler = None, cg_policy_name = ''p'',
      cg_metrics = True\<rparr>"

definition demo_request :: gateway_request where
  "demo_request =
     \<lparr>rq_method = ''GET'', rq_path = ''/'', rq_host = ''h'', rq_scheme = ''http'', rq_headers = [],
      rq_query_params = [], rq_body = [], rq_remote_addr = ''10.0.0.1:5000'', rq_protocol = Http1\<rparr>"

definition dotted_policy :: policy_config where
  "dotted_policy = demo_policy\<lparr>pc_edges := [\<lparr>ec_from = ''l.out'', ec_to = ''c.v1.in''\<rparr>]\<rparr>"

lemma parse_edge_demo:
  "parse_edge_endpoint ''l.out'' = (''l'', ''out'')" "parse_edge_endpoint ''c.in'' = (''c'', ''in'')"
  by code_simp+

lemma demo_valid: "validate_policy demo_policy = Inr ()"
  by code_simp

lemma demo_compiles: "compile_policy demo_create Map.empty True demo_policy = Inr demo_graph"
  by (simp add: compile_policy_def demo_policy_def demo_graph_def demo_create_def add_node_def
      add_edge_def parse_edge_demo hm_insert_def hm_get_def unwrap_or_def pass_plugin_def)

lemma demo_plugin_contract: "plugin_contract (pl_exec (pass_plugin t))"
  by unfold_locales (simp add: pass_plugin_def pure_exec_def)

lemma fail_plugin_contract: "plugin_contract (pl_exec (fail_plugin t))"
  by unfold_locales (simp add: fail_plugin_def pure_exec_def)

lemma pass_never_fails: "never_fails (pl_exec (pass_plugin t))"
  by (simp add: never_fails_def pass_plugin_def pure_exec_def)

section \<open>Properties\<close>

text \<open>
  C2: Validation reports no error for a policy exactly when it has a listener and a client node,
  every edge names existing nodes, every input other than those of client and error-handler
  nodes has one incoming edge, no node is disconnected and the catch-all handler exists.
\<close>

theorem validate_policy_iff_wf: "validate_policy p = Inr () \<longleftrightarrow> policy_wf p"
  by (simp add: validate_policy_def policy_errors_Nil)

text \<open>
  C1: A validated policy whose edge targets hold at most one dot, once compiled, never sends a
  request to a node that does not exist, whatever its plugins do and wherever they fail.
\<close>

theorem validated_walk_stays_in_graph:
  assumes "validate_policy p = Inr ()" and "compile_policy create env m p = Inr g"
    and "\<forall>e \<in> set (pc_edges p). plain_endpoint (ec_to e)"
    and "reach L g el s0 (i, s)"
  shows "hm_get (cg_nodes g) i \<noteq> None"
proof -
  have wf: "policy_wf p"
    using assms(1) by (simp add: validate_policy_def policy_errors_Nil split: if_splits)
  have "cg_entry_node_id g \<in> {i. hm_get (cg_nodes g) i \<noteq> None}"
    using compile_policy_parts(5) [OF assms(2)] wf_targets [OF wf assms(3)]
    unfolding compile_policy_parts(1) [OF assms(2)] by blast
  then have "hm_get (cg_nodes g) (cg_entry_node_id g) \<noteq> None" by simp
  with assms(4) show ?thesis
  proof (induction "(i, s)" arbitrary: i s rule: reach.induct)
    case (reach_turn i s j s')
    then show ?case using step_hop compiled_hop_exists [OF assms(2) wf assms(3)] by metis
  qed simp
qed

theorem validated_walk_stays_in_graph_witness: "hm_get (cg_nodes demo_graph) ''c'' \<noteq> None"
proof (rule validated_walk_stays_in_graph [OF demo_valid demo_compiles])
  show "\<forall>e \<in> set (pc_edges demo_policy). plain_endpoint (ec_to e)" by code_simp
  have "cg_entry_node_id demo_graph = ''c''" by (simp add: demo_graph_def)
  then show "reach plain_libs demo_graph id (start_state (new_context demo_request) () None)
      (''c'', start_state (new_context demo_request) () None)"
    by (metis reach_start)
qed

text \<open>
  The restriction on dots is needed: validation cuts an endpoint at its first dot and
  compilation at its last, so this validated policy compiles and answers every request with
  the error of a missing node.
\<close>

theorem dotted_target_walks_off:
  "validate_policy dotted_policy = Inr () \<and>
   (\<exists>g. compile_policy demo_create Map.empty m dotted_policy = Inr g \<and>
      (\<forall>L el c w. \<exists>t. execute L g el c w = Some t \<and> rs_status_code (cx_response (ru_ctx t)) = 500 \<and>
         rs_body (cx_response (ru_ctx t)) = ''Graph error: node '' @ sq ''c.v1'' @ '' not found''))"
proof -
  have e: "parse_edge_endpoint ''c.v1.in'' = (''c.v1'', ''in'')" by code_simp
  let ?g = "demo_graph\<lparr>cg_success_edges := [(''l'', ''c.v1'')], cg_entry_node_id := ''c.v1'', cg_metrics := m\<rparr>"
  have "compile_policy demo_create Map.empty m dotted_policy = Inr ?g"
    by (simp add: compile_policy_def dotted_policy_def demo_policy_def demo_graph_def
        demo_create_def add_node_def add_edge_def parse_edge_demo e hm_insert_def hm_get_def
        unwrap_or_def pass_plugin_def)
  moreover have "\<exists>t. execute L ?g el c w = Some t \<and> rs_status_code (cx_response (ru_ctx t)) = 500 \<and>
      rs_body (cx_response (ru_ctx t)) = ''Graph error: node '' @ sq ''c.v1'' @ '' not found''"
    for L el c and w :: unit
    by (simp add: execute_def run.simps step_def demo_graph_def start_state_def missing_node_def)
  moreover have "validate_policy dotted_policy = Inr ()" by code_simp
  ultimately show ?thesis by blast
qed

text \<open>
  C4: Tracing is transparent: a traced execution ends when the untraced one does, with the same
  response, shared state and metrics.
\<close>

theorem tracing_transparent:
  "map_option erase (execute_traced L g el c w r) = execute L g el c w"
  by (simp add: execute_traced_def execute_def run_erase [symmetric])

text \<open>
  C6: A trace is the walk: the recorder returned has at most the configured number of steps,
  numbered from 0, the first at the entry node, each naming the node of the next, and the last
  naming none unless the limit was reached.
\<close>

theorem trace_is_the_walk:
  fixes g :: "'w compiled_graph"
  assumes "execute_traced L g el c w (new_recorder L c opts mx) = Some t"
  shows "\<exists>r. ru_recorder t = Some r \<and> length (tr_steps r) \<le> mx \<and>
    map ns_index (tr_steps r) = [0..<length (tr_steps r)] \<and> chained (tr_steps r) \<and>
    (tr_steps r \<noteq> [] \<longrightarrow> ns_node_id (hd (tr_steps r)) = cg_entry_node_id g) \<and>
    (length (tr_steps r) < mx \<longrightarrow> tr_steps r \<noteq> [] \<and> ns_next_node_id (last (tr_steps r)) = None)"
proof -
  define I where "I = (\<lambda>nx (s :: 'w run_state). \<exists>r. ru_recorder s = Some r \<and>
    trace_at (cg_entry_node_id g) nx r \<and> tr_max_steps r = mx)"
  obtain n where "run_fuel L g el n (cg_entry_node_id g)
      (start_state c w (Some (new_recorder L c opts mx))) = Some t"
    using assms by (auto simp: execute_traced_def run_iff_fuel)
  then have "I None t"
  proof (rule run_fuel_invariant [where I = "\<lambda>i. I (Some i)"])
    show "I (Some (cg_entry_node_id g)) (start_state c w (Some (new_recorder L c opts mx)))"
      by (simp add: I_def start_state_def trace_at_def new_recorder_ok)
        (simp add: new_recorder_def chained_def)
  qed (auto simp: I_def dest: step_trace_at)
  then show ?thesis
    by (auto simp: I_def trace_at_def recorder_ok_def split: if_splits)
qed

theorem trace_is_the_walk_witness:
  "\<exists>t r. execute_traced plain_libs demo_graph id (new_context demo_request) ()
      (new_recorder plain_libs (new_context demo_request)
        \<lparr>co_capture_bodies = False, co_max_body_bytes = 0,
         co_redaction = new_redaction plain_libs [] [] []\<rparr> 3) = Some t \<and>
     ru_recorder t = Some r \<and> length (tr_steps r) \<le> 3"
proof -
  let ?r = "new_recorder plain_libs (new_context demo_request)
        \<lparr>co_capture_bodies = False, co_max_body_bytes = 0,
         co_redaction = new_redaction plain_libs [] [] []\<rparr> 3"
  obtain t where t: "execute_traced plain_libs demo_graph id (new_context demo_request) () ?r = Some t"
    by (simp add: execute_traced_def run.simps step_def demo_graph_def start_state_def
        pass_plugin_def pure_exec_def success_next_def)
  from trace_is_the_walk [OF t] t show ?thesis by blast
qed



text \<open>
  A failing node with neither an error edge nor a catch-all handler ends the walk with the
  generic JSON 500 response, the error still recorded under the node's id.
\<close>

theorem unhandled_error_is_500:
  assumes "hm_get (cg_nodes g) i = Some p" and "pl_exec p (ru_ctx s) (ru_world s) = (Inl (c, e), w)"
    and "hm_get (cg_error_edges g) i = None" and "cg_catch_all_handler g = None"
  shows "\<exists>t. run L g el i s = Some t \<and> rs_status_code (cx_response (ru_ctx t)) = 500 \<and>
    rs_body (cx_response (ru_ctx t)) =
      ''{\"error\": \"internal_error\", \"message\": \"Unhandled error in routing policy\"}'' \<and>
    hm_get (rs_headers (cx_response (ru_ctx t))) ''content-type'' = Some [''application/json''] \<and>
    cx_errors (ru_ctx t) = cx_errors c @ [e\<lparr>err_node_id := i\<rparr>]"
  using assms
  by (simp add: run.simps [of L g el i s] step_def Let_def error_next_def unhandled_error_def
      push_error_def)

definition failing_graph :: "unit compiled_graph" where
  "failing_graph = demo_graph\<lparr>cg_nodes := [(''c'', fail_plugin ''bad'')]\<rparr>"

theorem unhandled_error_is_500_witness:
  "\<exists>t. run plain_libs failing_graph id ''c'' (start_state (new_context demo_request) () None) = Some t \<and>
     rs_status_code (cx_response (ru_ctx t)) = 500"
  using unhandled_error_is_500 [of failing_graph "''c''" "fail_plugin ''bad''"
      "start_state (new_context demo_request) () None" "new_context demo_request"
      "mk_error ''BAD'' ''no''" "()" plain_libs id]
  by (auto simp: failing_graph_def demo_graph_def fail_plugin_def pure_exec_def start_state_def)

text \<open>
  C3: Where the nodes can be ranked so that every edge a request can take goes down (an error
  edge counts only from a node that can fail), every request is answered, after at most
  one node more than the entry node's rank.
\<close>

theorem ranked_graph_terminates:
  assumes "\<And>i j. hop g i j \<Longrightarrow> rank j < (rank i :: nat)"
  shows "\<exists>t. execute L g el c w = Some t \<and> ru_clock t \<le> Suc (rank (cg_entry_node_id g))"
proof -
  obtain t where "run_fuel L g el (Suc (rank (cg_entry_node_id g))) (cg_entry_node_id g)
      (start_state c w None) = Some t"
    and "ru_clock t \<le> ru_clock (start_state c w None) + Suc (rank (cg_entry_node_id g))"
    using ranked_run [where g = g and rank = rank, OF assms] by blast
  then show ?thesis
    using run_fuel_run by (fastforce simp: execute_def start_state_def)
qed

theorem ranked_graph_terminates_witness:
  "\<exists>t. execute plain_libs demo_graph id (new_context demo_request) () = Some t \<and> ru_clock t \<le> 1"
proof -
  have "(if j = ''l'' then 1 else 0 :: nat) < (if i = ''l'' then 1 else 0)" if "hop demo_graph i j" for i j
    using that
  proof (cases rule: hop.cases)
    case (hop_success p)
    then show ?thesis by (auto simp: demo_graph_def split: if_splits)
  next
    case (hop_error p)
    then show ?thesis by (auto simp: demo_graph_def error_next_def split: if_splits)
  qed
  from ranked_graph_terminates [of demo_graph "\<lambda>i. if i = ''l'' then 1 else 0", OF this]
  show ?thesis by (simp add: demo_graph_def)
qed

text \<open>
  C7: Nothing bounds the walk itself: once a request reaches a catch-all handler that fails and
  has no error edge of its own, the handler is entered again for ever and the request is never
  answered.
\<close>

theorem failing_catch_all_never_ends:
  assumes "hm_get (cg_nodes g) h = Some p" and "cg_catch_all_handler g = Some h"
    and "hm_get (cg_error_edges g) h = None"
    and fails: "\<And>c w. \<exists>ce w'. pl_exec p c w = (Inl ce, w')"
  shows "run L g el h s = None"
proof (rule run_None_fuel)
  have "fst (step L g el h s) = Some h" for s
  proof -
    obtain c e w' where "pl_exec p (ru_ctx s) (ru_world s) = (Inl (c, e), w')"
      using fails by (metis surj_pair)
    then show ?thesis using step_err(1) [OF assms(1)] assms(2,3) by (simp add: error_next_def)
  qed
  then have "\<exists>s'. step L g el h s = (Some h, s')" for s
    by (metis prod.collapse)
  then show "run_fuel L g el n h s = None" for n
  proof (induction n arbitrary: s)
    case (Suc n)
    then obtain s' where "step L g el h s = (Some h, s')" by blast
    with Suc show ?case by simp
  qed simp
qed

theorem failing_catch_all_never_ends_witness:
  "run plain_libs (failing_graph\<lparr>cg_catch_all_handler := Some ''c''\<rparr>) id ''c''
     (start_state (new_context demo_request) () None) = None"
  by (rule failing_catch_all_never_ends [where p = "fail_plugin ''bad''"])
    (simp_all add: failing_graph_def demo_graph_def fail_plugin_def pure_exec_def)

end
