(* ===== verification/Gateway_State.thy ===== *)
theory Gateway_State
  imports Graph_Walk Debug_Store Consumers
begin

text \<open>
  The shared state of the gateway (src/src/state.rs): the configuration, the routes with their
  compiled policies and the consumer store, and the operations that replace them. \<open>create\<close> is the
  plugin registry, \<open>env\<close> the process environment and \<open>load\<close> the reading of a YAML file. The last
  part runs several updates at once, one lock operation at a time.
\<close>

section \<open>State and operations\<close>

record gateway_config =
  gw_routes :: "route_config list"
  gw_policies :: "policy_config list"
  gw_consumer_list :: "consumer_config list"

type_synonym 'w routes = "(route_config \<times> 'w compiled_graph) list"

type_synonym 'w registry = "string \<Rightarrow> config \<Rightarrow> string + 'w plugin"

record 'w shared_state =
  sh_gateway :: gateway_config
  sh_routes :: "'w routes"
  sh_config_path :: "string option"
  sh_consumers :: consumer_store
  sh_debug :: debug_state

definition compile_one ::
  "libs \<Rightarrow> 'w registry \<Rightarrow> (string \<Rightarrow> string option) \<Rightarrow> policy_config \<Rightarrow> 'w compiled_graph hmap
     \<Rightarrow> string + 'w compiled_graph hmap" where
  "compile_one L create env p m =
     (case validate_policy p of
        Inl errors \<Rightarrow> Inl (''Invalid policy '' @ sq (pc_name p) @ '': '' @ debug_list L errors)
      | Inr _ \<Rightarrow> res_bind (compile_policy create env True p) (\<lambda>g. Inr (hm_insert (pc_name p) g m)))"

definition bind_route ::
  "'w compiled_graph hmap \<Rightarrow> route_config \<Rightarrow> string + route_config \<times> 'w compiled_graph" where
  "bind_route m r =
     res_bind (ok_or (hm_get m (rc_policy r))
       (''Route '' @ sq (rc_name r) @ '' references unknown policy '' @ sq (rc_policy r)))
       (\<lambda>g. Inr (r, g))"

definition compile_routes ::
  "libs \<Rightarrow> 'w registry \<Rightarrow> (string \<Rightarrow> string option) \<Rightarrow> gateway_config \<Rightarrow> string + 'w routes" where
  "compile_routes L create env gw =
     res_bind (fold_res (compile_one L create env) (gw_policies gw) [])
       (\<lambda>m. traverse (bind_route m) (gw_routes gw))"

definition new_state ::
  "libs \<Rightarrow> 'w registry \<Rightarrow> (string \<Rightarrow> string option) \<Rightarrow> debug_config \<Rightarrow> gateway_config \<Rightarrow> string option
     \<Rightarrow> string + 'w shared_state" where
  "new_state L create env dbg gw path =
     res_bind (store_from_config (gw_consumer_list gw)) (\<lambda>cons.
     res_bind (compile_routes L create env gw) (\<lambda>routes.
       Inr \<lparr>sh_gateway = gw, sh_routes = routes, sh_config_path = path, sh_consumers = cons,
            sh_debug = new_debug_state L dbg\<rparr>))"

text \<open>\<open>apply_gateway\<close>: the result and the state after it.\<close>

definition apply_gateway ::
  "libs \<Rightarrow> 'w registry \<Rightarrow> (string \<Rightarrow> string option) \<Rightarrow> 'w shared_state \<Rightarrow> gateway_config
     \<Rightarrow> (string + unit) \<times> 'w shared_state" where
  "apply_gateway L create env s gw =
     (case store_from_config (gw_consumer_list gw) of
        Inl e \<Rightarrow> (Inl e, s)
      | Inr cons \<Rightarrow>
          (case compile_routes L create env gw of
             Inl e \<Rightarrow> (Inl e, s)
           | Inr routes \<Rightarrow>
               (let s1 = s\<lparr>sh_consumers := cons\<rparr>; s2 = s1\<lparr>sh_gateway := gw\<rparr>; s3 = s2\<lparr>sh_routes := routes\<rparr>
                in (Inr (), s3))))"

definition validate_gateway ::
  "libs \<Rightarrow> 'w registry \<Rightarrow> (string \<Rightarrow> string option) \<Rightarrow> gateway_config \<Rightarrow> string + unit" where
  "validate_gateway L create env gw =
     res_bind (store_from_config (gw_consumer_list gw)) (\<lambda>_.
     res_bind (compile_routes L create env gw) (\<lambda>_. Inr ()))"

definition reload_from_disk ::
  "libs \<Rightarrow> 'w registry \<Rightarrow> (string \<Rightarrow> string option) \<Rightarrow> (string \<Rightarrow> string + gateway_config) \<Rightarrow> 'w shared_state
     \<Rightarrow> (string + unit) \<times> 'w shared_state" where
  "reload_from_disk L create env load s =
     (case sh_config_path s of
        None \<Rightarrow> (Inl ''No config path set for hot-reload'', s)
      | Some path \<Rightarrow>
          (case load path of
             Inl e \<Rightarrow> (Inl e, s)
           | Inr gw \<Rightarrow> apply_gateway L create env s gw))"

section \<open>What a configuration must satisfy\<close>

definition consistent ::
  "libs \<Rightarrow> 'w registry \<Rightarrow> (string \<Rightarrow> string option) \<Rightarrow> 'w shared_state \<Rightarrow> bool" where
  "consistent L create env s \<longleftrightarrow>
     compile_routes L create env (sh_gateway s) = Inr (sh_routes s) \<and>
     store_from_config (gw_consumer_list (sh_gateway s)) = Inr (sh_consumers s)"

text \<open>
  The conditions in the terms of the configuration: consumers with unique names and credentials,
  well-formed policies whose nodes the registry can build, and routes to policies that exist.
\<close>

definition gateway_wf ::
  "'w registry \<Rightarrow> (string \<Rightarrow> string option) \<Rightarrow> gateway_config \<Rightarrow> bool" where
  "gateway_wf create env gw \<longleftrightarrow>
     consumers_wf (gw_consumer_list gw) \<and>
     (\<forall>p \<in> set (gw_policies gw). policy_wf p \<and> (\<exists>g. compile_policy create env True p = Inr g)) \<and>
     (\<forall>r \<in> set (gw_routes gw). rc_policy r \<in> pc_name ` set (gw_policies gw))"

lemma compile_one_Inr:
  "compile_one L create env p m = Inr m' \<longleftrightarrow>
     (\<exists>g. policy_errors p = [] \<and> compile_policy create env True p = Inr g \<and>
        m' = hm_insert (pc_name p) g m)"
proof (cases "policy_errors p = []")
  case True
  then show ?thesis
    by (cases "compile_policy create env True p") (auto simp: compile_one_def validate_policy_def)
qed (simp add: compile_one_def validate_policy_def)

lemma compile_one_total:
  "(\<exists>m'. compile_one L create env p m = Inr m') \<longleftrightarrow>
     policy_errors p = [] \<and> (\<exists>g. compile_policy create env True p = Inr g)"
  by (simp add: compile_one_Inr)

lemma compile_policies:
  "(\<exists>m'. fold_res (compile_one L create env) ps m = Inr m') \<longleftrightarrow>
     (\<forall>p \<in> set ps. policy_errors p = [] \<and> (\<exists>g. compile_policy create env True p = Inr g))"
  "fold_res (compile_one L create env) ps m = Inr m' \<Longrightarrow>
     hm_get m' k \<noteq> None \<longleftrightarrow> hm_get m k \<noteq> None \<or> k \<in> pc_name ` set ps"
proof (induction ps arbitrary: m m')
  case Nil
  { case 1 then show ?case by simp }
  { case 2 then show ?case by simp }
next
  case (Cons p ps)
  {
    case 1
    show ?case
      using compile_one_total [of L create env p m] Cons.IH(1)
      by (cases "compile_one L create env p m") simp_all
  }
  {
    case 2
    then obtain m1 where "compile_one L create env p m = Inr m1" "fold_res (compile_one L create env) ps m1 = Inr m'"
      by (auto split: sum.splits)
    moreover from this(1) have "hm_get m1 k \<noteq> None \<longleftrightarrow> k = pc_name p \<or> hm_get m k \<noteq> None"
      by (auto simp: compile_one_Inr)
    ultimately show ?case using Cons.IH(2) [of m1 m'] by auto
  }
qed

lemma traverse_Inr_iff: "(\<exists>ys. traverse f xs = Inr ys) \<longleftrightarrow> (\<forall>x \<in> set xs. \<exists>y. f x = Inr y)"
  by (induction xs) (auto split: sum.splits)

lemma bind_route_Inr: "(\<exists>y. bind_route m r = Inr y) \<longleftrightarrow> hm_get m (rc_policy r) \<noteq> None"
  by (auto simp: bind_route_def res_bind_eq_Inr ok_or_eq_Inr)

lemma compile_routes_total:
  "(\<exists>r. compile_routes L create env gw = Inr r) \<longleftrightarrow>
     (\<forall>p \<in> set (gw_policies gw). policy_wf p \<and> (\<exists>g. compile_policy create env True p = Inr g)) \<and>
     (\<forall>r \<in> set (gw_routes gw). rc_policy r \<in> pc_name ` set (gw_policies gw))"
proof (cases "fold_res (compile_one L create env) (gw_policies gw) []")
  case (Inl e)
  then show ?thesis
    using compile_policies(1) [of L create env "gw_policies gw" "[]"]
    by (simp add: compile_routes_def policy_errors_Nil)
next
  case (Inr m)
  then have "\<forall>p \<in> set (gw_policies gw). policy_wf p \<and> (\<exists>g. compile_policy create env True p = Inr g)"
    using compile_policies(1) [of L create env "gw_policies gw" "[]"] by (simp add: policy_errors_Nil)
  moreover have "(\<exists>y. bind_route m r = Inr y) \<longleftrightarrow> rc_policy r \<in> pc_name ` set (gw_policies gw)" for r
    using compile_policies(2) [OF Inr, of "rc_policy r"] unfolding bind_route_Inr by simp
  ultimately show ?thesis by (simp add: compile_routes_def Inr traverse_Inr_iff)
qed

lemma gateway_accepted:
  "(\<exists>c r. store_from_config (gw_consumer_list gw) = Inr c \<and> compile_routes L create env gw = Inr r)
     \<longleftrightarrow> gateway_wf create env gw"
  using store_from_config_iff [of "gw_consumer_list gw"] compile_routes_total [of L create env gw]
  by (auto simp: gateway_wf_def)

lemma apply_gateway_Inr:
  "apply_gateway L create env s gw = (Inr (), s') \<longleftrightarrow>
     (\<exists>c r. store_from_config (gw_consumer_list gw) = Inr c \<and> compile_routes L create env gw = Inr r \<and>
        s' = s\<lparr>sh_consumers := c, sh_gateway := gw, sh_routes := r\<rparr>)"
  by (cases "store_from_config (gw_consumer_list gw)"; cases "compile_routes L create env gw")
    (auto simp: apply_gateway_def Let_def)

lemma apply_gateway_Inl:
  "apply_gateway L create env s gw = (Inl e, s') \<Longrightarrow> s' = s \<and> \<not> gateway_wf create env gw"
  unfolding gateway_accepted [where L = L, symmetric]
  by (cases "store_from_config (gw_consumer_list gw)"; cases "compile_routes L create env gw")
    (auto simp: apply_gateway_def Let_def)

lemma apply_gateway_wf:
  "gateway_wf create env gw \<Longrightarrow> \<exists>s'. apply_gateway L create env s gw = (Inr (), s')"
  unfolding gateway_accepted [where L = L, symmetric] by (auto simp: apply_gateway_def Let_def)

lemma apply_consistent:
  "apply_gateway L create env s gw = (Inr (), s') \<Longrightarrow> consistent L create env s' \<and> sh_gateway s' = gw"
  by (auto simp: apply_gateway_Inr consistent_def)

section \<open>Updates in parallel\<close>

text \<open>
  What an update in flight still has to do. An admin handler reads the configuration and derives
  its candidate (\<open>None\<close> when it answers at once, as for a 404); a reload ignores what it reads.
  \<open>Writing\<close> holds the write lock of the configuration, which \<open>apply_gateway\<close> keeps until it
  returns.
\<close>

datatype 'w update =
    Reading "gateway_config \<Rightarrow> gateway_config option"
  | Prepared gateway_config consumer_store "'w routes"
  | Stored gateway_config "'w routes"
  | Writing "'w routes"
  | Returned "(string + unit) option"

definition writing :: "'w update list \<Rightarrow> bool" where
  "writing us \<longleftrightarrow> list_ex (\<lambda>u. case u of Writing _ \<Rightarrow> True | _ \<Rightarrow> False) us"

inductive update_step ::
  "libs \<Rightarrow> 'w registry \<Rightarrow> (string \<Rightarrow> string option) \<Rightarrow> 'w shared_state \<times> 'w update list
     \<Rightarrow> 'w shared_state \<times> 'w update list \<Rightarrow> bool"
  for L create env where
  read_done: "i < length us \<Longrightarrow> us ! i = Reading f \<Longrightarrow> \<not> writing us \<Longrightarrow> f (sh_gateway s) = None \<Longrightarrow>
     update_step L create env (s, us) (s, us[i := Returned None])"
| read_invalid: "i < length us \<Longrightarrow> us ! i = Reading f \<Longrightarrow> \<not> writing us \<Longrightarrow> f (sh_gateway s) = Some gw \<Longrightarrow>
     fst (apply_gateway L create env s gw) = Inl e \<Longrightarrow>
     update_step L create env (s, us) (s, us[i := Returned (Some (Inl e))])"
| read_valid: "i < length us \<Longrightarrow> us ! i = Reading f \<Longrightarrow> \<not> writing us \<Longrightarrow> f (sh_gateway s) = Some gw \<Longrightarrow>
     store_from_config (gw_consumer_list gw) = Inr c \<Longrightarrow> compile_routes L create env gw = Inr r \<Longrightarrow>
     update_step L create env (s, us) (s, us[i := Prepared gw c r])"
| store: "i < length us \<Longrightarrow> us ! i = Prepared gw c r \<Longrightarrow>
     update_step L create env (s, us) (s\<lparr>sh_consumers := c\<rparr>, us[i := Stored gw r])"
| lock: "i < length us \<Longrightarrow> us ! i = Stored gw r \<Longrightarrow> \<not> writing us \<Longrightarrow>
     update_step L create env (s, us) (s\<lparr>sh_gateway := gw\<rparr>, us[i := Writing r])"
| swap: "i < length us \<Longrightarrow> us ! i = Writing r \<Longrightarrow>
     update_step L create env (s, us) (s\<lparr>sh_routes := r\<rparr>, us[i := Returned (Some (Inr ()))])"

inductive updates ::
  "libs \<Rightarrow> 'w registry \<Rightarrow> (string \<Rightarrow> string option) \<Rightarrow> 'w shared_state \<times> 'w update list
     \<Rightarrow> 'w shared_state \<times> 'w update list \<Rightarrow> bool"
  for L create env x where
  updates_refl: "updates L create env x x"
| updates_step: "updates L create env x y \<Longrightarrow> update_step L create env y z \<Longrightarrow> updates L create env x z"

definition update_ok ::
  "libs \<Rightarrow> 'w registry \<Rightarrow> (string \<Rightarrow> string option) \<Rightarrow> 'w shared_state \<Rightarrow> 'w update \<Rightarrow> bool" where
  "update_ok L create env s u =
     (case u of
        Prepared gw c r \<Rightarrow> compile_routes L create env gw = Inr r \<and> store_from_config (gw_consumer_list gw) = Inr c
      | Stored gw r \<Rightarrow> compile_routes L create env gw = Inr r \<and> consumers_wf (gw_consumer_list gw)
      | Writing r \<Rightarrow> compile_routes L create env (sh_gateway s) = Inr r
      | _ \<Rightarrow> True)"

definition updates_inv ::
  "libs \<Rightarrow> 'w registry \<Rightarrow> (string \<Rightarrow> string option) \<Rightarrow> 'w shared_state \<times> 'w update list \<Rightarrow> bool" where
  "updates_inv L create env x =
     (case x of (s, us) \<Rightarrow>
        (\<forall>i < length us. update_ok L create env s (us ! i)) \<and>
        (\<forall>i < length us. \<forall>j < length us. \<forall>r r'. us ! i = Writing r \<longrightarrow> us ! j = Writing r' \<longrightarrow> i = j) \<and>
        gateway_wf create env (sh_gateway s) \<and>
        (\<not> writing us \<longrightarrow> compile_routes L create env (sh_gateway s) = Inr (sh_routes s)))"

lemma writing_iff: "writing us \<longleftrightarrow> (\<exists>i < length us. \<exists>r. us ! i = Writing r)"
proof -
  have "(case u of Writing _ \<Rightarrow> True | _ \<Rightarrow> False) \<longleftrightarrow> (\<exists>r. u = Writing r)" for u :: "'a update"
    by (cases u) simp_all
  then show ?thesis unfolding writing_def list_ex_iff by (metis in_set_conv_nth)
qed

lemma not_writingD: "\<not> writing us \<Longrightarrow> i < length us \<Longrightarrow> us ! i \<noteq> Writing r"
  by (auto simp: writing_iff)

text \<open>Replacing a finished or waiting update by one that does not hold the lock.\<close>

lemma writing_update:
  assumes "i < length us" and "\<forall>r. us ! i \<noteq> Writing r" and "\<forall>r. u \<noteq> Writing r"
  shows "writing (us[i := u]) \<longleftrightarrow> writing us"
  using assms by (auto simp: writing_iff nth_list_update)

lemma updates_inv_quiet:
  assumes inv: "updates_inv L create env (s, us)" and i: "i < length us"
    and old: "\<forall>r. us ! i \<noteq> Writing r" and new: "\<forall>r. u \<noteq> Writing r"
    and ok: "update_ok L create env s u"
  shows "updates_inv L create env (s\<lparr>sh_consumers := c\<rparr>, us[i := u])"
    and "updates_inv L create env (s, us[i := u])"
proof -
  have w: "writing (us[i := u]) \<longleftrightarrow> writing us" by (rule writing_update [OF i old new])
  have k: "update_ok L create env (s\<lparr>sh_consumers := c\<rparr>) = update_ok L create env s"
    by (rule ext) (simp add: update_ok_def split: update.splits)
  show "updates_inv L create env (s\<lparr>sh_consumers := c\<rparr>, us[i := u])"
    and "updates_inv L create env (s, us[i := u])"
    using inv i new ok unfolding updates_inv_def prod.case w k by (auto simp: nth_list_update)
qed

lemma updates_inv_step:
  assumes "update_step L create env x y" and "updates_inv L create env x"
  shows "updates_inv L create env y"
  using assms
proof (induction rule: update_step.induct)
  case (read_done i us f s)
  then show ?case by (intro updates_inv_quiet(2)) (auto simp: update_ok_def)
next
  case (read_invalid i us f s gw e)
  then show ?case by (intro updates_inv_quiet(2)) (auto simp: update_ok_def)
next
  case (read_valid i us f s gw c r)
  then show ?case by (intro updates_inv_quiet(2)) (auto simp: update_ok_def)
next
  case (store i us gw c r s)
  then have "update_ok L create env s (Prepared gw c r)" by (auto simp: updates_inv_def dest!: spec)
  then have "update_ok L create env s (Stored gw r)"
    using store_from_config_iff [of "gw_consumer_list gw"] by (auto simp: update_ok_def)
  with store show ?case by (intro updates_inv_quiet(1)) auto
next
  case (lock i us gw r s)
  have u: "update_ok L create env s (us ! j)" if "j < length us" for j
    using lock that by (simp add: updates_inv_def)
  from u [OF lock(1)] lock(2) have r: "compile_routes L create env gw = Inr r"
    and c: "consumers_wf (gw_consumer_list gw)" by (simp_all add: update_ok_def)
  have n: "us ! j \<noteq> Writing q" if "j < length us" for j q
    using not_writingD [OF lock(3) that] .
  have wf: "gateway_wf create env gw"
    using r c store_from_config_iff gateway_accepted by blast
  have "update_ok L create env (s\<lparr>sh_gateway := gw\<rparr>) (us ! j)" if "j < length us" for j
    using u [OF that] n [OF that] by (simp add: update_ok_def split: update.splits)
  moreover have "update_ok L create env (s\<lparr>sh_gateway := gw\<rparr>) (Writing r)"
    using r by (simp add: update_ok_def)
  moreover have "writing (us[i := Writing r])"
    using lock(1) unfolding writing_iff by (metis length_list_update nth_list_update_eq)
  ultimately show ?case
    using lock(1) n wf by (auto simp: updates_inv_def nth_list_update)
next
  case (swap i us r s)
  have u: "update_ok L create env s (us ! j)" if "j < length us" for j
    using swap that by (simp add: updates_inv_def)
  have r: "compile_routes L create env (sh_gateway s) = Inr r"
    using u [OF swap(1)] swap(2) by (simp add: update_ok_def)
  have one: "j = i" if "j < length us" "us ! j = Writing q" for j q
    using swap that unfolding updates_inv_def by auto
  have k: "update_ok L create env (s\<lparr>sh_routes := r\<rparr>) = update_ok L create env s"
    by (rule ext) (simp add: update_ok_def split: update.splits)
  have "update_ok L create env (s\<lparr>sh_routes := r\<rparr>) (us[i := Returned (Some (Inr ()))] ! j)"
    if "j < length us" for j
    unfolding k using u [OF that] that swap(1)
    by (cases "j = i") (simp_all add: nth_list_update update_ok_def)
  with swap one r show ?case by (auto simp: updates_inv_def nth_list_update)
qed

lemma updates_inv_reach:
  "updates L create env x y \<Longrightarrow> updates_inv L create env x \<Longrightarrow> updates_inv L create env y"
  by (induction rule: updates.induct) (auto dest: updates_inv_step)

lemma updates_inv_start:
  assumes "consistent L create env s" and "\<forall>u \<in> set us. \<exists>f. u = Reading f"
  shows "updates_inv L create env (s, us)"
proof -
  have r: "\<exists>f. us ! i = Reading f" if "i < length us" for i using assms(2) that by simp
  have "gateway_wf create env (sh_gateway s)"
    using assms(1) gateway_accepted [of "sh_gateway s" L create env] by (auto simp: consistent_def)
  moreover have "update_ok L create env s (us ! i)" if "i < length us" for i
    using r [OF that] by (auto simp: update_ok_def)
  moreover have "us ! i \<noteq> Writing q" if "i < length us" for i q using r [OF that] by auto
  ultimately show ?thesis using assms(1) by (auto simp: updates_inv_def consistent_def)
qed

text \<open>An update that runs alone takes the four steps of \<open>apply_gateway\<close>.\<close>

lemma update_alone:
  assumes "f (sh_gateway s) = Some gw" and "apply_gateway L create env s gw = (Inr (), s')"
  shows "updates L create env (s, [Reading f]) (s', [Returned (Some (Inr ()))])"
proof -
  obtain c r where cr: "store_from_config (gw_consumer_list gw) = Inr c" "compile_routes L create env gw = Inr r"
    and s': "s' = s\<lparr>sh_consumers := c, sh_gateway := gw, sh_routes := r\<rparr>"
    using assms(2) by (auto simp: apply_gateway_Inr)
  have "update_step L create env (s, [Reading f]) (s, [Prepared gw c r])"
    using read_valid [of 0 "[Reading f]" f s gw c L create env r] assms(1) cr by (simp add: writing_def)
  moreover have "update_step L create env (s, [Prepared gw c r]) (s\<lparr>sh_consumers := c\<rparr>, [Stored gw r])"
    using store [of 0 "[Prepared gw c r]" gw c r L create env s] by simp
  moreover have "update_step L create env (s\<lparr>sh_consumers := c\<rparr>, [Stored gw r])
      (s\<lparr>sh_consumers := c, sh_gateway := gw\<rparr>, [Writing r])"
    using lock [of 0 "[Stored gw r]" gw r L create env "s\<lparr>sh_consumers := c\<rparr>"] by (simp add: writing_def)
  moreover have "update_step L create env (s\<lparr>sh_consumers := c, sh_gateway := gw\<rparr>, [Writing r])
      (s', [Returned (Some (Inr ()))])"
    using swap [of 0 "[Writing r]" r L create env "s\<lparr>sh_consumers := c, sh_gateway := gw\<rparr>"] by (simp add: s')
  ultimately show ?thesis by (meson updates_refl updates_step)
qed

section \<open>Properties\<close>

definition demo_state :: "'w shared_state" where
  "demo_state = \<lparr>sh_gateway = \<lparr>gw_routes = [], gw_policies = [], gw_consumer_list = []\<rparr>, sh_routes = [],
     sh_config_path = None, sh_consumers = empty_store, sh_debug = new_debug_state plain_libs default_debug_config\<rparr>"

lemma demo_state_consistent: "consistent plain_libs create env demo_state"
  by (simp add: consistent_def demo_state_def compile_routes_def store_from_config_def)

text \<open>
  C24: Applying a configuration accepts exactly the well-formed ones and is all or nothing. It
  succeeds iff the consumers have unique names and credentials, every policy is well-formed and can
  be built, and every route names an existing policy; then the configuration is in force, with the
  routes compiled from it and the consumer store built from it, and validating it beforehand gives
  the same verdict. Otherwise the state is untouched.
\<close>

theorem apply_gateway_exact:
  "(case apply_gateway L create env s gw of
      (Inr _, s') \<Rightarrow> gateway_wf create env gw \<and> sh_gateway s' = gw \<and> consistent L create env s'
    | (Inl e, s') \<Rightarrow> \<not> gateway_wf create env gw \<and> s' = s) \<and>
   fst (apply_gateway L create env s gw) = validate_gateway L create env gw"
proof (intro conjI)
  show "case apply_gateway L create env s gw of
      (Inr _, s') \<Rightarrow> gateway_wf create env gw \<and> sh_gateway s' = gw \<and> consistent L create env s'
    | (Inl e, s') \<Rightarrow> \<not> gateway_wf create env gw \<and> s' = s"
  proof (cases "apply_gateway L create env s gw")
    case (Pair v s')
    show ?thesis
    proof (cases v)
      case (Inl e)
      with Pair show ?thesis using apply_gateway_Inl [of L create env s gw e s'] by simp
    next
      case (Inr u)
      with Pair have "apply_gateway L create env s gw = (Inr (), s')" by simp
      moreover from this have "gateway_wf create env gw"
        unfolding apply_gateway_Inr using gateway_accepted [of gw L create env] by blast
      ultimately show ?thesis
        using apply_consistent [of L create env s gw s'] by simp
    qed
  qed
  show "fst (apply_gateway L create env s gw) = validate_gateway L create env gw"
    by (cases "store_from_config (gw_consumer_list gw)"; cases "compile_routes L create env gw")
      (simp_all add: apply_gateway_def validate_gateway_def Let_def)
qed

text \<open>
  C25: However configuration updates interleave, the routing table follows the configuration.
  Any number of admin edits and reloads run from a consistent state, one lock operation at a time:
  whenever none of them holds the configuration's write lock, the routes being served are those
  compiled from the configuration the admin interface shows, and that configuration is well-formed.
\<close>

theorem routes_follow_configuration:
  assumes "consistent L create env s" and "\<forall>u \<in> set us. \<exists>f. u = Reading f"
    and "updates L create env (s, us) (s', us')" and "\<not> writing us'"
  shows "compile_routes L create env (sh_gateway s') = Inr (sh_routes s') \<and>
    gateway_wf create env (sh_gateway s')"
  using updates_inv_reach [OF assms(3) updates_inv_start [OF assms(1,2)]] assms(4)
  by (simp add: updates_inv_def)

theorem routes_follow_configuration_witness:
  "compile_routes plain_libs (\<lambda>_ _. Inl ''none'') (\<lambda>_. None) (sh_gateway (demo_state :: unit shared_state))
     = Inr (sh_routes (demo_state :: unit shared_state))"
proof -
  have a: "apply_gateway plain_libs (\<lambda>_ _. Inl ''none'') (\<lambda>_. None) (demo_state :: unit shared_state)
      (sh_gateway (demo_state :: unit shared_state)) = (Inr (), demo_state)"
    by (simp add: apply_gateway_def demo_state_def store_from_config_def compile_routes_def)
  have "updates plain_libs (\<lambda>_ _. Inl ''none'') (\<lambda>_. None) (demo_state :: unit shared_state, [Reading Some])
      (demo_state, [Returned (Some (Inr ()))])"
    by (rule update_alone [OF _ a]) simp
  from routes_follow_configuration [OF demo_state_consistent _ this] show ?thesis
    by (simp add: writing_def)
qed

end
