(* ===== verification/Plugin_Token.thy ===== *)
theory Plugin_Token
  imports Plugin_Auth
begin

text \<open>
  Authentication by tokens (src/src/plugins/native/): csrf, jwt-auth and jwe-decrypt. Cryptography
  and the remaining decoders are an argument, \<open>token_lib\<close>: a keyed hash whose verification is
  comparison with a fresh tag (as the ring crate documents it), the JWT decoder at the time of
  the request, AES-256-GCM opening, URL-safe and unpadded base64, and the JSON parser.
\<close>

datatype mac_algorithm = Sha1 | Sha256 | Sha512

datatype jwt_algorithm = HS256 | HS384 | HS512

record token_lib =
  tl_mac :: "mac_algorithm \<Rightarrow> string \<Rightarrow> string \<Rightarrow> string"
  tl_json :: "string \<Rightarrow> json option"
  tl_b64url :: "string \<Rightarrow> string option"
  tl_b64_nopad :: "string \<Rightarrow> string option"
  tl_jwt :: "jwt_algorithm \<Rightarrow> string \<Rightarrow> string \<Rightarrow> string + json hmap"
  tl_open :: "string \<Rightarrow> string \<Rightarrow> string \<Rightarrow> string \<Rightarrow> string option"

section \<open>csrf\<close>

datatype csrf_phase = Request | Response

record csrf =
  cf_key :: string
  cf_expires :: nat
  cf_name :: string
  cf_phase :: csrf_phase

definition safe_methods :: "string list" where
  "safe_methods = [''GET'', ''HEAD'', ''OPTIONS'']"

definition csrf_from_config :: "libs \<Rightarrow> config \<Rightarrow> string + csrf" where
  "csrf_from_config L c =
     res_bind (ok_or (opt_filter (\<lambda>s. s \<noteq> []) (cfg_str c ''key''))
       ''csrf: key is required and must be a non-empty string'') (\<lambda>secret.
     res_bind (case hm_get c ''expires'' of
                 None \<Rightarrow> Inr 7200
               | Some v \<Rightarrow> ok_or (as_u64 v) ''csrf: expires must be a non-negative integer'') (\<lambda>expires.
       Inr \<lparr>cf_key = secret, cf_expires = expires,
            cf_name = to_lowercase L (unwrap_or ''featherbit-csrf-token''
              (opt_filter (\<lambda>s. s \<noteq> []) (cfg_str c ''name''))),
            cf_phase = (if cfg_str c ''phase'' = Some ''response'' then Response else Request)\<rparr>))"

definition hex_byte :: "char \<Rightarrow> string" where
  "hex_byte c = (let n = of_char c in [hex_char (n div 16), hex_char (n mod 16)])"

definition hex_encode :: "string \<Rightarrow> string" where
  "hex_encode bs = concat (map hex_byte bs)"

text \<open>\<open>u8::from_str_radix(pair, 16)\<close>; a leading \<open>+\<close> is a sign.\<close>

definition pair_byte :: "char \<Rightarrow> char \<Rightarrow> char option" where
  "pair_byte a b =
     (case hex_digit b of
        None \<Rightarrow> None
      | Some l \<Rightarrow>
          if a = CHR ''+'' then Some (char_of l)
          else map_option (\<lambda>h. char_of (16 * h + l)) (hex_digit a))"

text \<open>
  The slices of two bytes, up to the first bad one. The outer \<open>None\<close> is the panic of a slice that
  does not end at a character boundary.
\<close>

fun hex_pairs :: "string \<Rightarrow> string option option" where
  "hex_pairs (a # b # s) =
     (if s \<noteq> [] \<and> is_cont (of_char (hd s)) then None
      else (case pair_byte a b of
              None \<Rightarrow> Some None
            | Some n \<Rightarrow> map_option (map_option (Cons n)) (hex_pairs s)))"
| "hex_pairs s = Some (Some [])"

definition hex_decode :: "string \<Rightarrow> string option option" where
  "hex_decode s = (if even (length s) then hex_pairs s else Some None)"

definition csrf_sign :: "token_lib \<Rightarrow> csrf \<Rightarrow> string \<Rightarrow> nat \<Rightarrow> string" where
  "csrf_sign T p random expires = hex_encode (tl_mac T Sha256 (cf_key p) (random @ show_nat expires))"

definition token_object :: "string \<Rightarrow> nat \<Rightarrow> string \<Rightarrow> json" where
  "token_object random ts sign =
     JObj [(''expires'', jnat ts), (''random'', JStr random), (''sign'', JStr sign)]"

definition token_text :: "libs \<Rightarrow> string \<Rightarrow> nat \<Rightarrow> string \<Rightarrow> string" where
  "token_text L random ts sign = b64_encode L (json_print L (token_object random ts sign))"

text \<open>\<open>rng\<close> are the sixteen random bytes, \<open>ts\<close> the clock in seconds.\<close>

definition token_at :: "libs \<Rightarrow> token_lib \<Rightarrow> csrf \<Rightarrow> string \<Rightarrow> nat \<Rightarrow> string" where
  "token_at L T p rng ts =
     (let random = hex_encode rng in token_text L random ts (csrf_sign T p random ts))"

definition check_token :: "libs \<Rightarrow> token_lib \<Rightarrow> csrf \<Rightarrow> nat \<Rightarrow> string \<Rightarrow> bool option" where
  "check_token L T p now token =
     (case Option.bind (b64_decode L token) (tl_json T) of
        None \<Rightarrow> Some False
      | Some v \<Rightarrow>
     (case Option.bind (json_get v ''random'') as_str of
        None \<Rightarrow> Some False
      | Some random \<Rightarrow>
     (case Option.bind (json_get v ''expires'') as_u64 of
        None \<Rightarrow> Some False
      | Some expires \<Rightarrow>
          if 0 < cf_expires p \<and> cf_expires p < now - expires then Some False
          else
     (case Option.bind (json_get v ''sign'') as_str of
        None \<Rightarrow> Some False
      | Some sign \<Rightarrow>
          map_option
            (\<lambda>d. d = Some (tl_mac T Sha256 (cf_key p) (random @ show_nat expires)))
            (hex_decode sign)))))"

definition csrf_cookie :: "libs \<Rightarrow> token_lib \<Rightarrow> csrf \<Rightarrow> string \<Rightarrow> nat \<Rightarrow> string" where
  "csrf_cookie L T p rng now =
     cf_name p @ ''='' @ token_at L T p rng now @ '';path=/;SameSite=Lax'' @
     (if 0 < cf_expires p then '';Max-Age='' @ show_nat (cf_expires p) else [])"

definition set_cookie :: "libs \<Rightarrow> token_lib \<Rightarrow> csrf \<Rightarrow> string \<Rightarrow> nat \<Rightarrow> gcontext \<Rightarrow> gcontext" where
  "set_cookie L T p rng now c =
     set_rs_header ''set-cookie''
       (hm_entry (rs_headers (cx_response c)) ''set-cookie'' [] @ [csrf_cookie L T p rng now]) c"

definition csrf_reject :: "libs \<Rightarrow> gcontext \<Rightarrow> string \<Rightarrow> plugin_result" where
  "csrf_reject L c msg = reject_json c 401 (json_msg L ''error_msg'' msg) ''CSRF_INVALID'' msg"

text \<open>\<open>t1\<close> is the clock when the token is checked, \<open>t2\<close> when the new one is issued; \<open>None\<close> is a panic.\<close>

definition csrf_exec ::
  "libs \<Rightarrow> token_lib \<Rightarrow> string \<Rightarrow> nat \<Rightarrow> nat \<Rightarrow> csrf \<Rightarrow> gcontext \<Rightarrow> plugin_result option" where
  "csrf_exec L T rng t1 t2 p c =
     (let issued = Some (Inr (set_cookie L T p rng t2 c));
          header_token = unwrap_or [] (first_header c (cf_name p))
      in if cf_phase p = Response \<or> rq_method (cx_request c) \<in> set safe_methods then issued
         else if header_token = [] then Some (csrf_reject L c ''no csrf token in headers'')
         else (case resolve L c (''cookie_'' @ cf_name p) of
                 None \<Rightarrow> Some (csrf_reject L c ''no csrf cookie'')
               | Some cookie_token \<Rightarrow>
                   if header_token \<noteq> cookie_token then Some (csrf_reject L c ''csrf token mismatch'')
                   else (case check_token L T p t1 cookie_token of
                           None \<Rightarrow> None
                         | Some False \<Rightarrow>
                             Some (csrf_reject L c ''Failed to verify the csrf token signature'')
                         | Some True \<Rightarrow> issued)))"

lemma hex_digit_hex_char: "d < 16 \<Longrightarrow> hex_digit (hex_char d) = Some d"
  by (auto simp: hex_digit_def hex_char_def Let_def)

lemma hex_char_ascii: "d < 16 \<Longrightarrow> (of_char (hex_char d) :: nat) < 128 \<and> hex_char d \<noteq> CHR ''+''"
  by (auto simp: hex_char_def of_char_eq_iff [symmetric, where 'a = nat])

lemma nibbles: "(of_char c :: nat) div 16 < 16 \<and> (of_char c :: nat) mod 16 < 16"
  using nat_of_char_less_256 [of c] by (simp add: less_mult_imp_div_less)

lemma hex_encode_Cons: "hex_encode (c # bs) = hex_byte c @ hex_encode bs"
  by (simp add: hex_encode_def)

lemma hex_encode_head: "hex_encode bs \<noteq> [] \<Longrightarrow> \<not> is_cont (of_char (hd (hex_encode bs)))"
proof (cases bs)
  case (Cons c cs)
  from hex_char_ascii [OF conjunct1 [OF nibbles [of c]]] show ?thesis
    by (simp add: Cons hex_encode_Cons hex_byte_def Let_def is_cont_def in_range_def)
qed (simp add: hex_encode_def)

lemma pair_byte_hex: "hex_byte c = [a, b] \<Longrightarrow> pair_byte a b = Some c"
proof -
  assume h: "hex_byte c = [a, b]"
  define n :: nat where "n = of_char c"
  have n: "n div 16 < 16" "n mod 16 < 16" using nibbles [of c] by (simp_all add: n_def)
  have ab: "a = hex_char (n div 16)" "b = hex_char (n mod 16)"
    using h by (simp_all add: hex_byte_def Let_def n_def)
  have "16 * (n div 16) + n mod 16 = n" by simp
  then have "char_of (16 * (n div 16) + n mod 16) = c" by (simp add: n_def)
  then show ?thesis
    using n by (simp add: pair_byte_def ab hex_digit_hex_char hex_char_ascii)
qed

text \<open>What is hex-encoded decodes to itself, and never panics.\<close>

lemma hex_decode_encode: "hex_decode (hex_encode bs) = Some (Some bs)"
proof -
  have "hex_pairs (hex_encode bs) = Some (Some bs)"
  proof (induction bs)
    case Nil
    then show ?case by (simp add: hex_encode_def)
  next
    case (Cons c bs)
    obtain a b where ab: "hex_byte c = [a, b]" by (simp add: hex_byte_def Let_def)
    show ?case
      using Cons.IH hex_encode_head [of bs]
      by (cases "hex_encode bs = []") (simp_all add: hex_encode_Cons ab pair_byte_hex [OF ab])
  qed
  moreover have "even (length (hex_encode bs))"
    by (induction bs) (simp_all add: hex_encode_def hex_byte_def Let_def)
  ultimately show ?thesis by (simp add: hex_decode_def)
qed

text \<open>The laws of the codecs on tokens: what is printed is parsed, what is encoded is decoded.\<close>

definition token_codec :: "libs \<Rightarrow> token_lib \<Rightarrow> bool" where
  "token_codec L T \<longleftrightarrow>
     (\<forall>s. b64_decode L (b64_encode L s) = Some s) \<and>
     (\<forall>r e s. e \<le> u64_max \<longrightarrow> tl_json T (json_print L (token_object r e s)) = Some (token_object r e s))"

lemma check_token_text:
  assumes "token_codec L T" and "e \<le> u64_max"
  shows "check_token L T p now (token_text L r e s) =
    (if 0 < cf_expires p \<and> cf_expires p < now - e then Some False
     else map_option (\<lambda>d. d = Some (tl_mac T Sha256 (cf_key p) (r @ show_nat e))) (hex_decode s))"
proof -
  have "b64_decode L (token_text L r e s) = Some (json_print L (token_object r e s))"
    "tl_json T (json_print L (token_object r e s)) = Some (token_object r e s)"
    using assms by (simp_all add: token_codec_def token_text_def)
  then show ?thesis by (simp add: check_token_def token_object_def hm_get_def)
qed

definition carries :: "libs \<Rightarrow> csrf \<Rightarrow> gcontext \<Rightarrow> string \<Rightarrow> bool" where
  "carries L p c token \<longleftrightarrow> token \<noteq> [] \<and> first_header c (cf_name p) = Some token \<and>
     resolve L c (''cookie_'' @ cf_name p) = Some token"

lemma csrf_carried:
  assumes "carries L p c token" and "cf_phase p = Request" and "rq_method (cx_request c) \<notin> set safe_methods"
  shows "csrf_exec L T rng t1 t2 p c =
    map_option (\<lambda>b. if b then Inr (set_cookie L T p rng t2 c)
      else csrf_reject L c ''Failed to verify the csrf token signature'') (check_token L T p t1 token)"
  using assms by (auto simp: csrf_exec_def carries_def split: option.splits bool.splits)

lemma csrf_only_carried:
  assumes "csrf_exec L T rng t1 t2 p c = Some (Inr c')"
    and "cf_phase p = Request" and "rq_method (cx_request c) \<notin> set safe_methods"
  shows "\<exists>token. carries L p c token \<and> check_token L T p t1 token = Some True"
  using assms
  by (auto simp: csrf_exec_def csrf_reject_def carries_def unwrap_or_def Let_def
      split: option.splits if_splits bool.splits)

text \<open>
  A node accepts its own tokens, for as long as they are meant to last. Given the laws of the
  codecs, a token issued at \<open>ts\<close> and carried in both the header and the cookie of an unsafe request
  admits it and renews the cookie until \<open>ts + expires\<close>, and from then on the request is refused; no
  unsafe request passes without carrying one and the same token in both places.
\<close>

theorem csrf_token_round_trip:
  assumes "token_codec L T" and "ts \<le> u64_max"
    and "cf_phase p = Request" and "rq_method (cx_request c) \<notin> set safe_methods"
  shows "(carries L p c (token_at L T p rng ts) \<longrightarrow>
      csrf_exec L T rng' t1 t2 p c =
        Some (if cf_expires p = 0 \<or> t1 \<le> ts + cf_expires p then Inr (set_cookie L T p rng' t2 c)
              else csrf_reject L c ''Failed to verify the csrf token signature'')) \<and>
    (\<forall>c'. csrf_exec L T rng' t1 t2 p c = Some (Inr c') \<longrightarrow>
       (\<exists>token. carries L p c token \<and> check_token L T p t1 token = Some True))"
proof -
  have "check_token L T p t1 (token_at L T p rng ts) = Some (cf_expires p = 0 \<or> t1 \<le> ts + cf_expires p)"
    unfolding token_at_def Let_def check_token_text [OF assms(1,2)] csrf_sign_def hex_decode_encode by auto
  then show ?thesis
    using csrf_carried [OF _ assms(3,4)] csrf_only_carried [OF _ assms(3,4)] by auto
qed

text \<open>A printer and its parser: the expiry, the length of the random part, and both texts.\<close>

fun demo_print :: "json \<Rightarrow> string" where
  "demo_print (JObj [(_, JNum (NPos e)), (_, JStr r), (_, JStr s)]) =
     show_nat e @ CHR '','' # show_nat (length r) @ CHR '','' # r @ s"
| "demo_print _ = []"

definition demo_parse :: "string \<Rightarrow> json option" where
  "demo_parse t =
     (case split_once CHR '','' t of
        None \<Rightarrow> None
      | Some (e, u) \<Rightarrow>
          (case split_once CHR '','' u of
             None \<Rightarrow> None
           | Some (n, v) \<Rightarrow>
               Some (token_object (take (digits_val n) v) (digits_val e) (drop (digits_val n) v))))"

definition demo_token_libs :: libs where
  "demo_token_libs = plain_libs\<lparr>json_print := demo_print\<rparr>"

definition demo_token_lib :: token_lib where
  "demo_token_lib =
     \<lparr>tl_mac = (\<lambda>_ k m. k @ m), tl_json = demo_parse, tl_b64url = Some, tl_b64_nopad = Some,
      tl_jwt = (\<lambda>_ s t. if t = ''a.'' @ s then Inr [] else Inl ''InvalidSignature''),
      tl_open = (\<lambda>_ _ _ s. Some s)\<rparr>"

definition demo_csrf :: csrf where
  "demo_csrf = \<lparr>cf_key = ''k'', cf_expires = 60, cf_name = ''x'', cf_phase = Request\<rparr>"

definition demo_post :: "string \<Rightarrow> gcontext" where
  "demo_post token = new_context
     \<lparr>rq_method = ''POST'', rq_path = ''/'', rq_host = ''h'', rq_scheme = ''http'',
      rq_headers = [(''x'', [token]), (''cookie'', [''x='' @ token])], rq_query_params = [],
      rq_body = [], rq_remote_addr = ''1.2.3.4:5'', rq_protocol = Http1\<rparr>"

lemma demo_codec_ok: "token_codec demo_token_libs demo_token_lib"
proof -
  have c: "CHR '','' \<notin> set (show_nat n)" for n
    using show_nat_digits [of n] by (auto simp: list_all_iff is_digit_def Let_def)
  have "demo_parse (demo_print (token_object r e s)) = Some (token_object r e s)" for r e s
  proof -
    have "split_once CHR '','' (show_nat e @ CHR '','' # u) = Some (show_nat e, u)" for e u
      by (simp add: split_once_Some c)
    then show ?thesis by (simp add: token_object_def jnat_def demo_parse_def)
  qed
  then show ?thesis
    by (simp add: token_codec_def demo_token_libs_def demo_token_lib_def plain_libs_def)
qed

lemma demo_fields [simp]:
  "b64_encode demo_token_libs t = t" "b64_decode demo_token_libs t = Some t"
  "json_print demo_token_libs = demo_print" "tl_mac demo_token_lib h k m = k @ m"
  "tl_json demo_token_lib = demo_parse"
  by (simp_all add: demo_token_libs_def demo_token_lib_def plain_libs_def)

lemma demo_carries:
  assumes "token \<noteq> []" and "CHR '';'' \<notin> set token" and "trim (''x='' @ token) = ''x='' @ token"
  shows "carries demo_token_libs demo_csrf (demo_post token) token"
proof -
  have "split_on CHR '';'' (''x='' @ token) = [''x='' @ token]"
    using assms(2) by (intro split_on_plain) simp
  moreover have "split_once CHR ''='' (''x='' @ token) = Some (''x'', token)"
    by (simp add: split_once_Some)
  ultimately have "cookie_value (demo_post token) ''x'' = Some token"
    using assms(3) by (simp add: cookie_value_def demo_post_def new_context_def first_header_def hm_get_def)
  then show ?thesis
    using assms(1)
    by (simp add: carries_def resolve_def resolve_prefixed_def strip_prefix_def starts_with_def
        demo_csrf_def demo_post_def new_context_def first_header_def hm_get_def Let_def)
qed

theorem csrf_token_round_trip_witness:
  "csrf_exec demo_token_libs demo_token_lib ''z'' 65 65 demo_csrf
     (demo_post (token_at demo_token_libs demo_token_lib demo_csrf ''q'' 5)) =
   Some (Inr (set_cookie demo_token_libs demo_token_lib demo_csrf ''z'' 65
     (demo_post (token_at demo_token_libs demo_token_lib demo_csrf ''q'' 5))))"
proof -
  let ?t = "token_at demo_token_libs demo_token_lib demo_csrf ''q'' 5"
  have p: "?t = demo_print (token_object ''71'' 5 ''6b373135'')"
    by (simp add: token_at_def token_text_def csrf_sign_def demo_csrf_def Let_def) code_simp
  have "show_nat 5 = ''5''" "show_nat (Suc (Suc 0)) = ''2''" by code_simp+
  then have t: "?t = ''5,2,716b373135''" unfolding p by (simp add: token_object_def jnat_def)
  have c: "carries demo_token_libs demo_csrf (demo_post ?t) ?t"
    unfolding t by (rule demo_carries) code_simp+
  have m: "cf_phase demo_csrf = Request" "rq_method (cx_request (demo_post ?t)) \<notin> set safe_methods"
    "cf_expires demo_csrf = 60"
    by (simp_all add: demo_csrf_def demo_post_def new_context_def safe_methods_def)
  show ?thesis
    using csrf_token_round_trip [OF demo_codec_ok _ m(1,2), of 5 "''q''" "''z''" 65 65] c m(3)
    by (simp add: u64_max_def)
qed



section \<open>jwt-auth\<close>

definition jwt_parse_algorithm :: "string option \<Rightarrow> string + jwt_algorithm" where
  "jwt_parse_algorithm name =
     (case name of
        None \<Rightarrow> Inr HS256
      | Some n \<Rightarrow>
          if n = ''HS256'' then Inr HS256
          else if n = ''HS384'' then Inr HS384
          else if n = ''HS512'' then Inr HS512
          else Inl (''Unknown jwt-auth algorithm '' @ sq n @ '' '' @ em_dash @ '' supported: HS256, HS384, HS512''))"

record jwt_auth =
  jw_secret :: "string option"
  jw_algorithm :: jwt_algorithm
  jw_header_name :: string
  jw_use_consumers :: bool

definition jwt_auth_from_config :: "libs \<Rightarrow> config \<Rightarrow> string + jwt_auth" where
  "jwt_auth_from_config L c =
     (let use = unwrap_or False (cfg_bool c ''use_consumers'') in
      if cfg_str c ''secret'' = None \<and> \<not> use then
        Inl (''jwt-auth plugin requires '' @ sq ''secret'' @ '' or '' @ sq ''use_consumers: true'')
      else res_bind (jwt_parse_algorithm (cfg_str c ''algorithm'')) (\<lambda>alg.
        Inr \<lparr>jw_secret = cfg_str c ''secret'', jw_algorithm = alg,
             jw_header_name = to_lowercase L (unwrap_or ''authorization'' (cfg_str c ''header_name'')),
             jw_use_consumers = use\<rparr>))"

definition unauthorized :: "string \<Rightarrow> string" where
  "unauthorized msg = ''{\"error\": \"unauthorized\", \"message\": \"'' @ msg @ ''\"}''"

definition jwt_reject :: "gcontext \<Rightarrow> string \<Rightarrow> plugin_result" where
  "jwt_reject c msg = reject_json c 401 (unauthorized msg) ''JWT_INVALID'' msg"

text \<open>A verified token leaves its claims, and its subject, in the message map.\<close>

definition jwt_claims :: "json hmap \<Rightarrow> gcontext \<Rightarrow> gcontext" where
  "jwt_claims claims c =
     (let c1 = set_message ''jwt_claims'' (JObj (btree claims)) c in
      case hm_get claims ''sub'' of Some sub \<Rightarrow> set_message ''user_id'' sub c1 | None \<Rightarrow> c1)"

definition jwt_verify ::
  "token_lib \<Rightarrow> string \<Rightarrow> string \<Rightarrow> jwt_algorithm \<Rightarrow> gcontext \<Rightarrow> string + gcontext" where
  "jwt_verify T token secret alg c =
     (case tl_jwt T alg secret token of
        Inr claims \<Rightarrow> Inr (jwt_claims claims c)
      | Inl e \<Rightarrow> Inl (''Invalid JWT: '' @ e))"

definition peek_key_claim :: "token_lib \<Rightarrow> string \<Rightarrow> string option" where
  "peek_key_claim T token =
     (case split_on CHR ''.'' token of
        _ # payload # _ \<Rightarrow>
          Option.bind (Option.bind (tl_b64url T payload) (tl_json T))
            (\<lambda>claims. Option.bind (json_get claims ''key'') as_str)
      | _ \<Rightarrow> None)"

definition jwt_token :: "jwt_auth \<Rightarrow> gcontext \<Rightarrow> string option" where
  "jwt_token p c =
     map_option (\<lambda>v. unwrap_or v (strip_prefix v ''Bearer '')) (first_header c (jw_header_name p))"

text \<open>A field of the consumer's credential of the given type.\<close>

definition cred_str :: "consumer \<Rightarrow> string \<Rightarrow> string \<Rightarrow> string option" where
  "cred_str k t f = Option.bind (Option.bind (hm_get (cn_credentials k) t) (\<lambda>v. json_get v f)) as_str"

definition jwt_consumer ::
  "token_lib \<Rightarrow> consumer_store \<Rightarrow> string \<Rightarrow> gcontext \<Rightarrow> plugin_result" where
  "jwt_consumer T st token c =
     (case peek_key_claim T token of
        None \<Rightarrow> jwt_reject c ''JWT missing 'key' claim''
      | Some key \<Rightarrow>
     (case find_by_credential st ''jwt-auth'' key of
        None \<Rightarrow> jwt_reject c ''Unknown JWT key''
      | Some k \<Rightarrow>
     (case (cred_str k ''jwt-auth'' ''secret'', jwt_parse_algorithm (cred_str k ''jwt-auth'' ''algorithm'')) of
        (Some secret, Inr alg) \<Rightarrow>
          (case jwt_verify T token secret alg c of
             Inr c1 \<Rightarrow> Inr (attach_consumer k ''jwt-auth'' c1)
           | Inl e \<Rightarrow> jwt_reject c e)
      | _ \<Rightarrow> jwt_reject c ''Consumer has no valid jwt-auth secret'')))"

definition jwt_auth_exec ::
  "token_lib \<Rightarrow> jwt_auth \<Rightarrow> consumer_store \<Rightarrow> gcontext \<Rightarrow> plugin_result" where
  "jwt_auth_exec T p st c =
     (let consumers = (\<lambda>token. if jw_use_consumers p then jwt_consumer T st token c
                               else jwt_reject c ''Invalid JWT'')
      in case jwt_token p c of
           None \<Rightarrow> jwt_reject c ''Missing authorization token''
         | Some token \<Rightarrow>
             (case jw_secret p of
                None \<Rightarrow> consumers token
              | Some secret \<Rightarrow>
                  (case jwt_verify T token secret (jw_algorithm p) c of
                     Inr c1 \<Rightarrow> Inr c1
                   | Inl e \<Rightarrow> if \<not> jw_use_consumers p then jwt_reject c e else consumers token)))"

section \<open>jwe-decrypt\<close>

record jwe_decrypt =
  je_header :: string
  je_forward_header :: string
  je_strict :: bool
  je_inline_key :: "string option"
  je_use_consumers :: bool

definition b64url_decode :: "token_lib \<Rightarrow> string \<Rightarrow> string option" where
  "b64url_decode T s = tl_b64url T (trim_end_char CHR ''='' s)"

definition decode_config_key :: "libs \<Rightarrow> token_lib \<Rightarrow> string \<Rightarrow> string option" where
  "decode_config_key L T s = or_else (or_else (b64_decode L s) (tl_b64_nopad T s)) (b64url_decode T s)"

definition aes256gcm_decrypt ::
  "token_lib \<Rightarrow> string \<Rightarrow> string \<Rightarrow> string \<Rightarrow> string \<Rightarrow> string \<Rightarrow> string option" where
  "aes256gcm_decrypt T key iv ciphertext tag aad =
     (if length key \<noteq> 32 \<or> length iv \<noteq> 12 then None else tl_open T key iv aad (ciphertext @ tag))"

definition jwe_inline_key :: "libs \<Rightarrow> token_lib \<Rightarrow> config \<Rightarrow> string + string option" where
  "jwe_inline_key L T c =
     (case cfg_str c ''key'' of
        None \<Rightarrow> Inr None
      | Some k \<Rightarrow>
          res_bind (ok_or (decode_config_key L T k)
            (''jwe-decrypt '' @ sq ''key'' @ '' must be valid base64'')) (\<lambda>b.
          if length b \<noteq> 32 then
            Inl (''jwe-decrypt '' @ sq ''key'' @ '' must decode to 32 bytes for AES-256 (got '' @
                 show_nat (length b) @ '')'')
          else Inr (Some b)))"

definition jwe_decrypt_from_config :: "libs \<Rightarrow> token_lib \<Rightarrow> config \<Rightarrow> string + jwe_decrypt" where
  "jwe_decrypt_from_config L T c =
     (let only = (\<lambda>k v msg. case cfg_str c k of
                    Some s \<Rightarrow> if s \<noteq> v then Inl (''jwe-decrypt only supports '' @ k @ '' '' @ sq v @
                                              '' (got '' @ sq s @ msg) else Inr ()
                  | None \<Rightarrow> Inr ());
          use = unwrap_or False (cfg_bool c ''use_consumers'')
      in res_bind (only ''alg'' ''dir'' ''); RSA/ECDH/key-wrap are not implemented'') (\<lambda>_.
         res_bind (only ''enc'' ''A256GCM'' '')'') (\<lambda>_.
         res_bind (jwe_inline_key L T c) (\<lambda>key.
           if key = None \<and> \<not> use then
             Inl (''jwe-decrypt plugin requires '' @ sq ''key'' @ '' or '' @ sq ''use_consumers: true'')
           else Inr \<lparr>je_header = to_lowercase L (unwrap_or ''Authorization'' (cfg_str c ''header'')),
                     je_forward_header = to_lowercase L (unwrap_or ''Authorization'' (cfg_str c ''forward_header'')),
                     je_strict = unwrap_or True (cfg_bool c ''strict''), je_inline_key = key,
                     je_use_consumers = use\<rparr>))))"

definition jwe_reject :: "gcontext \<Rightarrow> string \<Rightarrow> plugin_result" where
  "jwe_reject c msg = reject_json c 401 (unauthorized msg) ''JWE_INVALID'' msg"

definition jwe_consumer_key :: "token_lib \<Rightarrow> consumer_store \<Rightarrow> string option \<Rightarrow> string + string" where
  "jwe_consumer_key T st kid =
     res_bind (ok_or kid ''missing kid in JWE token'') (\<lambda>kid.
     res_bind (ok_or (find_by_credential st ''jwe-decrypt'' kid) ''invalid kid in JWE token'') (\<lambda>k.
     res_bind (ok_or (hm_get (cn_credentials k) ''jwe-decrypt'')
       ''consumer has no jwe-decrypt credential'') (\<lambda>cred.
     res_bind (ok_or (Option.bind (json_get cred ''secret'') as_str)
       (''consumer jwe-decrypt credential missing '' @ sq ''secret'')) (\<lambda>secret.
     res_bind (if Option.bind (json_get cred ''is_base64_encoded'') as_bool = Some True
               then ok_or (b64url_decode T secret) ''consumer secret is not valid base64url''
               else Inr secret) (\<lambda>bytes.
       if length bytes \<noteq> 32 then Inl ''consumer secret must be 32 bytes for AES-256'' else Inr bytes)))))"

definition jwe_token :: "string \<Rightarrow> string" where
  "jwe_token t = (if starts_with (to_ascii_lowercase t) ''bearer '' then drop 7 t else t)"

text \<open>The plaintext of a compact token, or why it is refused; the steps are in the order of the code.\<close>

definition jwe_open ::
  "token_lib \<Rightarrow> jwe_decrypt \<Rightarrow> consumer_store \<Rightarrow> string \<Rightarrow> string + string" where
  "jwe_open T p st token =
     (case split_on CHR ''.'' token of
        [protected, enc_key, iv, ct, tag] \<Rightarrow>
          if enc_key \<noteq> [] then Inl ''unsupported JWE: encrypted key present (only dir is supported)''
          else
          res_bind (ok_or (Option.bind (b64url_decode T protected) (tl_json T))
            ''malformed JWE protected header'') (\<lambda>hd.
          if Option.bind (json_get hd ''alg'') as_str \<noteq> Some ''dir'' \<or>
             Option.bind (json_get hd ''enc'') as_str \<noteq> Some ''A256GCM''
          then Inl ''unsupported JWE alg/enc (only dir + A256GCM supported)''
          else
          res_bind (ok_or (b64url_decode T iv) ''malformed JWE iv'') (\<lambda>iv.
          res_bind (ok_or (b64url_decode T ct) ''malformed JWE ciphertext'') (\<lambda>ct.
          res_bind (ok_or (b64url_decode T tag) ''malformed JWE tag'') (\<lambda>tag.
          res_bind (case je_inline_key p of
                      Some k \<Rightarrow> Inr k
                    | None \<Rightarrow> jwe_consumer_key T st (Option.bind (json_get hd ''kid'') as_str)) (\<lambda>key.
            ok_or (aes256gcm_decrypt T key iv ct tag protected) ''failed to decrypt JWE token'')))))
      | _ \<Rightarrow> Inl ''malformed JWE token'')"

definition jwe_decrypt_exec ::
  "token_lib \<Rightarrow> jwe_decrypt \<Rightarrow> consumer_store \<Rightarrow> gcontext \<Rightarrow> plugin_result" where
  "jwe_decrypt_exec T p st c =
     (case first_header c (je_header p) of
        None \<Rightarrow> if je_strict p then jwe_reject c ''missing JWE token in request'' else Inr c
      | Some t \<Rightarrow>
          (case jwe_open T p st (jwe_token t) of
             Inl reason \<Rightarrow> jwe_reject c reason
           | Inr plaintext \<Rightarrow> Inr (set_rq_header (je_forward_header p) [utf8_lossy plaintext] c)))"

section \<open>What the nodes establish\<close>

lemma jwt_claims_errors [simp]: "cx_errors (jwt_claims m c) = cx_errors c"
  by (simp add: jwt_claims_def Let_def split: option.splits)

lemma jwt_auth_refusal: "jwt_auth_exec T p st c = Inl r \<Longrightarrow> \<exists>msg. jwt_reject c msg = Inl r"
  by (auto simp: jwt_auth_exec_def jwt_consumer_def jwt_verify_def Let_def
      split: option.splits sum.splits if_splits)

interpretation jwt_auth_node: auth_contract "reads_store (jwt_auth_exec T p)" for T p
proof
  show "cx_errors c' = cx_errors c" if "fst (reads_store (jwt_auth_exec T p) c w) = Inr c'" for c w c'
    using that
    by (auto simp: reads_store_def jwt_auth_exec_def jwt_consumer_def jwt_verify_def jwt_reject_def Let_def
        split: option.splits sum.splits if_splits)
  show "cx_request c' = cx_request c \<and> cx_message c' = cx_message c \<and> cx_errors c' = cx_errors c"
    if "fst (reads_store (jwt_auth_exec T p) c w) = Inl (c', e)" for c w c' e
    using that by (auto simp: reads_store_def jwt_reject_def dest!: jwt_auth_refusal dest: reject_json_keeps)
qed

interpretation jwe_decrypt_node: auth_contract "reads_store (jwe_decrypt_exec T p)" for T p
  by unfold_locales
    (auto simp: reads_store_def jwe_decrypt_exec_def jwe_reject_def dest!: reject_json_keeps
      split: option.splits sum.splits if_splits)

text \<open>
  C20: An identity that jwt-auth attaches was proved. A request passes only with a token that the
  decoder verified, either with the secret of the node, and then no consumer is attached, or,
  where the node allows consumers and its own secret did not verify the token, with the secret
  and the algorithm stored for the consumer that the token's own key claim names, and then that
  consumer and no other is attached, over the verified claims; in every other case it is
  refused with 401 and nothing but the response changes.
\<close>

theorem jwt_identity_is_verified:
  shows "case jwt_auth_exec T p st c of
     Inr c' \<Rightarrow> (\<exists>token. jwt_token p c = Some token \<and>
       ((\<exists>secret claims. jw_secret p = Some secret \<and> tl_jwt T (jw_algorithm p) secret token = Inr claims \<and>
           c' = jwt_claims claims c) \<or>
        (\<exists>key k secret alg claims. jw_use_consumers p \<and> peek_key_claim T token = Some key \<and>
           find_by_credential st ''jwt-auth'' key = Some k \<and> cred_str k ''jwt-auth'' ''secret'' = Some secret \<and>
           jwt_parse_algorithm (cred_str k ''jwt-auth'' ''algorithm'') = Inr alg \<and>
           tl_jwt T alg secret token = Inr claims \<and>
           c' = attach_consumer k ''jwt-auth'' (jwt_claims claims c) \<and>
           (jw_secret p = None \<or> (\<exists>s e. jw_secret p = Some s \<and> tl_jwt T (jw_algorithm p) s token = Inl e)))))
   | Inl (c', e) \<Rightarrow> rs_status_code (cx_response c') = 401 \<and> c'\<lparr>cx_response := cx_response c\<rparr> = c"
proof (cases "jwt_auth_exec T p st c")
  case (Inr c')
  then show ?thesis
    by (auto simp: jwt_auth_exec_def jwt_consumer_def jwt_verify_def jwt_reject_def Let_def
        split: option.splits sum.splits if_splits)
next
  case (Inl r)
  then obtain msg where "jwt_reject c msg = Inl r" using jwt_auth_refusal by blast
  then show ?thesis
    using Inl by (cases c) (auto simp: jwt_reject_def reject_json_def json_content_def set_rs_header_def set_body_def set_status_def)
qed

end
