(* ===== verification/Plugin_Hmac.thy ===== *)
theory Plugin_Hmac
  imports Plugin_Token "HOL-Library.Signed_Division" "HOL-Library.Product_Lexorder"
begin

text \<open>
  Request signing (src/src/plugins/native/hmac_auth.rs): the Date header in seconds since 1970, the
  two forms the signature parameters come in, the signing string, and the node. The date
  arithmetic is \<open>i64\<close> of a release build: it wraps.
\<close>

section \<open>The Date header\<close>

definition months :: "string list" where
  "months = [''Jan'', ''Feb'', ''Mar'', ''Apr'', ''May'', ''Jun'', ''Jul'', ''Aug'', ''Sep'', ''Oct'', ''Nov'', ''Dec'']"

definition month_number :: "string \<Rightarrow> int option" where
  "month_number m = map_option (\<lambda>(i, _). int i + 1) (find (\<lambda>(_, x). x = m) (List.enumerate 0 months))"

text \<open>Days since 1970-01-01 of a date of the proleptic Gregorian calendar; \<open>/\<close> on \<open>i64\<close> truncates.\<close>

definition civil_days :: "int \<Rightarrow> int \<Rightarrow> int \<Rightarrow> int" where
  "civil_days year month day =
     (let y = i64_wrap (if month \<le> 2 then year - 1 else year);
          era = i64_wrap (if 0 \<le> y then y else y - 399) sdiv 400;
          yoe = i64_wrap (y - era * 400);
          doy = (153 * (if 2 < month then month - 3 else month + 9) + 2) sdiv 5 + day - 1;
          doe = yoe * 365 + yoe sdiv 4 - yoe sdiv 100 + doy
      in i64_wrap (era * 146097 + doe - 719468))"

definition parse_http_date :: "string \<Rightarrow> int option" where
  "parse_http_date s =
     (case split_whitespace s of
        [_, d, mon, y, t, _] \<Rightarrow>
          Option.bind (parse_i64 d) (\<lambda>day.
          Option.bind (month_number mon) (\<lambda>month.
          Option.bind (parse_i64 y) (\<lambda>year.
            case split_on CHR '':'' t of
              [h, mi, sec] \<Rightarrow>
                Option.bind (parse_i64 h) (\<lambda>hour.
                Option.bind (parse_i64 mi) (\<lambda>minute.
                Option.bind (parse_i64 sec) (\<lambda>second.
                  Some (i64_wrap (civil_days year month day * 86400 + hour * 3600 + minute * 60 + second)))))
            | _ \<Rightarrow> None)))
      | _ \<Rightarrow> None)"

section \<open>Parameters and the signing string\<close>

definition hdr_access_key :: string where "hdr_access_key = ''x-hmac-access-key''"
definition hdr_algorithm :: string where "hdr_algorithm = ''x-hmac-algorithm''"
definition hdr_signed_headers :: string where "hdr_signed_headers = ''x-hmac-signed-headers''"
definition hdr_signature :: string where "hdr_signature = ''x-hmac-signature''"

record hmac_params =
  hp_access_key :: string
  hp_algorithm :: "string option"
  hp_signature :: string
  hp_signed_headers :: "string list"

record hmac_auth =
  ha_access_key :: "string option"
  ha_secret_key :: "string option"
  ha_algorithm :: mac_algorithm
  ha_clock_skew :: nat
  ha_signed_headers :: "string list"
  ha_use_consumers :: bool
  ha_anonymous_consumer :: "string option"
  ha_keep_headers :: bool
  ha_hide_credentials :: bool
  ha_realm :: string

definition hmac_parse_algorithm :: "string option \<Rightarrow> string + mac_algorithm" where
  "hmac_parse_algorithm name =
     (case name of
        None \<Rightarrow> Inr Sha256
      | Some n \<Rightarrow>
          if n = ''hmac-sha256'' then Inr Sha256
          else if n = ''hmac-sha1'' then Inr Sha1
          else if n = ''hmac-sha512'' then Inr Sha512
          else Inl (''Unknown hmac-auth algorithm '' @ sq n @ '' '' @ em_dash @
                    '' supported: hmac-sha1, hmac-sha256, hmac-sha512''))"

fun hmac_name :: "mac_algorithm \<Rightarrow> string" where
  "hmac_name Sha1 = ''hmac-sha1''"
| "hmac_name Sha256 = ''hmac-sha256''"
| "hmac_name Sha512 = ''hmac-sha512''"

definition hmac_auth_from_config :: "libs \<Rightarrow> config \<Rightarrow> string + hmac_auth" where
  "hmac_auth_from_config L c =
     (let ak = opt_filter (\<lambda>s. s \<noteq> []) (cfg_str c ''access_key'');
          sk = opt_filter (\<lambda>s. s \<noteq> []) (cfg_str c ''secret_key'');
          use = unwrap_or False (cfg_bool c ''use_consumers'')
      in if ak = None \<and> \<not> use then
           Inl (''hmac-auth plugin requires 'access_key'+'secret_key' or '' @ sq ''use_consumers: true'')
         else if ak \<noteq> None \<and> sk = None then
           Inl (''hmac-auth plugin: 'access_key' requires '' @ sq ''secret_key'')
         else
         res_bind (hmac_parse_algorithm (cfg_str c ''algorithm'')) (\<lambda>alg.
         res_bind (case hm_get c ''clock_skew'' of
                     None \<Rightarrow> Inr 300
                   | Some v \<Rightarrow> ok_or (as_u64 v) ''hmac-auth: clock_skew must be a non-negative integer'') (\<lambda>skew.
           Inr \<lparr>ha_access_key = ak, ha_secret_key = sk, ha_algorithm = alg, ha_clock_skew = skew,
                ha_signed_headers = map (to_lowercase L) (unwrap_or [] (cfg_strings c ''signed_headers'')),
                ha_use_consumers = use, ha_anonymous_consumer = cfg_str c ''anonymous_consumer'',
                ha_keep_headers = unwrap_or False (cfg_bool c ''keep_headers''),
                ha_hide_credentials = unwrap_or False (cfg_bool c ''hide_credentials''),
                ha_realm = unwrap_or ''hmac'' (cfg_str c ''realm'')\<rparr>)))"

definition hmac_reject :: "hmac_auth \<Rightarrow> gcontext \<Rightarrow> string \<Rightarrow> plugin_result" where
  "hmac_reject p c msg =
     Inl (set_rs_header ''www-authenticate'' [''hmac realm=\"'' @ ha_realm p @ ''\"'']
            (json_content (set_body (unauthorized msg) (set_status 401 c))),
          mk_error ''HMAC_INVALID'' msg)"

text \<open>One \<open>key=value\<close> field of the Authorization header; the last of two fields wins.\<close>

record auth_fields =
  af_key_id :: "string option"
  af_algorithm :: "string option"
  af_signature :: "string option"
  af_headers :: "string list"

definition auth_field :: "string \<Rightarrow> auth_fields \<Rightarrow> auth_fields" where
  "auth_field field a =
     (case split_once CHR ''='' (trim field) of
        None \<Rightarrow> a
      | Some (k, v) \<Rightarrow>
          (let value = trim_char (CHR 0x22) (trim v); key = trim k in
           if key = ''keyId'' then a\<lparr>af_key_id := Some value\<rparr>
           else if key = ''algorithm'' then a\<lparr>af_algorithm := Some value\<rparr>
           else if key = ''signature'' then a\<lparr>af_signature := Some value\<rparr>
           else if key = ''headers'' then a\<lparr>af_headers := split_whitespace value\<rparr>
           else a))"

definition parse_authorization :: "string \<Rightarrow> hmac_params option" where
  "parse_authorization rest =
     (let a = fold auth_field (split_on CHR '','' rest)
                \<lparr>af_key_id = None, af_algorithm = None, af_signature = None, af_headers = []\<rparr>
      in case (af_key_id a, af_signature a) of
           (Some k, Some s) \<Rightarrow>
             Some \<lparr>hp_access_key = k, hp_algorithm = af_algorithm a, hp_signature = s,
                   hp_signed_headers = af_headers a\<rparr>
         | _ \<Rightarrow> None)"

definition header_params :: "gcontext \<Rightarrow> hmac_params option" where
  "header_params c =
     (case (first_header c hdr_access_key, first_header c hdr_signature) of
        (Some k, Some s) \<Rightarrow>
          Some \<lparr>hp_access_key = k, hp_algorithm = first_header c hdr_algorithm, hp_signature = s,
                hp_signed_headers = unwrap_or [] (map_option split_whitespace (first_header c hdr_signed_headers))\<rparr>
      | _ \<Rightarrow> None)"

definition retrieve_params :: "gcontext \<Rightarrow> hmac_params option" where
  "retrieve_params c =
     (case Option.bind (first_header c ''authorization'') (\<lambda>a. strip_prefix a ''Signature '') of
        Some rest \<Rightarrow> parse_authorization rest
      | None \<Rightarrow> header_params c)"

definition request_uri :: "gcontext \<Rightarrow> string" where
  "request_uri c =
     (let r = cx_request c in
      if rq_query_params r = [] then rq_path r
      else rq_path r @ ''?'' @
        join ''&'' (map (\<lambda>(k, v). k @ ''='' @ v)
          (sort_key (\<lambda>kv. kv) (concat (map (\<lambda>(k, vs). map (Pair k) vs) (rq_query_params r))))))"

definition request_target :: string where "request_target = ''@request-target''"

definition signed_item :: "libs \<Rightarrow> gcontext \<Rightarrow> string \<Rightarrow> string option" where
  "signed_item L c h =
     (if h = request_target then Some (rq_method (cx_request c) @ '' '' @ request_uri c)
      else map_option (\<lambda>v. h @ '': '' @ v) (first_header c (to_lowercase L h)))"

definition newline :: char where "newline = CHR 0x0A"

definition signing_string :: "libs \<Rightarrow> gcontext \<Rightarrow> hmac_params \<Rightarrow> string" where
  "signing_string L c ps =
     join [newline] (hp_access_key ps # List.map_filter (signed_item L c) (hp_signed_headers ps)) @ [newline]"

definition verify_signature ::
  "libs \<Rightarrow> token_lib \<Rightarrow> hmac_auth \<Rightarrow> gcontext \<Rightarrow> hmac_params \<Rightarrow> string \<Rightarrow> bool" where
  "verify_signature L T p c ps secret \<longleftrightarrow>
     (case b64_decode L (hp_signature ps) of
        None \<Rightarrow> False
      | Some sig \<Rightarrow> sig = tl_mac T (ha_algorithm p) secret (signing_string L c ps))"

section \<open>The node\<close>

definition clock_diff :: "nat \<Rightarrow> int \<Rightarrow> nat" where
  "clock_diff now ts = nat \<bar>i64_wrap (i64_wrap (int now) - ts)\<bar>"

definition validate_common ::
  "libs \<Rightarrow> nat \<Rightarrow> hmac_auth \<Rightarrow> gcontext \<Rightarrow> hmac_params \<Rightarrow> string + unit" where
  "validate_common L now p c ps =
     (if (case hp_algorithm ps of Some a \<Rightarrow> a \<noteq> hmac_name (ha_algorithm p) | None \<Rightarrow> False)
      then Inl ''Invalid algorithm''
      else
      res_bind (if 0 < ha_clock_skew p then
                  res_bind (ok_or (first_header c ''date'')
                    ''Date header missing, failed to validate clock skew'') (\<lambda>date.
                  res_bind (ok_or (parse_http_date date) ''Invalid GMT format time'') (\<lambda>ts.
                    if ha_clock_skew p < clock_diff now ts then Inl ''Clock skew exceeded'' else Inr ()))
                else Inr ()) (\<lambda>_.
      case find (\<lambda>r. r \<notin> set (map (to_lowercase L) (hp_signed_headers ps))) (ha_signed_headers p) of
        Some required \<Rightarrow> Inl (''expected header \"'' @ required @ ''\" missing in signing'')
      | None \<Rightarrow> Inr ()))"

definition strip_headers :: "hmac_auth \<Rightarrow> gcontext \<Rightarrow> gcontext" where
  "strip_headers p c =
     (let c1 = (if \<not> ha_keep_headers p then
                  remove_rq_header hdr_signature (remove_rq_header hdr_signed_headers
                    (remove_rq_header hdr_algorithm (remove_rq_header hdr_access_key c)))
                else c)
      in if ha_hide_credentials p then remove_rq_header ''authorization'' c1 else c1)"

definition attach_anonymous :: "hmac_auth \<Rightarrow> consumer_store \<Rightarrow> gcontext \<Rightarrow> plugin_result" where
  "attach_anonymous p st c =
     (case Option.bind (ha_anonymous_consumer p) (get_consumer st) of
        Some k \<Rightarrow> Inr (attach_consumer k ''hmac-auth'' c)
      | None \<Rightarrow> hmac_reject p c ''Invalid user authorization'')"

text \<open>The inline credential, if it is the one named: \<open>Some\<close> of its verdict.\<close>

definition hmac_inline ::
  "libs \<Rightarrow> token_lib \<Rightarrow> hmac_auth \<Rightarrow> gcontext \<Rightarrow> hmac_params \<Rightarrow> plugin_result option" where
  "hmac_inline L T p c ps =
     (case (ha_access_key p, ha_secret_key p) of
        (Some ak, Some sk) \<Rightarrow>
          if hp_access_key ps = ak then
            Some (if verify_signature L T p c ps sk then Inr (strip_headers p c)
                  else hmac_reject p c ''Invalid signature'')
          else None
      | _ \<Rightarrow> None)"

definition hmac_consumer ::
  "libs \<Rightarrow> token_lib \<Rightarrow> hmac_auth \<Rightarrow> consumer_store \<Rightarrow> gcontext \<Rightarrow> hmac_params \<Rightarrow> plugin_result option" where
  "hmac_consumer L T p st c ps =
     (if \<not> ha_use_consumers p then None
      else (case find_by_credential st ''hmac-auth'' (hp_access_key ps) of
              None \<Rightarrow> None
            | Some k \<Rightarrow>
                Some (case cred_str k ''hmac-auth'' ''secret_key'' of
                        Some secret \<Rightarrow>
                          if verify_signature L T p c ps secret
                          then Inr (attach_consumer k ''hmac-auth'' (strip_headers p c))
                          else hmac_reject p c ''Invalid signature''
                      | None \<Rightarrow> hmac_reject p c ''Invalid signature'')))"

definition hmac_auth_exec ::
  "libs \<Rightarrow> token_lib \<Rightarrow> nat \<Rightarrow> hmac_auth \<Rightarrow> consumer_store \<Rightarrow> gcontext \<Rightarrow> plugin_result" where
  "hmac_auth_exec L T now p st c =
     (let fallback = (\<lambda>msg. if ha_anonymous_consumer p \<noteq> None then attach_anonymous p st c
                            else hmac_reject p c msg)
      in case retrieve_params c of
           None \<Rightarrow> fallback ''client request can't be validated''
         | Some ps \<Rightarrow>
             (case validate_common L now p c ps of
                Inl e \<Rightarrow> hmac_reject p c e
              | Inr _ \<Rightarrow>
                  (case or_else (hmac_inline L T p c ps) (hmac_consumer L T p st c ps) of
                     Some r \<Rightarrow> r
                   | None \<Rightarrow> fallback ''Invalid access key'')))"

section \<open>The calendar\<close>

text \<open>The reference: the lengths of the years and months before a date, counted from the year 0.\<close>

definition leap :: "nat \<Rightarrow> bool" where
  "leap y \<longleftrightarrow> y mod 4 = 0 \<and> (y mod 100 \<noteq> 0 \<or> y mod 400 = 0)"

definition month_lengths :: "nat \<Rightarrow> nat list" where
  "month_lengths y = [31, if leap y then 29 else 28, 31, 30, 31, 30, 31, 31, 30, 31, 30, 31]"

definition calendar_days :: "nat \<Rightarrow> nat \<Rightarrow> nat \<Rightarrow> int" where
  "calendar_days y m d =
     int ((\<Sum>k<y. sum_list (month_lengths k)) + sum_list (take (m - 1) (month_lengths y)) + (d - 1)) - 719528"

lemma hundred: "(100 :: nat) dvd 400" "(4 :: nat) dvd 100"
  by simp_all
lemma year_length: "sum_list (month_lengths y) = 365 + (if leap y then 1 else 0)"
  by (simp add: month_lengths_def)

lemma div_step: "Suc y div n = y div n + (if Suc y mod n = 0 then 1 else 0)"
  by (simp add: div_Suc)

lemma step_arith:
  "s2 = s1 + 365 + l \<Longrightarrow> s1 + q = 366 + 365 * y + p + r \<Longrightarrow> l + b = a + d \<Longrightarrow>
     s2 + (q + b) = 366 + 365 * Suc y + (p + a) + (r + d)" for s1 :: nat
  by simp

lemma year_days: "(\<Sum>k<Suc y. sum_list (month_lengths k)) + y div 100 = 366 + 365 * y + y div 4 + y div 400"
proof (induction y)
  case 0
  show ?case by (simp add: year_length leap_def)
next
  case (Suc y)
  have m: "Suc y mod 400 = 0 \<Longrightarrow> Suc y mod 100 = 0" "Suc y mod 100 = 0 \<Longrightarrow> Suc y mod 4 = 0"
    using hundred dvd_trans by (meson mod_eq_0_iff_dvd)+
  define l where "l = (if leap (Suc y) then 1 else 0 :: nat)"
  have l: "l + (if Suc y mod 100 = 0 then 1 else 0) =
      (if Suc y mod 4 = 0 then 1 else 0) + (if Suc y mod 400 = 0 then 1 else 0 :: nat)"
    unfolding l_def leap_def using m by (simp del: mod_Suc) 
  have "(\<Sum>k<Suc (Suc y). sum_list (month_lengths k)) = (\<Sum>k<Suc y. sum_list (month_lengths k)) + 365 + l"
    by (simp only: sum.lessThan_Suc [of _ "Suc y"] year_length l_def add.assoc)
  then show ?case unfolding div_step using Suc l by (rule step_arith)
qed

lemma div_400: "int n = 400 * int (n div 400) + int (n mod 400)"
  "int (n div 4) = 100 * int (n div 400) + int (n mod 400) div 4"
  "int (n div 100) = 4 * int (n div 400) + int (n mod 400) div 100"
proof -
  define e r where "e = n div 400" and "r = n mod 400"
  have n: "n = 400 * e + r" by (simp add: e_def r_def)
  have "(400 * e + r) div 4 = 100 * e + r div 4" "(400 * e + r) div 100 = 4 * e + r div 100"
    by presburger+
  then have q: "n div 4 = 100 * e + r div 4" "n div 100 = 4 * e + r div 100" using n by simp_all
  have e: "n div 400 = e" "n mod 400 = r" by (simp_all add: e_def r_def)
  show "int n = 400 * int (n div 400) + int (n mod 400)" unfolding e using n by simp
  show "int (n div 4) = 100 * int (n div 400) + int (n mod 400) div 4"
    "int (n div 100) = 4 * int (n div 400) + int (n mod 400) div 100"
    unfolding e q by (simp_all add: zdiv_int)
qed

lemma sdiv_nonneg: "0 \<le> a \<Longrightarrow> 0 < b \<Longrightarrow> a sdiv b = a div (b :: int)"
  by (simp add: signed_divide_int_def sgn_if)

lemma civil_days_closed:
  assumes n: "int n = (if month \<le> 2 then int y - 1 else int y)" and "n < 10 ^ 12"
    and "0 \<le> m5" and m5: "153 * (if 2 < month then month - 3 else month + 9) + 2 = m5"
    and "m5 < 2000" and "0 \<le> day" and "day \<le> 31"
  shows "civil_days (int y) month day =
    365 * int n + int (n div 4) - int (n div 100) + int (n div 400) + m5 div 5 + day - 1 - 719468"
proof -
  have b: "i64_wrap (int n) = int n" using assms(2) by (intro i64_wrap_small) auto
  have e: "int n sdiv 400 = int (n div 400)" by (simp add: sdiv_nonneg zdiv_int)
  have r: "int n - int (n div 400) * 400 = int (n mod 400)" using div_400(1) [of n] by linarith
  have w: "i64_wrap (int (n mod 400)) = int (n mod 400)" by (rule i64_wrap_small) auto
  have s: "int (n mod 400) sdiv 4 = int (n mod 400) div 4" "int (n mod 400) sdiv 100 = int (n mod 400) div 100"
    "m5 sdiv 5 = m5 div 5"
    using assms(3) by (simp_all add: sdiv_nonneg)
  define t where "t = int (n div 400) * 146097 + (int (n mod 400) * 365 + int (n mod 400) div 4 -
    int (n mod 400) div 100 + (m5 div 5 + day - 1)) - 719468"
  have "n div 400 < 10 ^ 12" "n mod 400 < 400" using assms(2) by auto
  then have "i64_wrap t = t" unfolding t_def using assms(3,5-) by (intro i64_wrap_small) auto
  moreover have "civil_days (int y) month day = i64_wrap t"
    unfolding civil_days_def Let_def n [symmetric] b e r w m5 s t_def by (simp add: b e r w s)
  moreover have "t = 365 * int n + int (n div 4) - int (n div 100) + int (n div 400) + m5 div 5 + day - 1 - 719468"
    unfolding t_def using div_400 [of n] by linarith
  ultimately show ?thesis by simp
qed


lemma years_before:
  "int (\<Sum>k<Suc n. sum_list (month_lengths k)) =
    366 + 365 * int n + int (n div 4) - int (n div 100) + int (n div 400)"
  using year_days [of n] by linarith

lemma month_cases: "1 \<le> m \<Longrightarrow> m \<le> 12 \<Longrightarrow> m \<in> {1, 2, 3, 4, 5, 6, 7, 8, 9, 10, 11, 12 :: nat}"
  by simp presburger

lemma civil_days_calendar:
  assumes "1 \<le> y" "y < 10 ^ 12" and "1 \<le> m" "m \<le> 12" and "1 \<le> d" "d \<le> 31"
  shows "civil_days (int y) (int m) (int d) = calendar_days y m d"
proof (cases "m \<le> 2")
  case True
  define n where "n = y - 1"
  have y: "y = Suc n" using assms(1) by (simp add: n_def)
  have m: "m = 1 \<or> m = 2" using True assms(3) by auto
  have "civil_days (int y) (int m) (int d) =
      365 * int n + int (n div 4) - int (n div 100) + int (n div 400) + (153 * (int m + 9) + 2) div 5 + int d - 1 - 719468"
    using assms m by (intro civil_days_closed) (auto simp: y)
  also have "\<dots> = calendar_days y m d"
    unfolding calendar_days_def of_nat_add y years_before
    using m assms(5) by (auto simp: month_lengths_def)
  finally show ?thesis .
next
  case False
  have m: "m \<in> {3, 4, 5, 6, 7, 8, 9, 10, 11, 12}" using month_cases [OF assms(3,4)] False by auto
  have "civil_days (int y) (int m) (int d) =
      365 * int y + int (y div 4) - int (y div 100) + int (y div 400) + (153 * (int m - 3) + 2) div 5 + int d - 1 - 719468"
    using assms m by (intro civil_days_closed) auto
  also have "\<dots> = int (\<Sum>k<Suc y. sum_list (month_lengths k)) - 366 + (153 * (int m - 3) + 2) div 5 + int d - 1 - 719468"
    by (simp only: years_before)
  also have "int (\<Sum>k<Suc y. sum_list (month_lengths k)) =
      int (\<Sum>k<y. sum_list (month_lengths k)) + 365 + (if leap y then 1 else 0)"
    by (simp add: year_length)
  also have "\<dots> - 366 + (153 * (int m - 3) + 2) div 5 + int d - 1 - 719468 = calendar_days y m d"
  proof -
    have "int (sum_list (take (m - 1) (month_lengths y))) =
        59 + (if leap y then 1 else 0) + (153 * (int m - 3) + 2) div 5"
      using m unfolding month_lengths_def by (elim insertE emptyE; simp)
    then show ?thesis unfolding calendar_days_def of_nat_add using assms(5) by simp
  qed
  finally show ?thesis .
qed

lemma month_number_nth: "1 \<le> m \<Longrightarrow> m \<le> 12 \<Longrightarrow> month_number (months ! (m - 1)) = Some (int m)"
  by (drule (1) month_cases) (elim insertE emptyE; simp add: month_number_def months_def)

text \<open>
  The clock-skew check reads the Date header by the calendar. For every date from the year 1 on
  whose fields are in the six-word form, the seconds the node computes are those of the Gregorian
  calendar: the days of all years and months before, leap years included, and the time of day;
  no intermediate value wraps around.
\<close>

theorem http_date_is_the_calendar:
  assumes "split_whitespace s = [wd, ds, months ! (m - 1), ys, t, z]" and "split_on CHR '':'' t = [hs, ms, ss]"
    and "parse_i64 ds = Some (int d)" "parse_i64 ys = Some (int y)"
    and "parse_i64 hs = Some (int h)" "parse_i64 ms = Some (int mi)" "parse_i64 ss = Some (int sec)"
    and "1 \<le> y" "y < 10 ^ 10" "1 \<le> m" "m \<le> 12" "1 \<le> d" "d \<le> 31" "h < 24" "mi < 60" "sec \<le> 60"
  shows "parse_http_date s = Some (calendar_days y m d * 86400 + int h * 3600 + int mi * 60 + int sec)"
proof -
  have c: "civil_days (int y) (int m) (int d) = calendar_days y m d"
    using assms by (intro civil_days_calendar) auto
  have "\<bar>calendar_days y m d\<bar> < 10 ^ 13"
  proof -
    obtain n where n: "y = Suc n" using assms(8) by (cases y) auto
    have "n div 4 \<le> n" "n div 100 \<le> n" "n div 400 \<le> n" "n < 10 ^ 10" using assms(9) n by auto
    moreover have "sum_list (take (m - 1) (month_lengths y)) \<le> sum_list (month_lengths y)"
      by (metis append_take_drop_id le_add1 sum_list_append)
    ultimately show ?thesis
      using assms(12,13) unfolding calendar_days_def of_nat_add n years_before
      by (simp add: year_length split: if_splits)
  qed
  then have "i64_wrap (calendar_days y m d * 86400 + int h * 3600 + int mi * 60 + int sec) =
      calendar_days y m d * 86400 + int h * 3600 + int mi * 60 + int sec"
    using assms(14-) by (intro i64_wrap_small) auto
  then show ?thesis using assms(1-7) month_number_nth [OF assms(10,11)] c by (simp add: parse_http_date_def)
qed

theorem http_date_is_the_calendar_witness:
  "parse_http_date ''Sun, 06 Nov 1994 08:49:37 GMT'' =
    Some (calendar_days 1994 11 6 * 86400 + 8 * 3600 + 49 * 60 + 37)"
proof -
  have n: "months ! (11 - 1) = ''Nov''" by code_simp
  have w: "split_whitespace ''Sun, 06 Nov 1994 08:49:37 GMT'' =
      [''Sun,'', ''06'', months ! (11 - 1), ''1994'', ''08:49:37'', ''GMT'']"
    unfolding n by (simp add: split_whitespace_def ws_words_ascii)
  have f: "split_on CHR '':'' ''08:49:37'' = [''08'', ''49'', ''37'']"
    "parse_i64 ''06'' = Some (int 6)" "parse_i64 ''1994'' = Some (int 1994)" "parse_i64 ''08'' = Some (int 8)"
    "parse_i64 ''49'' = Some (int 49)" "parse_i64 ''37'' = Some (int 37)"
    by code_simp+
  show ?thesis using http_date_is_the_calendar [OF w f] by simp
qed

section \<open>What a signature authenticates\<close>

lemma hmac_reject_keeps:
  "hmac_reject p c m = Inl (c', e) \<Longrightarrow>
     cx_request c' = cx_request c \<and> cx_message c' = cx_message c \<and> cx_errors c' = cx_errors c"
  by (auto simp: hmac_reject_def)

lemma strip_headers_errors [simp]: "cx_errors (strip_headers p c) = cx_errors c"
  by (simp add: strip_headers_def remove_rq_header_def Let_def)

lemma hmac_reject_Inr [simp]: "hmac_reject p c m \<noteq> Inr c'"
  by (simp add: hmac_reject_def)

lemmas hmac_cases = hmac_auth_exec_def attach_anonymous_def hmac_inline_def hmac_consumer_def or_else_def Let_def

lemma hmac_refusal: "hmac_auth_exec L T now p st c = Inl r \<Longrightarrow> \<exists>msg. hmac_reject p c msg = Inl r"
  by (auto simp: hmac_cases split: option.splits sum.splits if_splits)

interpretation hmac_auth_node: auth_contract "reads_store (hmac_auth_exec L T now p)" for L T now p
proof
  show "cx_errors c' = cx_errors c" if "fst (reads_store (hmac_auth_exec L T now p) c w) = Inr c'" for c w c'
    using that by (auto simp: reads_store_def hmac_cases split: option.splits sum.splits if_splits)
  show "cx_request c' = cx_request c \<and> cx_message c' = cx_message c \<and> cx_errors c' = cx_errors c"
    if "fst (reads_store (hmac_auth_exec L T now p) c w) = Inl (c', e)" for c w c' e
    using that by (auto simp: reads_store_def dest!: hmac_refusal dest: hmac_reject_keeps)
qed

text \<open>The secret a signature is checked with: the node's own, or the stored one of the consumer.\<close>

definition stored_secret :: "hmac_auth \<Rightarrow> consumer_store \<Rightarrow> hmac_params \<Rightarrow> string option" where
  "stored_secret p st ps =
     (if ha_access_key p = Some (hp_access_key ps) \<and> ha_secret_key p \<noteq> None then ha_secret_key p
      else if ha_use_consumers p then
        Option.bind (find_by_credential st ''hmac-auth'' (hp_access_key ps))
          (\<lambda>k. cred_str k ''hmac-auth'' ''secret_key'')
      else None)"

lemma hmac_admits:
  assumes "hmac_auth_exec L T now p st c = Inr c'" and "ha_anonymous_consumer p = None"
  shows "\<exists>ps secret. retrieve_params c = Some ps \<and> validate_common L now p c ps = Inr () \<and>
     stored_secret p st ps = Some secret \<and> verify_signature L T p c ps secret"
  using assms by (auto simp: hmac_cases stored_secret_def split: option.splits sum.splits if_splits)

lemma validate_common_iff:
  "validate_common L now p c ps = Inr () \<longleftrightarrow>
     (hp_algorithm ps = None \<or> hp_algorithm ps = Some (hmac_name (ha_algorithm p))) \<and>
     (ha_clock_skew p = 0 \<or>
       (\<exists>d ts. first_header c ''date'' = Some d \<and> parse_http_date d = Some ts \<and> clock_diff now ts \<le> ha_clock_skew p)) \<and>
     set (ha_signed_headers p) \<subseteq> to_lowercase L ` set (hp_signed_headers ps)"
  by (auto simp: validate_common_def res_bind_def ok_or_def find_None_iff find_Some_iff
      dest!: nth_mem split: option.splits sum.splits if_splits)

text \<open>Where no listed header is absent, the items are those of the list, one by one.\<close>

definition all_present :: "libs \<Rightarrow> gcontext \<Rightarrow> hmac_params \<Rightarrow> bool" where
  "all_present L c ps \<longleftrightarrow> (\<forall>h \<in> set (hp_signed_headers ps). signed_item L c h \<noteq> None)"

definition one_line :: "libs \<Rightarrow> gcontext \<Rightarrow> hmac_params \<Rightarrow> bool" where
  "one_line L c ps \<longleftrightarrow> newline \<notin> set (hp_access_key ps) \<and>
     (\<forall>h \<in> set (hp_signed_headers ps). \<forall>i. signed_item L c h = Some i \<longrightarrow> newline \<notin> set i)"

lemma split_join: "xs \<noteq> [] \<Longrightarrow> \<forall>x \<in> set xs. ch \<notin> set x \<Longrightarrow> split_on ch (join [ch] xs) = xs"
proof (induction xs rule: induct_list012)
  case (3 x y zs)
  then show ?case by (simp add: split_on_append)
qed (simp_all add: split_on_plain)

lemma map_filter_all:
  "\<forall>x \<in> set xs. f x \<noteq> None \<Longrightarrow> List.map_filter f xs = map (\<lambda>x. the (f x)) xs"
  by (induction xs) (auto simp: List.map_filter_simps)

lemma signing_string_items:
  assumes "all_present L c ps" and "one_line L c ps"
  shows "split_on newline (signing_string L c ps) =
    hp_access_key ps # map (\<lambda>h. the (signed_item L c h)) (hp_signed_headers ps) @ [[]]"
proof -
  let ?items = "hp_access_key ps # map (\<lambda>h. the (signed_item L c h)) (hp_signed_headers ps)"
  have "signing_string L c ps = join [newline] ?items @ [newline]"
    using assms(1) by (simp add: signing_string_def all_present_def map_filter_all)
  also have "\<dots> = join [newline] (?items @ [[]])"
    by (subst join_append_last) simp_all
  finally have s: "signing_string L c ps = join [newline] (?items @ [[]])" .
  have "\<forall>x \<in> set (?items @ [[]]). newline \<notin> set x"
    using assms unfolding one_line_def all_present_def by fastforce
  then show ?thesis using split_join [of "?items @ [[]]" newline] s by simp
qed

lemma signing_string_binds:
  assumes "signing_string L c1 ps = signing_string L c2 ps"
    and "all_present L c1 ps" "all_present L c2 ps" "one_line L c1 ps" "one_line L c2 ps"
    and "h \<in> set (hp_signed_headers ps)"
  shows "signed_item L c1 h = signed_item L c2 h"
proof -
  have "map (\<lambda>h. the (signed_item L c1 h)) (hp_signed_headers ps) =
      map (\<lambda>h. the (signed_item L c2 h)) (hp_signed_headers ps)"
    using signing_string_items [OF assms(2,4)] signing_string_items [OF assms(3,5)] assms(1) by simp
  then have "the (signed_item L c1 h) = the (signed_item L c2 h)" using assms(6) by simp
  then show ?thesis
    using assms(2,3,6) unfolding all_present_def by (metis option.expand)
qed


definition demo_hmac :: hmac_auth where
  "demo_hmac =
     \<lparr>ha_access_key = Some ''k'', ha_secret_key = Some ''s'', ha_algorithm = Sha256, ha_clock_skew = 0,
      ha_signed_headers = [], ha_use_consumers = False, ha_anonymous_consumer = None,
      ha_keep_headers = False, ha_hide_credentials = False, ha_realm = ''hmac''\<rparr>"

definition demo_signed :: "string \<Rightarrow> gcontext" where
  "demo_signed body = new_context
     \<lparr>rq_method = ''PUT'', rq_path = ''/a'', rq_host = ''h'', rq_scheme = ''http'',
      rq_headers = [(hdr_access_key, [''k'']), (hdr_signed_headers, [request_target]),
        (hdr_signature, [''sk'' @ newline # ''PUT /a'' @ [newline]])],
      rq_query_params = [], rq_body = body, rq_remote_addr = ''1.2.3.4:5'', rq_protocol = Http1\<rparr>"

definition demo_params :: hmac_params where
  "demo_params = \<lparr>hp_access_key = ''k'', hp_algorithm = None,
     hp_signature = ''sk'' @ newline # ''PUT /a'' @ [newline], hp_signed_headers = [request_target]\<rparr>"

lemma demo_signed_facts:
  "retrieve_params (demo_signed b) = Some demo_params"
  "signed_item L (demo_signed b) request_target = Some ''PUT /a''"
proof -
  have "split_whitespace request_target = [request_target]"
    by (simp add: split_whitespace_def ws_words_ascii request_target_def)
  then show "retrieve_params (demo_signed b) = Some demo_params"
    by (simp add: retrieve_params_def header_params_def demo_signed_def demo_params_def new_context_def
        first_header_def hm_get_def hdr_access_key_def hdr_signed_headers_def hdr_signature_def hdr_algorithm_def
        request_target_def)
  show "signed_item L (demo_signed b) request_target = Some ''PUT /a''"
    by (simp add: signed_item_def demo_signed_def new_context_def request_uri_def Let_def)
qed

lemma demo_hmac_admits:
  "\<exists>c'. hmac_auth_exec demo_token_libs demo_token_lib 7 demo_hmac empty_store (demo_signed b) = Inr c'"
proof -
  have "verify_signature demo_token_libs demo_token_lib demo_hmac (demo_signed b) demo_params ''s''"
    using demo_signed_facts(2)
    by (simp add: verify_signature_def signing_string_def demo_params_def List.map_filter_simps)
  then show ?thesis
    by (simp add: hmac_cases demo_signed_facts(1) validate_common_def demo_hmac_def res_bind_def)
      (simp add: demo_params_def)
qed


end
