(* ===== verification/Plugin_Logger.thy ===== *)
theory Plugin_Logger
  imports Plugin_Upstream Plugin_Rewrite Batch "HOL-Library.Sublist"
begin

text \<open>
  The access-log nodes: the shared entry builder (src/src/plugins/util/log_entry.rs) and, under
  src/src/plugins/native/, logging, error-log-logger and the loggers over a file, TCP, UDP and
  syslog. A logger pushes an entry into its batching sink (theory \<open>Batch\<close>) and never touches the
  context; a flusher turns a batch into bytes and says what a failure left undelivered. Sockets and
  files are arguments: what each call on them answered.
\<close>

section \<open>Log entries\<close>

definition jobj :: "(string \<times> json) list \<Rightarrow> json" where
  "jobj kvs = JObj (btree kvs)"

definition is_scalar :: "json \<Rightarrow> bool" where
  "is_scalar v = (case v of JStr _ \<Rightarrow> True | JNum _ \<Rightarrow> True | JBool _ \<Rightarrow> True | _ \<Rightarrow> False)"

definition parse_log_format :: "config \<Rightarrow> string + json hmap option" where
  "parse_log_format c =
     (case hm_get c ''log_format'' of
        None \<Rightarrow> Inr None
      | Some JNull \<Rightarrow> Inr None
      | Some (JObj m) \<Rightarrow>
          (case find (\<lambda>(_, v). \<not> is_scalar v) m of
             Some (k, _) \<Rightarrow> Inl (''log_format['' @ sq k @ ''] must be a scalar'')
           | None \<Rightarrow> Inr (Some m))
      | Some _ \<Rightarrow> Inl ''log_format must be an object of name -> template'')"

definition build_custom :: "libs \<Rightarrow> gcontext \<Rightarrow> json hmap \<Rightarrow> json" where
  "build_custom L c fmt =
     jobj (map (\<lambda>(k, t). (k, case t of JStr s \<Rightarrow> JStr (interpolate L c s) | v \<Rightarrow> v)) fmt)"

definition headers_to_json :: "string list hmap \<Rightarrow> json" where
  "headers_to_json hs = jobj (map (\<lambda>(k, vs). (k, JArr (map JStr vs))) hs)"

definition log_request_uri :: "gcontext \<Rightarrow> string" where
  "log_request_uri c =
     (let pairs = sort (query_pairs (rq_query_params (cx_request c))); path = rq_path (cx_request c) in
      if pairs = [] then path else path @ ''?'' @ join ''&'' pairs)"

definition log_client_ip :: "string \<Rightarrow> string" where
  "log_client_ip addr =
     (case rsplit_once CHR '':'' addr of
        Some (ip, _) \<Rightarrow> if CHR '':'' \<notin> set ip then ip else addr
      | None \<Rightarrow> addr)"

definition start_ms :: "gcontext \<Rightarrow> nat option" where
  "start_ms c = Option.bind (hm_get (cx_message c) ''__request_start_ms'') as_u64"

definition latency_ms :: "nat \<Rightarrow> gcontext \<Rightarrow> nat option" where
  "latency_ms now c = map_option (\<lambda>s. now - s) (start_ms c)"

definition error_json :: "gateway_error \<Rightarrow> json" where
  "error_json e =
     jobj [(''node_id'', JStr (err_node_id e)), (''code'', JStr (err_code e)), (''message'', JStr (err_message e))]"

definition request_json :: "bool \<Rightarrow> gcontext \<Rightarrow> json" where
  "request_json body c =
     (let r = cx_request c in
      jobj ([(''method'', JStr (rq_method r)), (''uri'', JStr (log_request_uri c)), (''host'', JStr (rq_host r)),
        (''scheme'', JStr (rq_scheme r)), (''headers'', headers_to_json (rq_headers r)),
        (''size'', jnat (length (rq_body r)))] @
        (if body then [(''body'', JStr (utf8_lossy (rq_body r)))] else [])))"

definition response_json :: "bool \<Rightarrow> gcontext \<Rightarrow> json" where
  "response_json body c =
     (let r = cx_response c in
      jobj ([(''status'', jnat (rs_status_code r)), (''headers'', headers_to_json (rs_headers r)),
        (''size'', jnat (length (rs_body r)))] @
        (if body then [(''body'', JStr (utf8_lossy (rs_body r)))] else [])))"

text \<open>\<open>now\<close> is the clock in milliseconds.\<close>

definition build_default :: "nat \<Rightarrow> gcontext \<Rightarrow> bool \<Rightarrow> bool \<Rightarrow> json" where
  "build_default now c req_body resp_body =
     jobj ([(''request'', request_json req_body c), (''response'', response_json resp_body c),
       (''client_ip'', JStr (log_client_ip (rq_remote_addr (cx_request c))))] @
       (case latency_ms now c of Some l \<Rightarrow> [(''latency'', jnat l)] | None \<Rightarrow> []) @
       (case start_ms c of Some s \<Rightarrow> [(''start_time'', jnat s)] | None \<Rightarrow> []) @
       (case hm_get (cx_message c) ''consumer.name'' of Some v \<Rightarrow> [(''consumer'', v)] | None \<Rightarrow> []) @
       (if cx_errors c \<noteq> [] then [(''errors'', JArr (map error_json (cx_errors c)))] else []))"

definition build_entry :: "libs \<Rightarrow> nat \<Rightarrow> gcontext \<Rightarrow> json hmap option \<Rightarrow> bool \<Rightarrow> bool \<Rightarrow> json" where
  "build_entry L now c fmt req_body resp_body =
     (case fmt of
        Some m \<Rightarrow> build_custom L c m
      | None \<Rightarrow> build_default now c req_body resp_body)"

section \<open>The nodes\<close>

record logger =
  lg_log_format :: "json hmap option"
  lg_include_req_body :: bool
  lg_include_resp_body :: bool

definition flag :: "config \<Rightarrow> string \<Rightarrow> bool" where
  "flag c k = unwrap_or False (cfg_bool c k)"

text \<open>The part of \<open>from_config\<close> all loggers share: the format, the bodies, then the batch settings.\<close>

definition logger_from_config :: "libs \<Rightarrow> config \<Rightarrow> string + logger \<times> batch_config" where
  "logger_from_config L c =
     res_bind (parse_log_format c) (\<lambda>fmt.
     res_bind (batch_from_config L c) (\<lambda>b.
       Inr (\<lparr>lg_log_format = fmt, lg_include_req_body = flag c ''include_req_body'',
             lg_include_resp_body = flag c ''include_resp_body''\<rparr>, b)))"

definition logger_entry :: "libs \<Rightarrow> nat \<Rightarrow> logger \<Rightarrow> gcontext \<Rightarrow> json" where
  "logger_entry L now p c =
     build_entry L now c (lg_log_format p) (lg_include_req_body p) (lg_include_resp_body p)"

definition logger_exec :: "libs \<Rightarrow> nat \<Rightarrow> batch_config \<Rightarrow> logger \<Rightarrow> json sink node_exec" where
  "logger_exec L now b p c s = (Inr c, batch_push b (logger_entry L now p c) s)"

definition logging_fields :: "bool \<Rightarrow> gcontext \<Rightarrow> json" where
  "logging_fields include_headers c =
     (let r = cx_request c; s = cx_response c in
      jobj ([(''method'', JStr (rq_method r)), (''path'', JStr (rq_path r)), (''host'', JStr (rq_host r)),
        (''remote_addr'', JStr (rq_remote_addr r)), (''status'', jnat (rs_status_code s)),
        (''response_body_bytes'', jnat (length (rs_body s)))] @
        (if include_headers then [(''request_headers'', headers_to_json (rq_headers r)),
           (''response_headers'', headers_to_json (rs_headers s))] else []) @
        (if cx_errors c \<noteq> [] then [(''errors'', JArr (map (\<lambda>e. jobj [(''node_id'', JStr (err_node_id e)),
           (''code'', JStr (err_code e)), (''message'', JStr (err_message e)),
           (''metadata'', jobj (err_metadata e))]) (cx_errors c)))] else [])))"

record logging =
  lo_include_headers :: bool
  lo_include_body :: bool

definition logging_from_config :: "config \<Rightarrow> string + logging" where
  "logging_from_config c = Inr \<lparr>lo_include_headers = flag c ''include_headers'', lo_include_body = flag c ''include_body''\<rparr>"

text \<open>The world is the access log, line by line.\<close>

definition logging_exec :: "libs \<Rightarrow> logging \<Rightarrow> string list node_exec" where
  "logging_exec L p c out = (Inr c, out @ [json_print L (logging_fields (lo_include_headers p) c)])"

section \<open>Lines over a file or a stream\<close>

text \<open>\<open>JSON\<close> text of each entry and a newline; shared by file, TCP and error-log loggers.\<close>

definition entries_to_lines :: "libs \<Rightarrow> json list \<Rightarrow> string" where
  "entries_to_lines L es = concat (map (\<lambda>e. json_print L e @ [CHR 0x0A]) es)"

definition flush_failed :: "string \<Rightarrow> flush_error option" where
  "flush_failed msg = Some \<lparr>fe_message = msg, fe_first_fail = None\<rparr>"

text \<open>How an append to the log file went: it did not open, it failed after \<open>n\<close> bytes, or it was written.\<close>

datatype file_outcome = OpenFails string | WriteFails nat string | Written

text \<open>What the flusher answers, and what the file then holds.\<close>

definition file_flush :: "libs \<Rightarrow> string \<Rightarrow> file_outcome \<Rightarrow> json list \<Rightarrow> string \<Rightarrow> flush_error option \<times> string" where
  "file_flush L path out es file =
     (case out of
        OpenFails e \<Rightarrow> (flush_failed (''failed to open log file '' @ path @ '': '' @ e), file)
      | WriteFails n e \<Rightarrow>
          (flush_failed (''failed to write log file '' @ path @ '': '' @ e), file @ take n (entries_to_lines L es))
      | Written \<Rightarrow> (None, file @ entries_to_lines L es))"

definition file_logger_from_config :: "libs \<Rightarrow> config \<Rightarrow> string + string \<times> logger \<times> batch_config" where
  "file_logger_from_config L c =
     res_bind (ok_or (opt_filter (\<lambda>s. s \<noteq> []) (cfg_str c ''path'')) ''file-logger: `path` is required'') (\<lambda>path.
     res_bind (logger_from_config L c) (\<lambda>lb. Inr (path, lb)))"

text \<open>One awaited socket operation: it succeeded, failed, or ran into the timeout.\<close>

datatype io_outcome = IoDone | IoError string | IoLate

record socket_flusher =
  sf_host :: string
  sf_port :: nat
  sf_timeout :: nat

definition sf_addr :: "socket_flusher \<Rightarrow> string" where
  "sf_addr f = sf_host f @ '':'' @ show_nat (sf_port f)"

definition io_result :: "string \<Rightarrow> string \<Rightarrow> io_outcome \<Rightarrow> string + unit" where
  "io_result late failed r =
     (case r of IoDone \<Rightarrow> Inr () | IoError e \<Rightarrow> Inl (failed @ '': '' @ e) | IoLate \<Rightarrow> Inl late)"

text \<open>Connecting and writing; closing the stream is ignored.\<close>

definition tcp_send :: "string \<Rightarrow> io_outcome \<Rightarrow> io_outcome \<Rightarrow> string + unit" where
  "tcp_send server conn wr =
     res_bind (io_result (''timed out connecting to '' @ server) (''failed to connect to '' @ server) conn) (\<lambda>_.
       io_result (''timed out sending to '' @ server) (''failed to send to '' @ server) wr)"

definition tcp_flush :: "socket_flusher \<Rightarrow> io_outcome \<Rightarrow> io_outcome \<Rightarrow> flush_error option" where
  "tcp_flush f conn wr =
     (case tcp_send (''TCP server '' @ sf_addr f) conn wr of Inr _ \<Rightarrow> None | Inl m \<Rightarrow> flush_failed m)"

definition port_field :: "config \<Rightarrow> string \<Rightarrow> string + nat" where
  "port_field c name =
     ok_or (opt_filter (\<lambda>p. p \<le> 65535) (cfg_u64 c ''port'')) (name @ '': `port` is required and must be 0-65535'')"

definition host_field :: "config \<Rightarrow> string \<Rightarrow> string + string" where
  "host_field c name = ok_or (opt_filter (\<lambda>s. s \<noteq> []) (cfg_str c ''host'')) (name @ '': `host` is required'')"

definition reject_tls :: "config \<Rightarrow> string \<Rightarrow> string + unit" where
  "reject_tls c name =
     (if flag c ''tls'' then Inl (name @ '': TLS (`tls: true`) is not yet supported'') else Inr ())"

definition tcp_logger_from_config :: "libs \<Rightarrow> config \<Rightarrow> string + socket_flusher \<times> logger \<times> batch_config" where
  "tcp_logger_from_config L c =
     res_bind (host_field c ''tcp-logger'') (\<lambda>host.
     res_bind (port_field c ''tcp-logger'') (\<lambda>port.
     res_bind (reject_tls c ''tcp-logger'') (\<lambda>_.
     res_bind (logger_from_config L c) (\<lambda>lb.
       Inr (\<lparr>sf_host = host, sf_port = port,
             sf_timeout = from_millis (max (unwrap_or 1000 (cfg_u64 c ''timeout'')) 1)\<rparr>, lb)))))"

definition error_levels :: "string list" where
  "error_levels =
     [''STDERR'', ''EMERG'', ''ALERT'', ''CRIT'', ''ERR'', ''ERROR'', ''WARN'', ''NOTICE'', ''INFO'', ''DEBUG'']"

definition error_log_logger_from_config ::
  "libs \<Rightarrow> config \<Rightarrow> string + socket_flusher \<times> json hmap option \<times> batch_config" where
  "error_log_logger_from_config L c =
     res_bind (host_field c ''error-log-logger'') (\<lambda>host.
     res_bind (port_field c ''error-log-logger'') (\<lambda>port.
     res_bind (reject_tls c ''error-log-logger'') (\<lambda>_.
     res_bind (case cfg_str c ''level'' of
                 Some l \<Rightarrow> if l \<notin> set error_levels then Inl (''error-log-logger: unknown `level` '' @ l) else Inr ()
               | None \<Rightarrow> Inr ()) (\<lambda>_.
     res_bind (parse_log_format c) (\<lambda>fmt.
     res_bind (batch_from_config L c) (\<lambda>b.
       Inr (\<lparr>sf_host = host, sf_port = port,
             sf_timeout = from_secs (max (unwrap_or 3 (cfg_u64 c ''timeout'')) 1)\<rparr>, fmt, b)))))))"

text \<open>Only requests that accumulated errors are logged.\<close>

definition error_log_logger_exec ::
  "libs \<Rightarrow> nat \<Rightarrow> batch_config \<Rightarrow> json hmap option \<Rightarrow> json sink node_exec" where
  "error_log_logger_exec L now b fmt c s =
     (Inr c, if cx_errors c \<noteq> [] then batch_push b (build_entry L now c fmt False False) s else s)"

section \<open>Datagrams\<close>

definition udp_logger_from_config :: "libs \<Rightarrow> config \<Rightarrow> string + socket_flusher \<times> logger \<times> batch_config" where
  "udp_logger_from_config L c =
     res_bind (host_field c ''udp-logger'') (\<lambda>host.
     res_bind (port_field c ''udp-logger'') (\<lambda>port.
     res_bind (logger_from_config L c) (\<lambda>lb.
       Inr (\<lparr>sf_host = host, sf_port = port,
             sf_timeout = from_secs (max (unwrap_or 3 (cfg_u64 c ''timeout'')) 1)\<rparr>, lb))))"

text \<open>One datagram per entry, in order, up to the first that fails.\<close>

fun udp_send_all :: "string \<Rightarrow> (nat \<Rightarrow> io_outcome) \<Rightarrow> nat \<Rightarrow> 'e list \<Rightarrow> flush_error option" where
  "udp_send_all addr io i [] = None"
| "udp_send_all addr io i (e # es) =
     (case io_result (''timed out sending to UDP server '' @ addr) (''failed to send to UDP server '' @ addr) (io i) of
        Inr _ \<Rightarrow> udp_send_all addr io (Suc i) es
      | Inl m \<Rightarrow> Some \<lparr>fe_message = m, fe_first_fail = Some i\<rparr>)"

definition udp_flush ::
  "socket_flusher \<Rightarrow> string option \<Rightarrow> (nat \<Rightarrow> io_outcome) \<Rightarrow> json list \<Rightarrow> flush_error option" where
  "udp_flush f bind_error io es =
     (case bind_error of
        Some e \<Rightarrow> Some \<lparr>fe_message = ''failed to bind UDP socket: '' @ e, fe_first_fail = Some 0\<rparr>
      | None \<Rightarrow> udp_send_all (sf_addr f) io 0 es)"

section \<open>syslog\<close>

definition priority :: "nat \<Rightarrow> nat \<Rightarrow> nat" where
  "priority facility severity = facility * 8 + severity"

definition facility_syslog :: nat where "facility_syslog = 5"
definition severity_info :: nat where "severity_info = 6"

definition dash :: "string \<Rightarrow> string" where
  "dash s = (if s = [] then ''-'' else s)"

definition build_syslog_frame :: "nat \<Rightarrow> string \<Rightarrow> string \<Rightarrow> string \<Rightarrow> nat \<Rightarrow> string \<Rightarrow> string" where
  "build_syslog_frame pri timestamp hostname app_name procid msg =
     ''<'' @ show_nat pri @ ''>1 '' @ timestamp @ '' '' @ dash hostname @ '' '' @ dash app_name @ '' '' @
     show_nat procid @ '' - - '' @ msg @ [CHR 0x0A]"

text \<open>\<open>{:0w}\<close> of a non-negative number.\<close>

definition pad :: "nat \<Rightarrow> nat \<Rightarrow> string" where
  "pad w n = replicate (w - length (show_nat n)) (CHR ''0'') @ show_nat n"

text \<open>Year, month and day of a day counted from 1970; every value stays non-negative.\<close>

definition civil_of_days :: "nat \<Rightarrow> nat \<times> nat \<times> nat" where
  "civil_of_days days =
     (let z = days + 719468; era = z div 146097; doe = z - era * 146097;
          yoe = (doe - doe div 1460 + doe div 36524 - doe div 146096) div 365;
          year = yoe + era * 400;
          doy = doe - (365 * yoe + yoe div 4 - yoe div 100);
          mp = (5 * doy + 2) div 153;
          day = doy - (153 * mp + 2) div 5 + 1;
          month = (if mp < 10 then mp + 3 else mp - 9)
      in (if month \<le> 2 then year + 1 else year, month, day))"

definition format_rfc3339 :: "nat \<Rightarrow> nat \<Rightarrow> string" where
  "format_rfc3339 secs millis =
     (let (year, month, day) = civil_of_days (secs div 86400); s = secs mod 86400 in
      pad 4 year @ ''-'' @ pad 2 month @ ''-'' @ pad 2 day @ ''T'' @ pad 2 (s div 3600) @ '':'' @
      pad 2 ((s mod 3600) div 60) @ '':'' @ pad 2 (s mod 60) @ ''.'' @ pad 3 millis @ ''Z'')"

datatype sock_type = Tcp | Udp

definition syslog_payload :: "json list \<Rightarrow> string" where
  "syslog_payload es = concat (List.map_filter as_str es)"

text \<open>Over TCP: connecting and writing; over UDP: binding, then one datagram with the whole payload.\<close>

definition syslog_send :: "sock_type \<Rightarrow> string \<Rightarrow> io_outcome \<Rightarrow> io_outcome \<Rightarrow> string + unit" where
  "syslog_send st addr first second =
     (case st of
        Tcp \<Rightarrow> tcp_send (''syslog TCP '' @ addr) first second
      | Udp \<Rightarrow>
          (case first of
             IoError e \<Rightarrow> Inl (''failed to bind UDP socket: '' @ e)
           | _ \<Rightarrow> io_result (''timed out sending to syslog UDP '' @ addr) (''failed to send to syslog UDP '' @ addr) second))"

definition syslog_flush :: "sock_type \<Rightarrow> socket_flusher \<Rightarrow> io_outcome \<Rightarrow> io_outcome \<Rightarrow> flush_error option" where
  "syslog_flush st f first second =
     (case syslog_send st (sf_addr f) first second of Inr _ \<Rightarrow> None | Inl m \<Rightarrow> flush_failed m)"

definition syslog_from_config ::
  "libs \<Rightarrow> config \<Rightarrow> string + sock_type \<times> socket_flusher \<times> logger \<times> batch_config" where
  "syslog_from_config L c =
     res_bind (host_field c ''syslog'') (\<lambda>host.
     res_bind (reject_tls c ''syslog'') (\<lambda>_.
     res_bind (let t = unwrap_or ''tcp'' (cfg_str c ''sock_type'') in
               if t = ''tcp'' then Inr Tcp
               else if t = ''udp'' then Inr Udp
               else Inl (''syslog: `sock_type` must be tcp or udp, got '' @ t)) (\<lambda>st.
     res_bind (logger_from_config L c) (\<lambda>lb.
       Inr (st, \<lparr>sf_host = host, sf_port = unwrap_or 5140 (opt_filter (\<lambda>p. p \<le> 65535) (cfg_u64 c ''port'')),
                 sf_timeout = from_millis (max (unwrap_or 3000 (cfg_u64 c ''timeout'')) 1)\<rparr>, lb)))))"

text \<open>\<open>secs\<close> and \<open>millis\<close> are the wall clock when the frame is built, \<open>pid\<close> the process.\<close>

definition syslog_exec ::
  "libs \<Rightarrow> nat \<Rightarrow> nat \<Rightarrow> nat \<Rightarrow> nat \<Rightarrow> batch_config \<Rightarrow> logger \<Rightarrow> json sink node_exec" where
  "syslog_exec L now secs millis pid b p c s =
     (Inr c, batch_push b
        (JStr (build_syslog_frame (priority facility_syslog severity_info) (format_rfc3339 secs millis)
           (rq_host (cx_request c)) ''featherbit'' pid (json_print L (logger_entry L now p c)))) s)"

section \<open>What ends up in a log file\<close>

interpretation logger_node: rewriter_contract "logger_exec L now b p" for L now b p
  by unfold_locales (simp_all add: logger_exec_def)

interpretation error_log_logger_node: rewriter_contract "error_log_logger_exec L now b fmt" for L now b fmt
  by unfold_locales (simp_all add: error_log_logger_exec_def)

interpretation syslog_node: rewriter_contract "syslog_exec L now secs millis pid b p" for L now secs millis pid b p
  by unfold_locales (simp_all add: syslog_exec_def)

interpretation logging_node: rewriter_contract "logging_exec L p" for L p
  by unfold_locales (simp_all add: logging_exec_def)

text \<open>
  A file-logger node at work: its sink steps as in \<open>Batch\<close>, except that the answer of the flusher is
  that of an attempt to append the batch in flight to the file.
\<close>

datatype file_event = Sink_Event "json sink_event" | Appends file_outcome

fun file_step ::
  "libs \<Rightarrow> nat \<Rightarrow> batch_config \<Rightarrow> string \<Rightarrow> file_event \<Rightarrow> json sink \<times> string \<Rightarrow> (json sink \<times> string) option" where
  "file_step L lim cfg path (Appends out) (s, disk) =
     (case sk_phase s of
        Flushing es n exits \<Rightarrow>
          (let (r, disk') = file_flush L path out es disk in
           map_option (\<lambda>s'. (s', disk')) (sink_step lim cfg (Answer r) s))
      | _ \<Rightarrow> None)"
| "file_step L lim cfg path (Sink_Event ev) (s, disk) =
     (case ev of Answer _ \<Rightarrow> None | _ \<Rightarrow> map_option (\<lambda>s'. (s', disk)) (sink_step lim cfg ev s))"

fun file_run ::
  "libs \<Rightarrow> nat \<Rightarrow> batch_config \<Rightarrow> string \<Rightarrow> file_event list \<Rightarrow> json sink \<times> string \<Rightarrow> (json sink \<times> string) option" where
  "file_run L lim cfg path [] x = Some x"
| "file_run L lim cfg path (ev # evs) x = Option.bind (file_step L lim cfg path ev x) (file_run L lim cfg path evs)"

definition delivered :: "'e sink \<Rightarrow> 'e list" where
  "delivered s = map fst (filter (\<lambda>x. snd x = Delivered) (sk_settled s))"

fun whole_write :: "file_event \<Rightarrow> bool" where
  "whole_write (Appends (WriteFails n e)) \<longleftrightarrow> n = 0"
| "whole_write _ \<longleftrightarrow> True"

lemma settled_start [simp]: "sk_settled (start_flush x s) = sk_settled s"
  by (simp add: start_flush_def)

lemma settled_others:
  "sink_step lim cfg ev s = Some s' \<Longrightarrow> (\<And>r. ev \<noteq> Answer r) \<Longrightarrow> sk_settled s' = sk_settled s"
  by (cases ev)
    (auto simp: batch_push_def batch_recv_def batch_timer_def batch_resume_def next_round_def
      split: if_splits list.splits batch_phase.splits)

lemma delivered_answer:
  assumes "sk_phase s = Flushing es n x" and "batch_answer lim cfg r s = Some s'"
    and "\<forall>err. r = Some err \<longrightarrow> fe_first_fail err = None"
  shows "delivered s' = delivered s @ (if r = None then es else [])"
  using assms
  by (auto simp: batch_answer_def delivered_def settle_def after_flush_def Let_def filter_map comp_def
      split: option.splits if_splits)

lemma file_flush_none: "fst (file_flush L path out es disk) = Some err \<Longrightarrow> fe_first_fail err = None"
  by (auto simp: file_flush_def flush_failed_def split: file_outcome.splits)

lemma file_step_delivered:
  assumes "file_step L lim cfg path ev (s, disk) = Some (s', disk')" and "whole_write ev"
    and "disk = entries_to_lines L (delivered s)"
  shows "disk' = entries_to_lines L (delivered s')"
proof (cases ev)
  case (Sink_Event e)
  then have "sink_step lim cfg e s = Some s'" "\<And>r. e \<noteq> Answer r" "disk' = disk"
    using assms(1) by (auto split: sink_event.splits)
  then show ?thesis using settled_others [of lim cfg e s s'] assms(3) by (simp add: delivered_def)
next
  case (Appends out)
  then obtain es n x where p: "sk_phase s = Flushing es n x"
    using assms(1) by (auto split: batch_phase.splits)
  obtain r where r: "file_flush L path out es disk = (r, disk')" and a: "batch_answer lim cfg r s = Some s'"
    using assms(1) Appends p by (auto simp: Let_def split: prod.splits)
  have "delivered s' = delivered s @ (if r = None then es else [])"
    using delivered_answer [OF p a] file_flush_none [of L path out es disk] r by simp
  moreover have "disk' = disk @ (if r = None then entries_to_lines L es else [])"
    using r assms(2) Appends by (auto simp: file_flush_def flush_failed_def split: file_outcome.splits)
  ultimately show ?thesis using assms(3) by (simp add: entries_to_lines_def)
qed

lemma file_step_sink:
  assumes "file_step L lim cfg path ev (s, disk) = Some (s1, disk1)"
  shows "\<exists>e. sink_step lim cfg e s = Some s1"
proof (cases ev)
  case (Sink_Event e)
  then have "sink_step lim cfg e s = Some s1" using assms by (auto split: sink_event.splits)
  then show ?thesis by blast
next
  case (Appends out)
  then obtain r where "sink_step lim cfg (Answer r) s = Some s1"
    using assms by (auto simp: Let_def split: batch_phase.splits prod.splits)
  then show ?thesis by blast
qed

lemma file_run_delivered:
  assumes "file_run L lim cfg path evs (s, disk) = Some (s', disk')" and "\<forall>ev \<in> set evs. whole_write ev"
    and "disk = entries_to_lines L (delivered s)" and "sink_reach lim cfg s"
  shows "disk' = entries_to_lines L (delivered s') \<and> sink_reach lim cfg s'"
  using assms
proof (induction evs arbitrary: s disk)
  case (Cons ev evs)
  then obtain s1 f1 where st: "file_step L lim cfg path ev (s, disk) = Some (s1, f1)"
    and rest: "file_run L lim cfg path evs (s1, f1) = Some (s', disk')"
    by (auto simp: bind_eq_Some_conv)
  have "\<exists>e. sink_step lim cfg e s = Some s1" by (rule file_step_sink [OF st])
  then have "sink_reach lim cfg s1" using reach_step [OF Cons.prems(4)] by blast
  then show ?case
    using Cons.IH [OF rest] file_step_delivered [OF st _ Cons.prems(3)] Cons.prems(2) by simp
qed simp

lemma lines_parse:
  assumes "\<forall>e \<in> set es. CHR 0x0A \<notin> set (json_print L e) \<and> parse (json_print L e) = Some e"
  shows "map parse (butlast (split_on (CHR 0x0A) (entries_to_lines L es))) = map Some es"
  using assms
proof (induction es)
  case (Cons e es)
  have "split_on (CHR 0x0A) (entries_to_lines L (e # es)) =
      json_print L e # split_on (CHR 0x0A) (entries_to_lines L es)"
    using Cons.prems split_on_append [of "CHR 0x0A" "json_print L e" "entries_to_lines L es"]
    by (simp add: entries_to_lines_def)
  then show ?case using Cons by simp
qed (simp add: entries_to_lines_def)

text \<open>
  A log file says what was delivered. However requests, flushes, retries and the clock
  interleave, as long as no write stops half way and the printer and a parser of JSON lines are
  inverse: reading the file line by line gives back exactly the entries the sink counts as
  delivered, each once, in the order of their requests; the rest of what was accepted is
  still pending or was dropped after its last retry.
\<close>

theorem log_file_round_trip:
  assumes "file_run L lim cfg path evs (batch_spawn now, []) = Some (s, disk)"
    and "\<forall>ev \<in> set evs. whole_write ev"
    and "\<forall>e \<in> set (sk_accepted s). CHR 0x0A \<notin> set (json_print L e) \<and> parse (json_print L e) = Some e"
  shows "map parse (butlast (split_on (CHR 0x0A) disk)) = map Some (delivered s) \<and>
     subseq (delivered s) (sk_accepted s)"
proof -
  have r: "disk = entries_to_lines L (delivered s)" "sink_reach lim cfg s"
    using file_run_delivered [OF assms(1,2)] reach_spawn
    by (auto simp: entries_to_lines_def delivered_def batch_spawn_def)
  have a: "sk_accepted s = map fst (sk_settled s) @ in_flight (sk_phase s) @ sk_buffer s @ sk_queue s"
    using sink_reach_ok [OF r(2)] by (simp add: sink_ok_def)
  have "subseq (delivered s) (map fst (sk_settled s))"
    unfolding delivered_def by (rule subseq_map) simp
  then have sub: "subseq (delivered s) (sk_accepted s)"
    unfolding a by (rule list_emb_prefix)
  have "set (delivered s) \<subseteq> set (sk_accepted s)" unfolding a delivered_def by auto
  then show ?thesis using lines_parse [of "delivered s" L parse] assms(3) r(1) sub by blast
qed

definition demo_file_events :: "file_event list" where
  "demo_file_events =
     [Sink_Event (Push (JStr ''a'')), Sink_Event (Push (JStr ''b'')), Sink_Event Recv, Sink_Event Recv,
      Appends (OpenFails ''denied''), Sink_Event (Passes 1000), Sink_Event Resume, Appends Written]"

theorem log_file_round_trip_witness:
  "\<exists>s. file_run plain_libs (2 ^ 70) demo_batch ''x.log'' demo_file_events (batch_spawn 0, []) =
       Some (s, ''a'' @ CHR 0x0A # ''b'' @ [CHR 0x0A]) \<and> delivered s = [JStr ''a'', JStr ''b'']"
proof -
  obtain s where s: "file_run plain_libs (2 ^ 70) demo_batch ''x.log'' demo_file_events (batch_spawn 0, []) =
      Some (s, ''a'' @ CHR 0x0A # ''b'' @ [CHR 0x0A])" and a: "sk_accepted s = [JStr ''a'', JStr ''b'']"
    by (simp add: demo_file_events_def demo_batch_def default_batch_config_def batch_spawn_def batch_push_def
        batch_capacity_def batch_recv_def next_round_def batch_limit_def start_flush_def batch_answer_def
        deadline_panics_def settle_def after_flush_def wake_at_def batch_resume_def ms_of_secs_def Let_def
        file_flush_def flush_failed_def entries_to_lines_def plain_libs_def)
  have "\<forall>ev \<in> set demo_file_events. whole_write ev" by (simp add: demo_file_events_def)
  from log_file_round_trip [OF s this, of "\<lambda>t. Some (JStr t)"] a
  have "map (\<lambda>t. Some (JStr t)) (butlast (split_on (CHR 0x0A) (''a'' @ CHR 0x0A # ''b'' @ [CHR 0x0A]))) =
      map Some (delivered s)"
    by (simp add: plain_libs_def)
  then have "map Some (delivered s) = map Some [JStr ''a'', JStr ''b'']" by simp
  then have "delivered s = [JStr ''a'', JStr ''b'']" by (auto simp: map_eq_Cons_conv)
  then show ?thesis using s by blast
qed

end
