(* ===== verification/Plugin_Logger_Http.thy ===== *)
theory Plugin_Logger_Http
  imports Plugin_Logger
begin

text \<open>
  The loggers over HTTP (src/src/plugins/native/): http-logger, splunk-hec-logging, loki-logger,
  clickhouse-logger, elasticsearch-logger and loggly, and datadog over UDP.
  Each is a request built from a batch and a rule for which status delivers it; the outbound
  client is that of the upstream node (\<open>outbound_call\<close>).
\<close>

section \<open>Sending a batch\<close>

definition http_flush ::
  "transport \<Rightarrow> (nat \<Rightarrow> bool) \<Rightarrow> (outbound_response \<Rightarrow> string) \<Rightarrow> string \<Rightarrow> outbound_request \<Rightarrow> flush_error option" where
  "http_flush T ok refused failed req =
     (case outbound_call T req of
        Inr r \<Rightarrow> if ok (or_status r) then None else flush_failed (refused r)
      | Inl e \<Rightarrow> flush_failed (failed @ show_outbound_error (tr_duration T) e))"

definition returned_status :: "string \<Rightarrow> outbound_response \<Rightarrow> string" where
  "returned_status who r = who @ '' returned status '' @ show_nat (or_status r)"

definition json_lines :: "libs \<Rightarrow> json list \<Rightarrow> string" where
  "json_lines L es = join [CHR 0x0A] (map (json_print L) es)"

text \<open>\<open>Duration::from_secs(n.max(1))\<close> and \<open>from_millis\<close> of a configured number.\<close>

definition secs_field :: "config \<Rightarrow> nat \<Rightarrow> nat" where
  "secs_field c dflt = from_secs (max (unwrap_or dflt (cfg_u64 c ''timeout'')) 1)"

definition millis_field :: "config \<Rightarrow> nat \<Rightarrow> nat" where
  "millis_field c dflt = from_millis (max (unwrap_or dflt (cfg_u64 c ''timeout'')) 1)"

section \<open>http-logger\<close>

datatype concat_method = ConcatJson | ConcatNewLine

record http_logger =
  hl_uri :: string
  hl_method :: string
  hl_headers :: "(string \<times> string) list"
  hl_concat :: concat_method
  hl_ssl_verify :: bool
  hl_timeout :: nat

definition build_http_body :: "libs \<Rightarrow> json list \<Rightarrow> concat_method \<Rightarrow> string \<times> string" where
  "build_http_body L es m =
     (case m of
        ConcatJson \<Rightarrow> (json_print L (JArr es), ''application/json'')
      | ConcatNewLine \<Rightarrow> (json_lines L es, ''text/plain''))"

definition header_value :: "libs \<Rightarrow> json \<Rightarrow> string option" where
  "header_value L v =
     (case v of
        JStr s \<Rightarrow> Some s
      | JNum n \<Rightarrow> Some (show_num L n)
      | JBool b \<Rightarrow> Some (show_bool b)
      | _ \<Rightarrow> None)"

definition http_logger_headers :: "libs \<Rightarrow> config \<Rightarrow> (string \<times> string) list" where
  "http_logger_headers L c =
     List.map_filter (\<lambda>(k, v). map_option (Pair k) (header_value L v))
       (unwrap_or [] (Option.bind (hm_get c ''headers'') as_object)) @
     (case cfg_str c ''auth_header'' of
        Some a \<Rightarrow> if a \<noteq> [] then [(''Authorization'', a)] else []
      | None \<Rightarrow> [])"

definition http_logger_from_config ::
  "libs \<Rightarrow> transport \<Rightarrow> config \<Rightarrow> string + http_logger \<times> logger \<times> batch_config" where
  "http_logger_from_config L T c =
     res_bind (ok_or (opt_filter (\<lambda>s. s \<noteq> []) (cfg_str c ''uri''))
       (''http-logger plugin requires '' @ sq ''uri'')) (\<lambda>uri.
     let m = to_uppercase L (unwrap_or ''POST'' (cfg_str c ''method'')) in
     res_bind (ok_or (tr_method T m) (''http-logger invalid method '' @ sq m)) (\<lambda>meth.
     res_bind (let k = unwrap_or ''json'' (cfg_str c ''concat_method'') in
               if k = ''json'' then Inr ConcatJson
               else if k = ''new_line'' then Inr ConcatNewLine
               else Inl (''http-logger concat_method must be 'json' or 'new_line', got '' @ sq k)) (\<lambda>cm.
     res_bind (logger_from_config L c) (\<lambda>lb.
       Inr (\<lparr>hl_uri = uri, hl_method = meth, hl_headers = http_logger_headers L c, hl_concat = cm,
             hl_ssl_verify = flag c ''ssl_verify'', hl_timeout = secs_field c 3\<rparr>, lb)))))"

definition http_logger_request :: "libs \<Rightarrow> http_logger \<Rightarrow> json list \<Rightarrow> outbound_request" where
  "http_logger_request L f es =
     (let (body, ct) = build_http_body L es (hl_concat f) in
      \<lparr>ob_method = hl_method f, ob_url = hl_uri f, ob_headers = hl_headers f @ [(''Content-Type'', ct)],
       ob_body = body, ob_timeout = hl_timeout f, ob_ssl_verify = hl_ssl_verify f\<rparr>)"

definition http_logger_flush :: "libs \<Rightarrow> transport \<Rightarrow> http_logger \<Rightarrow> json list \<Rightarrow> flush_error option" where
  "http_logger_flush L T f es =
     http_flush T (\<lambda>s. s < 400) (returned_status ''http-logger endpoint'') [] (http_logger_request L f es)"

section \<open>splunk-hec-logging\<close>

record splunk =
  sp_uri :: string
  sp_token :: string
  sp_channel :: "string option"
  sp_source :: string
  sp_ssl_verify :: bool
  sp_timeout :: nat

definition wrap_event :: "json \<Rightarrow> f64 \<Rightarrow> string \<Rightarrow> json" where
  "wrap_event e time source =
     jobj [(''time'', JNum (NFloat time)), (''source'', JStr source), (''sourcetype'', JStr ''_json''), (''event'', e)]"

definition build_splunk_body :: "libs \<Rightarrow> json list \<Rightarrow> f64 \<Rightarrow> string \<Rightarrow> string" where
  "build_splunk_body L es time source = concat (map (\<lambda>e. json_print L (wrap_event e time source)) es)"

text \<open>A key of the \<open>endpoint\<close> object, else of the node's configuration itself.\<close>

definition endpoint_key :: "config \<Rightarrow> string \<Rightarrow> json option" where
  "endpoint_key c k =
     (case Option.bind (Option.bind (hm_get c ''endpoint'') as_object) (\<lambda>e. hm_get e k) of
        Some v \<Rightarrow> Some v | None \<Rightarrow> hm_get c k)"

definition endpoint_str :: "config \<Rightarrow> string \<Rightarrow> string option" where
  "endpoint_str c k = opt_filter (\<lambda>s. s \<noteq> []) (Option.bind (endpoint_key c k) as_str)"

definition splunk_from_config :: "libs \<Rightarrow> config \<Rightarrow> string + splunk \<times> logger \<times> batch_config" where
  "splunk_from_config L c =
     res_bind (ok_or (endpoint_str c ''uri'')
       (''splunk-hec-logging plugin requires '' @ sq ''endpoint.uri'')) (\<lambda>uri.
     res_bind (ok_or (endpoint_str c ''token'')
       (''splunk-hec-logging plugin requires '' @ sq ''endpoint.token'')) (\<lambda>token.
     res_bind (logger_from_config L c) (\<lambda>lb.
       Inr (\<lparr>sp_uri = uri, sp_token = token, sp_channel = endpoint_str c ''channel'',
             sp_source = unwrap_or ''featherbit-splunk-hec-logging'' (opt_filter (\<lambda>s. s \<noteq> []) (cfg_str c ''source'')),
             sp_ssl_verify = unwrap_or True (cfg_bool c ''ssl_verify''),
             sp_timeout = from_secs (max (unwrap_or 10 (Option.bind (endpoint_key c ''timeout'') as_u64)) 1)\<rparr>, lb))))"

definition splunk_request :: "libs \<Rightarrow> splunk \<Rightarrow> f64 \<Rightarrow> json list \<Rightarrow> outbound_request" where
  "splunk_request L f now es =
     \<lparr>ob_method = ''POST'', ob_url = sp_uri f,
      ob_headers = [(''Content-Type'', ''application/json''), (''Authorization'', ''Splunk '' @ sp_token f)] @
        (case sp_channel f of Some ch \<Rightarrow> [(''X-Splunk-Request-Channel'', ch)] | None \<Rightarrow> []),
      ob_body = build_splunk_body L es now (sp_source f), ob_timeout = sp_timeout f, ob_ssl_verify = sp_ssl_verify f\<rparr>"

definition splunk_flush :: "libs \<Rightarrow> transport \<Rightarrow> splunk \<Rightarrow> f64 \<Rightarrow> json list \<Rightarrow> flush_error option" where
  "splunk_flush L T f now es =
     http_flush T (\<lambda>s. s = 200) (returned_status ''splunk HEC'') [] (splunk_request L f now es)"

section \<open>loki-logger\<close>

record loki =
  lk_urls :: "string list"
  lk_tenant_id :: string
  lk_labels :: "json hmap"
  lk_extra_headers :: "(string \<times> string) list"
  lk_ssl_verify :: bool
  lk_timeout :: nat

definition default_labels :: "json hmap" where
  "default_labels = [(''job'', JStr ''featherbit'')]"

definition parse_labels :: "libs \<Rightarrow> config \<Rightarrow> json hmap" where
  "parse_labels L c =
     (case Option.bind (case hm_get c ''log_labels'' of Some v \<Rightarrow> Some v | None \<Rightarrow> hm_get c ''labels'') as_object of
        None \<Rightarrow> default_labels
      | Some obj \<Rightarrow>
          (let m = List.map_filter (\<lambda>(k, v). map_option (\<lambda>s. (k, JStr s)) (header_value L v)) obj
           in if m = [] then default_labels else m))"

definition loki_addrs :: "config \<Rightarrow> string list" where
  "loki_addrs c =
     map (trim_end_char CHR ''/'') (filter (\<lambda>s. s \<noteq> []) (unwrap_or [] (cfg_strings c ''endpoint_addrs''))) @
     (case opt_filter (\<lambda>s. s \<noteq> []) (cfg_str c ''endpoint'') of
        Some s \<Rightarrow> [trim_end_char CHR ''/'' s] | None \<Rightarrow> [])"

definition loki_from_config :: "libs \<Rightarrow> config \<Rightarrow> string + loki \<times> logger \<times> batch_config" where
  "loki_from_config L c =
     (if loki_addrs c = [] then Inl (''loki-logger plugin requires '' @ sq ''endpoint_addrs'')
      else res_bind (logger_from_config L c) (\<lambda>lb.
        Inr (\<lparr>lk_urls = map (\<lambda>a. a @ unwrap_or ''/loki/api/v1/push''
                   (opt_filter (\<lambda>s. s \<noteq> []) (cfg_str c ''endpoint_uri''))) (loki_addrs c),
              lk_tenant_id = unwrap_or ''fake'' (cfg_str c ''tenant_id''), lk_labels = parse_labels L c,
              lk_extra_headers = List.map_filter (\<lambda>(k, v). map_option (Pair k) (as_str v))
                (unwrap_or [] (Option.bind (hm_get c ''headers'') as_object)),
              lk_ssl_verify = flag c ''ssl_verify'', lk_timeout = millis_field c 3000\<rparr>, lb)))"

text \<open>\<open>nanos\<close> is the wall clock.\<close>

definition build_loki_payload :: "libs \<Rightarrow> nat \<Rightarrow> json list \<Rightarrow> json hmap \<Rightarrow> json" where
  "build_loki_payload L nanos es labels =
     JObj [(''streams'', JArr [jobj [(''stream'', JObj labels),
       (''values'', JArr (map (\<lambda>e. JArr [JStr (show_nat nanos), JStr (json_print L e)]) es))]])]"

text \<open>The endpoint is picked by the clock's nanoseconds, read once more.\<close>

definition loki_request :: "libs \<Rightarrow> loki \<Rightarrow> nat \<Rightarrow> nat \<Rightarrow> json list \<Rightarrow> outbound_request" where
  "loki_request L f nanos nanos' es =
     (let i = (nanos' mod nanos_per_sec) mod max (length (lk_urls f)) 1 in
      \<lparr>ob_method = ''POST'', ob_url = (if i < length (lk_urls f) then lk_urls f ! i else []),
       ob_headers = lk_extra_headers f @
         [(''X-Scope-OrgID'', lk_tenant_id f), (''Content-Type'', ''application/json'')],
       ob_body = json_print L (build_loki_payload L nanos es (lk_labels f)),
       ob_timeout = lk_timeout f, ob_ssl_verify = lk_ssl_verify f\<rparr>)"

definition loki_flush :: "libs \<Rightarrow> transport \<Rightarrow> loki \<Rightarrow> nat \<Rightarrow> nat \<Rightarrow> json list \<Rightarrow> flush_error option" where
  "loki_flush L T f nanos nanos' es =
     http_flush T (\<lambda>s. s < 300) (returned_status ''loki server'') [] (loki_request L f nanos nanos' es)"

section \<open>clickhouse-logger and elasticsearch-logger\<close>

text \<open>Both keep a cursor over their endpoints; it is an atomic counter and wraps around.\<close>

definition all_endpoints :: "config \<Rightarrow> string list" where
  "all_endpoints c =
     (case cfg_str c ''endpoint_addr'' of Some s \<Rightarrow> [s] | None \<Rightarrow> []) @ unwrap_or [] (cfg_strings c ''endpoint_addrs'')"

definition next_endpoint :: "string list \<Rightarrow> nat \<Rightarrow> string \<times> nat" where
  "next_endpoint eps cursor = (eps ! (cursor mod length eps), (cursor + 1) mod 2 ^ 64)"

record clickhouse =
  ck_endpoints :: "string list"
  ck_database :: string
  ck_logtable :: string
  ck_user :: string
  ck_password :: string
  ck_ssl_verify :: bool
  ck_timeout :: nat

definition ck_collect_endpoints :: "config \<Rightarrow> string + string list" where
  "ck_collect_endpoints c =
     (if all_endpoints c = [] then Inl (''clickhouse-logger requires 'endpoint_addr' or '' @ sq ''endpoint_addrs'')
      else Inr (all_endpoints c))"

definition required_string :: "config \<Rightarrow> string \<Rightarrow> string + string" where
  "required_string c k =
     ok_or (opt_filter (\<lambda>s. s \<noteq> []) (cfg_str c k)) (''clickhouse-logger requires '' @ sq k)"

definition clickhouse_from_config :: "libs \<Rightarrow> config \<Rightarrow> string + clickhouse \<times> logger \<times> batch_config" where
  "clickhouse_from_config L c =
     res_bind (ck_collect_endpoints c) (\<lambda>eps.
     res_bind (required_string c ''logtable'') (\<lambda>table.
     res_bind (required_string c ''database'') (\<lambda>db.
     res_bind (logger_from_config L c) (\<lambda>lb.
       Inr (\<lparr>ck_endpoints = eps, ck_database = db, ck_logtable = table,
             ck_user = unwrap_or [] (cfg_str c ''user''), ck_password = unwrap_or [] (cfg_str c ''password''),
             ck_ssl_verify = unwrap_or True (cfg_bool c ''ssl_verify''),
             ck_timeout = from_secs (unwrap_or 3 (cfg_u64 c ''timeout''))\<rparr>, lb)))))"

definition build_insert_body :: "libs \<Rightarrow> string \<Rightarrow> json list \<Rightarrow> string" where
  "build_insert_body L table es = ''INSERT INTO '' @ table @ '' FORMAT JSONEachRow '' @ json_lines L es"

definition clickhouse_request :: "libs \<Rightarrow> clickhouse \<Rightarrow> string \<Rightarrow> json list \<Rightarrow> outbound_request" where
  "clickhouse_request L f url es =
     \<lparr>ob_method = ''POST'', ob_url = url,
      ob_headers = [(''Content-Type'', ''application/json''), (''X-ClickHouse-User'', ck_user f),
        (''X-ClickHouse-Key'', ck_password f), (''X-ClickHouse-Database'', ck_database f)],
      ob_body = build_insert_body L (ck_logtable f) es, ob_timeout = ck_timeout f, ob_ssl_verify = ck_ssl_verify f\<rparr>"

definition status_and_body :: "string \<Rightarrow> outbound_response \<Rightarrow> string" where
  "status_and_body who r = returned_status who r @ '': '' @ utf8_lossy (or_body r)"

definition clickhouse_flush ::
  "libs \<Rightarrow> transport \<Rightarrow> clickhouse \<Rightarrow> json list \<Rightarrow> nat \<Rightarrow> flush_error option \<times> nat" where
  "clickhouse_flush L T f es cursor =
     (let (url, cursor') = next_endpoint (ck_endpoints f) cursor in
      (http_flush T (\<lambda>s. s < 400) (status_and_body ''clickhouse'') ''clickhouse callout failed: ''
         (clickhouse_request L f url es), cursor'))"

record elasticsearch =
  es_endpoints :: "string list"
  es_index :: string
  es_authorization :: "string option"
  es_ssl_verify :: bool
  es_timeout :: nat

definition es_collect_endpoints :: "config \<Rightarrow> string + string list" where
  "es_collect_endpoints c =
     (if all_endpoints c = [] then Inl (''elasticsearch-logger requires 'endpoint_addr' or '' @ sq ''endpoint_addrs'')
      else Inr (map (trim_end_char CHR ''/'') (all_endpoints c)))"

definition es_basic :: "libs \<Rightarrow> config \<Rightarrow> string option" where
  "es_basic L c =
     Option.bind (Option.bind (hm_get c ''auth'') as_object) (\<lambda>a.
     Option.bind (cfg_str a ''username'') (\<lambda>user.
     map_option (\<lambda>pass. ''Basic '' @ b64_encode L (user @ '':'' @ pass)) (cfg_str a ''password'')))"

definition elasticsearch_from_config :: "libs \<Rightarrow> config \<Rightarrow> string + elasticsearch \<times> logger \<times> batch_config" where
  "elasticsearch_from_config L c =
     res_bind (es_collect_endpoints c) (\<lambda>eps.
     res_bind (ok_or (Option.bind (hm_get c ''field'') as_object)
       (''elasticsearch-logger requires '' @ sq ''field'')) (\<lambda>field.
     res_bind (ok_or (opt_filter (\<lambda>s. s \<noteq> []) (cfg_str field ''index''))
       (''elasticsearch-logger requires '' @ sq ''field.index'')) (\<lambda>index.
     res_bind (logger_from_config L c) (\<lambda>lb.
       Inr (\<lparr>es_endpoints = eps, es_index = index, es_authorization = es_basic L c,
             es_ssl_verify = unwrap_or True (cfg_bool c ''ssl_verify''),
             es_timeout = from_secs (unwrap_or 10 (cfg_u64 c ''timeout''))\<rparr>, lb)))))"

definition es_bulk_body :: "libs \<Rightarrow> string \<Rightarrow> json list \<Rightarrow> string" where
  "es_bulk_body L index es =
     concat (map (\<lambda>e. json_print L (JObj [(''index'', JObj [(''_index'', JStr index)])]) @ [CHR 0x0A] @
       json_print L e @ [CHR 0x0A]) es)"

definition elasticsearch_request :: "libs \<Rightarrow> elasticsearch \<Rightarrow> string \<Rightarrow> json list \<Rightarrow> outbound_request" where
  "elasticsearch_request L f ep es =
     \<lparr>ob_method = ''POST'', ob_url = ep @ ''/_bulk'',
      ob_headers = [(''Content-Type'', ''application/x-ndjson''), (''Accept'', ''application/vnd.elasticsearch+json'')] @
        (case es_authorization f of Some a \<Rightarrow> [(''Authorization'', a)] | None \<Rightarrow> []),
      ob_body = es_bulk_body L (es_index f) es, ob_timeout = es_timeout f, ob_ssl_verify = es_ssl_verify f\<rparr>"

definition elasticsearch_flush ::
  "libs \<Rightarrow> transport \<Rightarrow> elasticsearch \<Rightarrow> json list \<Rightarrow> nat \<Rightarrow> flush_error option \<times> nat" where
  "elasticsearch_flush L T f es cursor =
     (let (ep, cursor') = next_endpoint (es_endpoints f) cursor in
      (http_flush T (\<lambda>s. s = 200) (status_and_body ''elasticsearch'') ''elasticsearch callout failed: ''
         (elasticsearch_request L f ep es), cursor'))"

section \<open>loggly\<close>

record loggly =
  lg_url :: string
  lg_tags_header :: string
  lg_ssl_verify :: bool
  lg_timeout :: nat

definition tag_list :: "string list \<Rightarrow> string" where
  "tag_list tags = (if tags = [] then ''featherbit'' else join '','' tags)"

definition build_bulk_url :: "string \<Rightarrow> string \<Rightarrow> string list \<Rightarrow> string" where
  "build_bulk_url host token tags =
     (if starts_with host ''http://'' \<or> starts_with host ''https://'' then trim_end_char CHR ''/'' host
      else ''https://'' @ trim_end_char CHR ''/'' host) @
     ''/bulk/'' @ token @ ''/tag/'' @ tag_list tags @ ''/''"

definition loggly_from_config :: "libs \<Rightarrow> config \<Rightarrow> string + loggly \<times> logger \<times> batch_config" where
  "loggly_from_config L c =
     res_bind (ok_or (opt_filter (\<lambda>s. s \<noteq> []) (cfg_str c ''customer_token''))
       (''loggly plugin requires '' @ sq ''customer_token'')) (\<lambda>token.
     let tags = unwrap_or [''featherbit''] (cfg_strings c ''tags'') in
     res_bind (logger_from_config L c) (\<lambda>lb.
       Inr (\<lparr>lg_url = build_bulk_url (unwrap_or ''logs-01.loggly.com'' (cfg_str c ''host'')) token tags,
             lg_tags_header = tag_list tags, lg_ssl_verify = unwrap_or True (cfg_bool c ''ssl_verify''),
             lg_timeout = millis_field c 5000\<rparr>, lb)))"

definition loggly_request :: "libs \<Rightarrow> loggly \<Rightarrow> json list \<Rightarrow> outbound_request" where
  "loggly_request L f es =
     \<lparr>ob_method = ''POST'', ob_url = lg_url f,
      ob_headers = [(''Content-Type'', ''application/json''), (''X-LOGGLY-TAG'', lg_tags_header f)],
      ob_body = json_lines L es, ob_timeout = lg_timeout f, ob_ssl_verify = lg_ssl_verify f\<rparr>"

definition loggly_flush :: "libs \<Rightarrow> transport \<Rightarrow> loggly \<Rightarrow> json list \<Rightarrow> flush_error option" where
  "loggly_flush L T f es =
     http_flush T (\<lambda>s. s = 200) (returned_status ''loggly'') [] (loggly_request L f es)"

section \<open>datadog\<close>

record datadog =
  dd_addr :: string
  dd_namespace :: string
  dd_constant_tags :: "string list"
  dd_include_path :: bool
  dd_include_method :: bool

definition max_datagram_size :: nat where "max_datagram_size = 8192"

text \<open>A JSON pointer of two object keys.\<close>

definition pointer2 :: "json \<Rightarrow> string \<Rightarrow> string \<Rightarrow> json option" where
  "pointer2 v a b = Option.bind (json_get v a) (\<lambda>x. json_get x b)"

definition datadog_tags :: "datadog \<Rightarrow> json \<Rightarrow> string list" where
  "datadog_tags f e =
     (let tag = (\<lambda>on pre v. case (on, Option.bind v as_str) of (True, Some s) \<Rightarrow> [pre @ s] | _ \<Rightarrow> []) in
      dd_constant_tags f @
      tag (dd_include_method f) ''method:'' (pointer2 e ''request'' ''method'') @
      tag (dd_include_path f) ''path:'' (pointer2 e ''request'' ''uri'') @
      (case Option.bind (pointer2 e ''response'' ''status'') as_u64 of
         Some s \<Rightarrow> [''response_status:'' @ show_nat s, ''response_status_class:'' @ show_nat (s div 100) @ ''xx'']
       | None \<Rightarrow> []) @
      tag True ''scheme:'' (pointer2 e ''request'' ''scheme''))"

definition build_metric_lines :: "datadog \<Rightarrow> json \<Rightarrow> string list" where
  "build_metric_lines f e =
     (let prefix = (if dd_namespace f = [] then [] else dd_namespace f @ ''.'');
          tags = datadog_tags f e;
          suffix = (if tags = [] then [] else ''|#'' @ join '','' tags);
          line = (\<lambda>name kind v. case Option.bind v as_u64 of
                    Some n \<Rightarrow> [prefix @ name @ '':'' @ show_nat n @ kind @ suffix] | None \<Rightarrow> [])
      in (prefix @ ''request.counter:1|c'' @ suffix) #
         line ''request.latency'' ''|h'' (json_get e ''latency'') @
         line ''ingress.size'' ''|ms'' (pointer2 e ''request'' ''size'') @
         line ''egress.size'' ''|ms'' (pointer2 e ''response'' ''size''))"

definition datadog_from_config :: "libs \<Rightarrow> config \<Rightarrow> string + datadog \<times> batch_config" where
  "datadog_from_config L c =
     (let port = unwrap_or 8125 (cfg_u64 c ''port'') in
      if 65535 < port then Inl (''datadog port out of range: '' @ show_nat port)
      else res_bind (batch_from_config L c) (\<lambda>b.
        Inr (\<lparr>dd_addr = unwrap_or ''127.0.0.1'' (cfg_str c ''host'') @ '':'' @ show_nat port,
              dd_namespace = unwrap_or ''featherbit'' (cfg_str c ''namespace''),
              dd_constant_tags = unwrap_or [] (cfg_strings c ''constant_tags''),
              dd_include_path = flag c ''include_path'', dd_include_method = flag c ''include_method''\<rparr>, b)))"

text \<open>The datagrams of one entry: coalesced when they fit, else one per line.\<close>

definition metric_datagrams :: "datadog \<Rightarrow> json \<Rightarrow> string list" where
  "metric_datagrams f e =
     (let lines = build_metric_lines f e; payload = join [CHR 0x0A] lines in
      if length payload \<le> max_datagram_size then [payload] else lines)"

text \<open>\<open>io i d\<close> is the error of sending datagram \<open>d\<close> of entry \<open>i\<close>, if any.\<close>

fun datadog_send :: "datadog \<Rightarrow> (nat \<Rightarrow> string \<Rightarrow> string option) \<Rightarrow> nat \<Rightarrow> json list \<Rightarrow> flush_error option" where
  "datadog_send f io i [] = None"
| "datadog_send f io i (e # es) =
     (case List.map_filter (io i) (metric_datagrams f e) of
        [] \<Rightarrow> datadog_send f io (Suc i) es
      | err # _ \<Rightarrow>
          Some \<lparr>fe_message = ''failed to send metrics to '' @ dd_addr f @ '': '' @ err, fe_first_fail = Some i\<rparr>)"

definition datadog_flush ::
  "datadog \<Rightarrow> string option \<Rightarrow> string option \<Rightarrow> (nat \<Rightarrow> string \<Rightarrow> string option) \<Rightarrow> json list \<Rightarrow> flush_error option" where
  "datadog_flush f bind_error connect_error io es =
     (case bind_error of
        Some e \<Rightarrow> flush_failed (''udp bind failed: '' @ e)
      | None \<Rightarrow>
          (case connect_error of
             Some e \<Rightarrow> flush_failed (''udp connect to '' @ dd_addr f @ '' failed: '' @ e)
           | None \<Rightarrow> datadog_send f io 0 es))"

definition datadog_exec :: "libs \<Rightarrow> nat \<Rightarrow> batch_config \<Rightarrow> json sink node_exec" where
  "datadog_exec L now b c s = (Inr c, batch_push b (build_entry L now c None False False) s)"

interpretation datadog_node: rewriter_contract "datadog_exec L now b" for L now b
  by unfold_locales (simp_all add: datadog_exec_def)

end
