(* ===== verification/Plugin_Tracing.thy ===== *)
theory Plugin_Tracing
  imports Plugin_Token Plugin_Logger Plugin_Flow
begin

text \<open>
  Distributed tracing: the span helpers (src/src/plugins/util/trace.rs) and the nodes
  opentelemetry, zipkin and skywalking (src/src/plugins/native/). A start node continues the
  incoming trace or begins one, stores its span in the message map and puts the propagation header
  into the request; an end node exports the span. Fresh identifiers, the clock, the sampling
  draws and the hash are arguments; the world is the list of requests handed to detached tasks.
\<close>

section \<open>Spans\<close>

record span_context =
  sn_trace_id :: string
  sn_span_id :: string
  sn_parent_span_id :: "string option"
  sn_sampled :: bool
  sn_start_ms :: nat

definition span_key :: string where "span_key = ''__trace_span''"

definition duration_ms :: "nat \<Rightarrow> span_context \<Rightarrow> nat" where
  "duration_ms now s = now - sn_start_ms s"

definition span_json :: "span_context \<Rightarrow> json" where
  "span_json s =
     jobj [(''trace_id'', JStr (sn_trace_id s)), (''span_id'', JStr (sn_span_id s)),
       (''parent_span_id'', case sn_parent_span_id s of Some p \<Rightarrow> JStr p | None \<Rightarrow> JNull),
       (''sampled'', JBool (sn_sampled s)), (''start_ms'', jnat (sn_start_ms s))]"

definition store_span :: "span_context \<Rightarrow> gcontext \<Rightarrow> gcontext" where
  "store_span s = set_message span_key (span_json s)"

text \<open>\<open>Option<String>\<close>: the outer \<open>None\<close> is a type error.\<close>

definition opt_str :: "json \<Rightarrow> string option option" where
  "opt_str v = (case v of JNull \<Rightarrow> Some None | JStr s \<Rightarrow> Some (Some s) | _ \<Rightarrow> None)"

definition span_of_fields :: "json \<Rightarrow> json \<Rightarrow> json \<Rightarrow> json \<Rightarrow> json \<Rightarrow> span_context option" where
  "span_of_fields t s p b n =
     (case (as_str t, as_str s, opt_str p, as_bool b, as_u64 n) of
        (Some t, Some s, Some p, Some b, Some n) \<Rightarrow>
          Some \<lparr>sn_trace_id = t, sn_span_id = s, sn_parent_span_id = p, sn_sampled = b, sn_start_ms = n\<rparr>
      | _ \<Rightarrow> None)"

text \<open>A derived \<open>Deserialize\<close> reads a struct from an object, or from an array of its fields.\<close>

definition span_of_json :: "json \<Rightarrow> span_context option" where
  "span_of_json v =
     (case v of
        JObj m \<Rightarrow>
          Option.bind (hm_get m ''trace_id'') (\<lambda>t. Option.bind (hm_get m ''span_id'') (\<lambda>s.
          Option.bind (hm_get m ''sampled'') (\<lambda>b. Option.bind (hm_get m ''start_ms'') (\<lambda>n.
            span_of_fields t s (unwrap_or JNull (hm_get m ''parent_span_id'')) b n))))
      | JArr [t, s, p, b, n] \<Rightarrow> span_of_fields t s p b n
      | _ \<Rightarrow> None)"

definition load_span :: "gcontext \<Rightarrow> span_context option" where
  "load_span c = Option.bind (hm_get (cx_message c) span_key) span_of_json"

text \<open>\<open>rng\<close> are the sixteen, or eight, random bytes.\<close>

definition new_trace_id :: "string \<Rightarrow> string" where "new_trace_id rng = hex_encode rng"
definition new_span_id :: "string \<Rightarrow> string" where "new_span_id rng = hex_encode rng"

section \<open>traceparent\<close>

definition all_zero :: "string \<Rightarrow> bool" where
  "all_zero s \<longleftrightarrow> (\<forall>c \<in> set s. c = CHR ''0'')"

text \<open>\<open>u8::from_str_radix(s, 16)\<close>\<close>

definition hex_u8 :: "string \<Rightarrow> nat option" where
  "hex_u8 s =
     (let d = (if s \<noteq> [] \<and> hd s = CHR ''+'' then tl s else s); ds = List.map_filter hex_digit d
      in if d \<noteq> [] \<and> length ds = length d \<and> digits_num 16 ds \<le> 255 then Some (digits_num 16 ds) else None)"

definition parse_traceparent :: "string \<Rightarrow> (string \<times> string \<times> bool) option" where
  "parse_traceparent value =
     (case split_on CHR ''-'' (trim value) of
        [_, t, p, f] \<Rightarrow>
          if length t \<noteq> 32 \<or> length p \<noteq> 16 then None
          else if all_zero t \<or> all_zero p then None
          else Some (t, p, case hex_u8 f of Some n \<Rightarrow> odd n | None \<Rightarrow> False)
      | _ \<Rightarrow> None)"

definition build_traceparent :: "span_context \<Rightarrow> string" where
  "build_traceparent s =
     ''00-'' @ sn_trace_id s @ ''-'' @ sn_span_id s @ ''-'' @ (if sn_sampled s then ''01'' else ''00'')"

section \<open>B3\<close>

definition parse_b3 ::
  "string option \<Rightarrow> string option \<Rightarrow> string option \<Rightarrow> string option \<Rightarrow> (string \<times> string \<times> bool) option" where
  "parse_b3 single trace_id span_id sampled =
     (case single of
        Some x \<Rightarrow>
          (case split_on CHR ''-'' (trim x) of
             t # s # rest \<Rightarrow>
               if t \<noteq> [] then Some (t, s, case rest of v # _ \<Rightarrow> v = ''1'' \<or> v = ''d'' | [] \<Rightarrow> True) else None
           | _ \<Rightarrow> None)
      | None \<Rightarrow>
          (case (trace_id, span_id) of
             (Some t, Some s) \<Rightarrow>
               if t = [] \<or> s = [] then None
               else Some (t, s, case sampled of Some v \<Rightarrow> v = ''1'' \<or> v = ''true'' | None \<Rightarrow> True)
           | _ \<Rightarrow> None))"

definition build_b3_headers :: "span_context \<Rightarrow> (string \<times> string) list" where
  "build_b3_headers s =
     [(''x-b3-traceid'', sn_trace_id s), (''x-b3-spanid'', sn_span_id s),
      (''x-b3-sampled'', if sn_sampled s then ''1'' else ''0'')] @
     (case sn_parent_span_id s of Some p \<Rightarrow> [(''x-b3-parentspanid'', p)] | None \<Rightarrow> [])"

section \<open>sw8\<close>

definition parse_sw8 :: "libs \<Rightarrow> string \<Rightarrow> (string \<times> string \<times> bool) option" where
  "parse_sw8 L value =
     (let parts = split_on CHR ''-'' (trim value) in
      if length parts < 8 then None
      else map_option (\<lambda>t. (t, parts ! 3, parts ! 0 = ''1'')) (opt_filter utf8_ok (b64_decode L (parts ! 1))))"

definition sw8_encode :: "libs \<Rightarrow> string \<Rightarrow> string" where
  "sw8_encode L s = b64_encode L s"

definition build_sw8 :: "libs \<Rightarrow> span_context \<Rightarrow> string \<Rightarrow> string \<Rightarrow> string \<Rightarrow> string" where
  "build_sw8 L s service inst endpoint =
     join ''-'' [if sn_sampled s then ''1'' else ''0'', sw8_encode L (sn_trace_id s), sw8_encode L (sn_span_id s),
       ''0'', sw8_encode L service, sw8_encode L inst, sw8_encode L endpoint, sw8_encode L endpoint]"

section \<open>Start nodes\<close>

datatype trace_phase = Start | End

text \<open>What all three start nodes do with the parsed header; \<open>sample\<close> decides for a new trace.\<close>

definition begin_span ::
  "(string \<times> string \<times> bool) option \<Rightarrow> (string \<Rightarrow> bool) \<Rightarrow> string \<Rightarrow> string \<Rightarrow> nat \<Rightarrow> span_context" where
  "begin_span incoming sample rng16 rng8 now =
     (let (t, p, b) = (case incoming of
            Some (t, p, b) \<Rightarrow> (t, Some p, b)
          | None \<Rightarrow> (let t = new_trace_id rng16 in (t, None, sample t)))
      in \<lparr>sn_trace_id = t, sn_span_id = new_span_id rng8, sn_parent_span_id = p, sn_sampled = b, sn_start_ms = now\<rparr>)"

text \<open>An export: sent from a task of its own, so only what is sent is part of the model.\<close>

definition export_request :: "libs \<Rightarrow> string \<Rightarrow> nat \<Rightarrow> bool \<Rightarrow> json \<Rightarrow> outbound_request" where
  "export_request L url timeout verify payload =
     \<lparr>ob_method = ''POST'', ob_url = url, ob_headers = [(''Content-Type'', ''application/json'')],
      ob_body = json_print L payload, ob_timeout = timeout, ob_ssl_verify = verify\<rparr>"

section \<open>opentelemetry\<close>

datatype sampler = AlwaysOn | AlwaysOff | TraceIdRatio f64

fun sample_new :: "(string \<Rightarrow> f64) \<Rightarrow> sampler \<Rightarrow> string \<Rightarrow> bool" where
  "sample_new draw AlwaysOn t = True"
| "sample_new draw AlwaysOff t = False"
| "sample_new draw (TraceIdRatio f) t = f64_lt (draw t) f"

definition unit_interval :: "f64 \<Rightarrow> bool" where
  "unit_interval f \<longleftrightarrow> f64_le 0 f \<and> f64_le f fp_one"

definition parse_sampler :: "libs \<Rightarrow> config \<Rightarrow> string + sampler" where
  "parse_sampler L c =
     (case hm_get c ''sampler'' of
        None \<Rightarrow> Inr AlwaysOn
      | Some s \<Rightarrow>
          (let name = unwrap_or ''always_on'' (Option.bind (json_get s ''name'') as_str) in
           res_bind (case Option.bind (json_get s ''options'') (\<lambda>o1. json_get o1 ''fraction'') of
                       None \<Rightarrow> Inr fp_one
                     | Some f \<Rightarrow> ok_or (opt_filter unit_interval (as_f64 L f))
                         ''opentelemetry `sampler.options.fraction` must be a number in 0.0..=1.0'') (\<lambda>fraction.
           if name = ''always_on'' then Inr AlwaysOn
           else if name = ''always_off'' then Inr AlwaysOff
           else if name = ''trace_id_ratio'' then Inr (TraceIdRatio fraction)
           else Inl (''opentelemetry unknown sampler `'' @ name @
                     ''` (expected always_on, always_off, trace_id_ratio)''))))"

definition parse_phase :: "config \<Rightarrow> string \<Rightarrow> string + trace_phase" where
  "parse_phase c who =
     (case cfg_str c ''phase'' of
        None \<Rightarrow> Inl (who @ '' requires `phase` (`start` or `end`)'')
      | Some p \<Rightarrow>
          if p = ''start'' then Inr Start
          else if p = ''end'' then Inr End
          else Inl (who @ '' `phase` must be `start` or `end` (got `'' @ p @ ''`)''))"

record opentelemetry =
  ot_phase :: trace_phase
  ot_collector :: string
  ot_service_name :: string
  ot_sampler :: sampler
  ot_ssl_verify :: bool
  ot_timeout :: nat

definition opentelemetry_from_config :: "libs \<Rightarrow> config \<Rightarrow> string + opentelemetry" where
  "opentelemetry_from_config L c =
     res_bind (parse_phase c ''opentelemetry'') (\<lambda>ph.
     res_bind (parse_sampler L c) (\<lambda>s.
       Inr \<lparr>ot_phase = ph,
            ot_collector = trim_end_char CHR ''/'' (unwrap_or ''http://localhost:4318''
              (opt_filter (\<lambda>s. s \<noteq> []) (Option.bind
                (case hm_get c ''endpoint'' of Some v \<Rightarrow> Some v | None \<Rightarrow> hm_get c ''collector'') as_str))),
            ot_service_name = unwrap_or ''featherbit'' (cfg_str c ''service_name''), ot_sampler = s,
            ot_ssl_verify = unwrap_or True (cfg_bool c ''ssl_verify''),
            ot_timeout = from_secs (unwrap_or 3 (cfg_u64 c ''timeout''))\<rparr>))"

definition otel_start ::
  "(string \<Rightarrow> f64) \<Rightarrow> string \<Rightarrow> string \<Rightarrow> nat \<Rightarrow> opentelemetry \<Rightarrow> gcontext \<Rightarrow> gcontext" where
  "otel_start draw rng16 rng8 now p c =
     (let s = begin_span (Option.bind (first_header c ''traceparent'') parse_traceparent)
                (sample_new draw (ot_sampler p)) rng16 rng8 now
      in store_span s (set_rq_header ''traceparent'' [build_traceparent s] c))"

definition str_attr :: "string \<Rightarrow> string \<Rightarrow> json" where
  "str_attr k v = jobj [(''key'', JStr k), (''value'', JObj [(''stringValue'', JStr v)])]"

definition int_attr :: "string \<Rightarrow> nat \<Rightarrow> json" where
  "int_attr k v = jobj [(''key'', JStr k), (''value'', JObj [(''intValue'', JStr (show_nat v))])]"

definition otlp_span :: "nat \<Rightarrow> span_context \<Rightarrow> gcontext \<Rightarrow> json" where
  "otlp_span now s c =
     (let r = cx_request c; status = rs_status_code (cx_response c) in
      jobj ([(''traceId'', JStr (sn_trace_id s)), (''spanId'', JStr (sn_span_id s)),
        (''name'', JStr (rq_method r @ '' '' @ rq_path r)), (''kind'', jnat 2),
        (''startTimeUnixNano'', JStr (show_nat (sat_mul u64_max (sn_start_ms s) 1000000))),
        (''endTimeUnixNano'', JStr (show_nat (sat_mul u64_max (sn_start_ms s + duration_ms now s) 1000000))),
        (''attributes'', JArr [str_attr ''http.method'' (rq_method r), int_attr ''http.status_code'' status,
           str_attr ''http.target'' (rq_path r), str_attr ''http.host'' (rq_host r)]),
        (''status'', JObj [(''code'', jnat (if 500 \<le> status then 2 else 0))])] @
        (case sn_parent_span_id s of Some q \<Rightarrow> [(''parentSpanId'', JStr q)] | None \<Rightarrow> [])))"

definition build_otlp :: "nat \<Rightarrow> span_context \<Rightarrow> gcontext \<Rightarrow> string \<Rightarrow> json" where
  "build_otlp now s c service =
     JObj [(''resourceSpans'', JArr [jobj
       [(''resource'', JObj [(''attributes'', JArr [str_attr ''service.name'' service])]),
        (''scopeSpans'', JArr [JObj [(''spans'', JArr [otlp_span now s c])]])]])]"

definition otel_end :: "libs \<Rightarrow> nat \<Rightarrow> opentelemetry \<Rightarrow> gcontext \<Rightarrow> outbound_request list" where
  "otel_end L now p c =
     (case load_span c of
        None \<Rightarrow> []
      | Some s \<Rightarrow>
          if \<not> sn_sampled s then []
          else [export_request L (ot_collector p @ ''/v1/traces'') (ot_timeout p) (ot_ssl_verify p)
                  (build_otlp now s c (ot_service_name p))])"

definition opentelemetry_exec ::
  "libs \<Rightarrow> (string \<Rightarrow> f64) \<Rightarrow> string \<Rightarrow> string \<Rightarrow> nat \<Rightarrow> opentelemetry \<Rightarrow> outbound_request list node_exec" where
  "opentelemetry_exec L draw rng16 rng8 now p c sent =
     (case ot_phase p of
        Start \<Rightarrow> (Inr (otel_start draw rng16 rng8 now p c), sent)
      | End \<Rightarrow> (Inr c, sent @ otel_end L now p c))"

section \<open>zipkin\<close>

record zipkin =
  zk_phase :: trace_phase
  zk_endpoint :: string
  zk_service_name :: string
  zk_server_addr :: "string option"
  zk_sample_ratio :: f64
  zk_ssl_verify :: bool
  zk_timeout :: nat

definition parse_ratio :: "libs \<Rightarrow> config \<Rightarrow> string \<Rightarrow> string + f64" where
  "parse_ratio L c who =
     (case hm_get c ''sample_ratio'' of
        None \<Rightarrow> Inr fp_one
      | Some v \<Rightarrow> ok_or (opt_filter unit_interval (as_f64 L v))
          (who @ '' `sample_ratio` must be a number in 0.0..=1.0''))"

definition zipkin_from_config :: "libs \<Rightarrow> config \<Rightarrow> string + zipkin" where
  "zipkin_from_config L c =
     res_bind (parse_phase c ''zipkin'') (\<lambda>ph.
     res_bind (ok_or (opt_filter (\<lambda>s. s \<noteq> []) (cfg_str c ''endpoint''))
        ''zipkin requires `endpoint` (e.g. \"http://localhost:9411/api/v2/spans\")'') (\<lambda>ep.
     res_bind (parse_ratio L c ''zipkin'') (\<lambda>r.
       Inr \<lparr>zk_phase = ph, zk_endpoint = ep, zk_service_name = unwrap_or ''featherbit'' (cfg_str c ''service_name''),
            zk_server_addr = opt_filter (\<lambda>s. s \<noteq> []) (cfg_str c ''server_addr''), zk_sample_ratio = r,
            zk_ssl_verify = unwrap_or True (cfg_bool c ''ssl_verify''),
            zk_timeout = from_secs (unwrap_or 3 (cfg_u64 c ''timeout''))\<rparr>)))"

text \<open>\<open>draw\<close> is the hash of the trace id (\<open>ratio_draw\<close>), or the random roll of skywalking, as a fraction.\<close>

definition ratio_sample :: "f64 \<Rightarrow> f64 \<Rightarrow> bool" where
  "ratio_sample ratio draw =
     (if f64_le fp_one ratio then True else if f64_le ratio 0 then False else f64_lt draw ratio)"

definition b3_of :: "gcontext \<Rightarrow> (string \<times> string \<times> bool) option" where
  "b3_of c = parse_b3 (first_header c ''b3'') (first_header c ''x-b3-traceid'')
     (first_header c ''x-b3-spanid'') (first_header c ''x-b3-sampled'')"

definition zipkin_start ::
  "(string \<Rightarrow> f64) \<Rightarrow> string \<Rightarrow> string \<Rightarrow> nat \<Rightarrow> zipkin \<Rightarrow> gcontext \<Rightarrow> gcontext" where
  "zipkin_start draw rng16 rng8 now p c =
     (let s = begin_span (b3_of c) (\<lambda>t. ratio_sample (zk_sample_ratio p) (draw t)) rng16 rng8 now
      in store_span s (fold (\<lambda>(k, v). set_rq_header k [v]) (build_b3_headers s) c))"

definition build_zipkin :: "nat \<Rightarrow> span_context \<Rightarrow> gcontext \<Rightarrow> string \<Rightarrow> string option \<Rightarrow> json" where
  "build_zipkin now s c service addr =
     (let r = cx_request c in
      JArr [jobj ([(''traceId'', JStr (sn_trace_id s)), (''id'', JStr (sn_span_id s)),
        (''name'', JStr (rq_method r @ '' '' @ rq_path r)), (''kind'', JStr ''SERVER''),
        (''timestamp'', jnat (sat_mul u64_max (sn_start_ms s) 1000)),
        (''duration'', jnat (sat_mul u64_max (duration_ms now s) 1000)),
        (''localEndpoint'', jobj ([(''serviceName'', JStr service)] @
           (case addr of Some a \<Rightarrow> [(''ipv4'', JStr a)] | None \<Rightarrow> []))),
        (''tags'', jobj [(''http.method'', JStr (rq_method r)),
           (''http.status_code'', JStr (show_nat (rs_status_code (cx_response c)))),
           (''http.path'', JStr (rq_path r))])] @
        (case sn_parent_span_id s of Some q \<Rightarrow> [(''parentId'', JStr q)] | None \<Rightarrow> []))])"

definition zipkin_end :: "libs \<Rightarrow> nat \<Rightarrow> zipkin \<Rightarrow> gcontext \<Rightarrow> outbound_request list" where
  "zipkin_end L now p c =
     (case load_span c of
        None \<Rightarrow> []
      | Some s \<Rightarrow>
          if \<not> sn_sampled s then []
          else [export_request L (zk_endpoint p) (zk_timeout p) (zk_ssl_verify p)
                  (build_zipkin now s c (zk_service_name p) (zk_server_addr p))])"

definition zipkin_exec ::
  "libs \<Rightarrow> (string \<Rightarrow> f64) \<Rightarrow> string \<Rightarrow> string \<Rightarrow> nat \<Rightarrow> zipkin \<Rightarrow> outbound_request list node_exec" where
  "zipkin_exec L draw rng16 rng8 now p c sent =
     (case zk_phase p of
        Start \<Rightarrow> (Inr (zipkin_start draw rng16 rng8 now p c), sent)
      | End \<Rightarrow> (Inr c, sent @ zipkin_end L now p c))"

section \<open>skywalking\<close>

record skywalking =
  sw_phase :: trace_phase
  sw_endpoint_addr :: string
  sw_service_name :: string
  sw_service_instance_name :: string
  sw_sample_ratio :: f64
  sw_ssl_verify :: bool
  sw_timeout :: nat

definition skywalking_from_config :: "libs \<Rightarrow> config \<Rightarrow> string + skywalking" where
  "skywalking_from_config L c =
     res_bind (case cfg_str c ''phase'' of
         Some p \<Rightarrow> if p = ''start'' then Inr Start else if p = ''end'' then Inr End
                  else Inl ''skywalking requires `phase: start` (before upstream) or `phase: end` (after upstream)''
       | None \<Rightarrow> Inl ''skywalking requires `phase: start` (before upstream) or `phase: end` (after upstream)'') (\<lambda>ph.
     res_bind (parse_ratio L c ''skywalking'') (\<lambda>r.
       Inr \<lparr>sw_phase = ph,
            sw_endpoint_addr = trim_end_char CHR ''/'' (unwrap_or ''http://127.0.0.1:12800''
              (opt_filter (\<lambda>s. s \<noteq> []) (cfg_str c ''endpoint_addr''))),
            sw_service_name = unwrap_or ''featherbit'' (cfg_str c ''service_name''),
            sw_service_instance_name = unwrap_or ''featherbit Instance Name'' (cfg_str c ''service_instance_name''),
            sw_sample_ratio = r, sw_ssl_verify = unwrap_or True (cfg_bool c ''ssl_verify''),
            sw_timeout = from_secs (unwrap_or 3 (cfg_u64 c ''timeout''))\<rparr>))"

definition build_segment :: "span_context \<Rightarrow> string \<Rightarrow> string \<Rightarrow> string \<Rightarrow> string \<Rightarrow> nat \<Rightarrow> nat \<Rightarrow> json" where
  "build_segment s service inst verb path status end_ms =
     jobj [(''traceId'', JStr (sn_trace_id s)), (''traceSegmentId'', JStr (sn_span_id s)),
       (''service'', JStr service), (''serviceInstance'', JStr inst),
       (''spans'', JArr [jobj [(''spanId'', jnat 0), (''parentSpanId'', JNum (NNeg (-1))),
          (''startTime'', jnat (sn_start_ms s)), (''endTime'', jnat end_ms), (''operationName'', JStr path),
          (''spanType'', JStr ''Entry''), (''spanLayer'', JStr ''Http''), (''componentId'', jnat 49),
          (''isError'', JBool (400 \<le> status)),
          (''tags'', JArr (map (\<lambda>(k, v). jobj [(''key'', JStr k), (''value'', JStr v)])
             [(''http.method'', verb), (''http.path'', path), (''http.status_code'', show_nat status)]))]])]"

definition sw_start ::
  "libs \<Rightarrow> f64 \<Rightarrow> string \<Rightarrow> string \<Rightarrow> nat \<Rightarrow> skywalking \<Rightarrow> gcontext \<Rightarrow> gcontext" where
  "sw_start L roll rng16 rng8 now p c =
     (let s = begin_span (Option.bind (first_header c ''sw8'') (parse_sw8 L))
                (\<lambda>_. ratio_sample (sw_sample_ratio p) roll) rng16 rng8 now
      in set_rq_header ''sw8'' [build_sw8 L s (sw_service_name p) (sw_service_instance_name p)
           (rq_path (cx_request c))] (store_span s c))"

definition sw_end :: "libs \<Rightarrow> nat \<Rightarrow> skywalking \<Rightarrow> gcontext \<Rightarrow> outbound_request list" where
  "sw_end L now p c =
     (case load_span c of
        None \<Rightarrow> []
      | Some s \<Rightarrow>
          if \<not> sn_sampled s then []
          else [export_request L (sw_endpoint_addr p @ ''/v3/segments'') (sw_timeout p) (sw_ssl_verify p)
                  (build_segment s (sw_service_name p) (sw_service_instance_name p)
                     (rq_method (cx_request c)) (rq_path (cx_request c)) (rs_status_code (cx_response c)) now)])"

definition skywalking_exec ::
  "libs \<Rightarrow> f64 \<Rightarrow> string \<Rightarrow> string \<Rightarrow> nat \<Rightarrow> skywalking \<Rightarrow> outbound_request list node_exec" where
  "skywalking_exec L roll rng16 rng8 now p c sent =
     (case sw_phase p of
        Start \<Rightarrow> (Inr (sw_start L roll rng16 rng8 now p c), sent)
      | End \<Rightarrow> (Inr c, sent @ sw_end L now p c))"

section \<open>The engine's interface\<close>

lemma set_message_errors [simp]: "cx_errors (set_message k v c) = cx_errors c"
  by (simp add: set_message_def)

lemma store_span_errors [simp]: "cx_errors (store_span s c) = cx_errors c"
  by (simp add: store_span_def)

lemma fold_set_headers_errors [simp]:
  "cx_errors (fold (\<lambda>(k, v). set_rq_header k [v]) hs c) = cx_errors c"
  by (induction hs arbitrary: c) (auto simp: set_rq_header_def)

interpretation opentelemetry_node: rewriter_contract "opentelemetry_exec L draw rng16 rng8 now p"
  for L draw rng16 rng8 now p
  by unfold_locales
    (auto simp: opentelemetry_exec_def otel_start_def Let_def set_rq_header_def split: trace_phase.splits)

interpretation zipkin_node: rewriter_contract "zipkin_exec L draw rng16 rng8 now p"
  for L draw rng16 rng8 now p
  by unfold_locales (auto simp: zipkin_exec_def zipkin_start_def Let_def split: trace_phase.splits)

interpretation skywalking_node: rewriter_contract "skywalking_exec L roll rng16 rng8 now p"
  for L roll rng16 rng8 now p
  by unfold_locales (auto simp: skywalking_exec_def sw_start_def Let_def set_rq_header_def split: trace_phase.splits)

section \<open>Traces across gateways\<close>

lemma span_round_trip [simp]: "load_span (store_span s c) = Some s"
  by (cases s; cases "sn_parent_span_id s")
    (simp_all add: load_span_def store_span_def set_message_def span_json_def span_of_json_def span_of_fields_def
      opt_str_def jobj_def btree_def)

text \<open>What a W3C header can carry: 32 and 16 characters without a dash, neither all zeros.\<close>

definition w3c_id :: "nat \<Rightarrow> string \<Rightarrow> bool" where
  "w3c_id n t \<longleftrightarrow> length t = n \<and> CHR ''-'' \<notin> set t \<and> \<not> all_zero t"

lemma split_on_dash: "CHR ''-'' \<notin> set a \<Longrightarrow> split_on CHR ''-'' (a @ ''-'' @ b) = a # split_on CHR ''-'' b"
  using split_on_append [of "CHR ''-''" a b] by simp

lemma split_on_dashes:
  assumes "CHR ''-'' \<notin> set a" "CHR ''-'' \<notin> set b" "CHR ''-'' \<notin> set d"
  shows "split_on CHR ''-'' (''00-'' @ a @ ''-'' @ b @ ''-'' @ d) = [''00'', a, b, d]"
  using split_on_dash [of "''00''" "a @ ''-'' @ b @ ''-'' @ d"] split_on_dash [OF assms(1), of "b @ ''-'' @ d"]
    split_on_dash [OF assms(2), of d] split_on_plain [OF assms(3)] by simp

lemma traceparent_round_trip:
  assumes "w3c_id 32 (sn_trace_id s)" "w3c_id 16 (sn_span_id s)"
  shows "parse_traceparent (build_traceparent s) = Some (sn_trace_id s, sn_span_id s, sn_sampled s)"
proof -
  let ?f = "if sn_sampled s then ''01'' else ''00''"
  have t: "trim (build_traceparent s) = build_traceparent s"
    by (rule trim_graphic) (auto simp: build_traceparent_def graphic_def)
  have f: "hex_u8 ?f = Some (if sn_sampled s then 1 else 0)"
    by (simp add: hex_u8_def Let_def hex_digit_def List.map_filter_def digits_num_def)
  have "split_on CHR ''-'' (build_traceparent s) = [''00'', sn_trace_id s, sn_span_id s, ?f]"
    unfolding build_traceparent_def using assms by (intro split_on_dashes) (auto simp: w3c_id_def)
  then show ?thesis using assms f by (simp add: parse_traceparent_def t w3c_id_def)
qed

lemma parse_traceparent_ids:
  "parse_traceparent v = Some (t, p, b) \<Longrightarrow> w3c_id 32 t \<and> w3c_id 16 p"
  using split_on_parts [of _ "CHR ''-''" "trim v"]
  by (auto simp: parse_traceparent_def w3c_id_def split: list.splits if_splits)

lemma hex_dash: "hex_digit CHR ''-'' = None"
  by (simp add: hex_digit_def)

lemma hex_byte_no_dash: "CHR ''-'' \<notin> set (hex_byte c)"
proof -
  have n: "CHR ''-'' \<noteq> hex_char d" if "d < 16" for d
    using hex_digit_hex_char [OF that] by (metis hex_dash option.discI)
  show ?thesis using n [of "of_char c div 16"] n [of "of_char c mod 16"] nibbles [of c]
    by (auto simp: hex_byte_def Let_def)
qed

lemma hex_byte_zero: "hex_byte c = ''00'' \<Longrightarrow> c = CHR 0x00"
  using pair_byte_hex [of c "CHR ''0''" "CHR ''0''"] by (auto simp: pair_byte_def hex_digit_def char_of_def)

lemma hex_encode_length: "length (hex_encode bs) = 2 * length bs"
  by (induction bs) (simp_all add: hex_encode_def hex_byte_def Let_def)

lemma hex_encode_all_zero: "all_zero (hex_encode bs) \<Longrightarrow> \<forall>c \<in> set bs. c = CHR 0x00"
proof (induction bs)
  case (Cons c bs)
  have "hex_byte c = ''00''"
    using Cons.prems by (auto simp: all_zero_def hex_encode_Cons hex_byte_def Let_def)
  then show ?case using Cons hex_byte_zero by (auto simp: all_zero_def hex_encode_Cons)
qed simp

lemma hex_encode_id:
  "length bs = n \<Longrightarrow> \<exists>c \<in> set bs. c \<noteq> CHR 0x00 \<Longrightarrow> w3c_id (2 * n) (hex_encode bs)"
  using hex_encode_all_zero [of bs] hex_byte_no_dash
  by (auto simp: w3c_id_def hex_encode_length) (auto simp: hex_encode_def)

lemma first_header_set [simp]: "first_header (set_rq_header k [v] c) k' = (if k' = k then Some v else first_header c k')"
  by (simp add: first_header_def set_rq_header_def)

lemma first_header_store [simp]: "first_header (store_span s c) k = first_header c k"
  by (simp add: first_header_def store_span_def set_message_def)

definition continues :: "span_context \<Rightarrow> span_context \<Rightarrow> bool" where
  "continues b a \<longleftrightarrow> sn_trace_id b = sn_trace_id a \<and> sn_parent_span_id b = Some (sn_span_id a) \<and>
     sn_sampled b = sn_sampled a"

lemma begin_span_continues:
  "continues (begin_span (Some (sn_trace_id s, sn_span_id s, sn_sampled s)) f r16 r8 n) s"
  by (simp add: continues_def begin_span_def)

text \<open>
  C37: a trace crosses a hop: when the request an opentelemetry start node sends on reaches the start
  node of another gateway, the span stored there has the same trace id and sampling decision, and
  the first gateway's span as its parent, whether the first one began the trace or continued it.
\<close>

theorem otel_trace_crosses_a_hop:
  assumes "length r16 = 16" "\<exists>c \<in> set r16. c \<noteq> CHR 0x00" "length r8 = 8" "\<exists>c \<in> set r8. c \<noteq> CHR 0x00"
    and "first_header cb ''traceparent'' = first_header (otel_start draw r16 r8 now p ca) ''traceparent''"
  shows "\<exists>a b. load_span (otel_start draw r16 r8 now p ca) = Some a \<and>
    load_span (otel_start draw' r16' r8' now' p' cb) = Some b \<and> continues b a"
proof -
  let ?a = "begin_span (Option.bind (first_header ca ''traceparent'') parse_traceparent)
              (sample_new draw (ot_sampler p)) r16 r8 now"
  have "w3c_id 32 (sn_trace_id ?a)" "w3c_id 16 (sn_span_id ?a)"
    using hex_encode_id [OF assms(1,2)] hex_encode_id [OF assms(3,4)]
    by (auto simp: begin_span_def Let_def new_trace_id_def new_span_id_def bind_eq_Some_conv
        split: option.splits dest!: parse_traceparent_ids)
  then have "Option.bind (first_header cb ''traceparent'') parse_traceparent =
      Some (sn_trace_id ?a, sn_span_id ?a, sn_sampled ?a)"
    using assms(5) by (simp add: otel_start_def Let_def traceparent_round_trip)
  then show ?thesis by (simp add: otel_start_def Let_def begin_span_continues)
qed

definition demo_otel :: opentelemetry where
  "demo_otel = \<lparr>ot_phase = Start, ot_collector = ''http://c'', ot_service_name = ''s'', ot_sampler = AlwaysOn,
     ot_ssl_verify = True, ot_timeout = 3\<rparr>"

theorem otel_trace_crosses_a_hop_witness:
  "\<exists>a b. load_span (otel_start (\<lambda>_. 0) ''0123456789abcdef'' ''01234567'' 5 demo_otel (demo_post ''a'')) = Some a \<and>
     load_span (otel_start (\<lambda>_. 0) ''fedcba9876543210'' ''76543210'' 6 demo_otel
       (otel_start (\<lambda>_. 0) ''0123456789abcdef'' ''01234567'' 5 demo_otel (demo_post ''a''))) = Some b \<and> continues b a"
  by (rule otel_trace_crosses_a_hop) simp_all

lemma b3_round_trip:
  assumes "first_header c ''b3'' = None" "sn_trace_id s \<noteq> []" "sn_span_id s \<noteq> []"
  shows "b3_of (fold (\<lambda>(k, v). set_rq_header k [v]) (build_b3_headers s) c) =
    Some (sn_trace_id s, sn_span_id s, sn_sampled s)"
  using assms by (auto simp: b3_of_def build_b3_headers_def parse_b3_def split: option.splits)

definition demo_zipkin :: zipkin where
  "demo_zipkin = \<lparr>zk_phase = Start, zk_endpoint = ''http://c'', zk_service_name = ''s'', zk_server_addr = None,
     zk_sample_ratio = fp_one, zk_ssl_verify = True, zk_timeout = 3\<rparr>"

text \<open>
  C38: a zipkin start node hands its span to the next gateway exactly when the request came without
  the single \<open>b3\<close> header: that header is read first but never rewritten, so the next
  gateway reads the old one, and the span of the first is nobody's parent.
\<close>

theorem zipkin_hop_needs_multi_header:
  assumes "r16 \<noteq> []" "r8 \<noteq> []" "\<forall>t q b. b3_of ca = Some (t, q, b) \<longrightarrow> q \<noteq> hex_encode r8"
  shows "\<exists>sa sb. load_span (zipkin_start draw r16 r8 now p ca) = Some sa \<and>
    load_span (zipkin_start draw' r16' r8' now' p' (zipkin_start draw r16 r8 now p ca)) = Some sb \<and>
    (continues sb sa \<longleftrightarrow> first_header ca ''b3'' = None)"
proof -
  let ?sa = "begin_span (b3_of ca) (\<lambda>t. ratio_sample (zk_sample_ratio p) (draw t)) r16 r8 now"
  let ?cb = "zipkin_start draw r16 r8 now p ca"
  have ids: "sn_trace_id ?sa \<noteq> []" "sn_span_id ?sa \<noteq> []"
    using assms(1,2) hex_encode_length [of r16] hex_encode_length [of r8]
    by (auto simp: begin_span_def Let_def new_trace_id_def new_span_id_def b3_of_def parse_b3_def
        split: option.splits list.splits if_splits)
  have b: "b3_of ?cb = (case first_header ca ''b3'' of
      None \<Rightarrow> Some (sn_trace_id ?sa, sn_span_id ?sa, sn_sampled ?sa) | Some v \<Rightarrow> b3_of ca)"
  proof (cases "first_header ca ''b3''")
    case None
    then show ?thesis using b3_round_trip [OF None ids] by (simp add: zipkin_start_def Let_def b3_of_def)
  next
    case (Some v)
    then show ?thesis
      by (auto simp: zipkin_start_def Let_def build_b3_headers_def b3_of_def parse_b3_def split: option.splits)
  qed
  have "continues (begin_span (b3_of ?cb) f r16' r8' now') ?sa \<longleftrightarrow> first_header ca ''b3'' = None" for f
    using assms(3) begin_span_continues [of ?sa]
    by (cases "b3_of ca")
      (auto simp: b continues_def begin_span_def Let_def new_span_id_def split: option.splits)
  then show ?thesis by (simp add: zipkin_start_def [of draw'] Let_def) (simp add: zipkin_start_def Let_def)
qed

theorem zipkin_hop_needs_multi_header_witness:
  "\<exists>sa sb. load_span (zipkin_start (\<lambda>_. 0) ''a'' ''b'' 5 demo_zipkin
       (set_rq_header ''b3'' [''t-q-1''] (demo_post ''a''))) = Some sa \<and>
    load_span (zipkin_start (\<lambda>_. 0) ''c'' ''d'' 6 demo_zipkin (zipkin_start (\<lambda>_. 0) ''a'' ''b'' 5 demo_zipkin
       (set_rq_header ''b3'' [''t-q-1''] (demo_post ''a'')))) = Some sb \<and>
    (continues sb sa \<longleftrightarrow> first_header (set_rq_header ''b3'' [''t-q-1''] (demo_post ''a'')) ''b3'' = None)"
proof -
  have "trim ''t-q-1'' = ''t-q-1''" by (rule trim_graphic) (simp_all add: graphic_def)
  then have "b3_of (set_rq_header ''b3'' [''t-q-1''] (demo_post ''a'')) = Some (''t'', ''q'', True)"
    by (simp add: b3_of_def parse_b3_def)
  moreover have "hex_encode ''b'' = ''62''" by code_simp
  ultimately show ?thesis by (intro zipkin_hop_needs_multi_header) simp_all
qed

end
