(* ===== verification/Plugin_Callout.thy ===== *)
theory Plugin_Callout
  imports Plugin_Logger_Http Plugin_Validate Plugin_Token "HOL-Library.Product_Lexorder"
begin

text \<open>
  Nodes that ask another service in the middle of a request (src/src/plugins/native/): forward-auth
  and opa, which let the service decide, and azure-functions, openfunction and openwhisk, whose
  function answers the request, with the helpers they share (faas.rs). The exchange is the
  \<open>transport\<close> of the upstream node, the JSON parser that of the validating nodes, and the
  parsing of a URI by the http crate an argument.
\<close>

text \<open>A refusal that sets the status and leaves the rest of the response alone.\<close>

definition reject_status :: "gcontext \<Rightarrow> nat \<Rightarrow> string \<Rightarrow> string \<Rightarrow> plugin_result" where
  "reject_status c st code msg = Inl (set_status st c, mk_error code msg)"

text \<open>Names in lower case, from an array of strings.\<close>

definition lower_list :: "libs \<Rightarrow> config \<Rightarrow> string \<Rightarrow> string list" where
  "lower_list L c k = map (to_lowercase L) (unwrap_or [] (cfg_strings c k))"

section \<open>forward-auth\<close>

record forward_auth =
  fw_uri :: string
  fw_method :: string
  fw_is_post :: bool
  fw_request_headers :: "string list"
  fw_upstream_headers :: "string list"
  fw_client_headers :: "string list"
  fw_extra_headers :: "(string \<times> string) list"
  fw_ssl_verify :: bool
  fw_timeout :: nat
  fw_status_on_error :: nat
  fw_allow_degradation :: bool

definition forward_auth_from_config :: "libs \<Rightarrow> config \<Rightarrow> string + forward_auth" where
  "forward_auth_from_config L c =
     res_bind (ok_or (opt_filter (\<lambda>s. s \<noteq> []) (cfg_str c ''uri''))
       (''forward-auth plugin requires '' @ sq ''uri'')) (\<lambda>uri.
     res_bind (let m = to_uppercase L (unwrap_or ''GET'' (cfg_str c ''request_method'')) in
               if m = ''GET'' then Inr (m, False) else if m = ''POST'' then Inr (m, True)
               else Inl (''forward-auth request_method must be GET or POST, got '' @ sq m)) (\<lambda>(m, is_post).
       Inr \<lparr>fw_uri = uri, fw_method = m, fw_is_post = is_post,
            fw_request_headers = lower_list L c ''request_headers'',
            fw_upstream_headers = lower_list L c ''upstream_headers'',
            fw_client_headers = lower_list L c ''client_headers'',
            fw_extra_headers = List.map_filter (\<lambda>(k, v). map_option (Pair k) (header_value L v))
              (unwrap_or [] (Option.bind (hm_get c ''extra_headers'') as_object)),
            fw_ssl_verify = unwrap_or True (cfg_bool c ''ssl_verify''),
            fw_timeout = from_millis (unwrap_or 3000 (cfg_u64 c ''timeout'')),
            fw_status_on_error = as_u16 (unwrap_or 403 (cfg_u64 c ''status_on_error'')),
            fw_allow_degradation = unwrap_or False (cfg_bool c ''allow_degradation'')\<rparr>))"

text \<open>A configured client header is copied unless a header of that name is there already.\<close>

definition copy_header :: "gcontext \<Rightarrow> string \<Rightarrow> (string \<times> string) list \<Rightarrow> (string \<times> string) list" where
  "copy_header c name hs =
     (if list_ex (\<lambda>(k, _). eq_ignore_ascii_case k name) hs then hs
      else case first_header c name of Some v \<Rightarrow> hs @ [(name, v)] | None \<Rightarrow> hs)"

definition build_callout_headers :: "libs \<Rightarrow> forward_auth \<Rightarrow> gcontext \<Rightarrow> (string \<times> string) list" where
  "build_callout_headers L p c =
     (let r = cx_request c;
          own = [(''X-Forwarded-Proto'', rq_scheme r), (''X-Forwarded-Method'', rq_method r),
            (''X-Forwarded-Host'', rq_host r),
            (''X-Forwarded-Uri'', unwrap_or (rq_path r) (resolve L c ''request_uri'')),
            (''X-Forwarded-For'', unwrap_or [] (resolve L c ''remote_addr''))];
          enc = (if fw_is_post p then
                   (case first_header c ''content-encoding'' of Some e \<Rightarrow> [(''Content-Encoding'', e)] | None \<Rightarrow> [])
                 else []);
          extra = map (\<lambda>(n, t). (n, interpolate L c t)) (fw_extra_headers p)
      in fold (copy_header c) (fw_request_headers p) (own @ enc @ extra))"

definition forward_auth_request :: "libs \<Rightarrow> forward_auth \<Rightarrow> gcontext \<Rightarrow> outbound_request" where
  "forward_auth_request L p c =
     \<lparr>ob_method = fw_method p, ob_url = fw_uri p, ob_headers = build_callout_headers L p c,
      ob_body = (if fw_is_post p then rq_body (cx_request c) else []),
      ob_timeout = fw_timeout p, ob_ssl_verify = fw_ssl_verify p\<rparr>"

text \<open>A header the service set goes to the upstream, one it did not set is taken off the request.\<close>

definition take_header :: "string list hmap \<Rightarrow> string \<Rightarrow> gcontext \<Rightarrow> gcontext" where
  "take_header hs n c = (case hm_get hs n of Some vs \<Rightarrow> set_rq_header n vs c | None \<Rightarrow> remove_rq_header n c)"

definition forward_allow :: "forward_auth \<Rightarrow> string list hmap \<Rightarrow> gcontext \<Rightarrow> gcontext" where
  "forward_allow p hs c = fold (take_header hs) (fw_upstream_headers p) c"

definition give_header :: "string list hmap \<Rightarrow> string \<Rightarrow> gcontext \<Rightarrow> gcontext" where
  "give_header hs n c = (case hm_get hs n of Some vs \<Rightarrow> set_rs_header n vs c | None \<Rightarrow> c)"

definition forward_deny :: "forward_auth \<Rightarrow> outbound_response \<Rightarrow> gcontext \<Rightarrow> plugin_result" where
  "forward_deny p r c =
     Inl (fold (give_header (or_headers r)) (fw_client_headers p) (set_body (or_body r) (set_status (or_status r) c)),
          mk_error ''FORWARD_AUTH_DENIED''
            (''Authorization service denied the request ('' @ show_nat (or_status r) @ '')''))"

definition forward_auth_exec :: "libs \<Rightarrow> transport \<Rightarrow> forward_auth \<Rightarrow> gcontext \<Rightarrow> plugin_result" where
  "forward_auth_exec L T p c =
     (case outbound_call T (forward_auth_request L p c) of
        Inl e \<Rightarrow>
          if fw_allow_degradation p then Inr c
          else reject_status c (fw_status_on_error p) ''FORWARD_AUTH_ERROR''
                 (''forward-auth callout failed: '' @ show_outbound_error (tr_duration T) e)
      | Inr r \<Rightarrow>
          if 300 \<le> or_status r then forward_deny p r c
          else Inr (forward_allow p (or_headers r) c))"

section \<open>opa\<close>

record opa =
  op_host :: string
  op_policy :: string
  op_ssl_verify :: bool
  op_timeout :: nat
  op_with_consumer :: bool
  op_send_headers_upstream :: "string list"

record opa_decision =
  od_allow :: bool
  od_status :: "nat option"
  od_reason :: "string option"
  od_headers :: "string hmap"

datatype opa_parse_error = NotJson | MissingResult

definition trim_start_char :: "char \<Rightarrow> string \<Rightarrow> string" where
  "trim_start_char ch s = dropWhile (\<lambda>x. x = ch) s"

definition opa_from_config :: "libs \<Rightarrow> config \<Rightarrow> string + opa" where
  "opa_from_config L c =
     res_bind (ok_or (opt_filter (\<lambda>s. s \<noteq> []) (cfg_str c ''host'')) (''opa plugin requires '' @ sq ''host'')) (\<lambda>host.
     res_bind (ok_or (opt_filter (\<lambda>s. s \<noteq> []) (cfg_str c ''policy'')) (''opa plugin requires '' @ sq ''policy'')) (\<lambda>policy.
       Inr \<lparr>op_host = trim_end_char CHR ''/'' host, op_policy = trim_start_char CHR ''/'' policy,
            op_ssl_verify = unwrap_or True (cfg_bool c ''ssl_verify''),
            op_timeout = from_millis (unwrap_or 3000 (cfg_u64 c ''timeout'')),
            op_with_consumer = unwrap_or False (cfg_bool c ''with_consumer''),
            op_send_headers_upstream = lower_list L c ''send_headers_upstream''\<rparr>))"

definition collapse_multi :: "string list hmap \<Rightarrow> json" where
  "collapse_multi m = jobj (map (\<lambda>(k, vs). (k, case vs of [v] \<Rightarrow> JStr v | _ \<Rightarrow> JArr (map JStr vs))) m)"

definition consumer_json :: "gcontext \<Rightarrow> json option" where
  "consumer_json c =
     (let fields = List.map_filter (\<lambda>(k, v). map_option (\<lambda>f. (f, v)) (strip_prefix k ''consumer.'')) (cx_message c)
      in if fields = [] then None else Some (jobj fields))"

text \<open>\<open>port.parse()\<close> as \<open>u16\<close>\<close>

definition port_of :: "string \<Rightarrow> nat option" where
  "port_of s = parse_uint 65535 s"

text \<open>The address and what follows it: a bracketed literal, else the text around the only colon.\<close>

definition split_endpoint :: "string \<Rightarrow> string \<times> string option" where
  "split_endpoint s =
     (let plain = (case rsplit_once CHR '':'' s of
                     Some (h, p) \<Rightarrow> if CHR '':'' \<notin> set h then (h, Some p) else (s, None)
                   | None \<Rightarrow> (s, None))
      in case strip_prefix s ''['' of
           Some r \<Rightarrow> (case split_once CHR '']'' r of
                        Some (h, rest) \<Rightarrow> (h, strip_prefix rest '':'')
                      | None \<Rightarrow> plain)
         | None \<Rightarrow> plain)"

definition split_host_port :: "string \<Rightarrow> string \<Rightarrow> string \<times> nat" where
  "split_host_port host scheme =
     (let dflt = (if eq_ignore_ascii_case scheme ''https'' then 443 else 80); (h, p) = split_endpoint host
      in (h, unwrap_or dflt (Option.bind p port_of)))"

definition split_addr_port :: "string \<Rightarrow> string \<times> nat option" where
  "split_addr_port a = (let (h, p) = split_endpoint a in (h, Option.bind p port_of))"

definition build_opa_input :: "opa \<Rightarrow> gcontext \<Rightarrow> nat \<Rightarrow> json" where
  "build_opa_input p c now =
     (let r = cx_request c;
          (host, port) = split_host_port (rq_host r) (rq_scheme r);
          (addr, rport) = split_addr_port (rq_remote_addr r);
          request = jobj [(''scheme'', JStr (rq_scheme r)), (''method'', JStr (rq_method r)), (''host'', JStr host),
            (''port'', jnat port), (''path'', JStr (rq_path r)), (''headers'', collapse_multi (rq_headers r)),
            (''query'', collapse_multi (rq_query_params r))];
          var = jobj ([(''remote_addr'', JStr addr)] @ (case rport of Some n \<Rightarrow> [(''remote_port'', jnat n)] | None \<Rightarrow> []) @
            [(''timestamp'', jnat now)])
      in JObj [(''input'', jobj ([(''type'', JStr ''http''), (''request'', request), (''var'', var)] @
           (if op_with_consumer p then
              (case consumer_json c of Some j \<Rightarrow> [(''consumer'', j)] | None \<Rightarrow> [])
            else [])))])"

definition parse_opa_response :: "libs \<Rightarrow> schema_lib \<Rightarrow> string \<Rightarrow> opa_parse_error + opa_decision" where
  "parse_opa_response L J body =
     (case js_parse J body of
        Inl _ \<Rightarrow> Inl NotJson
      | Inr data \<Rightarrow>
          (case json_get data ''result'' of
             None \<Rightarrow> Inl MissingResult
           | Some result \<Rightarrow>
               Inr \<lparr>od_allow = unwrap_or False (Option.bind (json_get result ''allow'') as_bool),
                    od_status = map_option as_u16 (Option.bind
                      (or_else (json_get result ''status_code'') (json_get result ''status'')) as_u64),
                    od_reason = (case json_get result ''reason'' of
                        None \<Rightarrow> None | Some JNull \<Rightarrow> None | Some (JStr s) \<Rightarrow> Some s
                      | Some v \<Rightarrow> Some (json_print L v)),
                    od_headers = fold (\<lambda>(k, v) m. case header_value L v of
                          Some s \<Rightarrow> hm_insert (to_lowercase L k) s m | None \<Rightarrow> m)
                      (unwrap_or [] (Option.bind (json_get result ''headers'') as_object)) []\<rparr>))"

definition opa_deny :: "opa_decision \<Rightarrow> gcontext \<Rightarrow> plugin_result" where
  "opa_deny d c =
     (let status = unwrap_or 403 (od_status d);
          c1 = set_status status c;
          c2 = (case od_reason d of Some s \<Rightarrow> set_body s c1 | None \<Rightarrow> c1)
      in Inl (fold (\<lambda>(k, v). set_rs_header k [v]) (od_headers d) c2,
              mk_error ''OPA_DENIED'' (''OPA denied the request ('' @ show_nat status @ '')'')))"

definition opa_allow :: "opa \<Rightarrow> opa_decision \<Rightarrow> gcontext \<Rightarrow> gcontext" where
  "opa_allow p d c =
     fold (take_header (map (\<lambda>(k, v). (k, [v])) (od_headers d))) (op_send_headers_upstream p) c"

definition opa_request :: "libs \<Rightarrow> opa \<Rightarrow> nat \<Rightarrow> gcontext \<Rightarrow> outbound_request" where
  "opa_request L p now c =
     \<lparr>ob_method = ''POST'', ob_url = op_host p @ ''/v1/data/'' @ op_policy p,
      ob_headers = [(''Content-Type'', ''application/json'')],
      ob_body = json_print L (build_opa_input p c now), ob_timeout = op_timeout p, ob_ssl_verify = op_ssl_verify p\<rparr>"

definition opa_exec :: "libs \<Rightarrow> schema_lib \<Rightarrow> transport \<Rightarrow> nat \<Rightarrow> opa \<Rightarrow> gcontext \<Rightarrow> plugin_result" where
  "opa_exec L J T now p c =
     (case outbound_call T (opa_request L p now c) of
        Inl e \<Rightarrow> reject_status c 403 ''OPA_ERROR'' (''OPA callout failed: '' @ show_outbound_error (tr_duration T) e)
      | Inr r \<Rightarrow>
          (case parse_opa_response L J (or_body r) of
             Inl NotJson \<Rightarrow> reject_status c 503 ''OPA_ERROR'' ''OPA response was not valid JSON''
           | Inl MissingResult \<Rightarrow> reject_status c 503 ''OPA_ERROR'' (''OPA response missing '' @ sq ''result'' @ '' field'')
           | Inr d \<Rightarrow> if \<not> od_allow d then opa_deny d c else Inr (opa_allow p d c)))"

section \<open>Cloud functions\<close>

text \<open>The parts of an \<open>http::Uri\<close>.\<close>

record uri_parts =
  ur_authority :: "string option"
  ur_scheme :: "string option"
  ur_path :: string
  ur_query :: "string option"

type_synonym uri_parser = "string \<Rightarrow> string + uri_parts"

definition hex_upper :: "nat \<Rightarrow> char" where
  "hex_upper d = char_of (if d < 10 then 48 + d else 55 + d)"

definition unreserved :: "char \<Rightarrow> bool" where
  "unreserved c \<longleftrightarrow> is_alnum c \<or> c \<in> set ''-_.~''"

definition uri_byte :: "char \<Rightarrow> string" where
  "uri_byte c =
     (if unreserved c then [c]
      else [CHR ''%'', hex_upper (of_char c div 16), hex_upper (of_char c mod 16)])"

definition uri_encode :: "string \<Rightarrow> string" where
  "uri_encode s = concat (map uri_byte s)"

definition param_pairs :: "string list hmap \<Rightarrow> (string \<times> string) list" where
  "param_pairs q = concat (map (\<lambda>(k, vs). map (Pair k) vs) q)"

definition faas_query :: "string list hmap \<Rightarrow> string" where
  "faas_query q =
     join ''&'' (map (\<lambda>(k, v). k @ ''='' @ v)
       (sort_key (\<lambda>kv. kv) (map (\<lambda>(k, v). (uri_encode k, uri_encode v)) (param_pairs q))))"

definition hop_headers :: "string list" where
  "hop_headers = [''host'', ''connection'', ''content-length'']"

definition forwarded_headers :: "gcontext \<Rightarrow> (string \<times> string) list" where
  "forwarded_headers c =
     concat (map (\<lambda>(k, vs). if to_ascii_lowercase k \<in> set hop_headers then [] else map (Pair (to_ascii_lowercase k)) vs)
       (rq_headers (cx_request c)))"

definition forward_parts ::
  "uri_parser \<Rightarrow> transport \<Rightarrow> string \<Rightarrow> gcontext \<Rightarrow> string + (string \<times> string) list \<times> string \<times> string" where
  "forward_parts U T uri c =
     (case U uri of
        Inl e \<Rightarrow> Inl (''invalid function_uri '' @ sq uri @ '': '' @ e)
      | Inr u \<Rightarrow>
          (case ur_authority u of
             None \<Rightarrow> Inl (''function_uri '' @ sq uri @ '' has no host'')
           | Some host \<Rightarrow>
               (let path = (if ur_path u = [] then ''/'' else ur_path u);
                    own = faas_query (rq_query_params (cx_request c));
                    query = (if own = [] then unwrap_or [] (ur_query u) else own);
                    base = unwrap_or ''https'' (ur_scheme u) @ ''://'' @ host @ path
                in Inr (forwarded_headers c @ [(''host'', host)],
                        if query = [] then base else base @ ''?'' @ query,
                        unwrap_or ''POST'' (tr_method T (rq_method (cx_request c)))))))"

definition classify_error :: "transport \<Rightarrow> string \<Rightarrow> outbound_error \<Rightarrow> nat \<times> string" where
  "classify_error T who e =
     (case e of
        OutTimeout d \<Rightarrow> (504, who @ '' callout timed out after '' @ tr_duration T d)
      | OutInvalid m \<Rightarrow> (502, who @ '' request build error: '' @ m)
      | OutTransport m \<Rightarrow> (503, who @ '' callout failed: '' @ m))"

text \<open>What azure-functions and openfunction do with the request they built.\<close>

definition function_call ::
  "transport \<Rightarrow> string \<Rightarrow> string \<Rightarrow> string + outbound_request \<Rightarrow> gcontext \<Rightarrow> plugin_result" where
  "function_call T who code req c =
     (case req of
        Inl m \<Rightarrow> reject_status c 502 code m
      | Inr r \<Rightarrow>
          (case outbound_call T r of
             Inr rsp \<Rightarrow> Inr (set_response rsp c)
           | Inl e \<Rightarrow> (let (st, m) = classify_error T who e in reject_status c st code m)))"

subsection \<open>azure-functions\<close>

record azure_functions =
  az_function_uri :: string
  az_apikey :: "string option"
  az_clientid :: "string option"
  az_ssl_verify :: bool
  az_timeout :: nat

text \<open>A string under \<open>authorization\<close>, unless it is empty.\<close>

definition authorization_key :: "config \<Rightarrow> string \<Rightarrow> string option" where
  "authorization_key c k =
     opt_filter (\<lambda>s. s \<noteq> []) (Option.bind (Option.bind (Option.bind (hm_get c ''authorization'') as_object)
       (\<lambda>m. hm_get m k)) as_str)"

definition azure_functions_from_config :: "config \<Rightarrow> string + azure_functions" where
  "azure_functions_from_config c =
     res_bind (ok_or (opt_filter (\<lambda>s. s \<noteq> []) (cfg_str c ''function_uri''))
       (''azure-functions plugin requires '' @ sq ''function_uri'')) (\<lambda>uri.
       Inr \<lparr>az_function_uri = uri, az_apikey = authorization_key c ''apikey'',
            az_clientid = authorization_key c ''clientid'', az_ssl_verify = unwrap_or True (cfg_bool c ''ssl_verify''),
            az_timeout = from_millis (unwrap_or 3000 (cfg_u64 c ''timeout''))\<rparr>)"

definition client_has :: "gcontext \<Rightarrow> string \<Rightarrow> bool" where
  "client_has c name \<longleftrightarrow> list_ex (\<lambda>(k, _). eq_ignore_ascii_case k name) (rq_headers (cx_request c))"

definition optional_header :: "string \<Rightarrow> string option \<Rightarrow> (string \<times> string) list" where
  "optional_header k v = (case v of Some s \<Rightarrow> [(k, s)] | None \<Rightarrow> [])"

definition azure_request :: "uri_parser \<Rightarrow> transport \<Rightarrow> azure_functions \<Rightarrow> gcontext \<Rightarrow> string + outbound_request" where
  "azure_request U T p c =
     res_bind (forward_parts U T (az_function_uri p) c) (\<lambda>(hs, url, m).
       Inr \<lparr>ob_method = m, ob_url = url,
            ob_headers = (if \<not> client_has c ''x-functions-key'' \<and> \<not> client_has c ''x-functions-clientid''
              then hs @ optional_header ''x-functions-key'' (az_apikey p) @
                   optional_header ''x-functions-clientid'' (az_clientid p)
              else hs),
            ob_body = rq_body (cx_request c), ob_timeout = az_timeout p, ob_ssl_verify = az_ssl_verify p\<rparr>)"

definition azure_functions_exec :: "uri_parser \<Rightarrow> transport \<Rightarrow> azure_functions \<Rightarrow> gcontext \<Rightarrow> plugin_result" where
  "azure_functions_exec U T p c =
     function_call T ''azure-functions'' ''AZURE_FUNCTIONS_CALLOUT_ERROR'' (azure_request U T p c) c"

subsection \<open>openfunction\<close>

record openfunction =
  of_function_uri :: string
  of_authorization :: "string option"
  of_ssl_verify :: bool
  of_timeout :: nat

definition openfunction_from_config :: "libs \<Rightarrow> config \<Rightarrow> string + openfunction" where
  "openfunction_from_config L c =
     res_bind (ok_or (opt_filter (\<lambda>s. s \<noteq> []) (cfg_str c ''function_uri''))
       (''openfunction plugin requires '' @ sq ''function_uri'')) (\<lambda>uri.
       Inr \<lparr>of_function_uri = uri,
            of_authorization = map_option (\<lambda>t. ''Basic '' @ b64_encode L t) (authorization_key c ''service_token''),
            of_ssl_verify = unwrap_or True (cfg_bool c ''ssl_verify''),
            of_timeout = from_millis (unwrap_or 3000 (cfg_u64 c ''timeout''))\<rparr>)"

definition openfunction_request :: "uri_parser \<Rightarrow> transport \<Rightarrow> openfunction \<Rightarrow> gcontext \<Rightarrow> string + outbound_request" where
  "openfunction_request U T p c =
     res_bind (forward_parts U T (of_function_uri p) c) (\<lambda>(hs, url, m).
       Inr \<lparr>ob_method = m, ob_url = url,
            ob_headers = (case of_authorization p of
                Some a \<Rightarrow> filter (\<lambda>(k, _). k \<noteq> ''authorization'') hs @ [(''authorization'', a)]
              | None \<Rightarrow> hs),
            ob_body = rq_body (cx_request c), ob_timeout = of_timeout p, ob_ssl_verify = of_ssl_verify p\<rparr>)"

definition openfunction_exec :: "uri_parser \<Rightarrow> transport \<Rightarrow> openfunction \<Rightarrow> gcontext \<Rightarrow> plugin_result" where
  "openfunction_exec U T p c =
     function_call T ''openfunction'' ''OPENFUNCTION_CALLOUT_ERROR'' (openfunction_request U T p c) c"

subsection \<open>openwhisk\<close>

record openwhisk =
  ow_api_host :: string
  ow_authorization :: string
  ow_namespace :: string
  ow_package :: "string option"
  ow_action :: string
  ow_result :: bool
  ow_ssl_verify :: bool
  ow_timeout :: nat
  ow_timeout_ms :: nat

definition openwhisk_from_config :: "libs \<Rightarrow> config \<Rightarrow> string + openwhisk" where
  "openwhisk_from_config L c =
     (let required = (\<lambda>k. ok_or (opt_filter (\<lambda>s. s \<noteq> []) (cfg_str c k)) (''openwhisk plugin requires '' @ sq k)) in
      res_bind (required ''api_host'') (\<lambda>host.
      res_bind (required ''service_token'') (\<lambda>token.
      res_bind (required ''action'') (\<lambda>action.
        Inr \<lparr>ow_api_host = trim_end_char CHR ''/'' host, ow_authorization = ''Basic '' @ b64_encode L token,
             ow_namespace = unwrap_or ''_'' (opt_filter (\<lambda>s. s \<noteq> []) (cfg_str c ''namespace'')),
             ow_package = opt_filter (\<lambda>s. s \<noteq> []) (cfg_str c ''package''), ow_action = action,
             ow_result = unwrap_or True (cfg_bool c ''result''),
             ow_ssl_verify = unwrap_or True (cfg_bool c ''ssl_verify''),
             ow_timeout = from_millis (unwrap_or 3000 (cfg_u64 c ''timeout'')),
             ow_timeout_ms = unwrap_or 3000 (cfg_u64 c ''timeout'')\<rparr>))))"

definition ow_endpoint :: "openwhisk \<Rightarrow> string" where
  "ow_endpoint p =
     ow_api_host p @ ''/api/v1/namespaces/'' @ ow_namespace p @ ''/actions/'' @
     (case ow_package p of Some k \<Rightarrow> k @ ''/'' | None \<Rightarrow> []) @ ow_action p @ ''?blocking=true&result='' @
     show_bool (ow_result p) @ ''&timeout='' @ show_nat (ow_timeout_ms p)"

definition ow_request :: "openwhisk \<Rightarrow> gcontext \<Rightarrow> outbound_request" where
  "ow_request p c =
     \<lparr>ob_method = ''POST'', ob_url = ow_endpoint p,
      ob_headers = [(''authorization'', ow_authorization p), (''content-type'', ''application/json'')],
      ob_body = rq_body (cx_request c), ob_timeout = ow_timeout p, ob_ssl_verify = ow_ssl_verify p\<rparr>"

definition value_text :: "libs \<Rightarrow> json \<Rightarrow> string" where
  "value_text L v = (case v of JStr s \<Rightarrow> s | _ \<Rightarrow> json_print L v)"

definition map_response :: "libs \<Rightarrow> schema_lib \<Rightarrow> nat \<Rightarrow> string \<Rightarrow> string + outbound_response" where
  "map_response L J status raw =
     (if raw = [] then Inr \<lparr>or_status = status, or_headers = [], or_body = raw\<rparr>
      else (case js_parse J raw of
              Inl e \<Rightarrow> Inl (''failed to parse openwhisk response: '' @ e)
            | Inr env \<Rightarrow>
                Inr \<lparr>or_status = unwrap_or status (map_option as_u16 (Option.bind (json_get env ''statusCode'') as_u64)),
                     or_headers = fold (\<lambda>(k, v). hm_push (to_ascii_lowercase k) (value_text L v))
                       (unwrap_or [] (Option.bind (json_get env ''headers'') as_object)) [],
                     or_body = (case json_get env ''body'' of Some v \<Rightarrow> value_text L v | None \<Rightarrow> raw)\<rparr>))"

definition openwhisk_exec :: "libs \<Rightarrow> schema_lib \<Rightarrow> transport \<Rightarrow> openwhisk \<Rightarrow> gcontext \<Rightarrow> plugin_result" where
  "openwhisk_exec L J T p c =
     (case outbound_call T (ow_request p c) of
        Inl e \<Rightarrow> (let (st, m) = classify_error T ''openwhisk'' e in reject_status c st ''OPENWHISK_CALLOUT_ERROR'' m)
      | Inr r \<Rightarrow>
          (case map_response L J (or_status r) (or_body r) of
             Inr mapped \<Rightarrow> Inr (set_response mapped c)
           | Inl m \<Rightarrow> reject_status c 503 ''OPENWHISK_CALLOUT_ERROR'' m))"

section \<open>The engine's interface\<close>

lemma removed_header [simp]:
  "cx_errors (remove_rq_header k c) = cx_errors c" "cx_message (remove_rq_header k c) = cx_message c"
  "cx_response (remove_rq_header k c) = cx_response c"
  "hm_get (rq_headers (cx_request (remove_rq_header k c))) n = (if n = k then None else hm_get (rq_headers (cx_request c)) n)"
  by (simp_all add: remove_rq_header_def)

lemma take_header_simps [simp]:
  "cx_errors (take_header hs k c) = cx_errors c" "cx_message (take_header hs k c) = cx_message c"
  "cx_response (take_header hs k c) = cx_response c"
  "hm_get (rq_headers (cx_request (take_header hs k c))) n =
     (if n = k then hm_get hs n else hm_get (rq_headers (cx_request c)) n)"
  by (auto simp: take_header_def set_rq_header_def split: option.splits)

lemma fold_take_header:
  "hm_get (rq_headers (cx_request (fold (take_header hs) ns c))) n =
     (if n \<in> set ns then hm_get hs n else hm_get (rq_headers (cx_request c)) n)"
  "cx_errors (fold (take_header hs) ns c) = cx_errors c"
  "cx_message (fold (take_header hs) ns c) = cx_message c"
  "cx_response (fold (take_header hs) ns c) = cx_response c"
  by (induction ns arbitrary: c) auto

lemma take_header_request:
  "(cx_request (take_header hs k c))\<lparr>rq_headers := h\<rparr> = (cx_request c)\<lparr>rq_headers := h\<rparr>"
  by (auto simp: take_header_def set_rq_header_def remove_rq_header_def split: option.splits)

lemma fold_take_request:
  "(cx_request (fold (take_header hs) ns c))\<lparr>rq_headers := h\<rparr> = (cx_request c)\<lparr>rq_headers := h\<rparr>"
  by (induction ns arbitrary: c) (auto simp: take_header_request)

lemma give_header_simps [simp]:
  "cx_errors (give_header hs k c) = cx_errors c" "cx_message (give_header hs k c) = cx_message c"
  "cx_request (give_header hs k c) = cx_request c"
  by (auto simp: give_header_def split: option.splits)

lemma fold_give_header [simp]:
  "cx_errors (fold (give_header hs) ns c) = cx_errors c" "cx_message (fold (give_header hs) ns c) = cx_message c"
  "cx_request (fold (give_header hs) ns c) = cx_request c"
  by (induction ns arbitrary: c) auto

lemma reject_status_result [simp]: "reject_status c st code m = Inl (c', e) \<longleftrightarrow> c' = set_status st c \<and> e = mk_error code m"
  by (auto simp: reject_status_def)

lemma reject_status_not_Inr [simp]: "reject_status c st code m \<noteq> Inr c'"
  by (simp add: reject_status_def)

lemma fold_rs_headers [simp]:
  "cx_errors (fold (\<lambda>(k, v). set_rs_header k [v]) hs c) = cx_errors c"
  "cx_message (fold (\<lambda>(k, v). set_rs_header k [v]) hs c) = cx_message c"
  "cx_request (fold (\<lambda>(k, v). set_rs_header k [v]) hs c) = cx_request c"
  by (induction hs arbitrary: c) auto

interpretation forward_auth_node: auth_contract "pure_exec (forward_auth_exec L T p)" for L T p
  by unfold_locales
    (auto simp: forward_auth_exec_def forward_allow_def forward_deny_def fold_take_header
      split: sum.splits if_splits)

interpretation opa_node: auth_contract "pure_exec (opa_exec L J T now p)" for L J T now p
  by unfold_locales
    (auto simp: opa_exec_def opa_allow_def opa_deny_def Let_def fold_take_header
      split: sum.splits if_splits option.splits opa_parse_error.splits)

lemma function_call_contract: "plugin_contract (pure_exec (\<lambda>c. function_call T who code (req c) c))"
  by unfold_locales
    (auto simp: function_call_def reject_status_def Let_def split: sum.splits prod.splits)

interpretation azure_functions_node: plugin_contract "pure_exec (azure_functions_exec U T p)" for U T p
  unfolding azure_functions_exec_def by (rule function_call_contract)

interpretation openfunction_node: plugin_contract "pure_exec (openfunction_exec U T p)" for U T p
  unfolding openfunction_exec_def by (rule function_call_contract)

interpretation openwhisk_node: plugin_contract "pure_exec (openwhisk_exec L J T p)" for L J T p
  by unfold_locales
    (auto simp: openwhisk_exec_def reject_status_def Let_def split: sum.splits prod.splits)

section \<open>What the upstream is told\<close>


definition demo_forward :: forward_auth where
  "demo_forward = \<lparr>fw_uri = ''http://auth'', fw_method = ''GET'', fw_is_post = False, fw_request_headers = [''cookie''],
     fw_upstream_headers = [''x-user''], fw_client_headers = [], fw_extra_headers = [], fw_ssl_verify = True,
     fw_timeout = 3, fw_status_on_error = 403, fw_allow_degradation = False\<rparr>"

definition spoofed :: gcontext where
  "spoofed = set_rq_header ''x-user'' [''admin''] (demo_post ''a'')"


text \<open>The headers the service sees under a name are the node's own, or those its configuration adds.\<close>

lemma copy_header_taken:
  assumes "list_ex (\<lambda>(k, _). eq_ignore_ascii_case k n) hs"
  shows "\<exists>more. copy_header c m hs = hs @ more \<and> list_all (\<lambda>(k, _). \<not> eq_ignore_ascii_case k n) more"
  using assms
  by (auto simp: copy_header_def eq_ignore_ascii_case_def list_ex_iff split: option.splits)

lemma fold_copy_taken:
  assumes "list_ex (\<lambda>(k, _). eq_ignore_ascii_case k n) hs"
  shows "\<exists>more. fold (copy_header c) ms hs = hs @ more \<and> list_all (\<lambda>(k, _). \<not> eq_ignore_ascii_case k n) more"
  using assms
proof (induction ms arbitrary: hs)
  case Nil
  then show ?case by simp
next
  case (Cons m ms)
  obtain a where a: "copy_header c m hs = hs @ a" "list_all (\<lambda>(k, _). \<not> eq_ignore_ascii_case k n) a"
    using copy_header_taken [OF Cons.prems] by blast
  moreover obtain b where "fold (copy_header c) ms (hs @ a) = (hs @ a) @ b"
      "list_all (\<lambda>(k, _). \<not> eq_ignore_ascii_case k n) b"
    using Cons.IH [of "hs @ a"] Cons.prems by auto
  ultimately show ?case by (intro exI [of _ "a @ b"]) simp
qed

lemma filter_none: "list_all (\<lambda>(k, _). \<not> eq_ignore_ascii_case k n) xs \<Longrightarrow> filter (\<lambda>(k, _). eq_ignore_ascii_case k n) xs = []"
  by (auto simp: list_all_iff filter_empty_conv)

text \<open>
  Without extra headers, the service sees each X-Forwarded header exactly once, with the value the
  gateway observed, whatever the client sends under that name and whatever \<open>request_headers\<close> lists.
\<close>

theorem forward_auth_tells_the_truth:
  assumes "fw_extra_headers p = []"
    and "(n, v) \<in> {(''x-forwarded-proto'', rq_scheme (cx_request c)), (''x-forwarded-method'', rq_method (cx_request c)),
       (''x-forwarded-host'', rq_host (cx_request c)),
       (''x-forwarded-uri'', unwrap_or (rq_path (cx_request c)) (resolve L c ''request_uri'')),
       (''x-forwarded-for'', unwrap_or [] (resolve L c ''remote_addr''))}"
  shows "map snd (filter (\<lambda>(k, _). eq_ignore_ascii_case k n) (build_callout_headers L p c)) = [v]"
proof -
  define own where "own = [(''X-Forwarded-Proto'', rq_scheme (cx_request c)), (''X-Forwarded-Method'', rq_method (cx_request c)),
    (''X-Forwarded-Host'', rq_host (cx_request c)),
    (''X-Forwarded-Uri'', unwrap_or (rq_path (cx_request c)) (resolve L c ''request_uri'')),
    (''X-Forwarded-For'', unwrap_or [] (resolve L c ''remote_addr''))]"
  define enc where "enc = (if fw_is_post p then
    (case first_header c ''content-encoding'' of Some e \<Rightarrow> [(''Content-Encoding'', e)] | None \<Rightarrow> []) else [])"
  have b: "build_callout_headers L p c = fold (copy_header c) (fw_request_headers p) (own @ enc)"
    by (simp add: build_callout_headers_def Let_def own_def enc_def assms(1))
  have lower: "to_ascii_lowercase ''X-Forwarded-Proto'' = ''x-forwarded-proto''"
    "to_ascii_lowercase ''X-Forwarded-Method'' = ''x-forwarded-method''"
    "to_ascii_lowercase ''X-Forwarded-Host'' = ''x-forwarded-host''"
    "to_ascii_lowercase ''X-Forwarded-Uri'' = ''x-forwarded-uri''"
    "to_ascii_lowercase ''X-Forwarded-For'' = ''x-forwarded-for''"
    "to_ascii_lowercase ''Content-Encoding'' = ''content-encoding''"
    by code_simp+
  have low: "to_ascii_lowercase ''x-forwarded-proto'' = ''x-forwarded-proto''"
    "to_ascii_lowercase ''x-forwarded-method'' = ''x-forwarded-method''"
    "to_ascii_lowercase ''x-forwarded-host'' = ''x-forwarded-host''"
    "to_ascii_lowercase ''x-forwarded-uri'' = ''x-forwarded-uri''"
    "to_ascii_lowercase ''x-forwarded-for'' = ''x-forwarded-for''"
    by code_simp+
  have n: "to_ascii_lowercase n = n" using assms(2) by (auto simp: low)
  have f: "map snd (filter (\<lambda>(k, _). eq_ignore_ascii_case k n) (own @ enc)) = [v]"
  proof -
    have "filter (\<lambda>(k, _). eq_ignore_ascii_case k n) enc = []"
    proof -
      have "n \<noteq> ''content-encoding''" using assms(2) by auto
      then have "\<not> eq_ignore_ascii_case ''Content-Encoding'' n"
        unfolding eq_ignore_ascii_case_def lower(6) n by metis
      then show ?thesis
        by (cases "first_header c ''content-encoding''"; cases "fw_is_post p")
          (simp_all only: enc_def option.case if_True if_False filter.simps prod.case)
    qed
    moreover have "map snd (filter (\<lambda>(k, _). eq_ignore_ascii_case k n) own) = [v]"
      using assms(2) unfolding insert_iff empty_iff prod.inject
      by (elim disjE conjE FalseE; simp add: own_def eq_ignore_ascii_case_def lower low)
    ultimately show ?thesis by simp
  qed
  then have "filter (\<lambda>(k, _). eq_ignore_ascii_case k n) (own @ enc) \<noteq> []" by auto
  then have "list_ex (\<lambda>(k, _). eq_ignore_ascii_case k n) (own @ enc)"
    by (auto simp: filter_empty_conv list_ex_iff)
  then obtain more where "build_callout_headers L p c = (own @ enc) @ more"
      "list_all (\<lambda>(k, _). \<not> eq_ignore_ascii_case k n) more"
    using fold_copy_taken unfolding b by blast
  then show ?thesis using f by (simp add: filter_none)
qed

theorem forward_auth_tells_the_truth_witness:
  "map snd (filter (\<lambda>(k, _). eq_ignore_ascii_case k ''x-forwarded-method'')
     (build_callout_headers plain_libs (demo_forward\<lparr>fw_request_headers := [''x-forwarded-method'']\<rparr>)
       (set_rq_header ''x-forwarded-method'' [''GET''] (demo_post ''a'')))) = [''POST'']"
  by (rule forward_auth_tells_the_truth) (simp_all add: demo_forward_def demo_post_def new_context_def set_rq_header_def)

section \<open>The query a function gets\<close>

text \<open>Percent decoding, as the receiver of a URL does it.\<close>

fun uri_decode :: "string \<Rightarrow> string" where
  "uri_decode (c # a # b # s) =
     (case (hex_digit a, hex_digit b) of
        (Some x, Some y) \<Rightarrow> if c = CHR ''%'' then char_of (16 * x + y) # uri_decode s else c # uri_decode (a # b # s)
      | _ \<Rightarrow> c # uri_decode (a # b # s))"
| "uri_decode s = s"

lemma hex_digit_upper: "d < 16 \<Longrightarrow> hex_digit (hex_upper d) = Some d"
  by (auto simp: hex_digit_def hex_upper_def Let_def)

lemma unreserved_plain: "unreserved c \<Longrightarrow> c \<noteq> CHR ''%'' \<and> c \<noteq> CHR ''&'' \<and> c \<noteq> CHR ''=''"
  by (auto simp: unreserved_def is_alnum_def Let_def)

lemma decode_plain: "c \<noteq> CHR ''%'' \<Longrightarrow> uri_decode (c # s) = c # uri_decode s"
  by (cases s; cases "tl s") (auto split: option.splits)

lemma uri_decode_encode: "uri_decode (uri_encode s) = s"
proof (induction s)
  case Nil
  then show ?case by (simp add: uri_encode_def)
next
  case (Cons c s)
  have e: "uri_encode (c # s) = uri_byte c @ uri_encode s" by (simp add: uri_encode_def)
  show ?case
  proof (cases "unreserved c")
    case True
    then show ?thesis using Cons unreserved_plain [OF True] by (simp add: e uri_byte_def decode_plain)
  next
    case False
    have "16 * (of_char c div 16) + of_char c mod 16 = (of_char c :: nat)" by simp
    then show ?thesis using Cons False nibbles [of c]
      by (simp add: e uri_byte_def hex_digit_upper)
  qed
qed

lemma hex_upper_plain: "d < 16 \<Longrightarrow> hex_upper d \<noteq> CHR ''&'' \<and> hex_upper d \<noteq> CHR ''=''"
  using hex_digit_upper [of d] by (auto simp: hex_digit_def)

lemma uri_byte_plain: "CHR ''&'' \<notin> set (uri_byte c) \<and> CHR ''='' \<notin> set (uri_byte c)"
  using unreserved_plain [of c] nibbles [of c] hex_upper_plain [of "of_char c div 16"] hex_upper_plain [of "of_char c mod 16"]
  by (auto simp: uri_byte_def)

lemma uri_encode_plain: "CHR ''&'' \<notin> set (uri_encode s) \<and> CHR ''='' \<notin> set (uri_encode s)"
  using uri_byte_plain by (auto simp: uri_encode_def)

lemma split_on_join: "xs \<noteq> [] \<Longrightarrow> \<forall>x \<in> set xs. ch \<notin> set x \<Longrightarrow> split_on ch (join [ch] xs) = xs"
proof (induction xs)
  case (Cons x xs)
  then show ?case by (cases xs) (auto simp: split_on_plain split_on_append)
qed simp

lemma split_pair_joined: "CHR ''='' \<notin> set k \<Longrightarrow> split_pair (k @ CHR ''='' # v) = (k, v)"
  using split_once_Some [of "CHR ''=''" "k @ CHR ''='' # v" k v] by (simp add: split_pair_def)

text \<open>
  C40: the query of a function call carries exactly the parameters of the request: taken apart at
  \<open>&\<close> and \<open>=\<close> and percent-decoded it gives back every pair, so no value can smuggle
  in another parameter. The pairs are the raw text of the client's query, so what the client had
  percent-encoded arrives encoded twice (the witness sends \<open>q=a%20b\<close>).
\<close>

theorem faas_query_round_trip:
  assumes "param_pairs q \<noteq> []"
  shows "mset (map (map_prod uri_decode uri_decode) (map split_pair (split_on CHR ''&'' (faas_query q)))) = mset (param_pairs q)"
proof -
  define ps where "ps = sort_key (\<lambda>kv. kv) (map (\<lambda>(k, v). (uri_encode k, uri_encode v)) (param_pairs q))"
  let ?t = "\<lambda>(k, v). k @ ''='' @ v"
  have enc: "\<exists>k v. kv = (uri_encode k, uri_encode v)" if "kv \<in> set ps" for kv
    using that by (auto simp: ps_def)
  have "mset ps = mset (map (\<lambda>(k, v). (uri_encode k, uri_encode v)) (param_pairs q))" by (simp add: ps_def)
  moreover have "length ps = length (param_pairs q)" by (simp add: ps_def)
  then have "ps \<noteq> []" using assms by auto
  have "split_on CHR ''&'' (faas_query q) = map ?t ps"
    unfolding faas_query_def ps_def [symmetric]
    by (rule split_on_join) (use \<open>ps \<noteq> []\<close> uri_encode_plain in \<open>auto dest!: enc\<close>)
  moreover have "split_pair (?t kv) = kv" if "kv \<in> set ps" for kv
    using enc [OF that] uri_encode_plain by (auto intro: split_pair_joined)
  then have "map split_pair (map ?t ps) = ps" by (simp add: map_idI)
  ultimately have "map split_pair (split_on CHR ''&'' (faas_query q)) = ps" by simp
  then have "mset (map (map_prod uri_decode uri_decode) (map split_pair (split_on CHR ''&'' (faas_query q)))) =
      image_mset (map_prod uri_decode uri_decode) (mset (map (\<lambda>(k, v). (uri_encode k, uri_encode v)) (param_pairs q)))"
    by (simp add: ps_def)
  also have "\<dots> = mset (param_pairs q)"
    by (simp add: comp_def split_beta uri_decode_encode flip: mset_map)
  finally show ?thesis .
qed

definition encoded_query :: "string list hmap" where
  "encoded_query = parse_query ''q=a%20b''"

theorem faas_query_round_trip_witness:
  "encoded_query = [(''q'', [''a%20b''])] \<and>
     mset (map (map_prod uri_decode uri_decode) (map split_pair (split_on CHR ''&'' (faas_query encoded_query)))) =
       {#(''q'', ''a%20b'')#}"
proof -
  have e: "encoded_query = [(''q'', [''a%20b''])]" by code_simp
  have "param_pairs encoded_query = [(''q'', ''a%20b'')]" unfolding e by (simp add: param_pairs_def)
  then show ?thesis using faas_query_round_trip [of encoded_query] e by simp
qed

end
