(* ===== verification/Registry.thy ===== *)
theory Registry
  imports Graph_Walk Gateway_State Plugin_Traffic Plugin_Access Plugin_Split Real_Ip Plugin_Validate
    Plugin_Flow Plugin_Hmac Plugin_Logger_Http Plugin_Tracing Plugin_Callout
begin

text \<open>
  The plugin registry (\<open>create_plugin\<close>, src/src/plugins/mod.rs): the table from node type
  names to constructors, over the world that the modelled plugins share and own. The node types
  that are not modelled are an argument (\<open>rt_other\<close>), as are the crates.
\<close>

section \<open>The world of a running gateway\<close>

text \<open>What the clock and the random generators give to one execution of a node.\<close>

record draws =
  dr_mono :: nat
  dr_unix_ms :: nat
  dr_later_ms :: nat
  dr_uuid :: string
  dr_bytes16 :: string
  dr_bytes8 :: string
  dr_roll :: nat
  dr_frac :: f64

text \<open>
  The shared registries and consumers, the requests handed to detached tasks, the lines written to
  the process log, and the state each node owns, by the number of its instance. Once a node
  panics (\<open>st_panicked\<close>) the task of the request is gone, and what its walk goes on to compute
  reaches nobody.
\<close>

record site = gw_world +
  st_draws :: "nat \<Rightarrow> draws"
  st_step :: nat
  st_panicked :: bool
  st_sent :: "outbound_request list"
  st_out :: "string list"
  st_balancers :: "(nat \<times> balancer) list"
  st_buckets :: "(nat \<times> rl_state) list"
  st_splits :: "(nat \<times> traffic_split) list"
  st_labels :: "(nat \<times> traffic_label) list"
  st_sinks :: "(nat \<times> json sink) list"

text \<open>A node with a state of its own, \<open>init\<close> when it was created.\<close>

definition owned ::
  "(site \<Rightarrow> (nat \<times> 's) list) \<Rightarrow> ((nat \<times> 's) list \<Rightarrow> site \<Rightarrow> site) \<Rightarrow> nat \<Rightarrow> 's \<Rightarrow> 's node_exec \<Rightarrow> site node_exec" where
  "owned get put i init ex c w =
     (let (r, s) = ex c (unwrap_or init (hm_get (get w) i)) in (r, put (hm_insert i s (get w)) w))"

text \<open>A node that reads the clock or draws random numbers.\<close>

definition drawn :: "(draws \<Rightarrow> site node_exec) \<Rightarrow> site node_exec" where
  "drawn f c w = f (st_draws w (st_step w)) c (w\<lparr>st_step := Suc (st_step w)\<rparr>)"

definition sending :: "outbound_request list node_exec \<Rightarrow> site node_exec" where
  "sending ex c w = (let (r, sent) = ex c (st_sent w) in (r, w\<lparr>st_sent := sent\<rparr>))"

definition writing :: "string list node_exec \<Rightarrow> site node_exec" where
  "writing ex c w = (let (r, out) = ex c (st_out w) in (r, w\<lparr>st_out := out\<rparr>))"

definition unless_panic :: "(gcontext \<Rightarrow> plugin_result option) \<Rightarrow> site node_exec" where
  "unless_panic f c w =
     (case f c of Some r \<Rightarrow> (r, w) | None \<Rightarrow> (Inr c, w\<lparr>st_panicked := True\<rparr>))"

definition balancing :: "nat \<Rightarrow> balancer \<Rightarrow> balancer node_exec \<Rightarrow> site node_exec" where
  "balancing = owned st_balancers (\<lambda>x w. w\<lparr>st_balancers := x\<rparr>)"

definition limiting :: "nat \<Rightarrow> rl_state node_exec \<Rightarrow> site node_exec" where
  "limiting i ex = drawn (\<lambda>d. owned st_buckets (\<lambda>x w. w\<lparr>st_buckets := x\<rparr>) i \<lparr>rl_now = 0, rl_buckets = []\<rparr>
     (\<lambda>c s. ex c (s\<lparr>rl_now := dr_mono d\<rparr>)))"

definition splitting :: "nat \<Rightarrow> traffic_split \<Rightarrow> traffic_split node_exec \<Rightarrow> site node_exec" where
  "splitting = owned st_splits (\<lambda>x w. w\<lparr>st_splits := x\<rparr>)"

definition labelling ::
  "nat \<Rightarrow> traffic_label \<Rightarrow> (gcontext \<Rightarrow> traffic_label \<Rightarrow> (plugin_result \<times> traffic_label) option) \<Rightarrow> site node_exec" where
  "labelling i init ex c w =
     (case ex c (unwrap_or init (hm_get (st_labels w) i)) of
        Some (r, s) \<Rightarrow> (r, w\<lparr>st_labels := hm_insert i s (st_labels w)\<rparr>)
      | None \<Rightarrow> (Inr c, w\<lparr>st_panicked := True\<rparr>))"

definition queueing :: "nat \<Rightarrow> (nat \<Rightarrow> json sink node_exec) \<Rightarrow> site node_exec" where
  "queueing i ex = drawn (\<lambda>d. owned st_sinks (\<lambda>x w. w\<lparr>st_sinks := x\<rparr>) i (batch_spawn 0) (ex (dr_unix_ms d)))"

section \<open>Constructors\<close>

text \<open>
  What the constructors use: the crates, the hash of the balancer and of the samplers, the counter
  stores of the resources, the process id, the node types that are not modelled, and the number
  of the instance a constructor call makes.
\<close>

record runtime =
  rt_libs :: libs
  rt_body :: body_lib
  rt_schema :: schema_lib
  rt_token :: token_lib
  rt_float :: float_ops
  rt_http :: transport
  rt_uri :: uri_parser
  rt_hash :: "string \<Rightarrow> nat"
  rt_ratio :: "string \<Rightarrow> f64"
  rt_stores :: "site counter_incr hmap"
  rt_pid :: nat
  rt_other :: "string \<Rightarrow> config \<Rightarrow> string + site node_exec"
  rt_instance :: "string \<Rightarrow> config \<Rightarrow> nat"

type_synonym constructor = "runtime \<Rightarrow> nat \<Rightarrow> config \<Rightarrow> string + site node_exec"

definition built :: "('p \<Rightarrow> site node_exec) \<Rightarrow> string + 'p \<Rightarrow> string + site node_exec" where
  "built f r = res_bind r (\<lambda>p. Inr (f p))"

text \<open>A constructor that panics: nothing is installed, and there is no reply with a reason.\<close>

definition or_panic :: "(string + 'p) option \<Rightarrow> string + 'p" where
  "or_panic r = unwrap_or (Inl ''panicked'') r"

definition routing_nodes :: "(string \<times> constructor) list" where
  "routing_nodes =
     [(''listener'', \<lambda>R i c. Inr (pure_exec listener_exec)),
      (''client'', \<lambda>R i c. Inr (pure_exec client_exec)),
      (''error-handler'', \<lambda>R i c. built (\<lambda>p. pure_exec (error_handler_exec p)) (error_handler_from_config c)),
      (''upstream'', \<lambda>R i c. built (\<lambda>(p, b). balancing i b (upstream_exec (rt_http R) (rt_hash R) p))
         (upstream_from_config (rt_libs R) c)),
      (''workflow'', \<lambda>R i c. built (workflow_exec (rt_libs R))
         (or_panic (workflow_from_config (rt_libs R) (rt_stores R) i c))),
      (''traffic-label'', \<lambda>R i c. built (\<lambda>p. labelling i p (traffic_label_exec (rt_libs R)))
         (traffic_label_from_config (rt_libs R) c)),
      (''traffic-split'', \<lambda>R i c. built (\<lambda>p. splitting i p (traffic_split_exec (rt_libs R) (rt_http R)))
         (traffic_split_from_config (rt_libs R) c))]"

definition rewriting_nodes :: "(string \<times> constructor) list" where
  "rewriting_nodes =
     [(''proxy-rewrite'', \<lambda>R i c. built (\<lambda>p. pure_exec (proxy_rewrite_exec (rt_libs R) p))
         (proxy_rewrite_from_config (rt_libs R) c)),
      (''redirect'', \<lambda>R i c. built (\<lambda>p. pure_exec (redirect_exec (rt_libs R) p)) (redirect_from_config c)),
      (''cors'', \<lambda>R i c. built (\<lambda>p. pure_exec (cors_exec p)) (cors_from_config c)),
      (''request-id'', \<lambda>R i c. built (\<lambda>p. drawn (\<lambda>d. pure_exec (request_id_exec (dr_uuid d) p)))
         (request_id_from_config (rt_libs R) c)),
      (''real-ip'', \<lambda>R i c. built (\<lambda>p. pure_exec (real_ip_exec (rt_libs R) p)) (real_ip_from_config (rt_libs R) c)),
      (''error-page'', \<lambda>R i c. built (\<lambda>p. pure_exec (error_page_exec p)) (error_page_from_config c)),
      (''exit-transformer'', \<lambda>R i c. built (\<lambda>p. pure_exec (exit_transformer_exec (rt_libs R) p))
         (exit_transformer_from_config (rt_libs R) c)),
      (''echo'', \<lambda>R i c. built (\<lambda>p. pure_exec (echo_exec (rt_body R) p)) (echo_from_config (rt_libs R) c)),
      (''mocking'', \<lambda>R i c. built (\<lambda>p. pure_exec (mocking_exec (rt_libs R) p))
         (or_panic (mocking_from_config (rt_libs R) c))),
      (''fault-injection'', \<lambda>R i c. built (\<lambda>p. drawn (\<lambda>d. pure_exec (fault_injection_exec (rt_libs R) (dr_roll d) p)))
         (or_panic (fault_injection_from_config (rt_libs R) c))),
      (''response-rewrite'', \<lambda>R i c. built (\<lambda>p. pure_exec (response_rewrite_exec (rt_libs R) (rt_body R) p))
         (response_rewrite_from_config (rt_libs R) c)),
      (''gzip'', \<lambda>R i c. built (\<lambda>p. pure_exec (gzip_exec (rt_body R) p)) (gzip_from_config c)),
      (''brotli'', \<lambda>R i c. built (\<lambda>p. pure_exec (brotli_exec (rt_body R) p)) (brotli_from_config c))]"

definition validating_nodes :: "(string \<times> constructor) list" where
  "validating_nodes =
     [(''data-mask'', \<lambda>R i c. built (\<lambda>p. pure_exec (data_mask_exec (rt_libs R) (rt_body R) (rt_schema R) p))
         (data_mask_from_config (rt_libs R) c)),
      (''request-validation'', \<lambda>R i c. built (\<lambda>p. pure_exec (request_validation_exec (rt_libs R) (rt_schema R) p))
         (request_validation_from_config (rt_schema R) c)),
      (''body-transformer'', \<lambda>R i c. built (\<lambda>p. pure_exec (body_transformer_exec (rt_libs R) (rt_body R) (rt_schema R) p))
         (body_transformer_from_config c)),
      (''degraphql'', \<lambda>R i c. built (\<lambda>p. pure_exec (degraphql_exec (rt_libs R) (rt_schema R) p))
         (degraphql_from_config c)),
      (''oas-validator'', \<lambda>R i c. built (\<lambda>p. pure_exec (oas_validator_exec (rt_libs R) (rt_schema R) p))
         (oas_validator_from_config (rt_libs R) (rt_schema R) c)),
      (''request-size-limit'', \<lambda>R i c. built (\<lambda>p. pure_exec (request_size_limit_exec p))
         (request_size_limit_from_config c))]"

definition traffic_nodes :: "(string \<times> constructor) list" where
  "traffic_nodes =
     [(''rate-limit'', \<lambda>R i c. built (\<lambda>p. limiting i (rate_limit_exec (rt_float R) p)) (rate_limit_from_config c)),
      (''limit-conn'', \<lambda>R i c. built (limit_conn_exec (rt_libs R)) (limit_conn_from_config c)),
      (''api-breaker'', \<lambda>R i c. built api_breaker_exec (api_breaker_from_config c)),
      (''proxy-cache'', \<lambda>R i c. built (proxy_cache_exec (rt_libs R)) (proxy_cache_from_config (rt_libs R) c)),
      (''limit-count'', \<lambda>R i c. built (limit_count_exec (rt_libs R)) (limit_count_from_config (rt_stores R) c)),
      (''proxy-mirror'', \<lambda>R i c. built (\<lambda>p. drawn (\<lambda>d. sending (proxy_mirror_exec (rt_libs R) (rt_http R) (dr_frac d) p)))
         (proxy_mirror_from_config (rt_libs R) c))]"

definition access_nodes :: "(string \<times> constructor) list" where
  "access_nodes =
     [(''ip-restriction'', \<lambda>R i c. built (\<lambda>p. pure_exec (ip_restriction_exec p)) (ip_restriction_from_config c)),
      (''consumer-restriction'', \<lambda>R i c. built (\<lambda>p. pure_exec (consumer_restriction_exec (rt_libs R) p))
         (consumer_restriction_from_config (rt_libs R) c)),
      (''acl'', \<lambda>R i c. built (\<lambda>p. pure_exec (acl_exec (rt_libs R) p)) (acl_from_config c)),
      (''ua-restriction'', \<lambda>R i c. built (\<lambda>p. pure_exec (ua_restriction_exec (rt_libs R) p))
         (ua_restriction_from_config (rt_libs R) c)),
      (''referer-restriction'', \<lambda>R i c. built (\<lambda>p. pure_exec (referer_restriction_exec (rt_libs R) p))
         (referer_restriction_from_config c)),
      (''uri-blocker'', \<lambda>R i c. built (\<lambda>p. pure_exec (uri_blocker_exec (rt_libs R) p))
         (uri_blocker_from_config (rt_libs R) c))]"

definition auth_nodes :: "(string \<times> constructor) list" where
  "auth_nodes =
     [(''attach-consumer-label'', \<lambda>R i c. built (\<lambda>p. pure_exec (attach_consumer_label_exec (rt_libs R) p))
         (attach_consumer_label_from_config c)),
      (''csrf'', \<lambda>R i c. built (\<lambda>p. drawn (\<lambda>d. unless_panic (csrf_exec (rt_libs R) (rt_token R) (dr_bytes16 d)
           (dr_unix_ms d div 1000) (dr_later_ms d div 1000) p)))
         (csrf_from_config (rt_libs R) c)),
      (''key-auth'', \<lambda>R i c. built (\<lambda>p. reads_store (key_auth_exec p)) (key_auth_from_config (rt_libs R) c)),
      (''basic-auth'', \<lambda>R i c. built (\<lambda>p. reads_store (basic_auth_exec (rt_libs R) p)) (basic_auth_from_config c)),
      (''jwt-auth'', \<lambda>R i c. built (\<lambda>p. reads_store (jwt_auth_exec (rt_token R) p)) (jwt_auth_from_config (rt_libs R) c)),
      (''hmac-auth'', \<lambda>R i c. built (\<lambda>p. drawn (\<lambda>d. reads_store (hmac_auth_exec (rt_libs R) (rt_token R)
           (dr_unix_ms d div 1000) p)))
         (hmac_auth_from_config (rt_libs R) c)),
      (''jwe-decrypt'', \<lambda>R i c. built (\<lambda>p. reads_store (jwe_decrypt_exec (rt_token R) p))
         (jwe_decrypt_from_config (rt_libs R) (rt_token R) c))]"

text \<open>A logger queues the entry for its batch task, whatever the task then does with it.\<close>

definition logging_node_of :: "runtime \<Rightarrow> nat \<Rightarrow> logger \<times> batch_config \<Rightarrow> site node_exec" where
  "logging_node_of R i lb = queueing i (\<lambda>now. logger_exec (rt_libs R) now (snd lb) (fst lb))"

definition logging_nodes :: "(string \<times> constructor) list" where
  "logging_nodes =
     [(''logging'', \<lambda>R i c. built (\<lambda>p. writing (logging_exec (rt_libs R) p)) (logging_from_config c)),
      (''http-logger'', \<lambda>R i c. built (\<lambda>(_, lb). logging_node_of R i lb)
         (http_logger_from_config (rt_libs R) (rt_http R) c)),
      (''loki-logger'', \<lambda>R i c. built (\<lambda>(_, lb). logging_node_of R i lb) (loki_from_config (rt_libs R) c)),
      (''splunk-hec-logging'', \<lambda>R i c. built (\<lambda>(_, lb). logging_node_of R i lb) (splunk_from_config (rt_libs R) c)),
      (''loggly'', \<lambda>R i c. built (\<lambda>(_, lb). logging_node_of R i lb) (loggly_from_config (rt_libs R) c)),
      (''clickhouse-logger'', \<lambda>R i c. built (\<lambda>(_, lb). logging_node_of R i lb) (clickhouse_from_config (rt_libs R) c)),
      (''elasticsearch-logger'', \<lambda>R i c. built (\<lambda>(_, lb). logging_node_of R i lb)
         (elasticsearch_from_config (rt_libs R) c)),
      (''tcp-logger'', \<lambda>R i c. built (\<lambda>(_, lb). logging_node_of R i lb) (tcp_logger_from_config (rt_libs R) c)),
      (''udp-logger'', \<lambda>R i c. built (\<lambda>(_, lb). logging_node_of R i lb) (udp_logger_from_config (rt_libs R) c)),
      (''file-logger'', \<lambda>R i c. built (\<lambda>(_, lb). logging_node_of R i lb) (file_logger_from_config (rt_libs R) c)),
      (''datadog'', \<lambda>R i c. built (\<lambda>(_, b). queueing i (\<lambda>now. datadog_exec (rt_libs R) now b))
         (datadog_from_config (rt_libs R) c)),
      (''error-log-logger'', \<lambda>R i c. built (\<lambda>(_, fmt, b). queueing i (\<lambda>now. error_log_logger_exec (rt_libs R) now b fmt))
         (error_log_logger_from_config (rt_libs R) c)),
      (''syslog'', \<lambda>R i c. built (\<lambda>(_, _, p, b). drawn (\<lambda>d. queueing i (\<lambda>now. syslog_exec (rt_libs R) now
           (dr_later_ms d div 1000) (dr_later_ms d mod 1000) (rt_pid R) b p)))
         (syslog_from_config (rt_libs R) c))]"

definition tracing_nodes :: "(string \<times> constructor) list" where
  "tracing_nodes =
     [(''opentelemetry'', \<lambda>R i c. built (\<lambda>p. drawn (\<lambda>d. sending (opentelemetry_exec (rt_libs R) (rt_ratio R)
           (dr_bytes16 d) (dr_bytes8 d) (dr_unix_ms d) p)))
         (opentelemetry_from_config (rt_libs R) c)),
      (''zipkin'', \<lambda>R i c. built (\<lambda>p. drawn (\<lambda>d. sending (zipkin_exec (rt_libs R) (rt_ratio R)
           (dr_bytes16 d) (dr_bytes8 d) (dr_unix_ms d) p)))
         (zipkin_from_config (rt_libs R) c)),
      (''skywalking'', \<lambda>R i c. built (\<lambda>p. drawn (\<lambda>d. sending (skywalking_exec (rt_libs R) (dr_frac d)
           (dr_bytes16 d) (dr_bytes8 d) (dr_unix_ms d) p)))
         (skywalking_from_config (rt_libs R) c))]"

definition callout_nodes :: "(string \<times> constructor) list" where
  "callout_nodes =
     [(''forward-auth'', \<lambda>R i c. built (\<lambda>p. pure_exec (forward_auth_exec (rt_libs R) (rt_http R) p))
         (forward_auth_from_config (rt_libs R) c)),
      (''opa'', \<lambda>R i c. built (\<lambda>p. drawn (\<lambda>d. pure_exec (opa_exec (rt_libs R) (rt_schema R) (rt_http R)
           (dr_unix_ms d div 1000) p)))
         (opa_from_config (rt_libs R) c)),
      (''azure-functions'', \<lambda>R i c. built (\<lambda>p. pure_exec (azure_functions_exec (rt_uri R) (rt_http R) p))
         (azure_functions_from_config c)),
      (''openfunction'', \<lambda>R i c. built (\<lambda>p. pure_exec (openfunction_exec (rt_uri R) (rt_http R) p))
         (openfunction_from_config (rt_libs R) c)),
      (''openwhisk'', \<lambda>R i c. built (\<lambda>p. pure_exec (openwhisk_exec (rt_libs R) (rt_schema R) (rt_http R) p))
         (openwhisk_from_config (rt_libs R) c))]"

definition node_table :: "(string \<times> constructor) list" where
  "node_table = routing_nodes @ rewriting_nodes @ validating_nodes @ traffic_nodes @ access_nodes @
     auth_nodes @ logging_nodes @ tracing_nodes @ callout_nodes"

definition other_nodes :: "string list" where
  "other_nodes =
     [''aws-lambda'', ''prometheus'', ''ldap-auth'', ''wolf-rbac'', ''cas-auth'', ''authz-casbin'', ''authz-keycloak'',
      ''authz-casdoor'', ''openid-connect'', ''dingtalk-auth'', ''feishu-auth'', ''google-cloud-logging'',
      ''skywalking-logger'', ''sls-logger'', ''tencent-cloud-cls'', ''lago'', ''serverless-pre-function'',
      ''serverless-post-function'', ''script'']"

definition node_types :: "string list" where
  "node_types = ''multi-auth'' # map fst node_table @ other_nodes"

text \<open>The sub-plugins a multi-auth configuration asks for: a type and its configuration.\<close>

definition asks_for :: "config \<Rightarrow> string \<Rightarrow> config \<Rightarrow> bool" where
  "asks_for c t inner \<longleftrightarrow>
     (\<exists>es e v. cfg_array c ''auth_plugins'' = Some es \<and> e \<in> set es \<and> as_object e = Some [(t, v)] \<and>
        inner = unwrap_or [] (as_object v))"

lemma multi_auth_entry_cong:
  assumes "\<And>t v. as_object (snd ie) = Some [(t, v)] \<Longrightarrow>
    create t (unwrap_or [] (as_object v)) = create' t (unwrap_or [] (as_object v))"
  shows "multi_auth_entry create ie = multi_auth_entry create' ie"
  using assms by (auto simp: multi_auth_entry_def split: option.splits list.splits)

lemma traverse_cong: "(\<And>x. x \<in> set xs \<Longrightarrow> f x = g x) \<Longrightarrow> traverse f xs = traverse g xs"
  by (induction xs) (auto split: sum.splits)

lemma multi_auth_from_config_cong [fundef_cong]:
  assumes "c = c'" and "\<And>t inner. asks_for c' t inner \<Longrightarrow> create t inner = create' t inner"
  shows "multi_auth_from_config create c = multi_auth_from_config create' c'"
proof -
  have "traverse (multi_auth_entry create) (List.enumerate 0 es) =
      traverse (multi_auth_entry create') (List.enumerate 0 es)"
    if "cfg_array c' ''auth_plugins'' = Some es" for es
    by (rule traverse_cong, rule multi_auth_entry_cong, rule assms(2))
      (use that in \<open>force simp: asks_for_def in_set_enumerate_eq\<close>)
  then show ?thesis
    by (cases "cfg_array c' ''auth_plugins''") (simp_all add: multi_auth_from_config_def assms(1) ok_or_def)
qed

lemma size_in_object: "(k, v) \<in> set m \<Longrightarrow> size v < size (JObj m)"
  by (induction m) auto

lemma asks_for_smaller: "asks_for c t inner \<Longrightarrow> size (JObj inner) < size (JObj c)"
proof -
  assume "asks_for c t inner"
  then obtain es e v where h: "cfg_array c ''auth_plugins'' = Some es" "e \<in> set es" "as_object e = Some [(t, v)]"
      "inner = unwrap_or [] (as_object v)"
    by (auto simp: asks_for_def)
  have "hm_get c ''auth_plugins'' = Some (JArr es)"
    using h(1) by (auto simp: cfg_array_def bind_eq_Some_conv elim!: as_array.elims)
  then have "size (JArr es) < size (JObj c)" by (rule size_in_object [OF hm_get_mem])
  moreover have "size e < size (JArr es)" using size_list_estimation' [OF h(2), of "size e" size] by simp
  moreover have "size v < size e" using h(3) by (auto elim!: as_object.elims)
  moreover have "size (JObj inner) \<le> Suc (size v)" by (cases v) (auto simp: h(4))
  ultimately show ?thesis by linarith
qed

function create_plugin :: "runtime \<Rightarrow> string \<Rightarrow> config \<Rightarrow> string + site plugin" where
  "create_plugin R t c =
     res_bind (if t = ''multi-auth'' then built multi_auth_exec (multi_auth_from_config (create_plugin R) c)
               else case hm_get node_table t of
                      Some f \<Rightarrow> f R (rt_instance R t c) c
                    | None \<Rightarrow> if t \<in> set other_nodes then rt_other R t c
                              else Inl (''Unknown plugin type: '' @ t))
       (\<lambda>ex. Inr \<lparr>pl_type = t, pl_exec = ex\<rparr>)"
  by pat_completeness auto
termination
  by (relation "measure (\<lambda>(R, t, c). size (JObj c))") (auto dest: asks_for_smaller)

declare create_plugin.simps [simp del]

section \<open>Every node keeps the contract\<close>

definition honoured :: "string + site node_exec \<Rightarrow> bool" where
  "honoured r \<longleftrightarrow> (\<forall>ex. r = Inr ex \<longrightarrow> plugin_contract ex)"

lemma honoured_Inl [simp]: "honoured (Inl e)"
  by (simp add: honoured_def)

lemma honoured_built: "(\<And>p. plugin_contract (f p)) \<Longrightarrow> honoured (built f r)"
  by (cases r) (simp_all add: honoured_def built_def)

lemma contract_owned:
  assumes "plugin_contract ex"
  shows "plugin_contract (owned get put i init ex)"
proof
  show "cx_errors (result_ctx (fst (owned get put i init ex c w))) = cx_errors c" for c w
    using plugin_contract.keeps_errors [OF assms, of c "unwrap_or init (hm_get (get w) i)"]
    by (cases "ex c (unwrap_or init (hm_get (get w) i))") (simp add: owned_def)
qed

lemma contract_drawn: "(\<And>d. plugin_contract (f d)) \<Longrightarrow> plugin_contract (drawn f)"
  unfolding plugin_contract_def drawn_def by blast

lemma contract_sending:
  assumes "plugin_contract ex"
  shows "plugin_contract (sending ex)"
proof
  show "cx_errors (result_ctx (fst (sending ex c w))) = cx_errors c" for c w
    using plugin_contract.keeps_errors [OF assms, of c "st_sent w"] by (cases "ex c (st_sent w)") (simp add: sending_def)
qed

lemma contract_writing:
  assumes "plugin_contract ex"
  shows "plugin_contract (writing ex)"
proof
  show "cx_errors (result_ctx (fst (writing ex c w))) = cx_errors c" for c w
    using plugin_contract.keeps_errors [OF assms, of c "st_out w"] by (cases "ex c (st_out w)") (simp add: writing_def)
qed

lemma contract_clock: "plugin_contract ex \<Longrightarrow> plugin_contract (\<lambda>c s. ex c (f s))"
  unfolding plugin_contract_def by blast

lemma contract_limiting: "plugin_contract ex \<Longrightarrow> plugin_contract (limiting i ex)"
  unfolding limiting_def by (rule contract_drawn, rule contract_owned, rule contract_clock)

lemma contract_queueing: "(\<And>now. plugin_contract (ex now)) \<Longrightarrow> plugin_contract (queueing i ex)"
  unfolding queueing_def by (intro contract_drawn contract_owned)

lemma contract_unless_panic:
  "(\<And>c r. f c = Some r \<Longrightarrow> cx_errors (result_ctx r) = cx_errors c) \<Longrightarrow> plugin_contract (unless_panic f)"
  by (simp add: plugin_contract_def unless_panic_def split: option.splits)

lemma contract_labelling:
  "(\<And>c s r s'. ex c s = Some (r, s') \<Longrightarrow> cx_errors (result_ctx r) = cx_errors c) \<Longrightarrow>
     plugin_contract (labelling i init ex)"
  by (auto simp: plugin_contract_def labelling_def split: option.splits)

lemma apply_action_errors: "cx_errors (apply_action L a c) = cx_errors c"
  unfolding apply_action_def Let_def
  by (subst fold_errors, simp add: split_beta, subst fold_errors, auto simp: set_rq_header_def)

lemma traffic_label_errors:
  "traffic_label_exec L c rs = Some (r, rs') \<Longrightarrow> cx_errors (result_ctx r) = cx_errors c"
proof (induction L c rs arbitrary: r rs' rule: traffic_label_exec.induct)
  case (2 L c x xs)
  show ?case using 2 by (auto simp: apply_action_errors split: if_splits option.splits)
qed simp

lemma csrf_errors:
  "csrf_exec L T rng t1 t2 p c = Some r \<Longrightarrow> cx_errors (result_ctx r) = cx_errors c"
  by (auto simp: csrf_exec_def Let_def csrf_reject_def reject_json_def set_cookie_def
      split: if_splits option.splits bool.splits)

lemma multi_auth_keeps:
  assumes "\<forall>p \<in> set ps. plugin_contract (pl_exec p)"
  shows "cx_errors (result_ctx (fst (multi_auth_try ps rsp c w))) = cx_errors c"
  using assms
proof (induction ps arbitrary: c w)
  case Nil
  then show ?case by (simp add: multi_auth_reject_def reject_json_def)
next
  case (Cons p ps)
  then have "plugin_contract (pl_exec p)" by simp
  from plugin_contract.keeps_errors [OF this, of c w] show ?case
    using Cons by (auto split: prod.splits sum.splits)
qed

lemma honoured_Inr: "plugin_contract ex \<Longrightarrow> honoured (Inr ex)"
  by (simp add: honoured_def)

lemma contract_pairs:
  "(\<And>a b. plugin_contract (f a b)) \<Longrightarrow> plugin_contract (case x of (a, b) \<Rightarrow> f a b)"
  by (cases x) simp

definition sound :: "(string \<times> constructor) list \<Rightarrow> bool" where
  "sound tab \<longleftrightarrow> (\<forall>(t, f) \<in> set tab. \<forall>R i c. honoured (f R i c))"

lemma sound_Nil: "sound []"
  by (simp add: sound_def)

lemma sound_Cons: "(\<And>R i c. honoured (f R i c)) \<Longrightarrow> sound tab \<Longrightarrow> sound ((t, f) # tab)"
  by (simp add: sound_def)

lemmas sound_rules = sound_Cons sound_Nil honoured_built honoured_Inr

lemmas routing_contracts =
  listener_node.plugin_contract_axioms client_node.plugin_contract_axioms error_handler_node.plugin_contract_axioms
  workflow_node.plugin_contract_axioms contract_owned [OF upstream_node.plugin_contract_axioms]
  contract_owned [OF traffic_split_node.plugin_contract_axioms]

lemma routing_sound: "sound routing_nodes"
  unfolding routing_nodes_def split_beta balancing_def splitting_def
  by (intro sound_rules routing_contracts contract_labelling) (erule traffic_label_errors)

lemmas rewriting_contracts =
  proxy_rewrite_node.plugin_contract_axioms redirect_node.plugin_contract_axioms cors_node.plugin_contract_axioms
  request_id_node.plugin_contract_axioms real_ip_node.plugin_contract_axioms error_page_node.plugin_contract_axioms
  exit_transformer_node.plugin_contract_axioms echo_node.plugin_contract_axioms mocking_node.plugin_contract_axioms
  fault_injection_node.plugin_contract_axioms response_rewrite_node.plugin_contract_axioms
  gzip_node.plugin_contract_axioms brotli_node.plugin_contract_axioms

lemma rewriting_sound: "sound rewriting_nodes"
  unfolding rewriting_nodes_def
  by (intro sound_rules rewriting_contracts contract_drawn)

lemmas validating_contracts =
  data_mask_node.plugin_contract_axioms request_validation_node.plugin_contract_axioms
  body_transformer_node.plugin_contract_axioms degraphql_node.plugin_contract_axioms
  oas_validator_node.plugin_contract_axioms request_size_limit_node.plugin_contract_axioms

lemma validating_sound: "sound validating_nodes"
  unfolding validating_nodes_def by (intro sound_rules validating_contracts)

lemmas traffic_contracts =
  contract_limiting [OF rate_limit_node.plugin_contract_axioms] limit_conn_node.plugin_contract_axioms
  api_breaker_node.plugin_contract_axioms proxy_cache_node.plugin_contract_axioms
  limit_count_node.plugin_contract_axioms contract_sending [OF proxy_mirror_node.plugin_contract_axioms]

lemma traffic_sound: "sound traffic_nodes"
  unfolding traffic_nodes_def by (intro sound_rules traffic_contracts contract_drawn)

lemmas access_contracts =
  ip_restriction_node.plugin_contract_axioms consumer_restriction_node.plugin_contract_axioms
  acl_node.plugin_contract_axioms ua_restriction_node.plugin_contract_axioms
  referer_restriction_node.plugin_contract_axioms uri_blocker_node.plugin_contract_axioms

lemma access_sound: "sound access_nodes"
  unfolding access_nodes_def by (intro sound_rules access_contracts)

lemmas auth_contracts =
  attach_consumer_label_node.plugin_contract_axioms key_auth_node.plugin_contract_axioms
  basic_auth_node.plugin_contract_axioms jwt_auth_node.plugin_contract_axioms
  hmac_auth_node.plugin_contract_axioms jwe_decrypt_node.plugin_contract_axioms

lemma auth_sound: "sound auth_nodes"
  unfolding auth_nodes_def
  by (intro sound_rules auth_contracts contract_drawn contract_unless_panic) (erule csrf_errors)

lemmas logging_contracts =
  logger_node.plugin_contract_axioms datadog_node.plugin_contract_axioms
  error_log_logger_node.plugin_contract_axioms syslog_node.plugin_contract_axioms
  contract_writing [OF logging_node.plugin_contract_axioms]

lemma logging_sound: "sound logging_nodes"
  unfolding logging_nodes_def split_beta logging_node_of_def
  by (intro sound_rules logging_contracts contract_queueing contract_drawn)

lemmas tracing_contracts =
  contract_sending [OF opentelemetry_node.plugin_contract_axioms]
  contract_sending [OF zipkin_node.plugin_contract_axioms]
  contract_sending [OF skywalking_node.plugin_contract_axioms]

lemma tracing_sound: "sound tracing_nodes"
  unfolding tracing_nodes_def by (intro sound_rules tracing_contracts contract_drawn)

lemmas callout_contracts =
  forward_auth_node.plugin_contract_axioms opa_node.plugin_contract_axioms
  azure_functions_node.plugin_contract_axioms openfunction_node.plugin_contract_axioms
  openwhisk_node.plugin_contract_axioms

lemma callout_sound: "sound callout_nodes"
  unfolding callout_nodes_def by (intro sound_rules callout_contracts contract_drawn)

lemma table_sound: "hm_get node_table t = Some f \<Longrightarrow> honoured (f R i c)"
  using routing_sound rewriting_sound validating_sound traffic_sound access_sound auth_sound logging_sound
    tracing_sound callout_sound hm_get_mem [of node_table t f]
  by (force simp: sound_def node_table_def)

lemma contract_multi_auth:
  "\<forall>p \<in> set ps. plugin_contract (pl_exec p) \<Longrightarrow> plugin_contract (multi_auth_exec ps)"
  by (rule plugin_contract.intro) (simp add: multi_auth_exec_def multi_auth_keeps)

lemma multi_auth_sub_created:
  assumes "multi_auth_from_config create c = Inr ps" "p \<in> set ps"
  shows "\<exists>t inner. asks_for c t inner \<and> create t inner = Inr p"
proof -
  obtain es where es: "cfg_array c ''auth_plugins'' = Some es"
      "traverse (multi_auth_entry create) (List.enumerate 0 es) = Inr ps"
    using assms(1) by (auto simp: multi_auth_from_config_def res_bind_eq_Inr ok_or_eq_Inr split: if_splits)
  from traverse_mem [OF es(2) assms(2)] obtain ie where
    ie: "ie \<in> set (List.enumerate 0 es)" "multi_auth_entry create ie = Inr p" by blast
  then have "fst ie < length es \<and> es ! fst ie = snd ie" by (simp add: in_set_enumerate_eq)
  then have "snd ie \<in> set es" using nth_mem by metis
  then show ?thesis using ie(2) es(1)
    by (auto simp: multi_auth_entry_def asks_for_def split: option.splits list.splits sum.splits) blast
qed

lemma created_contract:
  assumes other: "\<forall>t \<in> set other_nodes. \<forall>c. honoured (rt_other R t c)"
  shows "create_plugin R t c = Inr p \<Longrightarrow> plugin_contract (pl_exec p)"
  using other
proof (induction R t c arbitrary: p rule: create_plugin.induct)
  case (1 R t c)
  show ?case
  proof (cases "t = ''multi-auth''")
    case True
    then obtain ps where ps: "multi_auth_from_config (create_plugin R) c = Inr ps"
        "pl_exec p = multi_auth_exec ps"
      using 1(2) by (fastforce simp: create_plugin.simps [of R "''multi-auth''" c] built_def res_bind_eq_Inr)
    have "plugin_contract (pl_exec q)" if "q \<in> set ps" for q
      using multi_auth_sub_created [OF ps(1) that] 1(1) [OF True _ _ 1(3)] by blast
    then show ?thesis using ps(2) by (simp add: contract_multi_auth)
  next
    case False
    then show ?thesis
      using 1(2) table_sound [of t _ R "rt_instance R t c" c] 1(3)
      by (auto simp: create_plugin.simps [of R t c] res_bind_eq_Inr honoured_def split: option.splits if_splits)
  qed
qed

lemma created_type: "create_plugin R t c = Inr p \<Longrightarrow> pl_type p = t \<and> t \<in> set node_types"
  using hm_get_mem [of node_table t]
  by (force simp: create_plugin.simps [of R t c] res_bind_eq_Inr node_types_def split: option.splits if_splits)


definition demo_runtime :: runtime where
  "demo_runtime =
     \<lparr>rt_libs = plain_libs, rt_body = demo_codec, rt_schema = demo_schemas, rt_token = demo_token_lib,
      rt_float = demo_floats, rt_http = demo_transport, rt_uri = (\<lambda>_. Inl ''no URI''), rt_hash = (\<lambda>_. 0), rt_ratio = (\<lambda>_. 0),
      rt_stores = [], rt_pid = 1, rt_other = (\<lambda>_ _. Inl ''not available''), rt_instance = (\<lambda>_ _. 0)\<rparr>"

definition multi_config :: config where
  "multi_config = [(''auth_plugins'', JArr [JObj [(''cors'', JNull)], JObj [(''listener'', JObj [])]])]"

lemma demo_table:
  "hm_get node_table ''listener'' = Some (\<lambda>R i c. Inr (pure_exec listener_exec))"
  "hm_get node_table ''client'' = Some (\<lambda>R i c. Inr (pure_exec client_exec))"
  "hm_get node_table ''cors'' = Some (\<lambda>R i c. built (\<lambda>p. pure_exec (cors_exec p)) (cors_from_config c))"
  by (simp_all add: node_table_def routing_nodes_def rewriting_nodes_def)

lemma demo_multi: "\<exists>p. create_plugin demo_runtime ''multi-auth'' multi_config = Inr p"
  by (simp add: create_plugin.simps demo_table multi_config_def multi_auth_from_config_def cfg_array_def ok_or_def
      multi_auth_entry_def built_def cors_from_config_def unwrap_or_def)


lemma compiled_node_created:
  assumes "compile_policy create env m p = Inr g" "hm_get (cg_nodes g) i = Some q"
  shows "\<exists>t c. create t c = Inr q"
proof -
  obtain nodes lst terms where n: "fold_res (add_node create env) (pc_nodes p) ([], None, []) = Inr (nodes, lst, terms)"
    and g: "cg_nodes g = nodes"
    using assms(1) by (auto simp: compile_policy_def res_bind_eq_Inr ok_or_eq_Inr)
  have "(\<lambda>(ns, l, ts). \<forall>i q. hm_get ns i = Some q \<longrightarrow> (\<exists>t c. create t c = Inr q)) (nodes, lst, terms)"
    by (rule fold_res_invariant [OF n]) (fastforce simp: add_node_def res_bind_eq_Inr split: if_splits)+
  then show ?thesis using assms(2) g by auto
qed

text \<open>
  In a policy compiled with the registry, a walk never loses an error: the errors of its final
  context are the initial ones followed by one per failed node, each tagged with the id of a node of
  the policy, and with metrics on the error counter was incremented once for each, in order.
\<close>

theorem gateway_walk_keeps_errors:
  assumes "\<forall>t \<in> set other_nodes. \<forall>c. honoured (rt_other R t c)"
    and "compile_policy (create_plugin R) env m p = Inr g" and "execute L g el c w = Some t"
  shows "\<exists>new. cx_errors (ru_ctx t) = cx_errors c @ new \<and>
    (\<forall>e \<in> set new. err_node_id e \<in> set (node_ids p)) \<and>
    (m \<longrightarrow> filter is_errored (ru_metrics t) = map (\<lambda>e. NodeErrored (pc_name p) (err_node_id e) (err_code e)) new)"
proof -
  have "plugin_contract (pl_exec q)" if "hm_get (cg_nodes g) i = Some q" for i q
    using compiled_node_created [OF assms(2) that] created_contract [OF assms(1)] by blast
  from run_errors_since [OF this assms(3)] show ?thesis
    using compile_policy_parts(1) [OF assms(2)] compile_policy_parts(6,7) [OF assms(2)]
    by (fastforce simp: errors_since_def)
qed

definition demo_site :: site where
  "demo_site =
     \<lparr>wd_now = 0, wd_conn = [], wd_breakers = [], wd_cache = [], wd_windows = [], gw_consumers = empty_store,
      st_draws = (\<lambda>_. \<lparr>dr_mono = 0, dr_unix_ms = 0, dr_later_ms = 0, dr_uuid = [], dr_bytes16 = [], dr_bytes8 = [],
        dr_roll = 0, dr_frac = 0\<rparr>), st_step = 0, st_panicked = False, st_sent = [], st_out = [],
      st_balancers = [], st_buckets = [], st_splits = [], st_labels = [], st_sinks = []\<rparr>"

theorem gateway_walk_keeps_errors_witness:
  "\<exists>g t new. compile_policy (create_plugin demo_runtime) Map.empty True demo_policy = Inr g \<and>
     execute plain_libs g id (new_context demo_request) demo_site = Some t \<and> cx_errors (ru_ctx t) = [] @ new"
proof -
  let ?g = "\<lparr>cg_nodes = [(''l'', \<lparr>pl_type = ''listener'', pl_exec = pure_exec listener_exec\<rparr>),
      (''c'', \<lparr>pl_type = ''client'', pl_exec = pure_exec client_exec\<rparr>)],
    cg_success_edges = [(''l'', ''c'')], cg_error_edges = [], cg_entry_node_id = ''c'',
    cg_terminal_node_ids = [''c''], cg_catch_all_handler = None, cg_policy_name = ''p'', cg_metrics = True\<rparr>"
  have g: "compile_policy (create_plugin demo_runtime) Map.empty True demo_policy = Inr ?g"
    by (simp add: compile_policy_def demo_policy_def create_plugin.simps demo_table add_node_def
      add_edge_def parse_edge_demo hm_insert_def unwrap_or_def ok_or_def)
  obtain t where t: "execute plain_libs ?g id (new_context demo_request) demo_site = Some t"
    by (simp add: execute_def run.simps step_def start_state_def pure_exec_def success_next_def client_exec_def)
  have "\<exists>new. cx_errors (ru_ctx t) = cx_errors (new_context demo_request) @ new"
    using gateway_walk_keeps_errors [OF _ g t] by (auto simp: demo_runtime_def)
  then show ?thesis using g t by (auto simp: new_context_def)
qed

end
