(* ===== verification/Admin.thy ===== *)
theory Admin
  imports Gateway_State Utf8
begin

text \<open>
  The admin API (src/src/admin/): the handlers over routes, policies and consumers, the status
  endpoints and the authentication of the API. A handler reads the configuration, derives a
  candidate and commits it through the configuration store; \<open>commit_contract\<close> is what the handlers
  rely on. The state \<open>'x\<close> is whatever the store works on, \<open>view\<close> gives the shared state in it.
\<close>

section \<open>Replies\<close>

record reply =
  re_status :: nat
  re_body :: json

definition status_reply :: "nat \<Rightarrow> string \<Rightarrow> reply" where
  "status_reply code word = \<lparr>re_status = code, re_body = JObj [(''status'', JStr word)]\<rparr>"

definition error_reply :: "nat \<Rightarrow> string \<Rightarrow> reply" where
  "error_reply code msg = \<lparr>re_status = code, re_body = JObj [(''error'', JStr msg)]\<rparr>"

definition not_found :: reply where
  "not_found = error_reply 404 ''not_found''"

section \<open>Edits of the configuration\<close>

text \<open>\<open>iter_mut().find(p)\<close> followed by an assignment.\<close>

fun replace_first :: "('a \<Rightarrow> bool) \<Rightarrow> 'a \<Rightarrow> 'a list \<Rightarrow> 'a list option" where
  "replace_first p y [] = None"
| "replace_first p y (x # xs) =
     (if p x then Some (y # xs) else map_option (Cons x) (replace_first p y xs))"

definition create_route_edit :: "route_config \<Rightarrow> gateway_config \<Rightarrow> gateway_config option" where
  "create_route_edit r gw =
     (if list_ex (\<lambda>x. rc_name x = rc_name r) (gw_routes gw) then None
      else Some (gw\<lparr>gw_routes := gw_routes gw @ [r]\<rparr>))"

definition update_route_edit :: "string \<Rightarrow> route_config \<Rightarrow> gateway_config \<Rightarrow> gateway_config option" where
  "update_route_edit name r gw =
     map_option (\<lambda>rs. gw\<lparr>gw_routes := rs\<rparr>)
       (replace_first (\<lambda>x. rc_name x = name) (r\<lparr>rc_name := name\<rparr>) (gw_routes gw))"

definition delete_route_edit :: "string \<Rightarrow> gateway_config \<Rightarrow> gateway_config option" where
  "delete_route_edit name gw =
     (let rs = filter (\<lambda>x. rc_name x \<noteq> name) (gw_routes gw) in
      if length rs = length (gw_routes gw) then None else Some (gw\<lparr>gw_routes := rs\<rparr>))"

definition update_policy_edit :: "string \<Rightarrow> policy_config \<Rightarrow> gateway_config \<Rightarrow> gateway_config option" where
  "update_policy_edit name p gw =
     (let p' = p\<lparr>pc_name := name\<rparr> in
      case replace_first (\<lambda>x. pc_name x = name) p' (gw_policies gw) of
        Some ps \<Rightarrow> Some (gw\<lparr>gw_policies := ps\<rparr>)
      | None \<Rightarrow> Some (gw\<lparr>gw_policies := gw_policies gw @ [p']\<rparr>))"

definition delete_policy_edit :: "string \<Rightarrow> gateway_config \<Rightarrow> gateway_config option" where
  "delete_policy_edit name gw =
     (let ps = filter (\<lambda>x. pc_name x \<noteq> name) (gw_policies gw) in
      if length ps = length (gw_policies gw) then None else Some (gw\<lparr>gw_policies := ps\<rparr>))"

definition create_consumer_edit :: "consumer_config \<Rightarrow> gateway_config \<Rightarrow> gateway_config option" where
  "create_consumer_edit c gw =
     (if list_ex (\<lambda>x. cn_name x = cn_name c) (gw_consumer_list gw) then None
      else Some (gw\<lparr>gw_consumer_list := gw_consumer_list gw @ [c]\<rparr>))"

definition upsert_consumer_edit :: "string \<Rightarrow> consumer_config \<Rightarrow> gateway_config \<Rightarrow> gateway_config option" where
  "upsert_consumer_edit name c gw =
     (let c' = c\<lparr>cn_name := name\<rparr> in
      case replace_first (\<lambda>x. cn_name x = name) c' (gw_consumer_list gw) of
        Some cs \<Rightarrow> Some (gw\<lparr>gw_consumer_list := cs\<rparr>)
      | None \<Rightarrow> Some (gw\<lparr>gw_consumer_list := gw_consumer_list gw @ [c']\<rparr>))"

definition delete_consumer_edit :: "string \<Rightarrow> gateway_config \<Rightarrow> gateway_config option" where
  "delete_consumer_edit name gw =
     (let cs = filter (\<lambda>x. cn_name x \<noteq> name) (gw_consumer_list gw) in
      if length cs = length (gw_consumer_list gw) then None else Some (gw\<lparr>gw_consumer_list := cs\<rparr>))"

section \<open>Handlers\<close>

type_synonym 'x commit = "'x \<Rightarrow> gateway_config \<Rightarrow> (string + unit) \<times> 'x"

text \<open>The shape all the writing handlers share: early reply, or commit and reply.\<close>

definition handle_edit ::
  "('x \<Rightarrow> gateway_config) \<Rightarrow> 'x commit \<Rightarrow> reply \<Rightarrow> reply \<Rightarrow> (gateway_config \<Rightarrow> gateway_config option)
     \<Rightarrow> 'x \<Rightarrow> reply \<times> 'x" where
  "handle_edit gateway commit early done edit s =
     (case edit (gateway s) of
        None \<Rightarrow> (early, s)
      | Some candidate \<Rightarrow>
          (case commit s candidate of
             (Inr _, s') \<Rightarrow> (done, s')
           | (Inl e, s') \<Rightarrow> (error_reply 400 e, s')))"

definition create_route ::
  "('x \<Rightarrow> gateway_config) \<Rightarrow> 'x commit \<Rightarrow> route_config \<Rightarrow> 'x \<Rightarrow> reply \<times> 'x" where
  "create_route gateway commit r =
     handle_edit gateway commit (error_reply 409 ''route already exists'') (status_reply 201 ''created'')
       (create_route_edit r)"

definition update_route ::
  "('x \<Rightarrow> gateway_config) \<Rightarrow> 'x commit \<Rightarrow> string \<Rightarrow> route_config \<Rightarrow> 'x \<Rightarrow> reply \<times> 'x" where
  "update_route gateway commit name r =
     handle_edit gateway commit not_found (status_reply 200 ''updated'') (update_route_edit name r)"

definition delete_route :: "('x \<Rightarrow> gateway_config) \<Rightarrow> 'x commit \<Rightarrow> string \<Rightarrow> 'x \<Rightarrow> reply \<times> 'x" where
  "delete_route gateway commit name =
     handle_edit gateway commit not_found (status_reply 200 ''deleted'') (delete_route_edit name)"

definition update_policy ::
  "('x \<Rightarrow> gateway_config) \<Rightarrow> 'x commit \<Rightarrow> string \<Rightarrow> policy_config \<Rightarrow> 'x \<Rightarrow> reply \<times> 'x" where
  "update_policy gateway commit name p =
     handle_edit gateway commit not_found (status_reply 200 ''updated'') (update_policy_edit name p)"

definition delete_policy :: "('x \<Rightarrow> gateway_config) \<Rightarrow> 'x commit \<Rightarrow> string \<Rightarrow> 'x \<Rightarrow> reply \<times> 'x" where
  "delete_policy gateway commit name =
     handle_edit gateway commit not_found (status_reply 200 ''deleted'') (delete_policy_edit name)"

definition create_consumer ::
  "('x \<Rightarrow> gateway_config) \<Rightarrow> 'x commit \<Rightarrow> consumer_config \<Rightarrow> 'x \<Rightarrow> reply \<times> 'x" where
  "create_consumer gateway commit c =
     handle_edit gateway commit (error_reply 409 ''consumer already exists'') (status_reply 201 ''created'')
       (create_consumer_edit c)"

definition upsert_consumer ::
  "('x \<Rightarrow> gateway_config) \<Rightarrow> 'x commit \<Rightarrow> string \<Rightarrow> consumer_config \<Rightarrow> 'x \<Rightarrow> reply \<times> 'x" where
  "upsert_consumer gateway commit name c =
     handle_edit gateway commit not_found (status_reply 200 ''updated'') (upsert_consumer_edit name c)"

definition delete_consumer :: "('x \<Rightarrow> gateway_config) \<Rightarrow> 'x commit \<Rightarrow> string \<Rightarrow> 'x \<Rightarrow> reply \<times> 'x" where
  "delete_consumer gateway commit name =
     handle_edit gateway commit not_found (status_reply 200 ''deleted'') (delete_consumer_edit name)"

text \<open>The reading handlers; \<open>None\<close> is answered with \<open>not_found\<close>.\<close>

definition list_routes :: "gateway_config \<Rightarrow> route_config list" where
  "list_routes gw = gw_routes gw"

definition get_route :: "gateway_config \<Rightarrow> string \<Rightarrow> route_config option" where
  "get_route gw name = find (\<lambda>r. rc_name r = name) (gw_routes gw)"

definition list_policies :: "gateway_config \<Rightarrow> policy_config list" where
  "list_policies gw = gw_policies gw"

definition get_policy :: "gateway_config \<Rightarrow> string \<Rightarrow> policy_config option" where
  "get_policy gw name = find (\<lambda>p. pc_name p = name) (gw_policies gw)"

definition list_consumers :: "gateway_config \<Rightarrow> consumer_config list" where
  "list_consumers gw = gw_consumer_list gw"

definition get_consumer_config :: "gateway_config \<Rightarrow> string \<Rightarrow> consumer_config option" where
  "get_consumer_config gw name = find (\<lambda>c. cn_name c = name) (gw_consumer_list gw)"

section \<open>Status and authentication\<close>

definition healthz :: reply where
  "healthz = status_reply 200 ''healthy''"

definition readyz :: "'w shared_state \<Rightarrow> reply" where
  "readyz s =
     (if sh_routes s = [] then
        \<lparr>re_status = 503,
         re_body = JObj [(''status'', JStr ''not_ready''), (''reason'', JStr ''no routes loaded'')]\<rparr>
      else
        \<lparr>re_status = 200,
         re_body = JObj [(''status'', JStr ''ready''), (''routes'', jnat (length (sh_routes s)))]\<rparr>)"

definition admin_status :: "string \<Rightarrow> 'w shared_state \<Rightarrow> reply" where
  "admin_status version s =
     \<lparr>re_status = 200,
      re_body = JObj [(''version'', JStr version), (''routes'', jnat (length (sh_routes s))),
        (''policies'', jnat (length (gw_policies (sh_gateway s))))]\<rparr>"

definition reload_config ::
  "libs \<Rightarrow> 'w registry \<Rightarrow> (string \<Rightarrow> string option) \<Rightarrow> (string \<Rightarrow> string + gateway_config) \<Rightarrow> 'w shared_state
     \<Rightarrow> reply \<times> 'w shared_state" where
  "reload_config L create env load s =
     (case reload_from_disk L create env load s of
        (Inr _, s') \<Rightarrow> (status_reply 200 ''reloaded'', s')
      | (Inl e, s') \<Rightarrow> (error_reply 500 e, s'))"

text \<open>
  The Basic authentication in front of the API. \<open>decode\<close> is the base64 decoder; \<open>header\<close> is the
  Authorization header when it is present and visible ASCII. The result says whether the request
  is passed on (otherwise it is answered with 401).
\<close>

definition admin_authorized ::
  "(string \<Rightarrow> string option) \<Rightarrow> string \<Rightarrow> string \<Rightarrow> string \<Rightarrow> string option \<Rightarrow> bool" where
  "admin_authorized decode username password path header =
     (if path = ''/healthz'' \<or> path = ''/readyz'' then True
      else (case header of
              None \<Rightarrow> False
            | Some h \<Rightarrow>
                if starts_with h ''Basic '' then
                  (let decoded = unwrap_or [] (decode (drop 6 h));
                       credentials = (if utf8_ok decoded then decoded else [])
                   in credentials = username @ '':'' @ password)
                else False))"

section \<open>The configuration store\<close>

text \<open>
  What a handler may rely on: a commit that succeeds puts the candidate in force and leaves a
  \<open>good\<close> state, one that fails leaves the configuration as it was.
\<close>

locale commit_contract =
  fixes gateway :: "'x \<Rightarrow> gateway_config"
    and commit :: "'x \<Rightarrow> gateway_config \<Rightarrow> (string + unit) \<times> 'x"
    and good :: "'x \<Rightarrow> bool"
    and acceptable :: "gateway_config \<Rightarrow> bool"
  assumes commit_done: "commit s gw = (Inr u, s') \<Longrightarrow> gateway s' = gw \<and> good s' \<and> acceptable gw"
    and commit_refused: "commit s gw = (Inl e, s') \<Longrightarrow> gateway s' = gateway s \<and> (good s \<longrightarrow> good s')"
begin

lemma edit_good:
  "good s \<Longrightarrow> handle_edit gateway commit early ok edit s = (r, s') \<Longrightarrow> good s'"
  using commit_done commit_refused
  by (auto simp: handle_edit_def split: option.splits prod.splits sum.splits)

lemma edit_done:
  assumes "handle_edit gateway commit early ok edit s = (r, s')"
    and "400 \<le> re_status early" and "re_status r < 400"
  shows "edit (gateway s) = Some (gateway s') \<and> good s' \<and> acceptable (gateway s') \<and> r = ok"
  using assms commit_done
  by (auto simp: handle_edit_def error_reply_def split: option.splits prod.splits sum.splits)

lemma edit_refused:
  assumes "handle_edit gateway commit early ok edit s = (r, s')"
    and "400 \<le> re_status r" and "re_status ok < 400"
  shows "gateway s' = gateway s"
  using assms commit_refused
  by (auto simp: handle_edit_def split: option.splits prod.splits sum.splits)

lemma edit_unacceptable:
  assumes "edit (gateway s) = Some gw" and "\<not> acceptable gw"
  shows "\<exists>e s'. handle_edit gateway commit early ok edit s = (error_reply 400 e, s') \<and>
    gateway s' = gateway s \<and> (good s \<longrightarrow> good s')"
proof (cases "commit s gw")
  case (Pair v s')
  show ?thesis
  proof (cases v)
    case (Inl e)
    with Pair assms(1) show ?thesis using commit_refused [of s gw e s'] by (auto simp: handle_edit_def)
  next
    case (Inr u)
    with Pair assms(2) show ?thesis using commit_done [of s gw u s'] by simp
  qed
qed

end

definition file_load :: "(string \<Rightarrow> string + gateway_config) \<Rightarrow> string \<Rightarrow> string + gateway_config" where
  "file_load load path = load path"

definition file_commit ::
  "libs \<Rightarrow> 'w registry \<Rightarrow> (string \<Rightarrow> string option) \<Rightarrow> 'w shared_state commit" where
  "file_commit L create env s candidate = apply_gateway L create env s candidate"

interpretation file_store: commit_contract sh_gateway "file_commit L create env" "consistent L create env"
    "gateway_wf create env"
  for L create env
proof (unfold_locales, goal_cases)
  case (1 s gw u s')
  then have "apply_gateway L create env s gw = (Inr (), s')" by (simp add: file_commit_def)
  moreover from this have "gateway_wf create env gw"
    unfolding apply_gateway_Inr using gateway_accepted [of gw L create env] by blast
  ultimately show ?case using apply_consistent [of L create env s gw s'] by simp
next
  case (2 s gw e s')
  then show ?case using apply_gateway_Inl [of L create env s gw e s'] by (simp add: file_commit_def)
qed

section \<open>Facts about the edits\<close>

lemma replace_first_None: "replace_first p y xs = None \<longleftrightarrow> \<not> (\<exists>x \<in> set xs. p x)"
  by (induction xs) auto

lemma replace_first_find:
  "replace_first p y xs = Some ys \<Longrightarrow> p y \<Longrightarrow> find p ys = Some y"
  by (induction xs arbitrary: ys) (auto split: if_splits)

lemma replace_first_other:
  "replace_first p y xs = Some ys \<Longrightarrow> (\<And>x. p x \<Longrightarrow> \<not> q x) \<Longrightarrow> p y \<Longrightarrow> find q ys = find q xs"
  by (induction xs arbitrary: ys) (auto split: if_splits)

lemma find_append: "find p (xs @ ys) = (case find p xs of Some x \<Rightarrow> Some x | None \<Rightarrow> find p ys)"
  by (induction xs) auto

lemma find_None_ex: "find p xs = None \<longleftrightarrow> \<not> (\<exists>x \<in> set xs. p x)"
  by (auto simp: find_None_iff)

lemma update_policy_edit_get:
  assumes "update_policy_edit name p gw = Some gw'"
  shows "get_policy gw' n = (if n = name then Some (p\<lparr>pc_name := name\<rparr>) else get_policy gw n)"
    and "gw_routes gw' = gw_routes gw" and "gw_consumer_list gw' = gw_consumer_list gw"
proof -
  let ?is = "\<lambda>x. pc_name x = name" and ?p = "p\<lparr>pc_name := name\<rparr>"
  show "get_policy gw' n = (if n = name then Some ?p else get_policy gw n)"
  proof (cases "replace_first ?is ?p (gw_policies gw)")
    case None
    with assms have "gw_policies gw' = gw_policies gw @ [?p]"
      by (auto simp: update_policy_edit_def Let_def)
    moreover from None have "find ?is (gw_policies gw) = None"
      by (simp add: replace_first_None find_None_ex)
    ultimately show ?thesis by (auto simp: get_policy_def find_append split: option.splits)
  next
    case (Some ps)
    with assms have "gw_policies gw' = ps" by (auto simp: update_policy_edit_def Let_def)
    then show ?thesis
      using replace_first_find [OF Some] replace_first_other [OF Some, of "\<lambda>x. pc_name x = n"]
      by (auto simp: get_policy_def)
  qed
  show "gw_routes gw' = gw_routes gw" "gw_consumer_list gw' = gw_consumer_list gw"
    using assms by (auto simp: update_policy_edit_def Let_def split: option.splits)
qed

lemma delete_policy_edit_Some:
  "delete_policy_edit name gw = Some gw' \<longleftrightarrow>
     name \<in> pc_name ` set (gw_policies gw) \<and>
     gw' = gw\<lparr>gw_policies := filter (\<lambda>x. pc_name x \<noteq> name) (gw_policies gw)\<rparr>"
proof -
  have "length (filter (\<lambda>x. pc_name x \<noteq> name) ps) = length ps \<longleftrightarrow> name \<notin> pc_name ` set ps" for ps
    by (metis (mono_tags, lifting) filter_True imageE image_eqI length_filter_less less_irrefl)
  then show ?thesis by (auto simp: delete_policy_edit_def Let_def)
qed

lemma file_commit_refused: "file_commit L create env s gw = (Inl e, s') \<Longrightarrow> s' = s"
  using apply_gateway_Inl [of L create env s gw e s'] by (simp add: file_commit_def)

lemma file_edit_refused:
  assumes "handle_edit sh_gateway (file_commit L create env) early ok edit s = (r, s')"
    and "400 \<le> re_status r" and "re_status ok < 400"
  shows "s' = s"
  using assms file_commit_refused by (auto simp: handle_edit_def split: option.splits prod.splits sum.splits)

lemma reply_status [simp]:
  "re_status (status_reply c w) = c" "re_status (error_reply c w) = c" "re_status not_found = 404"
  by (simp_all add: status_reply_def error_reply_def not_found_def)

section \<open>Properties\<close>


text \<open>
  A policy that a route uses cannot be deleted. In a consistent state the admin interface
  answers the DELETE with 400 and the state is untouched, so no route is ever left without policy.
\<close>

theorem policy_in_use_not_deleted:
  assumes "consistent L create env s" and "r \<in> set (gw_routes (sh_gateway s))"
  shows "\<exists>e. delete_policy sh_gateway (file_commit L create env) (rc_policy r) s = (error_reply 400 e, s)"
proof -
  have wf: "gateway_wf create env (sh_gateway s)"
    using assms(1) gateway_accepted [of "sh_gateway s" L create env] by (auto simp: consistent_def)
  let ?gw = "(sh_gateway s)\<lparr>gw_policies := filter (\<lambda>x. pc_name x \<noteq> rc_policy r) (gw_policies (sh_gateway s))\<rparr>"
  have "delete_policy_edit (rc_policy r) (sh_gateway s) = Some ?gw"
    using wf assms(2) by (simp add: delete_policy_edit_Some gateway_wf_def)
  moreover have "\<not> gateway_wf create env ?gw"
    unfolding gateway_wf_def using assms(2) by fastforce
  ultimately obtain e s' where "handle_edit sh_gateway (file_commit L create env) not_found
      (status_reply 200 ''deleted'') (delete_policy_edit (rc_policy r)) s = (error_reply 400 e, s')"
    using file_store.edit_unacceptable by blast
  moreover from file_edit_refused [OF this] have "s' = s" by simp
  ultimately show ?thesis by (auto simp: delete_policy_def)
qed


text \<open>A gateway with one route and its policy: a listener wired to a client node.\<close>

definition demo_policy :: policy_config where
  "demo_policy = \<lparr>pc_name = ''p'', pc_error_handler = None,
     pc_nodes = [\<lparr>nc_id = ''in'', nc_type = ''listener'', nc_config = []\<rparr>,
       \<lparr>nc_id = ''end'', nc_type = ''client'', nc_config = []\<rparr>],
     pc_edges = [\<lparr>ec_from = ''in.success'', ec_to = ''end.in''\<rparr>]\<rparr>"

definition demo_route :: route_config where
  "demo_route = \<lparr>rc_name = ''r'', rc_match = \<lparr>mr_path = None, mr_methods = [], mr_headers = [], mr_host = None\<rparr>,
     rc_policy = ''p''\<rparr>"

definition demo_registry :: "unit registry" where
  "demo_registry t c = Inr \<lparr>pl_type = t, pl_exec = pure_exec Inr\<rparr>"

definition demo_gateway :: gateway_config where
  "demo_gateway = \<lparr>gw_routes = [demo_route], gw_policies = [demo_policy], gw_consumer_list = []\<rparr>"

lemma demo_gateway_wf: "gateway_wf demo_registry (\<lambda>_. None) demo_gateway"
proof -
  have "policy_errors demo_policy = []" by code_simp
  moreover have "\<exists>g. compile_policy demo_registry (\<lambda>_. None) True demo_policy = Inr g"
  proof -
    have "parse_edge_endpoint ''in.success'' = (''in'', ''success'')"
      "parse_edge_endpoint ''end.in'' = (''end'', ''in'')" by code_simp+
    then show ?thesis
      by (simp add: compile_policy_def demo_policy_def add_node_def add_edge_def demo_registry_def)
  qed
  ultimately show ?thesis
    by (simp add: gateway_wf_def demo_gateway_def demo_route_def policy_errors_Nil consumers_wf_def
        credential_entries_def) (simp add: demo_policy_def)
qed

theorem policy_in_use_not_deleted_witness:
  "\<exists>e s. delete_policy sh_gateway (file_commit plain_libs demo_registry (\<lambda>_. None)) ''p'' s = (error_reply 400 e, s)"
proof -
  obtain s where a: "apply_gateway plain_libs demo_registry (\<lambda>_. None) demo_state demo_gateway = (Inr (), s)"
    using apply_gateway_wf [OF demo_gateway_wf] by blast
  have "demo_route \<in> set (gw_routes (sh_gateway s))"
    using apply_consistent [OF a] by (simp add: demo_gateway_def)
  from policy_in_use_not_deleted [OF conjunct1 [OF apply_consistent [OF a]] this]
  show ?thesis by (auto simp: demo_route_def)
qed

definition alice :: consumer where
  "alice = \<lparr>cn_name = ''alice'', cn_group = None, cn_labels = [],
     cn_credentials = [(''key-auth'', JObj [(''key'', JStr ''k1'')])]\<rparr>"

definition bob :: consumer where
  "bob = \<lparr>cn_name = ''bob'', cn_group = None, cn_labels = [], cn_credentials = []\<rparr>"

definition with_consumers :: "consumer_config list \<Rightarrow> gateway_config" where
  "with_consumers cs = \<lparr>gw_routes = [], gw_policies = [], gw_consumer_list = cs\<rparr>"

lemma compile_with_consumers [simp]: "compile_routes L create env (with_consumers cs) = Inr []"
  by (simp add: compile_routes_def with_consumers_def)

lemma demo_consumers:
  "\<exists>s. store_from_config [alice] = Inr s"
  "\<exists>s. store_from_config [alice, bob] = Inr s \<and> find_by_credential s ''key-auth'' ''k1'' = Some alice"
proof -
  have t: "trim ''alice'' \<noteq> []" "trim ''bob'' \<noteq> []" by code_simp+
  show "\<exists>s. store_from_config [alice] = Inr s"
    and "\<exists>s. store_from_config [alice, bob] = Inr s \<and> find_by_credential s ''key-auth'' ''k1'' = Some alice"
    by (simp_all add: store_from_config_def add_consumer_def add_credential_def alice_def bob_def t
        primary_value_def primary_credential_field_def empty_store_def find_by_credential_def hm_entry_def hm_has_def)
qed

text \<open>
  C26: Two admin requests at the same time can leave a deleted consumer authenticated. There is a
  consistent state and an order of the lock operations in which deleting alice and storing bob
  both succeed, and afterwards the configuration holds neither of them, yet the consumer store that
  the authentication plugins read still finds alice by her key: the handlers read and commit
  without holding a lock, and the consumer store is replaced before the configuration is locked.
\<close>

theorem racing_updates_keep_deleted_consumer:
  fixes create :: "'w registry"
  shows "\<exists>s s'. consistent L create env s \<and>
     updates L create env
       (s, [Reading (delete_consumer_edit ''alice''), Reading (upsert_consumer_edit ''bob'' bob)])
       (s', [Returned (Some (Inr ())), Returned (Some (Inr ()))]) \<and>
     get_consumer_config (sh_gateway s') ''alice'' = None \<and>
     get_consumer_config (sh_gateway s') ''bob'' = None \<and>
     find_by_credential (sh_consumers s') ''key-auth'' ''k1'' = Some alice"
proof -
  let ?A = "with_consumers [alice]" and ?B = "with_consumers [alice, bob]" and ?N = "with_consumers []"
  obtain a where a: "store_from_config [alice] = Inr a"
    using demo_consumers(1) by blast
  obtain b where b: "store_from_config [alice, bob] = Inr b"
    and k: "find_by_credential b ''key-auth'' ''k1'' = Some alice"
    using demo_consumers(2) by blast
  have n: "store_from_config [] = Inr empty_store" by (simp add: store_from_config_def)
  define s :: "'w shared_state" where "s = demo_state\<lparr>sh_gateway := ?A, sh_consumers := a\<rparr>"
  define t where "t = s\<lparr>sh_consumers := b\<rparr>"
  define u where "u = t\<lparr>sh_gateway := ?B\<rparr>"
  define v where "v = u\<lparr>sh_gateway := ?N\<rparr>"
  note defs = s_def t_def u_def v_def demo_state_def with_consumers_def writing_def
  let ?D = "Reading (delete_consumer_edit ''alice'')" and ?U = "Reading (upsert_consumer_edit ''bob'' bob)"
  let ?ok = "Returned (Some (Inr ()))"
  have gw: "delete_consumer_edit ''alice'' ?A = Some ?N" "upsert_consumer_edit ''bob'' bob ?A = Some ?B"
    by (simp_all add: delete_consumer_edit_def upsert_consumer_edit_def with_consumers_def alice_def bob_def)
  have "update_step L create env (s, [?D, ?U]) (s, [Prepared ?N empty_store [], ?U])"
    using read_valid [of 0 "[?D, ?U]" _ s ?N empty_store L create env "[]"] gw n
    by (simp add: s_def writing_def) (simp add: with_consumers_def)
  moreover have "update_step L create env (s, [Prepared ?N empty_store [], ?U])
      (s, [Prepared ?N empty_store [], Prepared ?B b []])"
    using read_valid [of 1 "[Prepared ?N empty_store [], ?U]" _ s ?B b L create env "[]"] gw b
    by (simp add: s_def writing_def) (simp add: with_consumers_def)
  moreover have "update_step L create env (s, [Prepared ?N empty_store [], Prepared ?B b []])
      (s\<lparr>sh_consumers := empty_store\<rparr>, [Stored ?N [], Prepared ?B b []])"
    using store [of 0 "[Prepared ?N empty_store [], Prepared ?B b []]" _ _ _ L create env s] by simp
  moreover have "update_step L create env
      (s\<lparr>sh_consumers := empty_store\<rparr>, [Stored ?N [], Prepared ?B b []]) (t, [Stored ?N [], Stored ?B []])"
    using store [of 1 "[Stored ?N [], Prepared ?B b []]" _ _ _ L create env "s\<lparr>sh_consumers := empty_store\<rparr>"]
    by (simp add: t_def)
  moreover have "update_step L create env (t, [Stored ?N [], Stored ?B []]) (u, [Stored ?N [], Writing []])"
    using lock [of 1 "[Stored ?N [], Stored ?B []]" _ _ L create env t] by (simp add: u_def writing_def)
  moreover have "update_step L create env (u, [Stored ?N [], Writing []]) (u, [Stored ?N [], ?ok])"
    using swap [of 1 "[Stored ?N [], Writing []]" _ L create env u] by (simp add: defs)
  moreover have "update_step L create env (u, [Stored ?N [], ?ok]) (v, [Writing [], ?ok])"
    using lock [of 0 "[Stored ?N [], ?ok]" _ _ L create env u] by (simp add: v_def writing_def)
  moreover have "update_step L create env (v, [Writing [], ?ok]) (v, [?ok, ?ok])"
    using swap [of 0 "[Writing [], ?ok]" _ L create env v] by (simp add: defs)
  ultimately have "updates L create env (s, [?D, ?U]) (v, [?ok, ?ok])"
    by (meson updates_refl updates_step)
  moreover have "consistent L create env s"
    using a by (simp add: consistent_def s_def demo_state_def) (simp add: with_consumers_def)
  moreover have "sh_gateway v = ?N" "sh_consumers v = b" by (simp_all add: defs)
  ultimately show ?thesis using k
    by (intro exI [of _ s] exI [of _ v]) (simp add: get_consumer_config_def with_consumers_def)
qed

end
