(* ===== verification/Sandbox.thy ===== *)
theory Sandbox
  imports Debug_Diff Debug_Store Gateway_State Admin
begin

text \<open>
  The debug sandbox (src/src/debug/sandbox.rs) and the debug endpoints of the admin API
  (src/src/admin/debug.rs): building a context from JSON, wiring a list of nodes into a linear
  policy, running it with a recorder and storing the trace. \<open>run_chain\<close> is the reference
  semantics of a node list; the lemmas relate it to validation, compilation and the engine's walk
  over the synthesized policy. Decoding a JSON object into \<open>sandbox_context_input\<close> is serde's, and
  an argument here.
\<close>

section \<open>The synthetic context\<close>

datatype string_or_list = One string | Many "string list"

fun into_vec :: "string_or_list \<Rightarrow> string list" where
  "into_vec (One s) = [s]"
| "into_vec (Many v) = v"

record response_input =
  si_status_code :: "nat option"
  si_rs_headers :: "string_or_list hmap"
  si_rs_body :: "string option"

record sandbox_context_input =
  si_method :: "string option"
  si_path :: "string option"
  si_host :: "string option"
  si_scheme :: "string option"
  si_headers :: "string_or_list hmap"
  si_query_params :: "string_or_list hmap"
  si_body :: "string option"
  si_body_base64 :: "string option"
  si_remote_addr :: "string option"
  si_protocol :: "protocol option"
  si_message :: "json hmap"
  si_response :: "response_input option"

definition default_response_input :: response_input where
  "default_response_input = \<lparr>si_status_code = None, si_rs_headers = [], si_rs_body = None\<rparr>"

definition default_context_input :: sandbox_context_input where
  "default_context_input =
     \<lparr>si_method = None, si_path = None, si_host = None, si_scheme = None, si_headers = [],
      si_query_params = [], si_body = None, si_body_base64 = None, si_remote_addr = None,
      si_protocol = None, si_message = [], si_response = None\<rparr>"

definition to_map :: "string_or_list hmap \<Rightarrow> string list hmap" where
  "to_map m = map (map_prod id into_vec) m"

text \<open>
  \<open>b64\<close> is the standard decoder of the base64 crate with its error text.
\<close>

definition input_body ::
  "(string \<Rightarrow> string + string) \<Rightarrow> sandbox_context_input \<Rightarrow> string + string" where
  "input_body b64 i =
     (case (si_body i, si_body_base64 i) of
        (Some text, _) \<Rightarrow> Inr text
      | (None, Some enc) \<Rightarrow>
          (case b64 enc of
             Inl e \<Rightarrow> Inl (''body_base64 is not valid base64: '' @ e)
           | Inr bytes \<Rightarrow> Inr bytes)
      | (None, None) \<Rightarrow> Inr [])"

definition into_context ::
  "(string \<Rightarrow> string + string) \<Rightarrow> sandbox_context_input \<Rightarrow> string + gcontext" where
  "into_context b64 i =
     (if si_body i \<noteq> None \<and> si_body_base64 i \<noteq> None
      then Inl (''provide only one of '' @ sq ''body'' @ '' or '' @ sq ''body_base64'')
      else res_bind (input_body b64 i) (\<lambda>body.
        let r = unwrap_or default_response_input (si_response i) in
        Inr \<lparr>cx_request =
               \<lparr>rq_method = unwrap_or ''GET'' (si_method i), rq_path = unwrap_or ''/'' (si_path i),
                rq_host = unwrap_or ''sandbox.local'' (si_host i),
                rq_scheme = unwrap_or ''http'' (si_scheme i), rq_headers = to_map (si_headers i),
                rq_query_params = to_map (si_query_params i), rq_body = body,
                rq_remote_addr = unwrap_or ''127.0.0.1:0'' (si_remote_addr i),
                rq_protocol = unwrap_or Http1 (si_protocol i)\<rparr>,
             cx_response =
               \<lparr>rs_status_code = unwrap_or 0 (si_status_code r),
                rs_headers = to_map (si_rs_headers r), rs_body = unwrap_or [] (si_rs_body r)\<rparr>,
             cx_message = si_message i, cx_errors = []\<rparr>))"

text \<open>The text of a snapshot's body object, or of a plain string.\<close>

fun body_text :: "json \<Rightarrow> string option" where
  "body_text (JStr s) = Some s"
| "body_text (JObj m) = Option.bind (hm_get m ''text'') as_str"
| "body_text _ = None"

definition lift_field :: "string \<times> json \<Rightarrow> json hmap \<Rightarrow> json hmap" where
  "lift_field kv obj =
     (case kv of (k, v) \<Rightarrow>
        if k = ''body'' then
          (case body_text v of Some t \<Rightarrow> hm_insert ''body'' (JStr t) obj | None \<Rightarrow> obj)
        else hm_insert k v obj)"

definition lift_request :: "json hmap \<Rightarrow> json hmap" where
  "lift_request obj =
     (let rest = hm_remove ''request'' obj in
      case hm_get obj ''request'' of
        Some (JObj req) \<Rightarrow> fold lift_field req rest
      | _ \<Rightarrow> rest)"

definition plain_response_body :: "json hmap \<Rightarrow> json hmap" where
  "plain_response_body resp =
     (case hm_get resp ''body'' of
        None \<Rightarrow> resp
      | Some body \<Rightarrow>
          (case body_text body of
             Some t \<Rightarrow> hm_insert ''body'' (JStr t) resp
           | None \<Rightarrow> hm_remove ''body'' resp))"

fun normalize_context :: "json \<Rightarrow> json" where
  "normalize_context (JObj obj) =
     (let o1 = lift_request obj;
          o2 = (case hm_get o1 ''response'' of
                  Some (JObj resp) \<Rightarrow> hm_insert ''response'' (JObj (plain_response_body resp)) o1
                | _ \<Rightarrow> o1)
      in JObj (hm_remove ''errors'' o2))"
| "normalize_context v = v"

definition materialize_context ::
  "(json \<Rightarrow> string + sandbox_context_input) \<Rightarrow> (string \<Rightarrow> string + string) \<Rightarrow> json
     \<Rightarrow> string + gcontext" where
  "materialize_context decode b64 raw =
     (let n = normalize_context raw in
      if n = JNull then into_context b64 default_context_input
      else (case decode n of
              Inl e \<Rightarrow> Inl (''invalid sandbox context: '' @ e)
            | Inr i \<Rightarrow> into_context b64 i))"

section \<open>Wiring a node list\<close>

datatype on_error = Stop | Client

text \<open>Checking the nodes in order; a blank id becomes the type and the position.\<close>

fun admit_nodes ::
  "nat \<Rightarrow> string list \<Rightarrow> node_config list \<Rightarrow> string + node_config list" where
  "admit_nodes i seen [] = Inr []"
| "admit_nodes i seen (n # ns) =
     (if nc_type n = ''listener'' \<or> nc_type n = ''client'' then
        Inl (''node '' @ sq (nc_id n) @ '': '' @ sq (nc_type n) @
             '' nodes are added automatically and cannot be supplied'')
      else
        (let n' = (if trim (nc_id n) = [] then n\<lparr>nc_id := nc_type n @ ''-'' @ show_nat i\<rparr> else n) in
         if nc_id n' \<in> set seen then Inl (''duplicate node id '' @ sq (nc_id n'))
         else res_bind (admit_nodes (Suc i) (nc_id n' # seen) ns) (\<lambda>ns'. Inr (n' # ns'))))"

fun windows2 :: "'a list \<Rightarrow> ('a \<times> 'a) list" where
  "windows2 (x # y # xs) = (x, y) # windows2 (y # xs)"
| "windows2 _ = []"

definition plain_node :: "string \<Rightarrow> node_config" where
  "plain_node t = \<lparr>nc_id = t, nc_type = t, nc_config = []\<rparr>"

definition chain_edges :: "node_config list \<Rightarrow> on_error \<Rightarrow> edge_config list" where
  "chain_edges us oe =
     [\<lparr>ec_from = ''listener.out'', ec_to = nc_id (hd us) @ ''.in''\<rparr>] @
     map (\<lambda>(a, b). \<lparr>ec_from = nc_id a @ ''.success'', ec_to = nc_id b @ ''.in''\<rparr>) (windows2 us) @
     [\<lparr>ec_from = nc_id (last us) @ ''.success'', ec_to = ''client.in''\<rparr>] @
     (if oe = Client
      then map (\<lambda>n. \<lparr>ec_from = nc_id n @ ''.error'', ec_to = ''client.in''\<rparr>) us else [])"

definition synthesize_policy :: "node_config list \<Rightarrow> on_error \<Rightarrow> string + policy_config" where
  "synthesize_policy ns oe =
     (if ns = [] then Inl (sq ''nodes'' @ '' must contain at least one node'')
      else res_bind (admit_nodes 0 [] ns) (\<lambda>us.
        Inr \<lparr>pc_name = ''__sandbox'', pc_error_handler = None,
             pc_nodes = [plain_node ''listener''] @ us @ [plain_node ''client''],
             pc_edges = chain_edges us oe\<rparr>))"

section \<open>The reference semantics of a node list\<close>

text \<open>
  The nodes run in order on the context. The first that fails ends the run: with the engine's
  generic error response, or with the client node on the failed context.
\<close>

definition fail_at :: "string \<Rightarrow> gateway_error \<Rightarrow> gcontext \<Rightarrow> gcontext" where
  "fail_at i e c = push_error (e\<lparr>err_node_id := i\<rparr>) c"

fun run_chain ::
  "on_error \<Rightarrow> 'w plugin \<Rightarrow> (string \<times> 'w plugin) list \<Rightarrow> gcontext \<Rightarrow> 'w \<Rightarrow> gcontext \<times> 'w" where
  "run_chain oe client [] c w =
     (case pl_exec client c w of
        (Inr c', w') \<Rightarrow> (c', w')
      | (Inl (c', e), w') \<Rightarrow> (unhandled_error (fail_at ''client'' e c'), w'))"
| "run_chain oe client ((i, p) # ps) c w =
     (case pl_exec p c w of
        (Inr c', w') \<Rightarrow> run_chain oe client ps c' w'
      | (Inl (c', e), w') \<Rightarrow>
          (if oe = Client then run_chain oe client [] (fail_at i e c') w'
           else (unhandled_error (fail_at i e c'), w')))"

text \<open>A graph wired for a list of nodes, from the first of them on.\<close>

definition first_id :: "(string \<times> 'w plugin) list \<Rightarrow> string" where
  "first_id ps = (case ps of [] \<Rightarrow> ''client'' | (i, _) # _ \<Rightarrow> i)"

fun wired :: "'w compiled_graph \<Rightarrow> on_error \<Rightarrow> 'w plugin \<Rightarrow> (string \<times> 'w plugin) list \<Rightarrow> bool" where
  "wired g oe client [] \<longleftrightarrow>
     cg_catch_all_handler g = None \<and> hm_get (cg_nodes g) ''client'' = Some client \<and>
     ''client'' \<in> set (cg_terminal_node_ids g) \<and> hm_get (cg_error_edges g) ''client'' = None"
| "wired g oe client ((i, p) # ps) \<longleftrightarrow>
     hm_get (cg_nodes g) i = Some p \<and> i \<notin> set (cg_terminal_node_ids g) \<and>
     hm_get (cg_success_edges g) i = Some (first_id ps) \<and>
     hm_get (cg_error_edges g) i = (if oe = Client then Some ''client'' else None) \<and>
     wired g oe client ps"

lemma wired_end: "wired g oe client ps \<Longrightarrow> wired g oe client []"
  by (induction ps) auto

lemma step_clock_le: "ru_clock (snd (step L g el i s)) \<le> Suc (ru_clock s)"
  by (simp add: step_def Let_def split: option.splits prod.splits sum.splits)

lemma wired_client:
  assumes "wired g oe client []"
  shows "\<exists>t. run L g el ''client'' s = Some t \<and>
     (ru_ctx t, ru_world t) = run_chain oe client [] (ru_ctx s) (ru_world s) \<and>
     ru_clock t \<le> Suc (ru_clock s)"
proof -
  have a: "hm_get (cg_nodes g) ''client'' = Some client"
    and e: "fst (error_next g ''client'') = None" "fst (success_next g ''client'') = None"
    using assms by (auto simp: error_next_def success_next_def)
  obtain r w where x: "pl_exec client (ru_ctx s) (ru_world s) = (r, w)" by force
  have n: "fst (step L g el ''client'' s) = None"
    using step_ok(1) [OF a, of s] step_err(1) [OF a, of s] e x
    by (metis old.sum.exhaust surj_pair)
  then have t: "run L g el ''client'' s = Some (snd (step L g el ''client'' s))"
    by (subst run.simps) (simp add: case_prod_unfold)
  show ?thesis
  proof (cases r)
    case (Inr c)
    then show ?thesis
      using t step_ok(2,3) [OF a, of s c w L el] step_clock_le [of L g el "''client''" s] x by simp
  next
    case (Inl ce)
    then show ?thesis
      using t step_err(2,3) [OF a, of s "fst ce" "snd ce" w L el] e step_clock_le [of L g el "''client''" s] x
      by (cases ce) (simp add: fail_at_def)
  qed
qed

lemma run_next: "step L g el i s = (Some j, s') \<Longrightarrow> run L g el i s = run L g el j s'"
  by (subst run.simps) simp

lemma run_last: "step L g el i s = (None, s') \<Longrightarrow> run L g el i s = Some s'"
  by (subst run.simps) simp

lemma wired_run:
  assumes "wired g oe client ps"
  shows "\<exists>t. run L g el (first_id ps) s = Some t \<and>
     (ru_ctx t, ru_world t) = run_chain oe client ps (ru_ctx s) (ru_world s) \<and>
     ru_clock t \<le> Suc (length ps + ru_clock s)"
  using assms
proof (induction ps arbitrary: s)
  case Nil
  then show ?case using wired_client [of g oe client L el s] by (simp add: first_id_def)
next
  case (Cons ip ps)
  obtain i p where ip: "ip = (i, p)" by force
  then have a: "hm_get (cg_nodes g) i = Some p" and w: "wired g oe client ps" using Cons.prems by auto
  have sn: "fst (success_next g i) = Some (first_id ps)"
    and en: "fst (error_next g i) = (if oe = Client then Some ''client'' else None)"
    using Cons.prems wired_end [OF w] ip by (auto simp: success_next_def error_next_def)
  obtain r w' where x: "pl_exec p (ru_ctx s) (ru_world s) = (r, w')" by force
  obtain nx s' where st: "step L g el i s = (nx, s')" by force
  have cl: "ru_clock s' \<le> Suc (ru_clock s)" using step_clock_le [of L g el i s] st by simp
  show ?case
  proof (cases r)
    case (Inr c)
    have s': "nx = Some (first_id ps)" "ru_ctx s' = c" "ru_world s' = w'"
      using step_ok [OF a, of s c w' L el] x Inr sn st by simp_all
    then show ?thesis
      using Cons.IH [OF w, of s'] run_next [of L g el i s] st ip x Inr cl by (fastforce simp: first_id_def)
  next
    case (Inl ce)
    obtain c e where ce: "ce = (c, e)" by force
    note s' = step_err [OF a, of s c e w' L el]
    show ?thesis
    proof (cases "oe = Client")
      case True
      then have "nx = Some ''client''" "ru_ctx s' = fail_at i e c" "ru_world s' = w'"
        using s' x Inl ce en st by (simp_all add: fail_at_def)
      then show ?thesis
        using wired_client [OF wired_end [OF w], of L el s'] run_next [of L g el i s] st ip x Inl ce cl True
        by (fastforce simp: first_id_def)
    next
      case False
      then have "nx = None" "ru_ctx s' = unhandled_error (fail_at i e c)" "ru_world s' = w'"
        using s' x Inl ce en st by (simp_all add: fail_at_def)
      then show ?thesis
        using run_last [of L g el i s] st ip x Inl ce cl False by (simp add: first_id_def)
    qed
  qed
qed

section \<open>The synthesized policy\<close>

abbreviation hm_put_all :: "('k \<times> 'v) list \<Rightarrow> ('k \<times> 'v) list \<Rightarrow> ('k \<times> 'v) list" where
  "hm_put_all kvs m \<equiv> fold (\<lambda>(k, v) m. hm_insert k v m) kvs m"

lemma parse_port:
  "CHR ''.'' \<notin> set port \<Longrightarrow> parse_edge_endpoint (i @ CHR ''.'' # port) = (i, port)"
proof -
  assume "CHR ''.'' \<notin> set port"
  then have "rsplit_once CHR ''.'' (i @ CHR ''.'' # port) = Some (i, port)" by (simp add: rsplit_once_Some)
  then show ?thesis by (simp add: parse_edge_endpoint_def)
qed

lemma endpoint_node_port: "CHR ''.'' \<notin> set i \<Longrightarrow> endpoint_node (i @ CHR ''.'' # port) = i"
  by (auto simp: endpoint_node_def first_segment_def takeWhile_tail takeWhile_eq_all_conv)

lemma add_success:
  "add_edge \<lparr>ec_from = a @ ''.success'', ec_to = b @ ''.in''\<rparr> (se, ee) = Inr (hm_insert a b se, ee)"
  by (simp add: add_edge_def parse_port)

lemma add_error:
  "add_edge \<lparr>ec_from = a @ ''.error'', ec_to = b @ ''.in''\<rparr> (se, ee) = Inr (se, hm_insert a b ee)"
  by (simp add: add_edge_def parse_port)

lemma fold_add_success:
  "fold_res add_edge (map (\<lambda>(a, b). \<lparr>ec_from = a @ ''.success'', ec_to = b @ ''.in''\<rparr>) kvs @ es) (se, ee) =
     fold_res add_edge es (hm_put_all kvs se, ee)"
  by (induction kvs arbitrary: se) (auto simp: add_success)

lemma fold_add_error:
  "fold_res add_edge (map (\<lambda>(a, b). \<lparr>ec_from = a @ ''.error'', ec_to = b @ ''.in''\<rparr>) kvs) (se, ee) =
     Inr (se, hm_put_all kvs ee)"
  by (induction kvs arbitrary: ee) (auto simp: add_error)

lemma windows2_zip:
  "us \<noteq> [] \<Longrightarrow> map (\<lambda>(a, b). (nc_id a, nc_id b)) (windows2 us) @ [(nc_id (last us), ''client'')] =
     zip (map nc_id us) (map nc_id (tl us) @ [''client''])"
  by (induction us rule: windows2.induct) auto

text \<open>The edges by the names they connect.\<close>

definition success_pairs :: "node_config list \<Rightarrow> (string \<times> string) list" where
  "success_pairs us = zip (map nc_id us) (map nc_id (tl us) @ [''client''])"

definition error_pairs :: "node_config list \<Rightarrow> on_error \<Rightarrow> (string \<times> string) list" where
  "error_pairs us oe = (if oe = Client then map (\<lambda>n. (nc_id n, ''client'')) us else [])"

lemma chain_edges_pairs:
  assumes "us \<noteq> []"
  shows "chain_edges us oe =
     \<lparr>ec_from = ''listener.out'', ec_to = nc_id (hd us) @ ''.in''\<rparr> #
     map (\<lambda>(a, b). \<lparr>ec_from = a @ ''.success'', ec_to = b @ ''.in''\<rparr>) (success_pairs us) @
     map (\<lambda>(a, b). \<lparr>ec_from = a @ ''.error'', ec_to = b @ ''.in''\<rparr>) (error_pairs us oe)"
proof -
  have "map (\<lambda>(a, b). \<lparr>ec_from = a @ ''.success'', ec_to = b @ ''.in''\<rparr>) (success_pairs us) =
      map (\<lambda>(a, b). \<lparr>ec_from = nc_id a @ ''.success'', ec_to = nc_id b @ ''.in''\<rparr>) (windows2 us) @
      [\<lparr>ec_from = nc_id (last us) @ ''.success'', ec_to = ''client.in''\<rparr>]"
    unfolding success_pairs_def windows2_zip [OF assms, symmetric] by (simp add: case_prod_unfold)
  then show ?thesis by (simp add: chain_edges_def error_pairs_def)
qed

lemma fold_chain_edges:
  assumes "us \<noteq> []"
  shows "fold_res add_edge (chain_edges us oe) ([], []) =
     Inr (hm_put_all (success_pairs us) [(''listener'', nc_id (hd us))], hm_put_all (error_pairs us oe) [])"
proof -
  have "add_edge \<lparr>ec_from = ''listener.out'', ec_to = i @ ''.in''\<rparr> ([], []) = Inr ([(''listener'', i)], [])" for i
    using parse_port [of "''out''" "''listener''"] by (simp add: add_edge_def parse_port hm_insert_def)
  then show ?thesis
    by (simp add: chain_edges_pairs [OF assms] fold_add_success fold_add_error)
qed

text \<open>Building the plugin of a node.\<close>

definition build_node ::
  "(string \<Rightarrow> config \<Rightarrow> string + 'w plugin) \<Rightarrow> (string \<Rightarrow> string option) \<Rightarrow> node_config
     \<Rightarrow> string + 'w plugin" where
  "build_node create env n =
     create (nc_type n) (map (map_prod id (interpolate_env_json env)) (nc_config n))"

lemma fold_add_user:
  assumes "list_all2 (\<lambda>n p. build_node create env n = Inr p) us ps"
    and "\<forall>n \<in> set us. nc_type n \<noteq> ''listener'' \<and> nc_type n \<noteq> ''client''"
  shows "fold_res (add_node create env) (us @ ns) (m, l, ts) =
     fold_res (add_node create env) ns (hm_put_all (zip (map nc_id us) ps) m, l, ts)"
  using assms
  by (induction us ps arbitrary: m rule: list_all2_induct) (simp_all add: add_node_def build_node_def)

text \<open>What the checks on the nodes leave.\<close>

lemma admit_nodes_ok:
  "admit_nodes i seen ns = Inr us \<Longrightarrow>
     distinct (map nc_id us) \<and> set (map nc_id us) \<inter> set seen = {} \<and>
     (\<forall>n \<in> set us. nc_type n \<noteq> ''listener'' \<and> nc_type n \<noteq> ''client'') \<and> length us = length ns"
proof (induction ns arbitrary: i seen us)
  case Nil
  then show ?case by simp
next
  case (Cons n ns)
  define n' where "n' = (if trim (nc_id n) = [] then n\<lparr>nc_id := nc_type n @ ''-'' @ show_nat i\<rparr> else n)"
  have t: "nc_type n' = nc_type n" by (simp add: n'_def)
  obtain us' where u: "us = n' # us'" and r: "admit_nodes (Suc i) (nc_id n' # seen) ns = Inr us'"
    and ok: "nc_type n \<noteq> ''listener''" "nc_type n \<noteq> ''client''" "nc_id n' \<notin> set seen"
    using Cons.prems by (auto simp: n'_def [symmetric] Let_def res_bind_eq_Inr split: if_split_asm)
  show ?case using Cons.IH [OF r] ok u t by auto
qed

lemma put_all_get:
  "distinct (map fst kvs) \<Longrightarrow>
     hm_get (hm_put_all kvs m) q = (case map_of kvs q of None \<Rightarrow> hm_get m q | Some v \<Rightarrow> Some v)"
  by (induction kvs arbitrary: m) (auto split: option.splits dest: map_of_SomeD simp: image_iff)

lemma map_of_zip_tail:
  "length is = length js \<Longrightarrow> distinct is \<Longrightarrow> map_of (zip is js) a = Some b \<longleftrightarrow> (a, b) \<in> set (zip is js)"
  by simp

lemma wiredI:
  assumes "length ps = length is"
    and "\<And>i p. (i, p) \<in> set (zip is ps) \<Longrightarrow> hm_get (cg_nodes g) i = Some p"
    and "\<And>i. i \<in> set is \<Longrightarrow> i \<notin> set (cg_terminal_node_ids g) \<and>
       hm_get (cg_error_edges g) i = (if oe = Client then Some ''client'' else None)"
    and "\<And>a b. (a, b) \<in> set (zip is (tl is @ [''client''])) \<Longrightarrow> hm_get (cg_success_edges g) a = Some b"
    and "wired g oe client []"
  shows "wired g oe client (zip is ps)"
  using assms
proof (induction "is" arbitrary: ps)
  case Nil
  then show ?case by simp
next
  case (Cons i "is")
  then obtain p ps' where ps: "ps = p # ps'" by (cases ps) auto
  have "wired g oe client (zip is ps')"
  proof (rule Cons.IH)
    show "hm_get (cg_success_edges g) a = Some b" if "(a, b) \<in> set (zip is (tl is @ [''client'']))" for a b
      using that Cons.prems(4) [of a b] by (cases "is") auto
  qed (use Cons.prems ps in auto)
  moreover have "hm_get (cg_success_edges g) i = Some (first_id (zip is ps'))"
    using Cons.prems(1,4) ps by (cases "is"; cases ps') (auto simp: first_id_def)
  ultimately show ?case using Cons.prems(2,3) ps by simp
qed

text \<open>The names a node list must avoid for its wiring to mean what it says.\<close>

definition clean_ids :: "node_config list \<Rightarrow> bool" where
  "clean_ids us \<longleftrightarrow> (\<forall>n \<in> set us. CHR ''.'' \<notin> set (nc_id n) \<and> nc_id n \<noteq> ''listener'' \<and> nc_id n \<noteq> ''client'')"

definition chain_policy :: "node_config list \<Rightarrow> on_error \<Rightarrow> policy_config" where
  "chain_policy us oe =
     \<lparr>pc_name = ''__sandbox'', pc_error_handler = None,
      pc_nodes = [plain_node ''listener''] @ us @ [plain_node ''client''], pc_edges = chain_edges us oe\<rparr>"

lemma synthesize_policy_Inr:
  "synthesize_policy ns oe = Inr p \<longleftrightarrow>
     (\<exists>us. ns \<noteq> [] \<and> admit_nodes 0 [] ns = Inr us \<and> p = chain_policy us oe)"
  by (auto simp: synthesize_policy_def chain_policy_def res_bind_eq_Inr)

lemma chain_targets:
  "us \<noteq> [] \<Longrightarrow> map ec_to (chain_edges us oe) =
     map (\<lambda>n. nc_id n @ ''.in'') us @ replicate (Suc (if oe = Client then length us else 0)) ''client.in''"
proof -
  assume ne: "us \<noteq> []"
  have "map ec_to (map (\<lambda>(a, b). \<lparr>ec_from = a @ ''.success'', ec_to = b @ ''.in''\<rparr>) (success_pairs us)) =
      map (\<lambda>b. b @ ''.in'') (map snd (success_pairs us))" by (simp add: case_prod_unfold)
  also have "map snd (success_pairs us) = map nc_id (tl us) @ [''client'']"
    using ne by (simp add: success_pairs_def)
  finally have "map ec_to (chain_edges us oe) =
      (nc_id (hd us) @ ''.in'') # map (\<lambda>n. nc_id n @ ''.in'') (tl us) @ [''client.in''] @
      replicate (if oe = Client then length us else 0) ''client.in''"
    unfolding chain_edges_pairs [OF ne]
    by (simp add: error_pairs_def comp_def case_prod_unfold map_replicate_const)
  then show ?thesis using ne by (cases us) simp_all
qed

lemma chain_sources:
  assumes "us \<noteq> []" and "e \<in> set (chain_edges us oe)"
  shows "ec_from e = ''listener.out'' \<or>
     (\<exists>n \<in> set us. ec_from e = nc_id n @ ''.success'' \<or> ec_from e = nc_id n @ ''.error'')"
  using assms
  by (auto simp: chain_edges_pairs success_pairs_def error_pairs_def dest!: set_zip_leftD split: if_splits)

lemma endpoint_node_chain:
  "CHR ''.'' \<notin> set i \<Longrightarrow> endpoint_node (i @ ''.in'') = i"
  "CHR ''.'' \<notin> set i \<Longrightarrow> endpoint_node (i @ ''.success'') = i"
  "CHR ''.'' \<notin> set i \<Longrightarrow> endpoint_node (i @ ''.error'') = i"
  "endpoint_node ''client.in'' = ''client''" "endpoint_node ''listener.out'' = ''listener''"
  by (simp_all add: endpoint_node_port) (simp_all add: endpoint_node_def first_segment_def)

lemma chain_policy_wf:
  assumes "us \<noteq> []" and "distinct (map nc_id us)" and "clean_ids us"
  shows "policy_wf (chain_policy us oe)"
proof -
  let ?p = "chain_policy us oe"
  have ids: "set (node_ids ?p) = insert ''listener'' (insert ''client'' (nc_id ` set us))"
    by (auto simp: node_ids_def chain_policy_def plain_node_def)
  have to: "endpoint_node (ec_to e) \<in> set (node_ids ?p)" if "e \<in> set (chain_edges us oe)" for e
  proof -
    have "ec_to e \<in> set (map ec_to (chain_edges us oe))" using that by simp
    then show ?thesis
      unfolding chain_targets [OF assms(1)] using assms(3)
      by (auto simp: ids clean_ids_def endpoint_node_chain)
  qed
  have src: "endpoint_node (ec_from e) \<in> set (node_ids ?p)" if "e \<in> set (chain_edges us oe)" for e
    using chain_sources [OF assms(1) that] assms(3)
    by (auto simp: ids clean_ids_def endpoint_node_chain)
  have dist: "distinct (filter (\<lambda>t. \<not> accepts_many ?p (endpoint_node t)) (map ec_to (chain_edges us oe)))"
  proof -
    have c: "accepts_many ?p ''client''"
      by (auto simp: accepts_many_def chain_policy_def plain_node_def)
    have "distinct (map (\<lambda>n. nc_id n @ ''.in'') us)"
      using assms(2) by (auto simp: distinct_map inj_on_def)
    then show ?thesis
      unfolding chain_targets [OF assms(1)] by (simp add: c endpoint_node_chain distinct_filter)
  qed
  have conn: "\<exists>e \<in> set (chain_edges us oe). endpoint_node (ec_from e) = nc_id n \<or> endpoint_node (ec_to e) = nc_id n"
    if n: "n \<in> set (pc_nodes ?p)" for n
  proof -
    have "nc_id n = ''listener'' \<or> nc_id n = ''client'' \<or> n \<in> set us"
      using n by (auto simp: chain_policy_def plain_node_def)
    moreover have "\<exists>e \<in> set (chain_edges us oe). ec_from e = ''listener.out''"
      by (simp add: chain_edges_def)
    moreover have "\<exists>e \<in> set (chain_edges us oe). ec_to e = ''client.in''"
      by (simp add: chain_edges_def)
    moreover have "\<exists>e \<in> set (chain_edges us oe). ec_to e = nc_id n @ ''.in''" if "n \<in> set us"
    proof -
      have "nc_id n @ ''.in'' \<in> set (map ec_to (chain_edges us oe))"
        unfolding chain_targets [OF assms(1)] using that by simp
      then show ?thesis by force
    qed
    ultimately show ?thesis
      using endpoint_node_chain assms(3) unfolding clean_ids_def by metis
  qed
  show ?thesis
    unfolding policy_wf_def using to src dist conn
    by (auto simp: chain_policy_def plain_node_def)
qed

lemma chain_compiles:
  assumes "us \<noteq> []" and "distinct (map nc_id us)" and "clean_ids us"
    and "\<forall>n \<in> set us. nc_type n \<noteq> ''listener'' \<and> nc_type n \<noteq> ''client''"
    and ps: "list_all2 (\<lambda>n q. build_node create env n = Inr q) us ps"
    and l: "build_node create env (plain_node ''listener'') = Inr pl"
    and c: "build_node create env (plain_node ''client'') = Inr client"
  shows "\<exists>g. compile_policy create env m (chain_policy us oe) = Inr g \<and>
     cg_entry_node_id g = nc_id (hd us) \<and> wired g oe client (zip (map nc_id us) ps)"
proof -
  have len: "length ps = length us" using ps by (simp add: list_all2_lengthD)
  define g where "g = \<lparr>cg_nodes = hm_insert ''client'' client
       (hm_put_all (zip (map nc_id us) ps) [(''listener'', pl)]),
     cg_success_edges = hm_put_all (success_pairs us) [(''listener'', nc_id (hd us))],
     cg_error_edges = hm_put_all (error_pairs us oe) [], cg_entry_node_id = nc_id (hd us),
     cg_terminal_node_ids = [''client''], cg_catch_all_handler = None,
     cg_policy_name = ''__sandbox'', cg_metrics = m\<rparr>"
  have nodes: "fold_res (add_node create env) ([plain_node ''listener''] @ us @ [plain_node ''client''])
      ([], None, []) = Inr (cg_nodes g, Some ''listener'', [''client''])"
    using fold_add_user [OF ps assms(4), of "[plain_node ''client'']"] l c
    by (simp add: add_node_def build_node_def plain_node_def g_def hm_insert_def)
  have dk: "distinct (map fst (success_pairs us))" "distinct (map fst (zip (map nc_id us) ps))"
    "distinct (map fst (error_pairs us oe))"
    using assms(1,2) len by (simp_all add: success_pairs_def error_pairs_def comp_def)
  have nk: "''listener'' \<notin> nc_id ` set us" "''client'' \<notin> nc_id ` set us"
    using assms(3) by (auto simp: clean_ids_def)
  have entry: "hm_get (cg_success_edges g) ''listener'' = Some (nc_id (hd us))"
  proof -
    have "map_of (success_pairs us) ''listener'' = None"
      using nk by (auto simp: map_of_eq_None_iff success_pairs_def dest!: set_zip_leftD)
    then show ?thesis by (simp add: g_def put_all_get [OF dk(1)])
  qed
  have "compile_policy create env m (chain_policy us oe) = Inr g"
    using nodes entry fold_chain_edges [OF assms(1)]
    by (simp add: compile_policy_def chain_policy_def) (simp add: g_def)
  moreover have "wired g oe client (zip (map nc_id us) ps)"
  proof (rule wiredI)
    show "length ps = length (map nc_id us)" using len by simp
    show "hm_get (cg_nodes g) i = Some p" if "(i, p) \<in> set (zip (map nc_id us) ps)" for i p
      using that nk dk(2) by (auto simp: g_def put_all_get map_of_is_SomeI dest!: set_zip_leftD)
    show "i \<notin> set (cg_terminal_node_ids g) \<and>
        hm_get (cg_error_edges g) i = (if oe = Client then Some ''client'' else None)"
      if "i \<in> set (map nc_id us)" for i
    proof -
      have "map_of (error_pairs us oe) i = (if oe = Client then Some ''client'' else None)"
        using that assms(2) by (auto simp: error_pairs_def comp_def intro!: map_of_is_SomeI)
      moreover have "i \<noteq> ''client''" using that nk by force
      ultimately show ?thesis by (simp add: g_def put_all_get [OF dk(3)])
    qed
    show "hm_get (cg_success_edges g) a = Some b"
      if "(a, b) \<in> set (zip (map nc_id us) (tl (map nc_id us) @ [''client'']))" for a b
      using that dk(1) by (simp add: g_def put_all_get success_pairs_def map_tl map_of_is_SomeI)
    have "map_of (error_pairs us oe) ''client'' = None"
      using nk(2) by (auto simp: map_of_eq_None_iff error_pairs_def)
    then show "wired g oe client []" by (simp add: g_def put_all_get [OF dk(3)])
  qed
  moreover have "cg_entry_node_id g = nc_id (hd us)" by (simp add: g_def)
  ultimately show ?thesis by blast
qed

section \<open>Properties\<close>

text \<open>
  C17: A sandbox run of a node list is the list run in order. Where the synthesizer accepts the
  nodes, their ids (given or generated) contain no dot and are not those of the two added nodes,
  and every node's plugin can be built, the policy validates, compiles, and its graph ends on
  every input after at most one step more than there are nodes, with the context and the world
  of the nodes run one after the other: the first failure ends the run with the generic error
  response or goes to the client node, as asked.
\<close>

theorem sandbox_runs_the_chain:
  assumes "synthesize_policy ns oe = Inr p" and "admit_nodes 0 [] ns = Inr us" and "clean_ids us"
    and "list_all2 (\<lambda>n q. build_node create env n = Inr q) us ps"
    and "build_node create env (plain_node ''listener'') = Inr pl"
    and "build_node create env (plain_node ''client'') = Inr client"
  shows "validate_policy p = Inr () \<and>
     (\<exists>g t. compile_policy create env m p = Inr g \<and> execute L g el c w = Some t \<and>
        (ru_ctx t, ru_world t) = run_chain oe client (zip (map nc_id us) ps) c w \<and>
        ru_clock t \<le> Suc (length us))"
proof -
  have p: "p = chain_policy us oe" and ne: "us \<noteq> []"
    using assms(1,2) admit_nodes_ok [OF assms(2)] by (auto simp: synthesize_policy_Inr)
  note ok = admit_nodes_ok [OF assms(2)]
  obtain g where g: "compile_policy create env m p = Inr g" "cg_entry_node_id g = nc_id (hd us)"
    and w: "wired g oe client (zip (map nc_id us) ps)"
    using chain_compiles [OF ne _ assms(3) _ assms(4-6), of m oe] ok p by auto
  have len: "length ps = length us" using assms(4) by (simp add: list_all2_lengthD)
  then have "cg_entry_node_id g = first_id (zip (map nc_id us) ps)"
    using g(2) ne by (cases us; cases ps) (auto simp: first_id_def)
  with wired_run [OF w, of L el "start_state c (w :: 'a) None" for w] len
  have "\<exists>t. execute L g el c w = Some t \<and>
      (ru_ctx t, ru_world t) = run_chain oe client (zip (map nc_id us) ps) c w \<and>
      ru_clock t \<le> Suc (length us)" by (auto simp: execute_def start_state_def)
  moreover have "validate_policy p = Inr ()"
    using chain_policy_wf [OF ne _ assms(3), of oe] ok p
    by (simp add: validate_policy_def policy_errors_Nil)
  ultimately show ?thesis using g(1) by blast
qed

definition demo_nodes :: "node_config list" where
  "demo_nodes = [\<lparr>nc_id = [], nc_type = ''cors'', nc_config = []\<rparr>, \<lparr>nc_id = ''x'', nc_type = ''bad'', nc_config = []\<rparr>]"

definition demo_admitted :: "node_config list" where
  "demo_admitted =
     [\<lparr>nc_id = ''cors-0'', nc_type = ''cors'', nc_config = []\<rparr>, \<lparr>nc_id = ''x'', nc_type = ''bad'', nc_config = []\<rparr>]"

lemma demo_nodes_admitted: "admit_nodes 0 [] demo_nodes = Inr demo_admitted"
  by code_simp

theorem sandbox_runs_the_chain_witness:
  "\<exists>g t. compile_policy demo_create Map.empty False (chain_policy demo_admitted Client) = Inr g \<and>
     execute plain_libs g id (new_context demo_request) () = Some t \<and>
     map err_code (cx_errors (ru_ctx t)) = [''BAD''] \<and> ru_clock t \<le> 3"
proof -
  have a: "synthesize_policy demo_nodes Client = Inr (chain_policy demo_admitted Client)"
    using demo_nodes_admitted by (auto simp: synthesize_policy_Inr demo_nodes_def)
  have b: "clean_ids demo_admitted" by (simp add: clean_ids_def demo_admitted_def)
  have c: "list_all2 (\<lambda>n q. build_node demo_create Map.empty n = Inr q) demo_admitted
      [pass_plugin ''cors'', fail_plugin ''bad'']"
    by (simp add: demo_admitted_def build_node_def demo_create_def)
  have d: "build_node demo_create Map.empty (plain_node ''listener'') = Inr (pass_plugin ''listener'')"
    "build_node demo_create Map.empty (plain_node ''client'') = Inr (pass_plugin ''client'')"
    by (simp_all add: build_node_def demo_create_def plain_node_def)
  obtain g t where "compile_policy demo_create Map.empty False (chain_policy demo_admitted Client) = Inr g"
    "execute plain_libs g id (new_context demo_request) () = Some t" "ru_clock t \<le> Suc (length demo_admitted)"
    and r: "(ru_ctx t, ru_world t) = run_chain Client (pass_plugin ''client'')
      (zip (map nc_id demo_admitted) [pass_plugin ''cors'', fail_plugin ''bad'']) (new_context demo_request) ()"
    using sandbox_runs_the_chain [OF a demo_nodes_admitted b c d, of False plain_libs id
        "new_context demo_request" "()"] by blast
  moreover have "map err_code (cx_errors (ru_ctx t)) = [''BAD'']"
    using r by (simp add: demo_admitted_def pass_plugin_def fail_plugin_def pure_exec_def fail_at_def
        push_error_def mk_error_def new_context_def)
  ultimately show ?thesis by (auto simp: demo_admitted_def)
qed

end
