(* ===== verification/Admin_Debug.thy ===== *)
theory Admin_Debug
  imports Sandbox
begin

text \<open>
  The debug endpoints of the admin API (src/src/admin/debug.rs): the settings, the trace list with
  its filters, one trace with the changes of every step, emptying the buffer, and the sandbox run.
  A reply carries the values the code serializes; their JSON encoding is serde's.
\<close>

section \<open>Filters\<close>

record trace_filter =
  tf_route :: "string option"
  tf_policy :: "string option"
  tf_status :: "nat option"
  tf_source :: "string option"
  tf_limit :: "nat option"

definition non_empty :: "string option \<Rightarrow> string option" where
  "non_empty s = opt_filter (\<lambda>t. t \<noteq> []) (map_option trim s)"

fun source_str :: "trace_source \<Rightarrow> string" where
  "source_str SrcRequest = ''request''"
| "source_str SrcSandbox = ''sandbox''"

text \<open>\<open>retain\<close> under an optional condition.\<close>

definition retain_if :: "('b \<Rightarrow> 'a \<Rightarrow> bool) \<Rightarrow> 'b option \<Rightarrow> 'a list \<Rightarrow> 'a list" where
  "retain_if p v xs = (case v of None \<Rightarrow> xs | Some x \<Rightarrow> filter (p x) xs)"

definition apply_filter :: "trace_summary list \<Rightarrow> trace_filter \<Rightarrow> trace_summary list" where
  "apply_filter traces f =
     (let t1 = retain_if (\<lambda>r t. su_route t = Some r) (non_empty (tf_route f)) traces;
          t2 = retain_if (\<lambda>p t. su_policy t = p) (non_empty (tf_policy f)) t1;
          t3 = retain_if (\<lambda>s t. su_status t = s) (tf_status f) t2;
          t4 = retain_if (\<lambda>s t. eq_ignore_ascii_case (source_str (su_source t)) s)
                 (non_empty (tf_source f)) t3
      in (case tf_limit f of None \<Rightarrow> t4 | Some n \<Rightarrow> take n t4))"

section \<open>Replies\<close>

text \<open>A trace with each step's changes against the snapshot before it.\<close>

record rendered_trace =
  rt_trace :: trace
  rt_steps :: "(node_step \<times> change list) list"

fun render_steps ::
  "libs \<Rightarrow> context_snapshot \<Rightarrow> node_step list \<Rightarrow> (node_step \<times> change list) list" where
  "render_steps L prev [] = []"
| "render_steps L prev (s # ss) = (s, diff L prev (ns_after s)) # render_steps L (ns_after s) ss"

definition render_trace :: "libs \<Rightarrow> trace \<Rightarrow> rendered_trace" where
  "render_trace L t = \<lparr>rt_trace = t, rt_steps = render_steps L (tc_initial t) (tc_steps t)\<rparr>"

datatype debug_reply =
    Plain reply
  | Traces "trace_summary list"
  | OneTrace rendered_trace
  | SandboxRun string string string rendered_trace

definition debug_disabled :: debug_reply where
  "debug_disabled = Plain not_found"

definition bad_request :: "string \<Rightarrow> debug_reply" where
  "bad_request msg = Plain (error_reply 400 msg)"

definition get_debug_config :: "debug_state \<Rightarrow> reply" where
  "get_debug_config d =
     \<lparr>re_status = 200, re_body = JObj
       [(''enabled'', JBool (ds_enabled d)), (''sandbox'', JBool (ds_sandbox_enabled d)),
        (''trigger_header'', JStr (ds_trigger_header d)), (''trace_all'', JBool (ds_trace_all d)),
        (''capture_bodies'', JBool (ds_capture_bodies d)), (''max_traces'', jnat (ds_max_traces d)),
        (''max_steps'', jnat (ds_max_steps d)), (''max_body_bytes'', jnat (ds_max_body_bytes d)),
        (''traces_stored'', jnat (length (ds_traces d)))]\<rparr>"

definition list_traces_handler :: "debug_state \<Rightarrow> trace_filter \<Rightarrow> debug_reply" where
  "list_traces_handler d f =
     (if \<not> ds_enabled d then debug_disabled else Traces (apply_filter (list_traces d) f))"

definition get_trace_handler :: "libs \<Rightarrow> debug_state \<Rightarrow> string \<Rightarrow> debug_reply" where
  "get_trace_handler L d i =
     (if \<not> ds_enabled d then debug_disabled
      else (case get_trace d i of
              Some t \<Rightarrow> OneTrace (render_trace L t)
            | None \<Rightarrow> Plain not_found))"

definition clear_traces_handler :: "debug_state \<Rightarrow> debug_reply \<times> debug_state" where
  "clear_traces_handler d =
     (if \<not> ds_enabled d then (debug_disabled, d)
      else (let (n, d') = clear_traces d in
            (Plain \<lparr>re_status = 200,
                    re_body = JObj [(''status'', JStr ''cleared''), (''removed'', jnat n)]\<rparr>, d')))"

section \<open>The sandbox run\<close>

record sandbox_request =
  sr_nodes :: "node_config list option"
  sr_policy :: "string option"
  sr_on_error :: on_error
  sr_context :: json

text \<open>The policy to run with its mode and name, or the reply that ends the request.\<close>

definition sandbox_policy ::
  "gateway_config \<Rightarrow> sandbox_request \<Rightarrow> debug_reply + string \<times> string \<times> policy_config" where
  "sandbox_policy gw req =
     (case (sr_nodes req, sr_policy req) of
        (Some nodes, None) \<Rightarrow>
          (case synthesize_policy nodes (sr_on_error req) of
             Inr p \<Rightarrow> Inr (''nodes'', ''__sandbox'', p)
           | Inl e \<Rightarrow> Inl (bad_request e))
      | (None, Some name) \<Rightarrow>
          (case find (\<lambda>p. pc_name p = name) (gw_policies gw) of
             Some p \<Rightarrow> Inr (''policy'', name, p)
           | None \<Rightarrow> Inl (Plain (error_reply 404 (''unknown policy '' @ sq name))))
      | _ \<Rightarrow> Inl (bad_request (''provide exactly one of '' @ sq ''nodes'' @ '' or '' @ sq ''policy'')))"

text \<open>
  The clocks and random values of a run. \<open>sx_cut\<close> is set when the timer fires first: the world
  at that moment is what the nodes run so far, and the one interrupted, have made of it.
\<close>

record 'w sandbox_observed =
  sx_trace_id :: string
  sx_started_ms :: nat
  sx_elapsed_us :: nat
  sx_node_us :: "nat \<Rightarrow> nat"
  sx_cut :: "'w option"

record sandbox_libs =
  sl_decode :: "json \<Rightarrow> string + sandbox_context_input"
  sl_b64 :: "string \<Rightarrow> string + string"

definition sandbox_timeout_reply :: "nat \<Rightarrow> debug_reply" where
  "sandbox_timeout_reply secs =
     Plain \<lparr>re_status = 504, re_body = JObj
       [(''error'', JStr ''sandbox_timeout''),
        (''message'', JStr (''run exceeded debug.sandbox_timeout_seconds ('' @ show_nat secs @ ''s)''))]\<rparr>"

text \<open>The checks before anything runs.\<close>

definition sandbox_prepare ::
  "libs \<Rightarrow> 'w registry \<Rightarrow> (string \<Rightarrow> string option) \<Rightarrow> sandbox_libs \<Rightarrow> 'w shared_state
     \<Rightarrow> sandbox_request \<Rightarrow> debug_reply + string \<times> string \<times> 'w compiled_graph \<times> gcontext" where
  "sandbox_prepare L create env S s req =
     (let d = sh_debug s in
      if \<not> ds_enabled d \<or> \<not> ds_sandbox_enabled d then Inl debug_disabled
      else
        res_bind (sandbox_policy (sh_gateway s) req) (\<lambda>(mode, name, p).
          case validate_policy p of
            Inl errors \<Rightarrow> Inl (bad_request (join ''; '' errors))
          | Inr _ \<Rightarrow>
          (case compile_policy create env True p of
             Inl e \<Rightarrow> Inl (bad_request e)
           | Inr g \<Rightarrow>
          (case materialize_context (sl_decode S) (sl_b64 S) (sr_context req) of
             Inl e \<Rightarrow> Inl (bad_request e)
           | Inr c \<Rightarrow> Inr (mode, name, g, c)))))"

text \<open>\<open>None\<close> where neither the graph's loop nor the timer ends the run.\<close>

definition run_sandbox ::
  "libs \<Rightarrow> 'w registry \<Rightarrow> (string \<Rightarrow> string option) \<Rightarrow> sandbox_libs \<Rightarrow> 'w sandbox_observed
     \<Rightarrow> 'w shared_state \<Rightarrow> sandbox_request \<Rightarrow> 'w \<Rightarrow> (debug_reply \<times> 'w \<times> debug_state) option" where
  "run_sandbox L create env S ob s req w =
     (let d = sh_debug s in
      case sandbox_prepare L create env S s req of
        Inl r \<Rightarrow> Some (r, w, d)
      | Inr (mode, name, g, c) \<Rightarrow>
          (case sx_cut ob of
             Some w' \<Rightarrow> Some (sandbox_timeout_reply (ds_sandbox_timeout_seconds d), w', d)
           | None \<Rightarrow>
               (let r = new_recorder L c (capture_options_of d) (ds_max_steps d) in
                case execute_traced L g (sx_node_us ob) c w r of
                  None \<Rightarrow> None
                | Some t \<Rightarrow>
                    (let (seq, d1) = next_seq d;
                         tr = finish (unwrap_or r (ru_recorder t)) (sx_trace_id ob) seq SrcSandbox
                                (sx_started_ms ob) None name (ru_ctx t) (sx_elapsed_us ob)
                     in Some (SandboxRun mode name (sx_trace_id ob) (render_trace L tr), ru_world t,
                              record_trace tr d1)))))"

section \<open>Facts\<close>

lemma record_trace_traces:
  "0 < ds_max_traces d \<Longrightarrow>
     ds_traces (record_trace t d) = drop (Suc (length (ds_traces d)) - ds_max_traces d) (ds_traces d) @ [t]"
  by (simp add: record_trace_def pop_until_drop)

lemma find_drop_None: "find p xs = None \<Longrightarrow> find p (drop n xs) = None"
  by (auto simp: find_None_iff dest: in_set_dropD)

lemma find_snoc: "find p xs = None \<Longrightarrow> p x \<Longrightarrow> find p (xs @ [x]) = Some x"
  by (induction xs) (auto split: if_splits)

lemma get_recorded_trace:
  assumes "0 < ds_max_traces d" and "get_trace d (tc_id t) = None"
  shows "get_trace (record_trace t d) (tc_id t) = Some t"
  using assms by (simp add: get_trace_def record_trace_traces find_snoc find_drop_None)

lemma record_trace_newest:
  "0 < ds_max_traces d \<Longrightarrow> list_traces (record_trace t d) = summary_of t # tl (list_traces (record_trace t d))"
  by (simp add: list_traces_def record_trace_traces)

lemma next_seq_frame: "next_seq d = (n, d1) \<Longrightarrow> ds_traces d1 = ds_traces d \<and> ds_max_traces d1 = ds_max_traces d \<and>
    ds_enabled d1 = ds_enabled d \<and> n = ds_seq d"
  by (auto simp: next_seq_def)

lemma record_trace_enabled [simp]: "ds_enabled (record_trace t d) = ds_enabled d"
  by (simp add: record_trace_def)

lemma prepare_enabled:
  "sandbox_prepare L create env S s req = Inr x \<Longrightarrow> ds_enabled (sh_debug s)"
  by (auto simp: sandbox_prepare_def Let_def split: if_splits)

section \<open>Properties\<close>

text \<open>
  What a sandbox run answers is what the debug API keeps of it. A run that is not refused and
  not cut off is filed under the id in its reply, as the newest trace and as a sandbox trace,
  and reading that id back renders exactly the trace of the reply, however full the ring buffer
  was, provided it has room for one trace and the fresh id is not in use. A refused request
  leaves the world and the store alone.
\<close>

theorem sandbox_reply_is_stored:
  assumes "0 < ds_max_traces (sh_debug s)" and "get_trace (sh_debug s) (sx_trace_id ob) = None"
    and "sx_cut ob = None" and "run_sandbox L create env S ob s req w = Some (reply, w', d')"
  shows "(\<exists>r. sandbox_prepare L create env S s req = Inl r \<and> reply = r \<and> w' = w \<and> d' = sh_debug s) \<or>
     (\<exists>mode name rt. reply = SandboxRun mode name (sx_trace_id ob) rt \<and>
        get_trace_handler L d' (sx_trace_id ob) = OneTrace rt \<and>
        list_traces d' = summary_of (rt_trace rt) # tl (list_traces d') \<and>
        tc_source (rt_trace rt) = SrcSandbox \<and> tc_seq (rt_trace rt) = ds_seq (sh_debug s))"
proof (cases "sandbox_prepare L create env S s req")
  case (Inl r)
  then show ?thesis using assms(4) by (simp add: run_sandbox_def)
next
  case (Inr x)
  obtain mode name g c where x: "x = (mode, name, g, c)" by (cases x)
  define r where "r = new_recorder L c (capture_options_of (sh_debug s)) (ds_max_steps (sh_debug s))"
  obtain n d1 where q: "next_seq (sh_debug s) = (n, d1)" by force
  obtain t where t: "execute_traced L g (sx_node_us ob) c w r = Some t"
    using assms(3,4) Inr x by (auto simp: run_sandbox_def r_def Let_def split: option.splits)
  define tr where "tr = finish (unwrap_or r (ru_recorder t)) (sx_trace_id ob) n SrcSandbox
      (sx_started_ms ob) None name (ru_ctx t) (sx_elapsed_us ob)"
  have eq: "reply = SandboxRun mode name (sx_trace_id ob) (render_trace L tr)" "d' = record_trace tr d1"
    using assms(3,4) Inr x t q by (simp_all add: run_sandbox_def r_def [symmetric] Let_def tr_def)
  have tid: "tc_id tr = sx_trace_id ob" "tc_source tr = SrcSandbox" "tc_seq tr = n" by (simp_all add: tr_def finish_def)
  note f = next_seq_frame [OF q]
  have "get_trace d1 (tc_id tr) = None" using assms(2) f tid by (simp add: get_trace_def)
  then have "get_trace d' (sx_trace_id ob) = Some tr"
    using get_recorded_trace [of d1 tr] assms(1) f eq tid by simp
  moreover have "ds_enabled d'" using prepare_enabled [OF Inr] f eq by simp
  moreover have "list_traces d' = summary_of tr # tl (list_traces d')"
    using record_trace_newest [of d1 tr] assms(1) f eq by simp
  ultimately show ?thesis using eq tid f by (simp add: get_trace_handler_def render_trace_def)
qed

definition demo_sandbox_state :: "unit shared_state" where
  "demo_sandbox_state = demo_state\<lparr>sh_debug := new_debug_state plain_libs
     (default_debug_config\<lparr>dc_enabled := True, dc_sandbox := True, dc_max_traces := 2\<rparr>)\<rparr>"

definition demo_sandbox_request :: sandbox_request where
  "demo_sandbox_request =
     \<lparr>sr_nodes = Some demo_nodes, sr_policy = None, sr_on_error = Client, sr_context = JNull\<rparr>"

definition demo_sandbox_libs :: sandbox_libs where
  "demo_sandbox_libs = \<lparr>sl_decode = (\<lambda>_. Inr default_context_input), sl_b64 = Inr\<rparr>"

definition demo_sandbox_observed :: "unit sandbox_observed" where
  "demo_sandbox_observed =
     \<lparr>sx_trace_id = ''t1'', sx_started_ms = 5, sx_elapsed_us = 7, sx_node_us = id, sx_cut = None\<rparr>"

lemma demo_sandbox_runs:
  "\<exists>g c. sandbox_prepare plain_libs demo_create Map.empty demo_sandbox_libs demo_sandbox_state
       demo_sandbox_request = Inr (''nodes'', ''__sandbox'', g, c) \<and>
     execute plain_libs g id c () \<noteq> None"
proof -
  have a: "synthesize_policy demo_nodes Client = Inr (chain_policy demo_admitted Client)"
    using demo_nodes_admitted by (auto simp: synthesize_policy_Inr demo_nodes_def)
  have b: "clean_ids demo_admitted" by (simp add: clean_ids_def demo_admitted_def)
  have c: "list_all2 (\<lambda>n q. build_node demo_create Map.empty n = Inr q) demo_admitted
      [pass_plugin ''cors'', fail_plugin ''bad'']"
    by (simp add: demo_admitted_def build_node_def demo_create_def)
  have d: "build_node demo_create Map.empty (plain_node ''listener'') = Inr (pass_plugin ''listener'')"
    "build_node demo_create Map.empty (plain_node ''client'') = Inr (pass_plugin ''client'')"
    by (simp_all add: build_node_def demo_create_def plain_node_def)
  obtain x where x: "into_context Inr default_context_input = Inr x"
    by (simp add: into_context_def input_body_def default_context_input_def)
  obtain g where g: "compile_policy demo_create Map.empty True (chain_policy demo_admitted Client) = Inr g"
    "cg_entry_node_id g = ''cors-0''"
    "wired g Client (pass_plugin ''client'') (zip (map nc_id demo_admitted) [pass_plugin ''cors'', fail_plugin ''bad''])"
    using chain_compiles [OF _ _ b _ c d, of True Client] by (auto simp: demo_admitted_def)
  have "execute plain_libs g id x () \<noteq> None"
    using wired_run [OF g(3), of plain_libs id "start_state x () None"] g(2)
    by (auto simp: execute_def demo_admitted_def first_id_def)
  moreover have "validate_policy (chain_policy demo_admitted Client) = Inr ()"
    using chain_policy_wf [of demo_admitted, OF _ _ b]
    by (simp add: validate_policy_def policy_errors_Nil demo_admitted_def)
  ultimately show ?thesis
    using a g(1) x
    by (simp add: sandbox_prepare_def sandbox_policy_def demo_sandbox_request_def demo_sandbox_state_def
        new_debug_state_def default_debug_config_def materialize_context_def demo_sandbox_libs_def)
qed

theorem sandbox_reply_is_stored_witness:
  "\<exists>rt d'. run_sandbox plain_libs demo_create Map.empty demo_sandbox_libs demo_sandbox_observed
       demo_sandbox_state demo_sandbox_request () =
       Some (SandboxRun ''nodes'' ''__sandbox'' ''t1'' rt, (), d') \<and>
     get_trace_handler plain_libs d' ''t1'' = OneTrace rt"
proof -
  obtain g c where p: "sandbox_prepare plain_libs demo_create Map.empty demo_sandbox_libs demo_sandbox_state
       demo_sandbox_request = Inr (''nodes'', ''__sandbox'', g, c)" and e: "execute plain_libs g id c () \<noteq> None"
    using demo_sandbox_runs by blast
  have tr: "execute_traced plain_libs g id c () r \<noteq> None" for r
    using e run_erase [of plain_libs g id "cg_entry_node_id g" "start_state c () (Some r)"]
    by (auto simp: execute_def execute_traced_def)
  then obtain rt d' where r: "run_sandbox plain_libs demo_create Map.empty demo_sandbox_libs demo_sandbox_observed
       demo_sandbox_state demo_sandbox_request () =
       Some (SandboxRun ''nodes'' ''__sandbox'' ''t1'' rt, (), d')"
    using p by (force simp: run_sandbox_def Let_def demo_sandbox_observed_def split: option.splits prod.splits)
  have h: "0 < ds_max_traces (sh_debug demo_sandbox_state)"
    "get_trace (sh_debug demo_sandbox_state) (sx_trace_id demo_sandbox_observed) = None"
    "sx_cut demo_sandbox_observed = None"
    by (simp_all add: demo_sandbox_state_def new_debug_state_def default_debug_config_def get_trace_def
        demo_sandbox_observed_def)
  from sandbox_reply_is_stored [OF h r] p r show ?thesis by (auto simp: demo_sandbox_observed_def)
qed

end
