(* ===== verification/Etcd.thy ===== *)
theory Etcd
  imports Plugin_Upstream Admin
begin

text \<open>
  The configuration store over etcd (src/src/config_store/etcd.rs): the calls to etcd's JSON
  gateway with their authentication, reading the keys under a prefix back into a configuration,
  committing a candidate, seeding an empty prefix and the polling task. \<open>etcd_env\<close> holds what is
  outside: one HTTP exchange with the server, and the serde encodings of the stored resources.

  What a commit leaves in etcd is the subject of \<open>Etcd_Commit\<close>.
\<close>

section \<open>The end of a prefix range\<close>

text \<open>The prefix with its last byte below 255 incremented and the rest cut off.\<close>

function prefix_range_end :: "string \<Rightarrow> string" where
  "prefix_range_end p =
     (if p = [] then [CHR 0x00]
      else if last p < CHR 0xFF then butlast p @ [char_of (of_char (last p) + 1 :: nat)]
      else prefix_range_end (butlast p))"
  by pat_completeness auto
termination by (relation "measure length") auto

declare prefix_range_end.simps [simp del]

text \<open>What a range request covers; a range end of one zero byte has no upper bound.\<close>

definition in_key_range :: "string \<Rightarrow> string \<Rightarrow> string \<Rightarrow> bool" where
  "in_key_range lo hi k \<longleftrightarrow> lo \<le> k \<and> (hi = [CHR 0x00] \<or> k < hi)"

lemma code_bound: "(of_char c :: nat) \<le> 255"
proof -
  have "(of_char c :: nat) < 256" by (rule nat_of_char_less_256)
  then show ?thesis by linarith
qed

lemma char_le_FF: "c \<le> CHR 0xFF"
  using code_bound [of c] by (simp add: less_eq_char_def)

lemma next_char:
  assumes "c < CHR 0xFF"
  shows "y < char_of (of_char c + 1 :: nat) \<longleftrightarrow> y \<le> c" and "char_of (of_char c + 1 :: nat) \<noteq> CHR 0x00"
proof -
  have "(of_char c :: nat) < 255" using assms by (simp add: less_char_def)
  then have n: "(of_char (char_of (of_char c + 1 :: nat)) :: nat) = of_char c + 1" by simp
  then show "y < char_of (of_char c + 1 :: nat) \<longleftrightarrow> y \<le> c"
    by (auto simp: less_char_def less_eq_char_def)
  show "char_of (of_char c + 1 :: nat) \<noteq> CHR 0x00"
  proof
    assume "char_of (of_char c + 1 :: nat) = CHR 0x00"
    from this [THEN arg_cong [of _ _ "of_char :: char \<Rightarrow> nat"]] show False unfolding n by simp
  qed
qed

lemma append_le: "q @ a \<le> q @ b \<longleftrightarrow> a \<le> b" for a b :: string
  by (induction q) simp_all

lemma starts_with_refl: "starts_with (p @ r) p"
  by (simp add: starts_with_iff)

lemma prefix_le: "p \<le> p @ r" for p :: string
  by (induction p) simp_all

lemma le_prefix_trans: "q @ a \<le> k \<Longrightarrow> q \<le> k" for k :: string
  using prefix_le [of q a] by (rule order_trans)

lemma last_byte_range:
  assumes "c < CHR 0xFF"
  shows "q @ [c] \<le> k \<and> k < q @ [char_of (of_char c + 1 :: nat)] \<longleftrightarrow> starts_with k (q @ [c])"
proof (induction q arbitrary: k)
  case Nil
  note n = next_char(1) [OF assms, simplified]
  show ?case by (cases k) (auto simp: n starts_with_def)
next
  case (Cons x q)
  show ?case
  proof (cases k)
    case (Cons y k')
    then show ?thesis using Cons.IH [of k'] by (auto simp: starts_with_def)
  qed (simp add: starts_with_def)
qed

lemma range_is_prefix: "in_key_range p (prefix_range_end p) k \<longleftrightarrow> starts_with k p"
proof (induction p arbitrary: k rule: prefix_range_end.induct)
  case (1 p)
  consider "p = []" | q c where "p = q @ [c]" "c < CHR 0xFF" | q c where "p = q @ [c]" "\<not> c < CHR 0xFF"
    by (cases p rule: rev_cases) auto
  then show ?case
  proof cases
    case 1
    moreover have "prefix_range_end [] = [CHR 0x00]" by (simp add: prefix_range_end.simps)
    ultimately show ?thesis by (simp add: in_key_range_def starts_with_def)
  next
    case (2 q c)
    then have "prefix_range_end p = q @ [char_of (of_char c + 1 :: nat)]"
      by (simp add: prefix_range_end.simps [of "q @ [c]"])
    moreover have "q @ [char_of (of_char c + 1 :: nat)] \<noteq> [CHR 0x00]"
      using next_char(2) [OF 2(2)] by (cases q) auto
    ultimately show ?thesis using last_byte_range [OF 2(2), of q k] 2(1) by (auto simp: in_key_range_def)
  next
    case (3 q c)
    then have c: "c = CHR 0xFF" using char_le_FF [of c] by simp
    have e: "prefix_range_end p = prefix_range_end q" using 3 by (simp add: prefix_range_end.simps [of "q @ [c]"])
    have IH: "in_key_range q (prefix_range_end q) k \<longleftrightarrow> starts_with k q"
      using 1 [of k] 3 by simp
    show ?thesis
    proof
      assume k: "in_key_range p (prefix_range_end p) k"
      then have "in_key_range q (prefix_range_end q) k"
        using le_prefix_trans [of q "[c]" k] 3(1) e by (simp add: in_key_range_def)
      with IH obtain r where r: "k = q @ r" by (auto simp: starts_with_iff)
      with k 3(1) have "[c] \<le> r" by (simp add: in_key_range_def append_le)
      then obtain y r' where "r = y # r'" "c \<le> y" by (cases r) auto
      then have "r = c # r'" using c char_le_FF [of y] by simp
      then show "starts_with k p" using r 3(1) by (simp add: starts_with_iff)
    next
      assume k: "starts_with k p"
      then have "starts_with k q" using 3(1) by (auto simp: starts_with_iff)
      with IH k 3(1) e show "in_key_range p (prefix_range_end p) k"
        by (auto simp: in_key_range_def starts_with_iff append_le)
    qed
  qed
qed

section \<open>Calls to etcd\<close>

record etcd_store =
  es_endpoints :: "string list"
  es_prefix :: string
  es_auth :: "(string \<times> string) option"
  es_timeout :: nat

record etcd_config =
  ec_endpoints :: "string list"
  ec_prefix :: string
  ec_user :: "string option"
  ec_password :: "string option"
  ec_timeout_ms :: nat

text \<open>
  The outside: an exchange of the outbound client with the server, whose state is \<open>'s\<close>, the
  parser of JSON texts and the serde encodings.
\<close>

record 's etcd_env =
  ev_request :: "outbound_request \<Rightarrow> 's \<Rightarrow> (outbound_error + outbound_response) \<times> 's"
  ev_duration :: "nat \<Rightarrow> string"
  ev_parse :: "string \<Rightarrow> string + json"
  ev_route_json :: "route_config \<Rightarrow> string"
  ev_policy_json :: "policy_config \<Rightarrow> string"
  ev_consumer_json :: "consumer_config \<Rightarrow> string"
  ev_gateway_json :: "gateway_config \<Rightarrow> string"
  ev_read_route :: "string \<Rightarrow> string + route_config"
  ev_read_policy :: "string \<Rightarrow> string + policy_config"
  ev_read_consumer :: "string \<Rightarrow> string + consumer_config"

text \<open>The connection: the cached token and the server.\<close>

record 's etcd_conn =
  cn_token :: "string option"
  cn_server :: 's

datatype etcd_call_error = Unauthorized | OtherError string

definition show_call_error :: "etcd_call_error \<Rightarrow> string" where
  "show_call_error e = (case e of Unauthorized \<Rightarrow> ''etcd unauthorized'' | OtherError m \<Rightarrow> m)"

definition new_etcd_store :: "etcd_config \<Rightarrow> etcd_store" where
  "new_etcd_store c =
     \<lparr>es_endpoints = ec_endpoints c,
      es_prefix = rev (dropWhile (\<lambda>x. x = CHR ''/'') (rev (ec_prefix c))),
      es_auth = (case (ec_user c, ec_password c) of (Some u, Some p) \<Rightarrow> Some (u, p) | _ \<Rightarrow> None),
      es_timeout = ec_timeout_ms c\<rparr>"

definition etcd_base :: "etcd_store \<Rightarrow> string + string" where
  "etcd_base e =
     (case es_endpoints e of [] \<Rightarrow> Inl ''no etcd endpoints configured'' | b # _ \<Rightarrow> Inr b)"

definition etcd_request :: "libs \<Rightarrow> etcd_store \<Rightarrow> string \<Rightarrow> string \<Rightarrow> json \<Rightarrow> string option \<Rightarrow> outbound_request" where
  "etcd_request L e base path body token =
     \<lparr>ob_method = ''POST'', ob_url = base @ path,
      ob_headers = (''content-type'', ''application/json'') #
        (case token of Some t \<Rightarrow> [(''authorization'', t)] | None \<Rightarrow> []),
      ob_body = json_print L body, ob_timeout = es_timeout e, ob_ssl_verify = True\<rparr>"

definition call_once ::
  "libs \<Rightarrow> 's etcd_env \<Rightarrow> etcd_store \<Rightarrow> string \<Rightarrow> json \<Rightarrow> 's etcd_conn
     \<Rightarrow> (etcd_call_error + json) \<times> 's etcd_conn" where
  "call_once L ev e path body st =
     (case etcd_base e of
        Inl m \<Rightarrow> (Inl (OtherError m), st)
      | Inr base \<Rightarrow>
          (case ev_request ev (etcd_request L e base path body (cn_token st)) (cn_server st) of
             (r, sv) \<Rightarrow>
               (case r of
                  Inl x \<Rightarrow> Inl (OtherError (show_outbound_error (ev_duration ev) x))
                | Inr resp \<Rightarrow>
                    if or_status resp = 401 then Inl Unauthorized
                    else if or_status resp \<noteq> 200 then
                      Inl (OtherError (''etcd '' @ path @ '' returned status '' @ show_nat (or_status resp) @
                        '': '' @ utf8_lossy (or_body resp)))
                    else (case ev_parse ev (or_body resp) of
                            Inl m \<Rightarrow> Inl (OtherError (''invalid etcd response: '' @ m))
                          | Inr v \<Rightarrow> Inr v),
                st\<lparr>cn_server := sv\<rparr>)))"

definition map_err :: "('e \<Rightarrow> 'f) \<Rightarrow> 'e + 'a \<Rightarrow> 'f + 'a" where
  "map_err f r = (case r of Inl e \<Rightarrow> Inl (f e) | Inr x \<Rightarrow> Inr x)"

definition authenticate ::
  "libs \<Rightarrow> 's etcd_env \<Rightarrow> etcd_store \<Rightarrow> 's etcd_conn \<Rightarrow> (string + unit) \<times> 's etcd_conn" where
  "authenticate L ev e st =
     (case es_auth e of
        None \<Rightarrow> (Inr (), st)
      | Some (user, pass) \<Rightarrow>
          (case call_once L ev e ''/v3/auth/authenticate''
                  (JObj [(''name'', JStr user), (''password'', JStr pass)]) st of
             (Inl x, st1) \<Rightarrow> (Inl (show_call_error x), st1)
           | (Inr resp, st1) \<Rightarrow>
               (case Option.bind (json_get resp ''token'') as_str of
                  None \<Rightarrow> (Inl ''etcd auth response missing token'', st1)
                | Some t \<Rightarrow> (Inr (), st1\<lparr>cn_token := Some t\<rparr>))))"

text \<open>A call, authenticating again once when the token is refused.\<close>

definition etcd_call ::
  "libs \<Rightarrow> 's etcd_env \<Rightarrow> etcd_store \<Rightarrow> string \<Rightarrow> json \<Rightarrow> 's etcd_conn \<Rightarrow> (string + json) \<times> 's etcd_conn" where
  "etcd_call L ev e path body st =
     (case call_once L ev e path body st of
        (Inl Unauthorized, st1) \<Rightarrow>
          if es_auth e \<noteq> None then
            (case authenticate L ev e st1 of
               (Inl m, st2) \<Rightarrow> (Inl m, st2)
             | (Inr _, st2) \<Rightarrow>
                 (case call_once L ev e path body st2 of (r, st3) \<Rightarrow> (map_err show_call_error r, st3)))
          else (Inl (show_call_error Unauthorized), st1)
      | (r, st1) \<Rightarrow> (map_err show_call_error r, st1))"

definition decode_kv :: "libs \<Rightarrow> json \<Rightarrow> string + string \<times> string" where
  "decode_kv L kv =
     (let k = unwrap_or [] (Option.bind (json_get kv ''key'') as_str);
          v = unwrap_or [] (Option.bind (json_get kv ''value'') as_str)
      in res_bind (ok_or (opt_filter utf8_ok (b64_decode L k)) ''etcd key not valid base64/utf8'') (\<lambda>key.
         res_bind (ok_or (b64_decode L v) ''etcd value not valid base64'') (\<lambda>value.
           Inr (key, value))))"

definition range_body :: "libs \<Rightarrow> etcd_store \<Rightarrow> json" where
  "range_body L e =
     (let key = es_prefix e @ ''/'' in
      JObj [(''key'', JStr (b64_encode L key)), (''range_end'', JStr (b64_encode L (prefix_range_end key)))])"

definition range_prefix ::
  "libs \<Rightarrow> 's etcd_env \<Rightarrow> etcd_store \<Rightarrow> 's etcd_conn \<Rightarrow> (string + (string \<times> string) list) \<times> 's etcd_conn" where
  "range_prefix L ev e st =
     (case etcd_call L ev e ''/v3/kv/range'' (range_body L e) st of
        (Inl m, st1) \<Rightarrow> (Inl m, st1)
      | (Inr resp, st1) \<Rightarrow>
          (traverse (decode_kv L) (unwrap_or [] (Option.bind (json_get resp ''kvs'') as_array)), st1))"

definition etcd_put ::
  "libs \<Rightarrow> 's etcd_env \<Rightarrow> etcd_store \<Rightarrow> string \<times> string \<Rightarrow> 's etcd_conn \<Rightarrow> (string + unit) \<times> 's etcd_conn" where
  "etcd_put L ev e kv st =
     (case etcd_call L ev e ''/v3/kv/put''
             (JObj [(''key'', JStr (b64_encode L (fst kv))), (''value'', JStr (b64_encode L (snd kv)))]) st of
        (r, st1) \<Rightarrow> (map_sum id (\<lambda>_. ()) r, st1))"

definition etcd_delete ::
  "libs \<Rightarrow> 's etcd_env \<Rightarrow> etcd_store \<Rightarrow> string \<Rightarrow> 's etcd_conn \<Rightarrow> (string + unit) \<times> 's etcd_conn" where
  "etcd_delete L ev e key st =
     (case etcd_call L ev e ''/v3/kv/deleterange'' (JObj [(''key'', JStr (b64_encode L key))]) st of
        (r, st1) \<Rightarrow> (map_sum id (\<lambda>_. ()) r, st1))"

text \<open>A \<open>for\<close> loop of fallible calls.\<close>

fun each_call :: "('x \<Rightarrow> 't \<Rightarrow> (string + unit) \<times> 't) \<Rightarrow> 'x list \<Rightarrow> 't \<Rightarrow> (string + unit) \<times> 't" where
  "each_call f [] st = (Inr (), st)"
| "each_call f (x # xs) st =
     (case f x st of (Inl m, st1) \<Rightarrow> (Inl m, st1) | (Inr _, st1) \<Rightarrow> each_call f xs st1)"

section \<open>Resources as keys\<close>

definition route_key :: "etcd_store \<Rightarrow> string \<Rightarrow> string" where
  "route_key e name = es_prefix e @ ''/routes/'' @ name"

definition policy_key :: "etcd_store \<Rightarrow> string \<Rightarrow> string" where
  "policy_key e name = es_prefix e @ ''/policies/'' @ name"

definition consumer_key :: "etcd_store \<Rightarrow> string \<Rightarrow> string" where
  "consumer_key e name = es_prefix e @ ''/consumers/'' @ name"

text \<open>The keys and values of a configuration, in the order they are written.\<close>

definition desired_kvs :: "'s etcd_env \<Rightarrow> etcd_store \<Rightarrow> gateway_config \<Rightarrow> (string \<times> string) list" where
  "desired_kvs ev e gw =
     map (\<lambda>r. (route_key e (rc_name r), ev_route_json ev r)) (gw_routes gw) @
     map (\<lambda>p. (policy_key e (pc_name p), ev_policy_json ev p)) (gw_policies gw) @
     map (\<lambda>c. (consumer_key e (cn_name c), ev_consumer_json ev c)) (gw_consumer_list gw)"

definition write_all ::
  "libs \<Rightarrow> 's etcd_env \<Rightarrow> etcd_store \<Rightarrow> gateway_config \<Rightarrow> 's etcd_conn \<Rightarrow> (string + unit) \<times> 's etcd_conn" where
  "write_all L ev e gw st = each_call (etcd_put L ev e) (desired_kvs ev e gw) st"

definition add_kv ::
  "'s etcd_env \<Rightarrow> string \<Rightarrow> string \<times> string \<Rightarrow> gateway_config \<Rightarrow> string + gateway_config" where
  "add_kv ev prefix kv gw =
     (let bad = (\<lambda>what m. ''bad '' @ what @ '' '' @ sq (fst kv) @ '': '' @ m) in
      case Option.bind (strip_prefix (fst kv) (prefix @ ''/'')) (split_once CHR ''/'') of
        None \<Rightarrow> Inr gw
      | Some (category, _) \<Rightarrow>
          if category = ''routes'' then
            res_bind (map_err (bad ''route'') (ev_read_route ev (snd kv)))
              (\<lambda>r. Inr (gw\<lparr>gw_routes := gw_routes gw @ [r]\<rparr>))
          else if category = ''policies'' then
            res_bind (map_err (bad ''policy'') (ev_read_policy ev (snd kv)))
              (\<lambda>p. Inr (gw\<lparr>gw_policies := gw_policies gw @ [p]\<rparr>))
          else if category = ''consumers'' then
            res_bind (map_err (bad ''consumer'') (ev_read_consumer ev (snd kv)))
              (\<lambda>c. Inr (gw\<lparr>gw_consumer_list := gw_consumer_list gw @ [c]\<rparr>))
          else Inr gw)"

definition gateway_from_kvs :: "'s etcd_env \<Rightarrow> string \<Rightarrow> (string \<times> string) list \<Rightarrow> string + gateway_config" where
  "gateway_from_kvs ev prefix kvs =
     fold_res (add_kv ev prefix) kvs \<lparr>gw_routes = [], gw_policies = [], gw_consumer_list = []\<rparr>"

section \<open>The store\<close>

definition etcd_load ::
  "libs \<Rightarrow> 's etcd_env \<Rightarrow> etcd_store \<Rightarrow> 's etcd_conn \<Rightarrow> (string + gateway_config) \<times> 's etcd_conn" where
  "etcd_load L ev e st =
     (case range_prefix L ev e st of
        (Inl m, st1) \<Rightarrow> (Inl m, st1)
      | (Inr kvs, st1) \<Rightarrow> (gateway_from_kvs ev (es_prefix e) kvs, st1))"

text \<open>Writing a candidate: every desired key is put, every other key under the prefix deleted.\<close>

definition etcd_reconcile ::
  "libs \<Rightarrow> 's etcd_env \<Rightarrow> etcd_store \<Rightarrow> gateway_config \<Rightarrow> 's etcd_conn \<Rightarrow> (string + unit) \<times> 's etcd_conn" where
  "etcd_reconcile L ev e gw st =
     (case range_prefix L ev e st of
        (Inl m, st1) \<Rightarrow> (Inl m, st1)
      | (Inr kvs, st1) \<Rightarrow>
          (case each_call (etcd_put L ev e) (desired_kvs ev e gw) st1 of
             (Inl m, st2) \<Rightarrow> (Inl m, st2)
           | (Inr _, st2) \<Rightarrow>
               each_call (etcd_delete L ev e)
                 (filter (\<lambda>k. k \<notin> fst ` set (desired_kvs ev e gw)) (remdups (map fst kvs))) st2))"

definition etcd_commit ::
  "libs \<Rightarrow> 's etcd_env \<Rightarrow> etcd_store \<Rightarrow> 'w registry \<Rightarrow> (string \<Rightarrow> string option)
     \<Rightarrow> 'w shared_state \<times> 's etcd_conn \<Rightarrow> gateway_config
     \<Rightarrow> (string + unit) \<times> 'w shared_state \<times> 's etcd_conn" where
  "etcd_commit L ev e create env x candidate =
     (let (s, st) = x in
      case validate_gateway L create env candidate of
        Inl m \<Rightarrow> (Inl m, s, st)
      | Inr _ \<Rightarrow>
          (case etcd_reconcile L ev e candidate st of
             (Inl m, st1) \<Rightarrow> (Inl m, s, st1)
           | (Inr _, st1) \<Rightarrow>
               (case apply_gateway L create env s candidate of (r, s1) \<Rightarrow> (r, s1, st1))))"

definition gateway_is_empty :: "gateway_config \<Rightarrow> bool" where
  "gateway_is_empty gw \<longleftrightarrow> gw_routes gw = [] \<and> gw_policies gw = [] \<and> gw_consumer_list gw = []"

text \<open>\<open>local\<close> is the configuration read from the local file.\<close>

definition build_source ::
  "libs \<Rightarrow> 's etcd_env \<Rightarrow> etcd_config option \<Rightarrow> string + gateway_config \<Rightarrow> 's
     \<Rightarrow> (string + etcd_store \<times> gateway_config) \<times> 's etcd_conn" where
  "build_source L ev cfg local sv =
     (let st = \<lparr>cn_token = None, cn_server = sv\<rparr> in
      case cfg of
        None \<Rightarrow> (Inl (''config.source is 'etcd' but no 'config.etcd' block is set''), st)
      | Some c \<Rightarrow>
          (let e = new_etcd_store c in
           case (if es_auth e \<noteq> None then authenticate L ev e st else (Inr (), st)) of
             (Inl m, st1) \<Rightarrow> (Inl m, st1)
           | (Inr _, st1) \<Rightarrow>
               (case etcd_load L ev e st1 of
                  (Inl m, st2) \<Rightarrow> (Inl m, st2)
                | (Inr gw, st2) \<Rightarrow>
                    (case local of
                       Inl _ \<Rightarrow> (Inr (e, gw), st2)
                     | Inr seed \<Rightarrow>
                         if gateway_is_empty gw \<and> \<not> gateway_is_empty seed then
                           (case write_all L ev e seed st2 of
                              (Inl m, st3) \<Rightarrow> (Inl m, st3)
                            | (Inr _, st3) \<Rightarrow>
                                (case etcd_load L ev e st3 of
                                   (Inl m, st4) \<Rightarrow> (Inl m, st4)
                                 | (Inr gw', st4) \<Rightarrow> (Inr (e, gw'), st4)))
                         else (Inr (e, gw), st2)))))"

text \<open>One round of the polling task; \<open>last\<close> is the text of the configuration applied last.\<close>

definition watch_tick ::
  "libs \<Rightarrow> 's etcd_env \<Rightarrow> etcd_store \<Rightarrow> 'w registry \<Rightarrow> (string \<Rightarrow> string option)
     \<Rightarrow> string option \<times> 'w shared_state \<times> 's etcd_conn \<Rightarrow> string option \<times> 'w shared_state \<times> 's etcd_conn" where
  "watch_tick L ev e create env x =
     (let (last, s, st) = x in
      case etcd_load L ev e st of
        (Inl _, st1) \<Rightarrow> (last, s, st1)
      | (Inr gw, st1) \<Rightarrow>
          (let fp = ev_gateway_json ev gw in
           if last = Some fp then (last, s, st1)
           else (case apply_gateway L create env s gw of
                   (Inr _, s1) \<Rightarrow> (Some fp, s1, st1)
                 | (Inl _, s1) \<Rightarrow> (last, s1, st1))))"

end
