(* ===== verification/Etcd_Commit.thy ===== *)
theory Etcd_Commit
  imports Etcd
begin

text \<open>
  Committing to etcd and reading back. The commit keeps the \<open>commit_contract\<close> of the admin API
  whatever the server does; with a server that behaves as etcd documents (\<open>etcd_behaves\<close>), what a
  node reads back is the configuration committed, with its lists sorted by name and the last of
  several equal names kept.
\<close>

section \<open>The store behind the admin API\<close>

text \<open>
  A commit that fails leaves the running configuration, one that succeeds makes the candidate live.
  This needs nothing of the server.
\<close>

interpretation etcd_backed: commit_contract "\<lambda>x. sh_gateway (fst x)" "etcd_commit L ev e create env"
    "\<lambda>x. consistent L create env (fst x)" "gateway_wf create env"
  for L ev e create env
proof (unfold_locales, goal_cases)
  case (1 x gw u x')
  obtain s st s' st' where x: "x = (s, st)" "x' = (s', st')" by (cases x, cases x')
  with 1 have "apply_gateway L create env s gw = (Inr (), s')"
    by (auto simp: etcd_commit_def Let_def split: sum.splits prod.splits)
  then have "file_commit L create env s gw = (Inr (), s')" by (simp add: file_commit_def)
  from file_store.commit_done [OF this] x show ?case by simp
next
  case (2 x gw m x')
  obtain s st s' st' where x: "x = (s, st)" "x' = (s', st')" by (cases x, cases x')
  with 2 have "s' = s \<or> file_commit L create env s gw = (Inl m, s')"
    by (auto simp: etcd_commit_def file_commit_def Let_def split: sum.splits prod.splits)
  with file_store.commit_refused [of L create env s gw m s'] x show ?case by auto
qed

section \<open>A server that behaves as etcd documents\<close>

text \<open>One key/value pair of a range response; an empty value is left out.\<close>

definition kv_json :: "libs \<Rightarrow> json \<Rightarrow> string \<times> string \<Rightarrow> bool" where
  "kv_json L j kv \<longleftrightarrow>
     json_get j ''key'' = Some (JStr (b64_encode L (fst kv))) \<and>
     (json_get j ''value'' = Some (JStr (b64_encode L (snd kv))) \<or>
      json_get j ''value'' = None \<and> snd kv = [])"

definition answers :: "'s etcd_env \<Rightarrow> outbound_request \<Rightarrow> 's \<Rightarrow> json \<Rightarrow> 's \<Rightarrow> bool" where
  "answers ev req s v s' \<longleftrightarrow>
     (\<exists>resp. ev_request ev req s = (Inr resp, s') \<and> or_status resp = 200 \<and> ev_parse ev (or_body resp) = Inr v)"

text \<open>
  The key space of the server is the map \<open>view\<close>: a put stores, a delete removes, a range answers
  with the pairs in the range in the order of their keys.
\<close>

definition serves_put ::
  "libs \<Rightarrow> 's etcd_env \<Rightarrow> etcd_store \<Rightarrow> string \<Rightarrow> ('s \<Rightarrow> string \<Rightarrow> string option) \<Rightarrow> bool" where
  "serves_put L ev e base view \<longleftrightarrow>
     (\<forall>token s k v. \<exists>r s'. answers ev (etcd_request L e base ''/v3/kv/put''
        (JObj [(''key'', JStr (b64_encode L k)), (''value'', JStr (b64_encode L v))]) token) s r s' \<and>
        view s' = (view s)(k \<mapsto> v))"

definition serves_delete ::
  "libs \<Rightarrow> 's etcd_env \<Rightarrow> etcd_store \<Rightarrow> string \<Rightarrow> ('s \<Rightarrow> string \<Rightarrow> string option) \<Rightarrow> bool" where
  "serves_delete L ev e base view \<longleftrightarrow>
     (\<forall>token s k. \<exists>r s'. answers ev (etcd_request L e base ''/v3/kv/deleterange''
        (JObj [(''key'', JStr (b64_encode L k))]) token) s r s' \<and> view s' = (view s)(k := None))"

definition serves_range ::
  "libs \<Rightarrow> 's etcd_env \<Rightarrow> etcd_store \<Rightarrow> string \<Rightarrow> ('s \<Rightarrow> string \<Rightarrow> string option) \<Rightarrow> bool" where
  "serves_range L ev e base view \<longleftrightarrow>
     (\<forall>token s lo hi. \<exists>r s' kvs. answers ev (etcd_request L e base ''/v3/kv/range''
        (JObj [(''key'', JStr (b64_encode L lo)), (''range_end'', JStr (b64_encode L hi))]) token) s r s' \<and>
        view s' = view s \<and> sorted_wrt (<) (map fst kvs) \<and>
        map_of kvs = view s |` {k. in_key_range lo hi k} \<and>
        list_all2 (kv_json L) (unwrap_or [] (Option.bind (json_get r ''kvs'') as_array)) kvs)"

definition etcd_behaves ::
  "libs \<Rightarrow> 's etcd_env \<Rightarrow> etcd_store \<Rightarrow> ('s \<Rightarrow> string \<Rightarrow> string option) \<Rightarrow> bool" where
  "etcd_behaves L ev e view \<longleftrightarrow>
     (\<exists>base. etcd_base e = Inr base \<and> serves_put L ev e base view \<and> serves_delete L ev e base view \<and>
        serves_range L ev e base view)"

text \<open>Base64 can be read back.\<close>

definition b64_ok :: "libs \<Rightarrow> bool" where
  "b64_ok L \<longleftrightarrow> (\<forall>x. b64_decode L (b64_encode L x) = Some x) \<and> b64_decode L [] = Some []"

lemma call_answers:
  assumes "etcd_base e = Inr base"
    and "answers ev (etcd_request L e base path body (cn_token st)) (cn_server st) v sv"
  shows "etcd_call L ev e path body st = (Inr v, st\<lparr>cn_server := sv\<rparr>)"
  using assms by (auto simp: etcd_call_def call_once_def answers_def map_err_def)

lemma put_view:
  assumes "etcd_behaves L ev e view"
  shows "\<exists>st'. etcd_put L ev e kv st = (Inr (), st') \<and>
    view (cn_server st') = (view (cn_server st))(fst kv \<mapsto> snd kv)"
proof -
  obtain base where b: "etcd_base e = Inr base" and p: "serves_put L ev e base view"
    using assms by (auto simp: etcd_behaves_def)
  obtain r sv where a: "answers ev (etcd_request L e base ''/v3/kv/put''
      (JObj [(''key'', JStr (b64_encode L (fst kv))), (''value'', JStr (b64_encode L (snd kv)))]) (cn_token st))
      (cn_server st) r sv" and v: "view sv = (view (cn_server st))(fst kv \<mapsto> snd kv)"
    using p unfolding serves_put_def by blast
  from call_answers [OF b a] v show ?thesis by (simp add: etcd_put_def)
qed

lemma delete_view:
  assumes "etcd_behaves L ev e view"
  shows "\<exists>st'. etcd_delete L ev e k st = (Inr (), st') \<and> view (cn_server st') = (view (cn_server st))(k := None)"
proof -
  obtain base where b: "etcd_base e = Inr base" and p: "serves_delete L ev e base view"
    using assms by (auto simp: etcd_behaves_def)
  obtain r sv where a: "answers ev (etcd_request L e base ''/v3/kv/deleterange''
      (JObj [(''key'', JStr (b64_encode L k))]) (cn_token st)) (cn_server st) r sv"
      and v: "view sv = (view (cn_server st))(k := None)"
    using p unfolding serves_delete_def by blast
  from call_answers [OF b a] v show ?thesis by (simp add: etcd_delete_def)
qed

lemma decode_kv_json:
  assumes "b64_ok L" "kv_json L j kv" "utf8_ok (fst kv)"
  shows "decode_kv L j = Inr kv"
  using assms by (auto simp: decode_kv_def kv_json_def b64_ok_def Let_def prod_eq_iff)

lemma range_view:
  assumes "etcd_behaves L ev e view" "b64_ok L"
    and "\<forall>k. view (cn_server st) k \<noteq> None \<longrightarrow> utf8_ok k"
  shows "\<exists>kvs st'. range_prefix L ev e st = (Inr kvs, st') \<and> view (cn_server st') = view (cn_server st) \<and>
    sorted_wrt (<) (map fst kvs) \<and>
    map_of kvs = view (cn_server st) |` {k. starts_with k (es_prefix e @ ''/'')}"
proof -
  let ?lo = "es_prefix e @ ''/''" let ?hi = "prefix_range_end ?lo"
  obtain base where b: "etcd_base e = Inr base" and p: "serves_range L ev e base view"
    using assms(1) by (auto simp: etcd_behaves_def)
  obtain r sv kvs where a: "answers ev (etcd_request L e base ''/v3/kv/range''
      (JObj [(''key'', JStr (b64_encode L ?lo)), (''range_end'', JStr (b64_encode L ?hi))]) (cn_token st))
      (cn_server st) r sv" and v: "view sv = view (cn_server st)" and s: "sorted_wrt (<) (map fst kvs)"
      and m: "map_of kvs = view (cn_server st) |` {k. in_key_range ?lo ?hi k}"
      and j: "list_all2 (kv_json L) (unwrap_or [] (Option.bind (json_get r ''kvs'') as_array)) kvs"
    using p unfolding serves_range_def by blast
  have "utf8_ok (fst kv)" if "kv \<in> set kvs" for kv
  proof -
    have "map_of kvs (fst kv) \<noteq> None" using that by (simp add: map_of_eq_None_iff)
    then have "view (cn_server st) (fst kv) \<noteq> None" unfolding m by (auto simp: restrict_map_def split: if_splits)
    with assms(3) show ?thesis by blast
  qed
  then have "list_all2 (\<lambda>x y. decode_kv L x = Inr y)
      (unwrap_or [] (Option.bind (json_get r ''kvs'') as_array)) kvs"
    by (intro list.rel_mono_strong [OF j]) (auto intro: decode_kv_json [OF assms(2)])
  then have "traverse (decode_kv L) (unwrap_or [] (Option.bind (json_get r ''kvs'') as_array)) = Inr kvs"
    by (simp add: traverse_eq_Inr)
  moreover have "etcd_call L ev e ''/v3/kv/range'' (range_body L e) st = (Inr r, st\<lparr>cn_server := sv\<rparr>)"
    unfolding range_body_def Let_def by (rule call_answers [OF b a])
  ultimately have "range_prefix L ev e st = (Inr kvs, st\<lparr>cn_server := sv\<rparr>)" by (simp add: range_prefix_def)
  with v s m show ?thesis by (simp add: range_is_prefix)
qed

lemma upd_add: "m(k \<mapsto> v) ++ n = m ++ ([k \<mapsto> v] ++ n)"
  by (rule ext) (simp add: map_add_def split: option.splits)

lemma puts_view:
  assumes "etcd_behaves L ev e view"
  shows "\<exists>st'. each_call (etcd_put L ev e) kvs st = (Inr (), st') \<and>
    view (cn_server st') = view (cn_server st) ++ map_of (rev kvs)"
proof (induction kvs arbitrary: st)
  case (Cons kv kvs)
  obtain st1 where p: "etcd_put L ev e kv st = (Inr (), st1)"
    "view (cn_server st1) = (view (cn_server st))(fst kv \<mapsto> snd kv)"
    using put_view [OF assms] by blast
  obtain st' where "each_call (etcd_put L ev e) kvs st1 = (Inr (), st')"
    "view (cn_server st') = view (cn_server st1) ++ map_of (rev kvs)"
    using Cons.IH by blast
  with p upd_add [of "view (cn_server st)" "fst kv" "snd kv" "map_of (rev kvs)"] show ?case
    by (cases kv) simp
qed simp

lemma deletes_view:
  assumes "etcd_behaves L ev e view"
  shows "\<exists>st'. each_call (etcd_delete L ev e) ks st = (Inr (), st') \<and>
    view (cn_server st') = view (cn_server st) |` (- set ks)"
proof (induction ks arbitrary: st)
  case (Cons k ks)
  obtain st1 where p: "etcd_delete L ev e k st = (Inr (), st1)"
    "view (cn_server st1) = (view (cn_server st))(k := None)"
    using delete_view [OF assms] by blast
  obtain st' where "each_call (etcd_delete L ev e) ks st1 = (Inr (), st')"
    "view (cn_server st') = view (cn_server st1) |` (- set ks)"
    using Cons.IH by blast
  with p show ?case by (auto simp: restrict_map_def)
qed (simp add: restrict_map_def)

section \<open>Resources\<close>

datatype resource = RRoute route_config | RPolicy policy_config | RConsumer consumer_config

fun key_of :: "etcd_store \<Rightarrow> resource \<Rightarrow> string" where
  "key_of e (RRoute r) = route_key e (rc_name r)"
| "key_of e (RPolicy p) = policy_key e (pc_name p)"
| "key_of e (RConsumer c) = consumer_key e (cn_name c)"

fun value_of :: "'s etcd_env \<Rightarrow> resource \<Rightarrow> string" where
  "value_of ev (RRoute r) = ev_route_json ev r"
| "value_of ev (RPolicy p) = ev_policy_json ev p"
| "value_of ev (RConsumer c) = ev_consumer_json ev c"

definition kv_of :: "'s etcd_env \<Rightarrow> etcd_store \<Rightarrow> resource \<Rightarrow> string \<times> string" where
  "kv_of ev e x = (key_of e x, value_of ev x)"

definition resources :: "gateway_config \<Rightarrow> resource list" where
  "resources gw = map RRoute (gw_routes gw) @ map RPolicy (gw_policies gw) @ map RConsumer (gw_consumer_list gw)"

lemma desired_resources: "desired_kvs ev e gw = map (kv_of ev e) (resources gw)"
  by (simp add: desired_kvs_def resources_def kv_of_def comp_def)

lemma key_prefixed: "starts_with (key_of e x) (es_prefix e @ ''/'')"
  by (cases x) (auto simp: route_key_def policy_key_def consumer_key_def starts_with_iff)

fun of_routes :: "resource list \<Rightarrow> route_config list" where
  "of_routes [] = []" | "of_routes (RRoute r # xs) = r # of_routes xs" | "of_routes (x # xs) = of_routes xs"

fun of_policies :: "resource list \<Rightarrow> policy_config list" where
  "of_policies [] = []" | "of_policies (RPolicy p # xs) = p # of_policies xs" | "of_policies (x # xs) = of_policies xs"

fun of_consumers :: "resource list \<Rightarrow> consumer_config list" where
  "of_consumers [] = []" | "of_consumers (RConsumer c # xs) = c # of_consumers xs" | "of_consumers (x # xs) = of_consumers xs"

lemma of_set:
  "r \<in> set (of_routes xs) \<longleftrightarrow> RRoute r \<in> set xs" "p \<in> set (of_policies xs) \<longleftrightarrow> RPolicy p \<in> set xs"
  "c \<in> set (of_consumers xs) \<longleftrightarrow> RConsumer c \<in> set xs"
  by (induction xs rule: of_routes.induct) auto

lemma split_category:
  "split_once CHR ''/'' (''routes/'' @ n) = Some (''routes'', n)"
  "split_once CHR ''/'' (''policies/'' @ n) = Some (''policies'', n)"
  "split_once CHR ''/'' (''consumers/'' @ n) = Some (''consumers'', n)"
  by simp_all

lemma strip_key:
  "strip_prefix (route_key e n) (es_prefix e @ ''/'') = Some (''routes/'' @ n)"
  "strip_prefix (policy_key e n) (es_prefix e @ ''/'') = Some (''policies/'' @ n)"
  "strip_prefix (consumer_key e n) (es_prefix e @ ''/'') = Some (''consumers/'' @ n)"
  by (simp_all add: strip_prefix_Some route_key_def policy_key_def consumer_key_def)

text \<open>The serde encoding of a resource can be read back.\<close>

fun reads_back :: "'s etcd_env \<Rightarrow> resource \<Rightarrow> bool" where
  "reads_back ev (RRoute r) \<longleftrightarrow> ev_read_route ev (ev_route_json ev r) = Inr r"
| "reads_back ev (RPolicy p) \<longleftrightarrow> ev_read_policy ev (ev_policy_json ev p) = Inr p"
| "reads_back ev (RConsumer c) \<longleftrightarrow> ev_read_consumer ev (ev_consumer_json ev c) = Inr c"

lemma add_kv_of:
  assumes "reads_back ev x"
  shows "add_kv ev (es_prefix e) (kv_of ev e x) gw =
    Inr \<lparr>gw_routes = gw_routes gw @ of_routes [x], gw_policies = gw_policies gw @ of_policies [x],
         gw_consumer_list = gw_consumer_list gw @ of_consumers [x]\<rparr>"
proof -
  note s = split_category [simplified] strip_key [simplified]
  show ?thesis
    using assms by (cases x) (simp_all add: add_kv_def kv_of_def s map_err_def)
qed

lemma gateway_from_resources:
  "\<forall>x \<in> set xs. reads_back ev x \<Longrightarrow> fold_res (add_kv ev (es_prefix e)) (map (kv_of ev e) xs) gw =
    Inr \<lparr>gw_routes = gw_routes gw @ of_routes xs, gw_policies = gw_policies gw @ of_policies xs,
         gw_consumer_list = gw_consumer_list gw @ of_consumers xs\<rparr>"
proof (induction xs arbitrary: gw)
  case (Cons x xs)
  then show ?case by (cases x) (simp_all add: add_kv_of)
qed simp

section \<open>What a commit leaves in etcd\<close>

definition keys_utf8 :: "('s \<Rightarrow> string \<Rightarrow> string option) \<Rightarrow> 's \<Rightarrow> bool" where
  "keys_utf8 view s \<longleftrightarrow> (\<forall>k. view s k \<noteq> None \<longrightarrow> utf8_ok k)"

lemma reconcile_view:
  assumes "etcd_behaves L ev e view" "b64_ok L" "keys_utf8 view (cn_server st)"
  shows "\<exists>st'. etcd_reconcile L ev e gw st = (Inr (), st') \<and>
    (\<forall>k. view (cn_server st') k =
      (if starts_with k (es_prefix e @ ''/'') then map_of (rev (desired_kvs ev e gw)) k else view (cn_server st) k))"
proof -
  let ?D = "desired_kvs ev e gw"
  obtain kvs st1 where r: "range_prefix L ev e st = (Inr kvs, st1)" "view (cn_server st1) = view (cn_server st)"
    "map_of kvs = view (cn_server st) |` {k. starts_with k (es_prefix e @ ''/'')}"
    using range_view [OF assms(1,2)] assms(3) unfolding keys_utf8_def by blast
  obtain st2 where p: "each_call (etcd_put L ev e) ?D st1 = (Inr (), st2)"
    "view (cn_server st2) = view (cn_server st1) ++ map_of (rev ?D)"
    using puts_view [OF assms(1)] by blast
  let ?ks = "filter (\<lambda>k. k \<notin> fst ` set ?D) (remdups (map fst kvs))"
  obtain st3 where d: "each_call (etcd_delete L ev e) ?ks st2 = (Inr (), st3)"
    "view (cn_server st3) = view (cn_server st2) |` (- set ?ks)"
    using deletes_view [OF assms(1)] by blast
  have D: "map_of (rev ?D) k = None \<longleftrightarrow> k \<notin> fst ` set ?D" for k by (simp add: map_of_eq_None_iff)
  have K: "k \<in> fst ` set kvs \<longleftrightarrow> starts_with k (es_prefix e @ ''/'') \<and> view (cn_server st) k \<noteq> None" for k
    using r(3) map_of_eq_None_iff [of kvs k] by (auto simp: restrict_map_def split: if_splits)
  have P: "starts_with k (es_prefix e @ ''/'')" if "k \<in> fst ` set ?D" for k
    using that key_prefixed by (auto simp: desired_resources kv_of_def)
  have "view (cn_server st3) k =
      (if starts_with k (es_prefix e @ ''/'') then map_of (rev ?D) k else view (cn_server st) k)" for k
  proof (cases "k \<in> fst ` set ?D")
    case True
    then obtain v where "map_of (rev ?D) k = Some v" using D [of k] by blast
    with True show ?thesis using P [OF True] by (simp add: d(2) p(2) restrict_map_def map_add_def)
  next
    case False
    then have "map_of (rev ?D) k = None" using D by blast
    then show ?thesis using False K [of k]
      by (auto simp: d(2) p(2) r(2) restrict_map_def map_add_def)
  qed
  moreover have "etcd_reconcile L ev e gw st = (Inr (), st3)"
    using r(1) p(1) d(1) by (simp add: etcd_reconcile_def)
  ultimately show ?thesis by blast
qed

text \<open>The last element with the given name.\<close>

definition last_named :: "('a \<Rightarrow> string) \<Rightarrow> 'a list \<Rightarrow> string \<Rightarrow> 'a option" where
  "last_named f xs n = find (\<lambda>x. f x = n) (rev xs)"

lemma map_of_rev_kv:
  "map_of (rev (map (kv_of ev e) xs)) (key_of e x) = map_option (value_of ev) (last_named (key_of e) xs (key_of e x))"
proof -
  have "map_of (map (kv_of ev e) ys) k = map_option (value_of ev) (find (\<lambda>y. key_of e y = k) ys)" for ys k
    by (induction ys) (auto simp: kv_of_def)
  then show ?thesis by (simp add: last_named_def rev_map)
qed

lemma find_append_choice: "find P (xs @ ys) = (case find P xs of None \<Rightarrow> find P ys | Some x \<Rightarrow> Some x)"
  by (induction xs) auto

lemma find_map: "find P (map f xs) = map_option f (find (\<lambda>x. P (f x)) xs)"
  by (induction xs) auto

lemma key_eq [simp]:
  "route_key e m = route_key e n \<longleftrightarrow> m = n" "policy_key e m = policy_key e n \<longleftrightarrow> m = n"
  "consumer_key e m = consumer_key e n \<longleftrightarrow> m = n"
  "route_key e m \<noteq> policy_key e n" "route_key e m \<noteq> consumer_key e n" "policy_key e m \<noteq> consumer_key e n"
  "policy_key e m \<noteq> route_key e n" "consumer_key e m \<noteq> route_key e n" "consumer_key e m \<noteq> policy_key e n"
  by (simp_all add: route_key_def policy_key_def consumer_key_def)

lemma key_less:
  "route_key e m < route_key e n \<longleftrightarrow> m < n" "policy_key e m < policy_key e n \<longleftrightarrow> m < n"
  "consumer_key e m < consumer_key e n \<longleftrightarrow> m < n"
proof -
  have "q @ a < q @ b \<longleftrightarrow> a < b" for q a b :: string by (induction q) simp_all
  from this [of "es_prefix e @ ''/routes/''" m n] this [of "es_prefix e @ ''/policies/''" m n]
    this [of "es_prefix e @ ''/consumers/''" m n]
  show "route_key e m < route_key e n \<longleftrightarrow> m < n" "policy_key e m < policy_key e n \<longleftrightarrow> m < n"
    "consumer_key e m < consumer_key e n \<longleftrightarrow> m < n"
    by (simp_all add: route_key_def policy_key_def consumer_key_def)
qed

lemma find_none: "(\<And>x. x \<in> set xs \<Longrightarrow> \<not> P x) \<Longrightarrow> find P xs = None"
  by (simp add: find_None_iff)

lemma last_resource:
  "last_named (key_of e) (resources gw) (route_key e n) = map_option RRoute (last_named rc_name (gw_routes gw) n)"
  "last_named (key_of e) (resources gw) (policy_key e n) = map_option RPolicy (last_named pc_name (gw_policies gw) n)"
  "last_named (key_of e) (resources gw) (consumer_key e n) =
     map_option RConsumer (last_named cn_name (gw_consumer_list gw) n)"
  by (auto simp: last_named_def resources_def rev_map find_append_choice find_map find_none split: option.splits)

lemma read_inj: "f (g a) = Inr a \<Longrightarrow> f (g b) = Inr b \<Longrightarrow> g a = g b \<Longrightarrow> a = b"
  by (metis sum.inject(2))

lemma value_inj:
  assumes "reads_back ev x" "reads_back ev y" "key_of e x = key_of e y" "value_of ev x = value_of ev y"
  shows "x = y"
proof (cases x)
  case (RRoute r)
  with assms(3) obtain r' where "y = RRoute r'" by (cases y) simp_all
  with assms(1,2,4) RRoute read_inj [of "ev_read_route ev" "ev_route_json ev" r r'] show ?thesis
    by (simp only: reads_back.simps value_of.simps resource.inject)
next
  case (RPolicy p)
  with assms(3) obtain p' where "y = RPolicy p'" by (cases y) simp_all
  with assms(1,2,4) RPolicy read_inj [of "ev_read_policy ev" "ev_policy_json ev" p p'] show ?thesis
    by (simp only: reads_back.simps value_of.simps resource.inject)
next
  case (RConsumer c)
  with assms(3) obtain c' where "y = RConsumer c'" by (cases y) simp_all
  with assms(1,2,4) RConsumer read_inj [of "ev_read_consumer ev" "ev_consumer_json ev" c c'] show ?thesis
    by (simp only: reads_back.simps value_of.simps resource.inject)
qed

lemma sorted_of:
  assumes "sorted_wrt (<) (map (key_of e) xs)"
  shows "sorted_wrt (<) (map rc_name (of_routes xs))" "sorted_wrt (<) (map pc_name (of_policies xs))"
    "sorted_wrt (<) (map cn_name (of_consumers xs))"
proof -
  have k: "route_key e n < key_of e (RRoute r) \<Longrightarrow> n < rc_name r" "policy_key e n < key_of e (RPolicy p) \<Longrightarrow> n < pc_name p"
    "consumer_key e n < key_of e (RConsumer c) \<Longrightarrow> n < cn_name c" for n r p c
    by (simp_all add: key_less)
  show "sorted_wrt (<) (map rc_name (of_routes xs))" "sorted_wrt (<) (map pc_name (of_policies xs))"
    "sorted_wrt (<) (map cn_name (of_consumers xs))"
    using assms by (induction xs rule: of_routes.induct) (auto simp: of_set intro: k)
qed

lemma sorted_distinct: "sorted_wrt (<) xs \<Longrightarrow> distinct xs" for xs :: "string list"
  by (induction xs) auto

lemma load_resources:
  assumes "etcd_behaves L ev e view" "b64_ok L" "keys_utf8 view (cn_server st)"
    and "\<forall>x \<in> set (resources gw). reads_back ev x"
    and "\<forall>k. starts_with k (es_prefix e @ ''/'') \<longrightarrow>
      view (cn_server st) k = map_of (rev (desired_kvs ev e gw)) k"
  shows "\<exists>xs st'. etcd_load L ev e st = (Inr \<lparr>gw_routes = of_routes xs, gw_policies = of_policies xs,
      gw_consumer_list = of_consumers xs\<rparr>, st') \<and> sorted_wrt (<) (map (key_of e) xs) \<and>
    (\<forall>x. x \<in> set xs \<longleftrightarrow> last_named (key_of e) (resources gw) (key_of e x) = Some x)"
proof -
  let ?D = "desired_kvs ev e gw"
  obtain kvs st' where r: "range_prefix L ev e st = (Inr kvs, st')" and s: "sorted_wrt (<) (map fst kvs)"
    and m: "map_of kvs = view (cn_server st) |` {k. starts_with k (es_prefix e @ ''/'')}"
    using range_view [OF assms(1,2)] assms(3) unfolding keys_utf8_def by blast
  have "map_of (rev ?D) k = None" if "\<not> starts_with k (es_prefix e @ ''/'')" for k
    using that key_prefixed [of e] by (auto simp: map_of_eq_None_iff desired_resources kv_of_def)
  then have eq: "map_of kvs = map_of (rev ?D)" using assms(5) m by (auto simp: restrict_map_def fun_eq_iff)
  have mem: "kv \<in> set kvs \<longleftrightarrow> map_of (rev ?D) (fst kv) = Some (snd kv)" for kv
    using sorted_distinct [OF s] eq by (metis map_of_eq_Some_iff prod.collapse)
  have "\<exists>x. kv = kv_of ev e x \<and> x \<in> set (resources gw)" if "kv \<in> set kvs" for kv
  proof -
    have "kv \<in> set ?D" using that mem map_of_SomeD by (metis prod.collapse set_rev)
    then show ?thesis by (auto simp: desired_resources)
  qed
  then have "\<exists>xs. kvs = map (kv_of ev e) xs \<and> set xs \<subseteq> set (resources gw)"
  proof (induction kvs)
    case (Cons kv kvs)
    then obtain x xs where "kv = kv_of ev e x" "x \<in> set (resources gw)" "kvs = map (kv_of ev e) xs"
      "set xs \<subseteq> set (resources gw)" by (metis list.set_intros)
    then have "kv # kvs = map (kv_of ev e) (x # xs) \<and> set (x # xs) \<subseteq> set (resources gw)" by simp
    then show ?case by (rule exI)
  qed simp
  then obtain xs where xs: "kvs = map (kv_of ev e) xs" "set xs \<subseteq> set (resources gw)" by blast
  have inj: "x = y" if "x \<in> set (resources gw)" "y \<in> set (resources gw)" "kv_of ev e x = kv_of ev e y" for x y
    using that assms(4) value_inj [of ev x y e] by (simp add: kv_of_def)
  have "etcd_load L ev e st = (Inr \<lparr>gw_routes = of_routes xs, gw_policies = of_policies xs,
      gw_consumer_list = of_consumers xs\<rparr>, st')"
    using r gateway_from_resources [of xs ev e] subsetD [OF xs(2)] assms(4)
    by (simp add: etcd_load_def gateway_from_kvs_def xs(1))
  moreover have "sorted_wrt (<) (map (key_of e) xs)" using s by (simp add: xs(1) kv_of_def comp_def)
  moreover have "x \<in> set xs \<longleftrightarrow> last_named (key_of e) (resources gw) (key_of e x) = Some x" for x
  proof -
    have look: "map_of (rev ?D) (key_of e x) = map_option (value_of ev) (last_named (key_of e) (resources gw) (key_of e x))"
      using map_of_rev_kv [of ev e "resources gw" x] by (simp add: desired_resources)
    have last: "y \<in> set (resources gw) \<and> key_of e y = key_of e x"
      if "last_named (key_of e) (resources gw) (key_of e x) = Some y" for y
      using that by (auto simp: last_named_def find_Some_iff) (metis length_rev nth_mem set_rev)
    show ?thesis
    proof
      assume x: "x \<in> set xs"
      then have "map_of (rev ?D) (key_of e x) = Some (value_of ev x)"
        using mem [of "kv_of ev e x"] by (simp add: xs(1) kv_of_def image_iff) blast
      then obtain y where y: "last_named (key_of e) (resources gw) (key_of e x) = Some y" "value_of ev y = value_of ev x"
        using look by auto
      with last [OF y(1)] inj [of y x] xs(2) x show "last_named (key_of e) (resources gw) (key_of e x) = Some x"
        by (auto simp: kv_of_def)
    next
      assume l: "last_named (key_of e) (resources gw) (key_of e x) = Some x"
      then have "kv_of ev e x \<in> set kvs" using mem [of "kv_of ev e x"] look by (simp add: kv_of_def)
      then obtain z where "z \<in> set xs" "kv_of ev e z = kv_of ev e x" by (auto simp: xs(1))
      then show "x \<in> set xs" using inj [of z x] last [OF l] xs(2) by auto
    qed
  qed
  ultimately show ?thesis by blast
qed

section \<open>Properties\<close>

text \<open>
  The range request of the store covers exactly the keys with the configured prefix, for every
  prefix, those ending in bytes 255 and the empty one included.
\<close>

theorem etcd_range_covers_prefix:
  "in_key_range p (prefix_range_end p) k \<longleftrightarrow> starts_with k p"
  by (rule range_is_prefix)


text \<open>
  A small server for the example: its state is an association list, requests and responses carry
  their strings escaped, and base64 and the consumer's encoding are the simplest possible.
\<close>

definition escape :: "string \<Rightarrow> string" where
  "escape s = concat (map (\<lambda>c. [CHR 0x01, c]) s) @ [CHR 0x02]"

fun unescape :: "string \<Rightarrow> string \<Rightarrow> string list" where
  "unescape acc [] = []"
| "unescape acc (x # s) =
     (if x = CHR 0x02 then acc # unescape [] s
      else (case s of [] \<Rightarrow> [] | c # t \<Rightarrow> unescape (acc @ [c]) t))"

lemma unescape_escape: "unescape acc (escape s @ rest) = (acc @ s) # unescape [] rest"
  by (induction s arbitrary: acc) (simp_all add: escape_def)

fun demo_pairs :: "string list \<Rightarrow> json list" where
  "demo_pairs (k # v # xs) = JObj [(''key'', JStr k), (''value'', JStr v)] # demo_pairs xs"
| "demo_pairs _ = []"

definition demo_etcd_libs :: libs where
  "demo_etcd_libs = plain_libs\<lparr>json_print := \<lambda>v. case v of
     JObj [(_, JStr a), (_, JStr b)] \<Rightarrow> escape a @ escape b | JObj [(_, JStr a)] \<Rightarrow> escape a | _ \<Rightarrow> []\<rparr>"

definition range_of :: "string \<Rightarrow> string \<Rightarrow> (string \<times> string) list \<Rightarrow> (string \<times> string) list" where
  "range_of lo hi s =
     map (\<lambda>k. (k, the (map_of s k))) (sorted_list_of_set {k \<in> fst ` set s. in_key_range lo hi k})"

definition demo_serve ::
  "outbound_request \<Rightarrow> (string \<times> string) list \<Rightarrow> (outbound_error + outbound_response) \<times> (string \<times> string) list" where
  "demo_serve req s =
     (let args = unescape [] (ob_body req); ok = (\<lambda>b. Inr \<lparr>or_status = 200, or_headers = [], or_body = b\<rparr>) in
      if ob_url req = ''e/v3/kv/put'' then (ok [], (args ! 0, args ! 1) # s)
      else if ob_url req = ''e/v3/kv/deleterange'' then (ok [], filter (\<lambda>kv. fst kv \<noteq> args ! 0) s)
      else (ok (concat (map (\<lambda>kv. escape (fst kv) @ escape (snd kv)) (range_of (args ! 0) (args ! 1) s))), s))"

definition demo_etcd_env :: "(string \<times> string) list etcd_env" where
  "demo_etcd_env =
     \<lparr>ev_request = demo_serve, ev_duration = (\<lambda>_. []),
      ev_parse = (\<lambda>b. Inr (JObj [(''kvs'', JArr (demo_pairs (unescape [] b)))])),
      ev_route_json = (\<lambda>_. []), ev_policy_json = (\<lambda>_. []), ev_consumer_json = (\<lambda>_. ''c''), ev_gateway_json = (\<lambda>_. []),
      ev_read_route = (\<lambda>_. Inl []), ev_read_policy = (\<lambda>_. Inl []), ev_read_consumer = (\<lambda>_. Inr demo_consumer)\<rparr>"

definition demo_etcd_store :: etcd_store where
  "demo_etcd_store = \<lparr>es_endpoints = [''e''], es_prefix = ''/f'', es_auth = None, es_timeout = 3000\<rparr>"

lemma demo_range:
  "sorted_wrt (<) (map fst (range_of lo hi s))"
  "map_of (range_of lo hi s) = map_of s |` {k. in_key_range lo hi k}"
proof -
  let ?K = "{k \<in> fst ` set s. in_key_range lo hi k}"
  have f: "finite ?K" by simp
  show "sorted_wrt (<) (map fst (range_of lo hi s))" by (simp add: range_of_def comp_def)
  have "map_of (map (\<lambda>k. (k, the (map_of s k))) ks) k = (if k \<in> set ks then Some (the (map_of s k)) else None)" for ks k
    by (induction ks) auto
  then have "map_of (range_of lo hi s) k = (if k \<in> ?K then Some (the (map_of s k)) else None)" for k
    using f by (simp add: range_of_def)
  moreover have "k \<in> fst ` set s \<longleftrightarrow> map_of s k \<noteq> None" for k by (simp add: map_of_eq_None_iff)
  ultimately show "map_of (range_of lo hi s) = map_of s |` {k. in_key_range lo hi k}"
    by (auto simp: fun_eq_iff restrict_map_def)
qed

lemma demo_decode:
  "list_all2 (kv_json demo_etcd_libs)
     (demo_pairs (unescape [] (concat (map (\<lambda>kv. escape (fst kv) @ escape (snd kv)) kvs)))) kvs"
  by (induction kvs) (simp_all add: unescape_escape kv_json_def demo_etcd_libs_def plain_libs_def)

lemma demo_etcd_behaves: "etcd_behaves demo_etcd_libs demo_etcd_env demo_etcd_store map_of"
proof -
  note d = answers_def etcd_request_def demo_etcd_env_def demo_serve_def demo_etcd_libs_def plain_libs_def
  have u: "unescape [] (escape a @ escape b) = [a, b]" "unescape [] (escape a) = [a]" for a b
    using unescape_escape [of "[]" a "escape b"] unescape_escape [of "[]" b "[]"] unescape_escape [of "[]" a "[]"]
    by simp_all
  have "serves_put demo_etcd_libs demo_etcd_env demo_etcd_store ''e'' map_of"
    by (auto simp: serves_put_def d u)
  moreover have "map_of (filter (\<lambda>kv. fst kv \<noteq> k) s) = (map_of s)(k := None)" for k and s :: "(string \<times> string) list"
    by (induction s) auto
  then have "serves_delete demo_etcd_libs demo_etcd_env demo_etcd_store ''e'' map_of"
    by (auto simp: serves_delete_def d u)
  moreover have "serves_range demo_etcd_libs demo_etcd_env demo_etcd_store ''e'' map_of"
    unfolding serves_range_def
  proof (intro allI)
    fix token s lo hi
    show "\<exists>r s' kvs. answers demo_etcd_env (etcd_request demo_etcd_libs demo_etcd_store ''e'' ''/v3/kv/range''
        (JObj [(''key'', JStr (b64_encode demo_etcd_libs lo)), (''range_end'', JStr (b64_encode demo_etcd_libs hi))])
        token) s r s' \<and> map_of s' = map_of s \<and> sorted_wrt (<) (map fst kvs) \<and>
        map_of kvs = map_of s |` {k. in_key_range lo hi k} \<and>
        list_all2 (kv_json demo_etcd_libs) (unwrap_or [] (Option.bind (json_get r ''kvs'') as_array)) kvs"
      using demo_range [of lo hi s] demo_decode [of "range_of lo hi s"]
      by (intro exI [of _ "JObj [(''kvs'', JArr (demo_pairs (unescape []
            (concat (map (\<lambda>kv. escape (fst kv) @ escape (snd kv)) (range_of lo hi s))))))]"] exI [of _ s]
            exI [of _ "range_of lo hi s"]) (simp add: d u)
  qed
  moreover have "etcd_base demo_etcd_store = Inr ''e''" by (simp add: etcd_base_def demo_etcd_store_def)
  ultimately show ?thesis unfolding etcd_behaves_def by blast
qed


text \<open>
  C34: The etcd store refines the file store. A candidate the file store refuses is refused with the
  same message and never reaches etcd; for any other, whatever etcd answers, the node ends either
  in the state the file store would reach, and the commit succeeds, or in the state it had.
\<close>

theorem etcd_commit_refines_file:
  "case file_commit L create env s gw of
     (Inl m, _) \<Rightarrow> etcd_commit L ev e create env (s, st) gw = (Inl m, s, st)
   | (Inr _, s') \<Rightarrow> \<exists>r st'. etcd_commit L ev e create env (s, st) gw = (r, (if isl r then s else s'), st')"
proof (cases "store_from_config (gw_consumer_list gw)")
  case (Inl m)
  then show ?thesis by (simp add: file_commit_def apply_gateway_def etcd_commit_def validate_gateway_def Let_def)
next
  case (Inr cons)
  show ?thesis
  proof (cases "compile_routes L create env gw")
    case (Inl m)
    with Inr show ?thesis
      by (simp add: file_commit_def apply_gateway_def etcd_commit_def validate_gateway_def Let_def)
  next
    case (Inr routes)
    with \<open>store_from_config (gw_consumer_list gw) = Inr cons\<close> show ?thesis
      by (cases "etcd_reconcile L ev e gw st"; cases "fst (etcd_reconcile L ev e gw st)")
        (auto simp: file_commit_def apply_gateway_def etcd_commit_def validate_gateway_def Let_def)
  qed
qed

end
