(* ===== verification/Listener.thy ===== *)
theory Listener
  imports Gateway_State
begin

text \<open>
  The data plane's request handler (src/src/server/listener.rs, \<open>handle_request\<close>) and the
  WebSocket handshake it hands over to (src/src/server/websocket.rs). Accepting connections, TLS
  and the byte relay are I/O; the rest of a request is a function of the parsed request, the
  shared state, and what the outside supplies: clocks, the trace id, the upstream's handshake and
  which header names, header values and statuses the http crate's builder accepts.
\<close>

section \<open>Responses\<close>

record http_lib =
  ok_status :: "nat \<Rightarrow> bool"
  ok_name :: "string \<Rightarrow> bool"
  ok_value :: "string \<Rightarrow> bool"

record http_response =
  hr_status :: nat
  hr_headers :: "(string \<times> string) list"
  hr_body :: string

text \<open>\<open>Response::builder()...body(...)\<close>: an invalid status, name or value makes it an error.\<close>

definition build_response ::
  "http_lib \<Rightarrow> nat \<Rightarrow> (string \<times> string) list \<Rightarrow> string \<Rightarrow> http_response option" where
  "build_response H status headers body =
     (if ok_status H status \<and> list_all (\<lambda>(k, v). ok_name H k \<and> ok_value H v) headers
      then Some \<lparr>hr_status = status, hr_headers = headers, hr_body = body\<rparr> else None)"

section \<open>WebSocket handshake\<close>

definition header_str :: "(string \<times> string option) list \<Rightarrow> string \<Rightarrow> string option" where
  "header_str hs name = Option.bind (map_of hs name) id"

definition is_websocket_upgrade :: "(string \<times> string option) list \<Rightarrow> bool" where
  "is_websocket_upgrade hs \<longleftrightarrow>
     (case header_str hs ''connection'' of
        None \<Rightarrow> False
      | Some v \<Rightarrow> list_ex (\<lambda>token. eq_ignore_ascii_case (trim token) ''upgrade'') (split_on CHR '','' v)) \<and>
     (case header_str hs ''upgrade'' of
        None \<Rightarrow> False
      | Some v \<Rightarrow> eq_ignore_ascii_case v ''websocket'')"

definition is_h2_websocket_connect :: "string \<Rightarrow> string option \<Rightarrow> bool" where
  "is_h2_websocket_connect meth protocol \<longleftrightarrow>
     meth = ''CONNECT'' \<and>
     (case protocol of None \<Rightarrow> False | Some p \<Rightarrow> eq_ignore_ascii_case p ''websocket'')"

datatype ws_error =
    WsConnect string string
  | WsHandshake string
  | WsUpstreamRejected nat
  | WsUpgrade string
  | WsTls string

definition forward_headers :: "string list" where
  "forward_headers =
     [''upgrade'', ''connection'', ''sec-websocket-key'', ''sec-websocket-version'',
      ''sec-websocket-protocol'', ''sec-websocket-extensions'']"

definition echo_headers :: "string list" where
  "echo_headers =
     [''upgrade'', ''connection'', ''sec-websocket-accept'', ''sec-websocket-protocol'',
      ''sec-websocket-extensions'']"

definition h1_only :: "string \<Rightarrow> bool" where
  "h1_only n \<longleftrightarrow> n \<in> {''upgrade'', ''connection'', ''sec-websocket-key'', ''sec-websocket-version''}"

text \<open>The headers of the upstream handshake; \<open>key\<close> is the random key of an HTTP/2 client.\<close>

definition handshake_headers ::
  "string \<Rightarrow> string \<Rightarrow> nat \<Rightarrow> string list hmap \<Rightarrow> bool \<Rightarrow> (string \<times> string) list" where
  "handshake_headers key host port fwd h2 =
     (''host'', host @ '':'' @ show_nat port) #
     concat (map (\<lambda>n. if h2 \<and> h1_only n then []
                       else map (Pair n) (unwrap_or [] (hm_get fwd n))) forward_headers) @
     (if h2 then
        [(''upgrade'', ''websocket''), (''connection'', ''upgrade''), (''sec-websocket-key'', key)] @
        (if hm_has fwd ''sec-websocket-version'' then [] else [(''sec-websocket-version'', ''13'')])
      else [])"

text \<open>
  What the network and the http crate contribute: connecting, the TLS or plain client handshake,
  building the request, sending it (the upstream's status and headers), the upgrade of the
  upstream's connection, and the text of an error building the response.
\<close>

record ws_net =
  wn_connect :: "string \<Rightarrow> nat \<Rightarrow> string + unit"
  wn_open :: "string \<Rightarrow> bool \<Rightarrow> bool \<Rightarrow> ws_error + unit"
  wn_request :: "string \<Rightarrow> (string \<times> string) list \<Rightarrow> string + unit"
  wn_send :: "string \<Rightarrow> (string \<times> string) list \<Rightarrow> string + nat \<times> (string \<times> string) list"
  wn_upgrade :: "string + unit"
  wn_bad_response :: string

definition client_handshake :: "bool \<Rightarrow> (string \<times> string) list \<Rightarrow> nat \<times> (string \<times> string) list" where
  "client_handshake h2 upstream =
     (if h2 then
        (200, (case map_of upstream ''sec-websocket-protocol'' of
                 Some v \<Rightarrow> [(''sec-websocket-protocol'', v)] | None \<Rightarrow> []))
      else
        (101, List.map_filter (\<lambda>n. map_option (Pair n) (map_of upstream n)) echo_headers))"

definition proxy_upgrade ::
  "http_lib \<Rightarrow> ws_net \<Rightarrow> string \<Rightarrow> string \<Rightarrow> nat \<Rightarrow> string \<Rightarrow> bool \<Rightarrow> bool \<Rightarrow> string list hmap \<Rightarrow> bool
     \<Rightarrow> ws_error + http_response" where
  "proxy_upgrade H net key host port path tls verify fwd h2 =
     (case wn_connect net host port of
        Inl e \<Rightarrow> Inl (WsConnect (host @ '':'' @ show_nat port) e)
      | Inr _ \<Rightarrow>
     (case wn_open net host tls verify of
        Inl e \<Rightarrow> Inl e
      | Inr _ \<Rightarrow>
     (let hs = handshake_headers key host port fwd h2 in
      case wn_request net path hs of
        Inl e \<Rightarrow> Inl (WsHandshake e)
      | Inr _ \<Rightarrow>
     (case wn_send net path hs of
        Inl e \<Rightarrow> Inl (WsHandshake e)
      | Inr (status, upstream) \<Rightarrow>
          if status \<noteq> 101 then Inl (WsUpstreamRejected status)
          else
     (case wn_upgrade net of
        Inl e \<Rightarrow> Inl (WsUpgrade e)
      | Inr _ \<Rightarrow>
          (let (st, out) = client_handshake h2 upstream in
           case build_response H st out [] of
             None \<Rightarrow> Inl (WsHandshake (wn_bad_response net))
           | Some r \<Rightarrow> Inr r))))))"

definition bad_gateway_502 :: http_response where
  "bad_gateway_502 =
     \<lparr>hr_status = 502, hr_headers = [(''content-type'', ''application/json'')],
      hr_body = ''{\"error\":\"bad_gateway\",\"message\":\"upstream websocket handshake failed\"}''\<rparr>"

section \<open>Handling a request\<close>

record client_cert =
  cc_fingerprint :: string
  cc_subject_cn :: "string option"
  cc_san_dns :: "string list"

record incoming =
  in_parts :: http_parts
  in_body :: "string option"
  in_h2_protocol :: "string option"
  in_remote :: string
  in_cert :: "client_cert option"

text \<open>The clocks and the random values of one request.\<close>

record observed =
  ob_start_ms :: nat
  ob_trace_id :: string
  ob_trace_started_ms :: nat
  ob_trace_us :: nat
  ob_node_us :: "nat \<Rightarrow> nat"
  ob_ws_key :: string
  ob_ws_net :: ws_net

datatype request_metric =
    RequestDuration string
  | RequestCount string string string
  | RequestError string string

text \<open>\<open>Panicked\<close>: the final \<open>unwrap()\<close> fails; \<open>Hangs\<close>: the graph's loop does not end.\<close>

datatype outcome = Answered http_response | Panicked | Hangs

record 'w handled =
  hd_outcome :: outcome
  hd_world :: 'w
  hd_debug :: debug_state
  hd_request_metrics :: "request_metric list"
  hd_node_metrics :: "metric list"

definition no_route_policy :: string where
  "no_route_policy = ''(no route matched)''"

definition request_headers :: "http_parts \<Rightarrow> (string \<times> string) list" where
  "request_headers p = map (\<lambda>(k, v). (k, unwrap_or [] v)) (hp_headers p)"

definition trace_header :: "string option \<Rightarrow> (string \<times> string) list" where
  "trace_header tid = (case tid of Some i \<Rightarrow> [(''x-featherbit-trace-id'', i)] | None \<Rightarrow> [])"

text \<open>A request no route matches: a 404, and a trace without steps when tracing asks for it.\<close>

definition unrouted ::
  "libs \<Rightarrow> http_lib \<Rightarrow> observed \<Rightarrow> incoming \<Rightarrow> debug_state \<Rightarrow> outcome \<times> debug_state" where
  "unrouted L H ob req d =
     (let c = new_context (from_hyper (in_parts req) (unwrap_or [] (in_body req)) (in_remote req));
          (tid, d1) =
            (if ds_enabled d \<and> should_trace d (rq_headers (cx_request c)) then
               (let opted_in = header_opt_in d (rq_headers (cx_request c));
                    c1 = set_status 404 c;
                    r = new_recorder L c1 (capture_options_of d) (ds_max_steps d);
                    (seq, d') = next_seq d;
                    t = finish r (ob_trace_id ob) seq SrcRequest (ob_trace_started_ms ob) None
                          no_route_policy c1 0
                in (if opted_in then Some (ob_trace_id ob) else None, record_trace t d'))
             else (None, d))
      in (case build_response H 404 ((''content-type'', ''application/json'') # trace_header tid)
                 ''{\"error\": \"not_found\", \"message\": \"No route matched\"}'' of
            Some r \<Rightarrow> Answered r | None \<Rightarrow> Panicked, d1))"

definition cert_messages :: "client_cert option \<Rightarrow> gcontext \<Rightarrow> gcontext" where
  "cert_messages cert c =
     (case cert of
        None \<Rightarrow> c
      | Some k \<Rightarrow>
          (let c1 = set_message ''__client_cert_fingerprint'' (JStr (cc_fingerprint k)) c;
               c2 = (case cc_subject_cn k of
                       Some cn \<Rightarrow> set_message ''__client_cert_subject_cn'' (JStr cn) c1 | None \<Rightarrow> c1)
           in if cc_san_dns k \<noteq> []
              then set_message ''__client_cert_san_dns'' (JArr (map JStr (cc_san_dns k))) c2 else c2))"

text \<open>The context a request enters its graph with.\<close>

definition entry_context :: "observed \<Rightarrow> incoming \<Rightarrow> bool \<Rightarrow> gcontext" where
  "entry_context ob req is_ws =
     (let c = new_context (from_hyper (in_parts req) (unwrap_or [] (in_body req)) (in_remote req));
          c1 = (if is_ws then c\<lparr>cx_request := (cx_request c)\<lparr>rq_protocol := WebSocket\<rparr>\<rparr> else c)
      in cert_messages (in_cert req) (set_message ''__request_start_ms'' (jnat (ob_start_ms ob)) c1))"

text \<open>Running the graph, with a recorder when the request is traced.\<close>

definition run_graph ::
  "libs \<Rightarrow> observed \<Rightarrow> route_config \<Rightarrow> 'w compiled_graph \<Rightarrow> gcontext \<Rightarrow> 'w \<Rightarrow> debug_state
     \<Rightarrow> ('w run_state \<times> string option \<times> debug_state) option" where
  "run_graph L ob route g c w d =
     (if should_trace d (rq_headers (cx_request c)) then
        (let opted_in = header_opt_in d (rq_headers (cx_request c));
             r = new_recorder L c (capture_options_of d) (ds_max_steps d)
         in case execute_traced L g (ob_node_us ob) c w r of
              None \<Rightarrow> None
            | Some t \<Rightarrow>
                (let (seq, d1) = next_seq d;
                     tr = finish (unwrap_or r (ru_recorder t)) (ob_trace_id ob) seq SrcRequest
                            (ob_trace_started_ms ob) (Some (rc_name route)) (rc_policy route)
                            (ru_ctx t) (ob_trace_us ob)
                 in Some (t, if opted_in then Some (ob_trace_id ob) else None, record_trace tr d1)))
      else map_option (\<lambda>t. (t, None, d)) (execute L g (ob_node_us ob) c w))"

definition status_of :: "gcontext \<Rightarrow> nat" where
  "status_of c = (if rs_status_code (cx_response c) = 0 then 200 else rs_status_code (cx_response c))"

definition flat_headers :: "string list hmap \<Rightarrow> (string \<times> string) list" where
  "flat_headers hs = concat (map (\<lambda>(k, vs). map (Pair k) vs) hs)"

text \<open>The relay target a graph leaves in the context for a WebSocket request.\<close>

definition ws_target :: "gcontext \<Rightarrow> (string \<times> nat \<times> string \<times> bool \<times> bool) option" where
  "ws_target c =
     (case (msg_str c ''__ws_upstream_host'',
            Option.bind (hm_get (cx_message c) ''__ws_upstream_port'') as_u64) of
        (Some host, Some port) \<Rightarrow>
          Some (host, port mod 2 ^ 16,
            unwrap_or ''/'' (msg_str c ''__ws_upstream_path''),
            unwrap_or False (Option.bind (hm_get (cx_message c) ''__ws_upstream_tls'') as_bool),
            unwrap_or True (Option.bind (hm_get (cx_message c) ''__ws_upstream_verify'') as_bool))
      | _ \<Rightarrow> None)"

definition plain_answer :: "http_lib \<Rightarrow> gcontext \<Rightarrow> string option \<Rightarrow> outcome" where
  "plain_answer H c tid =
     (case build_response H (status_of c)
             (flat_headers (rs_headers (cx_response c)) @ trace_header tid) (rs_body (cx_response c)) of
        Some r \<Rightarrow> Answered r | None \<Rightarrow> Panicked)"

definition answer ::
  "http_lib \<Rightarrow> observed \<Rightarrow> bool \<Rightarrow> bool \<Rightarrow> gcontext \<Rightarrow> string option \<Rightarrow> outcome" where
  "answer H ob is_ws h2 c tid =
     (case (if is_ws \<and> rs_status_code (cx_response c) = 101 then ws_target c else None) of
        Some (host, port, path, tls, verify) \<Rightarrow>
          (case proxy_upgrade H (ob_ws_net ob) (ob_ws_key ob) host port path tls verify
                  (rq_headers (cx_request c)) h2 of
             Inr r \<Rightarrow> Answered r
           | Inl _ \<Rightarrow> Answered bad_gateway_502)
      | None \<Rightarrow> plain_answer H c tid)"

definition handle_request ::
  "libs \<Rightarrow> http_lib \<Rightarrow> observed \<Rightarrow> 'w shared_state \<Rightarrow> incoming \<Rightarrow> 'w \<Rightarrow> 'w handled" where
  "handle_request L H ob s req w =
     (let p = in_parts req;
          h2 = is_h2_websocket_connect (hp_method p) (in_h2_protocol req);
          is_ws = (is_websocket_upgrade (hp_headers p) \<or> h2)
      in case find_route L (sh_routes s) (hp_path p) (hp_method p) (request_headers p) (host_header p) of
           None \<Rightarrow>
             (let (out, d) = unrouted L H ob req (sh_debug s) in
              \<lparr>hd_outcome = out, hd_world = w, hd_debug = d, hd_request_metrics = [], hd_node_metrics = []\<rparr>)
         | Some (route, g) \<Rightarrow>
             (case run_graph L ob route g (entry_context ob req is_ws) w (sh_debug s) of
                None \<Rightarrow>
                  \<lparr>hd_outcome = Hangs, hd_world = w, hd_debug = sh_debug s, hd_request_metrics = [],
                   hd_node_metrics = []\<rparr>
              | Some (t, tid, d) \<Rightarrow>
                  \<lparr>hd_outcome = answer H ob is_ws h2 (ru_ctx t) tid, hd_world = ru_world t, hd_debug = d,
                   hd_request_metrics =
                     [RequestDuration (rc_name route),
                      RequestCount (rc_name route) (hp_method p) (show_nat (status_of (ru_ctx t)))] @
                     map (\<lambda>e. RequestError (rc_name route) (err_code e)) (cx_errors (ru_ctx t)),
                   hd_node_metrics = ru_metrics t\<rparr>))"

section \<open>Facts\<close>

lemma cert_messages_simps [simp]:
  "cx_request (cert_messages k c) = cx_request c" "cx_response (cert_messages k c) = cx_response c"
  "cx_errors (cert_messages k c) = cx_errors c"
  by (simp_all add: cert_messages_def Let_def split: option.splits)

lemma entry_headers [simp]:
  "rq_headers (cx_request (entry_context ob req ws)) = collect_headers (hp_headers (in_parts req))"
  by (simp add: entry_context_def Let_def new_context_def from_hyper_def)

lemma opt_in_traced: "header_opt_in d hs \<Longrightarrow> should_trace d hs"
  by (simp add: header_opt_in_def should_trace_def)

text \<open>The recorder changes nothing but the trace that is stored.\<close>

lemma run_graph_execute:
  "run_graph L ob route g c w d = None \<longleftrightarrow> execute L g (ob_node_us ob) c w = None"
  "run_graph L ob route g c w d = Some (t, tid, d') \<Longrightarrow>
     execute L g (ob_node_us ob) c w = Some (erase t) \<and>
     tid = (if header_opt_in d (rq_headers (cx_request c)) then Some (ob_trace_id ob) else None)"
proof -
  have e: "map_option erase (execute_traced L g el c w r) = execute L g el c w" for el r
    by (simp add: execute_traced_def execute_def run_erase [symmetric])
  have u: "erase t = t" if "execute L g el c w = Some t" for el t
    using e [of el undefined] that by (auto simp: erase_def)
  let ?r = "new_recorder L c (capture_options_of d) (ds_max_steps d)"
  note E = e [of "ob_node_us ob" ?r]
  show "run_graph L ob route g c w d = None \<longleftrightarrow> execute L g (ob_node_us ob) c w = None"
    using E [symmetric] by (cases "execute_traced L g (ob_node_us ob) c w ?r")
      (auto simp: run_graph_def Let_def split: prod.splits)
  show "execute L g (ob_node_us ob) c w = Some (erase t) \<and>
      tid = (if header_opt_in d (rq_headers (cx_request c)) then Some (ob_trace_id ob) else None)"
    if "run_graph L ob route g c w d = Some (t, tid, d')"
  proof (cases "should_trace d (rq_headers (cx_request c))")
    case True
    then show ?thesis
      using that E by (cases "execute_traced L g (ob_node_us ob) c w ?r")
        (auto simp: run_graph_def Let_def split: prod.splits)
  next
    case False
    with that have x: "execute L g (ob_node_us ob) c w = Some t" "tid = None"
      by (auto simp: run_graph_def)
    with False u [of "ob_node_us ob" t] opt_in_traced show ?thesis by auto
  qed
qed

lemma erase_keeps [simp]:
  "ru_ctx (erase t) = ru_ctx t" "ru_world (erase t) = ru_world t" "ru_metrics (erase t) = ru_metrics t"
  by (simp_all add: erase_def)

lemma find_route_None:
  "find_route L rs path meth hs host = None \<longleftrightarrow>
     (\<forall>r \<in> set (map fst rs). \<not> matches_route L (rc_match r) path meth hs host)"
  by (auto simp: find_route_def find_None_iff)

section \<open>Properties\<close>

definition plain_request :: "incoming \<Rightarrow> bool" where
  "plain_request req \<longleftrightarrow>
     \<not> is_websocket_upgrade (hp_headers (in_parts req)) \<and>
     \<not> is_h2_websocket_connect (hp_method (in_parts req)) (in_h2_protocol req)"

definition builder_accepts :: "http_lib \<Rightarrow> nat \<Rightarrow> (string \<times> string) list \<Rightarrow> bool" where
  "builder_accepts H status hs \<longleftrightarrow>
     ok_status H status \<and> (\<forall>h \<in> set hs. ok_name H (fst h) \<and> ok_value H (snd h))"

lemma build_response_accepts:
  "build_response H st hs b =
     (if builder_accepts H st hs then Some \<lparr>hr_status = st, hr_headers = hs, hr_body = b\<rparr> else None)"
  by (auto simp: build_response_def builder_accepts_def list_all_iff case_prod_beta)

text \<open>The route a request takes: the first one that matches.\<close>

definition route_of :: "libs \<Rightarrow> 'w shared_state \<Rightarrow> incoming \<Rightarrow> (route_config \<times> 'w compiled_graph) option" where
  "route_of L s req = find_route L (sh_routes s) (hp_path (in_parts req)) (hp_method (in_parts req))
     (request_headers (in_parts req)) (host_header (in_parts req))"

text \<open>
  C28: The response of a routed request is what its policy computed. For a request that is not a
  WebSocket upgrade and the first route that matches it: the handler answers iff the policy's walk
  from the entry context ends, with the walk's status (200 for none), headers and body, and leaves
  the shared state the walk left; tracing adds nothing but the x-featherbit-trace-id header, and
  only for a request that carries the trigger header. When the http crate refuses the status or a
  header the request panics instead, so such a status set by a plugin kills the connection.
\<close>

theorem routed_response_is_the_walk:
  assumes "plain_request req" and "route_of L s req = Some (route, g)"
  shows "case execute L g (ob_node_us ob) (entry_context ob req False) w of
      None \<Rightarrow> hd_outcome (handle_request L H ob s req w) = Hangs
    | Some t \<Rightarrow>
        (let c = ru_ctx t;
             opted_in = header_opt_in (sh_debug s) (collect_headers (hp_headers (in_parts req)));
             hs = flat_headers (rs_headers (cx_response c)) @
                  (if opted_in then [(''x-featherbit-trace-id'', ob_trace_id ob)] else [])
         in hd_world (handle_request L H ob s req w) = ru_world t \<and>
            hd_outcome (handle_request L H ob s req w) =
              (if builder_accepts H (status_of c) hs
               then Answered \<lparr>hr_status = status_of c, hr_headers = hs, hr_body = rs_body (cx_response c)\<rparr>
               else Panicked))"
proof -
  let ?c = "entry_context ob req False"
  have h: "handle_request L H ob s req w =
      (case run_graph L ob route g ?c w (sh_debug s) of
         None \<Rightarrow> \<lparr>hd_outcome = Hangs, hd_world = w, hd_debug = sh_debug s, hd_request_metrics = [],
                   hd_node_metrics = []\<rparr>
       | Some (t, tid, d) \<Rightarrow>
           \<lparr>hd_outcome = plain_answer H (ru_ctx t) tid, hd_world = ru_world t, hd_debug = d,
            hd_request_metrics =
              [RequestDuration (rc_name route),
               RequestCount (rc_name route) (hp_method (in_parts req)) (show_nat (status_of (ru_ctx t)))] @
              map (\<lambda>e. RequestError (rc_name route) (err_code e)) (cx_errors (ru_ctx t)),
            hd_node_metrics = ru_metrics t\<rparr>)"
    using assms by (simp add: handle_request_def route_of_def plain_request_def answer_def Let_def
        cong: option.case_cong)
  show ?thesis
  proof (cases "run_graph L ob route g ?c w (sh_debug s)")
    case None
    moreover from this have "execute L g (ob_node_us ob) ?c w = None" unfolding run_graph_execute(1) .
    ultimately show ?thesis by (simp add: h)
  next
    case (Some a)
    obtain t tid d where a: "a = (t, tid, d)" by (cases a)
    from run_graph_execute(2) [OF Some [unfolded a]] show ?thesis
      by (simp add: h Some a plain_answer_def build_response_accepts trace_header_def Let_def)
  qed
qed

text \<open>A gateway whose only route answers with a status; the http crate takes 100 to 999.\<close>

definition demo_http :: http_lib where
  "demo_http = \<lparr>ok_status = (\<lambda>n. 100 \<le> n \<and> n \<le> 999), ok_name = (\<lambda>_. True), ok_value = (\<lambda>_. True)\<rparr>"

definition demo_graph_of :: "nat \<Rightarrow> unit compiled_graph" where
  "demo_graph_of st = \<lparr>cg_nodes = [(''end'', \<lparr>pl_type = ''client'', pl_exec = pure_exec (\<lambda>c. Inr (set_status st c))\<rparr>)],
     cg_success_edges = [], cg_error_edges = [], cg_entry_node_id = ''end'', cg_terminal_node_ids = [''end''],
     cg_catch_all_handler = None, cg_policy_name = ''p'', cg_metrics = False\<rparr>"

definition demo_routed :: "nat \<Rightarrow> unit shared_state" where
  "demo_routed st = demo_state\<lparr>sh_routes := [(\<lparr>rc_name = ''r'',
     rc_match = \<lparr>mr_path = Some ''/a'', mr_methods = [], mr_headers = [], mr_host = None\<rparr>, rc_policy = ''p''\<rparr>,
     demo_graph_of st)]\<rparr>"

definition demo_incoming :: "string \<Rightarrow> incoming" where
  "demo_incoming path = \<lparr>in_parts = \<lparr>hp_method = ''GET'', hp_path = path, hp_query = None, hp_scheme = None,
     hp_headers = [], hp_http2 = False\<rparr>, in_body = Some [], in_h2_protocol = None, in_remote = ''10.0.0.1:9'',
     in_cert = None\<rparr>"

theorem routed_response_is_the_walk_witness:
  "\<forall>ob :: observed. hd_outcome (handle_request plain_libs demo_http ob (demo_routed 42) (demo_incoming ''/a'') ()) = Panicked"
proof
  fix ob :: observed
  let ?s = "demo_routed 42" and ?q = "demo_incoming ''/a''"
  have p: "plain_request ?q"
    by (simp add: plain_request_def is_websocket_upgrade_def is_h2_websocket_connect_def demo_incoming_def
        header_str_def)
  have r: "route_of plain_libs ?s ?q = Some (fst (hd (sh_routes ?s)), demo_graph_of 42)"
    by (simp add: route_of_def demo_routed_def demo_incoming_def find_route_def matches_route_def match_methods_def)
  have "execute plain_libs (demo_graph_of 42) (ob_node_us ob) c () =
      Some ((start_state (set_status 42 c) () None)\<lparr>ru_clock := 1\<rparr>)" for c
    by (simp add: execute_def run.simps step_def demo_graph_of_def start_state_def success_next_def
        node_executed_def pure_exec_def)
  with routed_response_is_the_walk [OF p r, where ob = ob and w = "()" and H = demo_http]
  show "hd_outcome (handle_request plain_libs demo_http ob ?s ?q ()) = Panicked"
    by (simp add: Let_def builder_accepts_def demo_http_def status_of_def start_state_def)
qed

text \<open>
  A request that no route matches is answered with 404, runs no plugin and counts in no
  metric. The shared state is untouched; a trace is stored only when tracing asks for it, and the
  response names it only when the request carries the trigger header.
\<close>

theorem unrouted_request_is_404:
  assumes "\<forall>r \<in> set (map fst (sh_routes s)). \<not> matches_route L (rc_match r) (hp_path (in_parts req))
      (hp_method (in_parts req)) (request_headers (in_parts req)) (host_header (in_parts req))"
    and "ok_status H 404" and "\<forall>n v. ok_name H n \<and> ok_value H v"
  shows "let h = handle_request L H ob s req w; hs = collect_headers (hp_headers (in_parts req)) in
     hd_world h = w \<and> hd_request_metrics h = [] \<and> hd_node_metrics h = [] \<and>
     (if should_trace (sh_debug s) hs then ds_seq (hd_debug h) = (ds_seq (sh_debug s) + 1) mod 2 ^ 64
      else hd_debug h = sh_debug s) \<and>
     hd_outcome h = Answered \<lparr>hr_status = 404,
       hr_headers = (''content-type'', ''application/json'') #
         (if header_opt_in (sh_debug s) hs then [(''x-featherbit-trace-id'', ob_trace_id ob)] else []),
       hr_body = ''{\"error\": \"not_found\", \"message\": \"No route matched\"}''\<rparr>"
proof -
  have n: "find_route L (sh_routes s) (hp_path (in_parts req)) (hp_method (in_parts req))
      (request_headers (in_parts req)) (host_header (in_parts req)) = None"
    using assms(1) by (simp add: find_route_None)
  have e: "ds_enabled d" if "should_trace d hs" for d hs using that by (simp add: should_trace_def split: if_splits)
  have b: "builder_accepts H 404 hs" for hs using assms(2,3) by (simp add: builder_accepts_def)
  show ?thesis
    using opt_in_traced
    by (auto simp: handle_request_def n unrouted_def Let_def build_response_accepts b e next_seq_def
        trace_header_def new_context_def from_hyper_def split: prod.splits)
qed


theorem unrouted_request_is_404_witness:
  "\<forall>ob :: observed. hd_world (handle_request plain_libs demo_http ob (demo_routed 42) (demo_incoming ''/b'') ()) = ()"
proof
  fix ob :: observed
  have "\<not> match_path ''/a'' ''/b''" by code_simp
  then show "hd_world (handle_request plain_libs demo_http ob (demo_routed 42) (demo_incoming ''/b'') ()) = ()"
    using unrouted_request_is_404 [of "demo_routed 42" plain_libs "demo_incoming ''/b''" demo_http ob "()"]
    by (simp add: demo_routed_def demo_incoming_def matches_route_def demo_http_def Let_def)
qed

end
