(* ===== verification/Spec2Isabelle.thy ===== *)
theory Spec2Isabelle
  imports Debug_Diff Debug_Store Stream_Proxy Plugin_Traffic Plugin_Access Plugin_Split Real_Ip Batch Plugin_Validate Plugin_Flow Registry Admin Admin_Debug Etcd_Commit Listener
begin

text \<open>
  A verification library for featherbit, an API gateway in Rust (src/). A request is matched against
  the configured routes; the route names a policy, a graph of plugin nodes; the request's context
  walks the graph from the listener node to a client node, along a success edge or an error edge
  after every node, and what the last node leaves in the context is the response. Around this
  stand the admin API that replaces the configuration while requests run, the configuration store
  on disk or over etcd, a debugger that records walks and runs node lists in a sandbox, and proxies
  for plain TCP, TLS and UDP streams.

  \<^bold>\<open>What every model shares.\<close> \<open>Prelude\<close> has Rust's \<open>Result\<close> as a sum (\<open>Inl\<close> the
  error) with \<open>?\<close> and \<open>collect\<close>, hash maps as association lists behind the locale
  \<open>keyed_store\<close> (the list order is the iteration order, so a theorem holds for every order), and
  saturating arithmetic. \<open>Rust_Str\<close>, \<open>Utf8\<close> and \<open>Ip\<close> model the parts of the standard
  library in use: strings are their UTF-8 bytes, addresses are words. \<open>Json\<close> has serde's values,
  floats as 64-bit words whose comparisons are computed, and the record \<open>libs\<close>: regular
  expressions, float printing, Unicode casing, base64 and the like, which are crates and stay
  arguments of the definitions that use them. \<open>None\<close> in an \<open>option\<close> of an operation is a panic
  where its text says so. Clocks, random numbers and what sockets answered are arguments.

  \<^bold>\<open>The request path.\<close>
  \<^item> \<open>Context\<close> (src/src/context/mod.rs): request, response, message map, errors; the conversion
    from a parsed HTTP request.
  \<^item> \<open>Vars\<close> (src/src/vars/mod.rs): variables, templates, condition expressions.
  \<^item> \<open>Env\<close> (src/src/config/loader.rs), \<open>Routing\<close> (src/src/config/gateway.rs,
    src/src/routing/mod.rs), \<open>Policy\<close> (src/src/graph/validation.rs): configuration types,
    interpolation, route matching, the rules of a policy. \<open>validate_policy_iff_wf\<close>: validation
    accepts exactly the policies that obey the documented rules.
  \<^item> \<open>Plugin\<close> (src/src/plugins/mod.rs): a node is a function from context and world to a context
    for the success port, or a context and an error. The locales \<open>plugin_contract\<close> (never touches
    recorded errors), \<open>gate_contract\<close>, \<open>auth_contract\<close> and \<open>rewriter_contract\<close> are the
    interfaces nodes are used through; each node interprets one in its own theory.
  \<^item> \<open>Engine\<close>, \<open>Graph_Walk\<close> (src/src/graph/engine.rs): compilation, and the loop over nodes with
    and without a recorder. A validated policy never walks off its graph, tracing changes nothing a
    request can see, errors accumulate, a graph with a rank ends, and a catch-all handler that
    fails makes the walk endless.
  \<^item> \<open>Registry\<close> (\<open>create_plugin\<close>): the table from the 86 node types to constructors over one
    world, \<open>site\<close>, which holds what nodes share and what each owns. Everything it creates keeps the
    plugin contract, so every compiled policy meets the assumption of the engine's properties.
  \<^item> \<open>Gateway_State\<close> (src/src/state.rs) and \<open>Listener\<close> (\<open>handle_request\<close> of
    src/src/server/listener.rs, the handshake of websocket.rs): the shared state, applying and
    reloading a configuration, also with several updates interleaved lock by lock, and the answer
    to a request as the walk of its route's policy.

  \<^bold>\<open>The nodes\<close> (src/src/plugins/native/, one group of definitions per file: the record of its
  configuration, \<open>..._from_config\<close> with every message, \<open>..._exec\<close>).
  \<^item> \<open>Traffic\<close>, \<open>Rate_Limit\<close>, \<open>Plugin_Traffic\<close>: breakers, in-flight counters, response cache,
    counter stores, and limit-conn, api-breaker, proxy-cache, limit-count over them; \<open>Plugin_Flow\<close>:
    workflow, rate-limit, proxy-mirror.
  \<^item> \<open>Consumers\<close>, \<open>Plugin_Auth\<close>, \<open>Plugin_Token\<close>, \<open>Plugin_Hmac\<close>, \<open>Plugin_Callout\<close>: the
    consumer index and who a request is authenticated as: by key, password, JWT, JWE, request
    signature, by several methods in turn, or by asking a service (forward-auth, opa); also csrf,
    and the cloud functions azure-functions, openfunction and openwhisk.
  \<^item> \<open>Plugin_Access\<close>, \<open>Real_Ip\<close>, \<open>Plugin_Rewrite\<close>, \<open>Plugin_Response\<close>, \<open>Plugin_Validate\<close>:
    restrictions, the client's address, rewriting, bodies and their codings, masking, validation.
  \<^item> \<open>Balancer\<close>, \<open>Plugin_Upstream\<close>, \<open>Plugin_Split\<close>: strategies with their in-flight guards
    (\<open>balancer_contract\<close>), the outbound client, upstream, traffic-split, traffic-label.
  \<^item> \<open>Batch\<close>, \<open>Plugin_Logger\<close>, \<open>Plugin_Logger_Http\<close>, \<open>Plugin_Tracing\<close>: the batching task as a
    state machine, the loggers over it, and opentelemetry, zipkin and skywalking.

  \<^bold>\<open>Around the request path.\<close>
  \<^item> \<open>Debug_Trace\<close>, \<open>Debug_Diff\<close>, \<open>Debug_Store\<close>, \<open>Sandbox\<close> (src/src/debug/): redacted
    snapshots, their difference, the ring of traces, and the sandbox, which runs exactly the chain
    it is given.
  \<^item> \<open>Admin\<close>, \<open>Admin_Debug\<close> (src/src/admin/), \<open>Etcd\<close>, \<open>Etcd_Commit\<close>
    (src/src/config_store/): the handlers over any store that keeps \<open>commit_contract\<close>, which the
    file store and the store over etcd both do; a commit read back from etcd is the configuration
    committed, one entry per name.
  \<^item> \<open>Sni\<close>, \<open>Stream_Proxy\<close> (src/src/stream/): the ClientHello parser, the relay that replays
    what it peeked, and the UDP sessions whose guards count in-flight targets.

  \<^bold>\<open>Loops, bounds and fuel.\<close> The engine's loop need not end and is a \<open>partial_function\<close>; its
  fuelled twin \<open>run_fuel\<close> is used in inductions only, and \<open>run_iff_fuel\<close> says that it agrees for
  some fuel. \<open>ranked_graph_terminates\<close> gives the bound: the rank of the entry node plus one. All
  other loops are structural or have a termination proof. Concurrency is sequences of the atomic
  steps the code has: lock by lock in \<open>Gateway_State\<close>, event by event in \<open>Batch\<close> and
  \<open>Stream_Proxy\<close>, increment and check in limit-conn. Counters wrap or saturate at the width the
  code gives them (\<open>as_u16\<close>, \<open>sat_mul\<close>, \<open>i64_wrap\<close>, \<open>mod 2 ^ 64\<close>); where the width is
  part of a result, the theorem states the bound it needs.

  \<^bold>\<open>Assumptions.\<close> The few laws that theorems assume of crates and services state what these
  document: a keyed hash is verified by recomputing it and base64 and JSON read back what was
  printed (\<open>token_codec\<close>), etcd answers ranges, puts and deletes as its API says
  (\<open>etcd_behaves\<close>), a decompressor undoes its compressor. Each theorem that assumes one has a
  witness at a concrete instance.

  \<^bold>\<open>Not modelled.\<close>
  \<^item> TLS: src/src/server/tls.rs is certificate loading, watching and client verification through
    rustls; the listener takes what it reports as an argument.
  \<^item> The remaining authentication nodes (openid-connect, cas-auth, ldap-auth, the authz nodes,
    wolf-rbac, dingtalk-auth, feishu-auth), the cloud loggers that sign or encode entries with
    crates, aws-lambda, and the script nodes with their Lua runtime: constructors of these types are
    the argument \<open>rt_other\<close> of the registry.
  \<^item> Accepting connections, relaying bytes, timers and graceful shutdown in the listeners, the pooled
    client of the outbound module, the prometheus node and the metrics endpoint, program start-up
    and the embedded admin UI: I/O around the modelled handlers.
  \<^item> serde's decoding of configuration into the types of \<open>Routing\<close> and \<open>Consumers\<close>, and YAML.
  \<^item> A registry constructor has no identity of its own: \<open>rt_instance\<close> numbers instances by type and
    configuration, so two nodes that agree in both may share the state the code keeps apart; the
    properties of the registry do not depend on the numbering. A node that panics sets
    \<open>st_panicked\<close>, after which the walk's result reaches nobody.
\<close>

end
